(* ===== verification/Binary64.thy ===== *)
theory Binary64
  imports Complex_Main "HOL-Library.Log_Nat"
begin

text \<open>
  The arithmetic behind the JavaScript type \<open>Number\<close>: rounding of an exact rational to
  the nearest IEEE 754 binary64 value, ties to even, with the subnormal quantum
  \<open>2 ^ -1074\<close> as lower limit. The exponent is not limited upwards here; the overflow to
  \<open>Infinity\<close> is applied by the theory of JavaScript numbers.

  The laws every client relies on (monotone, odd, idempotent, exact on the integers up
  to \<open>2 ^ 53\<close>) are the locale \<open>rounding\<close>, which is interpreted on \<open>round_binary64\<close>.
\<close>

section \<open>Rounding to the nearest integer, ties to even\<close>

definition round_half_even :: "rat \<Rightarrow> int" where
  "round_half_even x =
     (let f = \<lfloor>x\<rfloor>; d = x - of_int f in
      if d < 1/2 then f else if d > 1/2 then f + 1 else if even f then f else f + 1)"

lemma round_half_even_int [simp]: "round_half_even (of_int k) = k"
  by (simp add: round_half_even_def)

lemma round_half_even_floor:
  "\<lfloor>x\<rfloor> \<le> round_half_even x" "round_half_even x \<le> \<lfloor>x\<rfloor> + 1"
  by (simp_all add: round_half_even_def Let_def)

lemma round_half_even_mono:
  assumes "x \<le> y"
  shows "round_half_even x \<le> round_half_even y"
proof (cases "\<lfloor>x\<rfloor> = \<lfloor>y\<rfloor>")
  case True
  with assms show ?thesis by (auto simp: round_half_even_def Let_def)
next
  case False
  with floor_mono [OF assms] have "\<lfloor>x\<rfloor> + 1 \<le> \<lfloor>y\<rfloor>" by simp
  with round_half_even_floor(2) [of x] round_half_even_floor(1) [of y]
  show ?thesis by linarith
qed

lemma floor_minus_nonint:
  fixes x :: rat
  assumes "x \<noteq> of_int \<lfloor>x\<rfloor>"
  shows "\<lfloor>- x\<rfloor> = - \<lfloor>x\<rfloor> - 1"
  using assms by (intro floor_unique) (auto simp: less_le of_int_floor_le intro: floor_correct; linarith)+

lemma round_half_even_minus: "round_half_even (- x) = - round_half_even x"
proof (cases "x = of_int \<lfloor>x\<rfloor>")
  case True
  then obtain k where k: "x = of_int k" by blast
  have "round_half_even (- of_int k) = - k"
    using round_half_even_int [of "- k"] by (simp only: of_int_minus)
  with k show ?thesis by simp
next
  case False
  note fl = floor_minus_nonint [OF False]
  have "- x - of_int \<lfloor>- x\<rfloor> = 1 - (x - of_int \<lfloor>x\<rfloor>)" by (simp add: fl)
  then show ?thesis by (auto simp: round_half_even_def Let_def fl)
qed

section \<open>The binary exponent\<close>

text \<open>The bit length of an integer, with code equations on its binary representation.\<close>

definition int_bits :: "int \<Rightarrow> nat" where
  "int_bits k = floorlog 2 (nat k)"

primrec num_bits :: "num \<Rightarrow> nat" where
  "num_bits Num.One = 1"
| "num_bits (Num.Bit0 n) = Suc (num_bits n)"
| "num_bits (Num.Bit1 n) = Suc (num_bits n)"

lemma floorlog_numeral: "floorlog 2 (numeral n) = num_bits n"
proof (induction n)
  case One
  show ?case by (simp add: compute_floorlog)
next
  case (Bit0 n)
  then show ?case by (subst compute_floorlog) simp
next
  case (Bit1 n)
  then show ?case by (subst compute_floorlog) simp
qed

lemma int_bits_code [code]:
  "int_bits 0 = 0" "int_bits (Int.Pos n) = num_bits n" "int_bits (Int.Neg n) = 0"
  by (simp_all add: int_bits_def floorlog_numeral floorlog_eq_zero_iff)

definition exponent2 :: "rat \<Rightarrow> int" where
  "exponent2 x =
     (let (p, q) = quotient_of x;
          e = int (int_bits p) - int (int_bits q)
      in if (2::rat) powi e \<le> x then e else e - 1)"

lemma powi_add2: "(2::rat) powi (a + b) = 2 powi a * 2 powi b"
  by (simp add: power_int_add)

lemma powi_diff2: "(2::rat) powi (a - b) = 2 powi a / 2 powi b"
  by (simp add: power_int_diff)

lemma powi_pos2 [simp]: "(0::rat) < 2 powi a"
  by simp

lemma powi_mono2: "a \<le> b \<Longrightarrow> (2::rat) powi a \<le> 2 powi b"
  by (rule power_int_increasing) simp_all

lemma powi_less2: "(2::rat) powi a < 2 powi b \<longleftrightarrow> a < b"
  by (meson linorder_not_less powi_mono2 power_int_strict_increasing one_less_numeral_iff
      semiring_norm(76))

lemma floorlog_powi:
  assumes "0 < (n::int)"
  shows "(2::rat) powi (int (floorlog 2 (nat n)) - 1) \<le> of_int n"
    and "(of_int n :: rat) < 2 powi int (floorlog 2 (nat n))"
proof -
  define a where "a = floorlog 2 (nat n)"
  from assms have pos: "0 < nat n" by simp
  have b: "2 ^ (a - 1) \<le> nat n" "nat n < 2 ^ a"
    using floorlog_bounds [of "nat n" 2] pos by (simp_all add: a_def)
  have a0: "0 < a" using pos floorlog_eq_zero_iff [of 2 "nat n"] unfolding a_def by linarith
  have e: "int a - 1 = int (a - 1)" using a0 by simp
  have "(2::int) ^ (a - 1) \<le> n" "n < 2 ^ a"
    using b assms by (simp_all add: nat_less_iff le_nat_iff)
  then have "(of_int (2 ^ (a - 1)) :: rat) \<le> of_int n" "(of_int n :: rat) < of_int (2 ^ a)"
    by (simp_all only: of_int_le_iff of_int_less_iff)
  then show "(2::rat) powi (int (floorlog 2 (nat n)) - 1) \<le> of_int n"
    and "(of_int n :: rat) < 2 powi int (floorlog 2 (nat n))"
    unfolding a_def [symmetric] e by (simp_all add: power_int_def)
qed

lemma exponent2_bounds:
  assumes "0 < x"
  shows "2 powi exponent2 x \<le> x" and "x < 2 powi (exponent2 x + 1)"
proof -
  obtain p q where pq: "quotient_of x = (p, q)" by fastforce
  have q: "0 < q" using pq by (rule quotient_of_denom_pos)
  have x: "x = of_int p / of_int q" using pq by (rule quotient_of_div)
  have p: "0 < p" using assms q by (simp add: x zero_less_divide_iff)
  define a where "a = int (floorlog 2 (nat p))"
  define b where "b = int (floorlog 2 (nat q))"
  note P = floorlog_powi [OF p, folded a_def] and Q = floorlog_powi [OF q, folded b_def]
  have hi: "x < 2 powi (a - b + 1)"
  proof -
    have "x < 2 powi a / of_int q" using P(2) q by (simp add: x divide_strict_right_mono)
    also have "\<dots> \<le> 2 powi a / 2 powi (b - 1)"
      using Q(1) q by (intro divide_left_mono) auto
    also have "\<dots> = 2 powi (a - b + 1)" by (simp add: powi_diff2 powi_add2)
    finally show ?thesis .
  qed
  have lo: "2 powi (a - b - 1) \<le> x"
  proof -
    have "(2::rat) powi (a - b - 1) = 2 powi (a - 1) / 2 powi b"
      by (simp add: powi_diff2)
    also have "\<dots> \<le> of_int p / 2 powi b" using P(1) by (simp add: divide_right_mono)
    also have "\<dots> \<le> x" using Q(2) p q by (simp add: x divide_left_mono)
    finally show ?thesis .
  qed
  have ex: "exponent2 x = (if 2 powi (a - b) \<le> x then a - b else a - b - 1)"
    by (simp add: exponent2_def int_bits_def pq Let_def a_def b_def)
  show "2 powi exponent2 x \<le> x" using lo by (simp add: ex)
  show "x < 2 powi (exponent2 x + 1)" using hi by (simp add: ex)
qed

lemma exponent2_unique:
  assumes "2 powi e \<le> x" and "x < 2 powi (e + 1)"
  shows "exponent2 x = e"
proof -
  have pos: "0 < x" using assms(1) less_le_trans [OF powi_pos2] by blast
  have "(2::rat) powi exponent2 x < 2 powi (e + 1)" "(2::rat) powi e < 2 powi (exponent2 x + 1)"
    using exponent2_bounds [OF pos] assms by linarith+
  then show ?thesis by (simp add: powi_less2)
qed

lemma exponent2_mono:
  assumes "0 < x" and "x \<le> y"
  shows "exponent2 x \<le> exponent2 y"
proof -
  have "(2::rat) powi exponent2 x < 2 powi (exponent2 y + 1)"
    using exponent2_bounds(1) [of x] exponent2_bounds(2) [of y] assms by linarith
  then show ?thesis by (simp add: powi_less2)
qed

section \<open>Rounding to binary64\<close>

definition quantum :: "rat \<Rightarrow> int" where
  "quantum x = max (exponent2 x - 52) (-1074)"

definition round_binary64 :: "rat \<Rightarrow> rat" where
  "round_binary64 x =
     (if x = 0 then 0
      else of_int (round_half_even (x / 2 powi quantum \<bar>x\<bar>)) * 2 powi quantum \<bar>x\<bar>)"

text \<open>A rational is a binary64 value (up to overflow) when rounding keeps it.\<close>

definition is_double :: "rat \<Rightarrow> bool" where
  "is_double x \<longleftrightarrow> round_binary64 x = x"

lemma round_binary64_0 [simp]: "round_binary64 0 = 0"
  by (simp add: round_binary64_def)

lemma round_binary64_minus: "round_binary64 (- x) = - round_binary64 x"
  by (simp add: round_binary64_def round_half_even_minus)

lemma quantum_mono: "0 < x \<Longrightarrow> x \<le> y \<Longrightarrow> quantum x \<le> quantum y"
  using exponent2_mono [of x y] by (simp add: quantum_def)

lemma quantum_bound:
  assumes "0 < x"
  shows "x < 2 powi (53 + quantum x)"
proof -
  note exponent2_bounds(2) [OF assms]
  also have "(2::rat) powi (exponent2 x + 1) \<le> 2 powi (53 + quantum x)"
    by (rule powi_mono2) (simp add: quantum_def)
  finally show ?thesis .
qed

lemma powi_nat_int: "0 \<le> k \<Longrightarrow> (2::rat) powi k = of_int (2 ^ nat k)"
  by (simp add: power_int_def)

text \<open>Rounding at a quantum is exact on the multiples of that quantum.\<close>

lemma round_multiple:
  assumes "q \<le> k"
  shows "of_int (round_half_even (of_int m * 2 powi k / 2 powi q)) * 2 powi q = of_int m * (2::rat) powi k"
proof -
  have "of_int m * (2::rat) powi k / 2 powi q = of_int (m * 2 ^ nat (k - q))"
    using assms powi_nat_int [of "k - q"] by (simp add: powi_diff2 flip: times_divide_eq_right)
  then show ?thesis by (metis nonzero_eq_divide_eq powi_pos2 less_irrefl round_half_even_int)
qed

lemma round_binary64_pos:
  "0 < x \<Longrightarrow> round_binary64 x = of_int (round_half_even (x / 2 powi quantum x)) * 2 powi quantum x"
  by (simp add: round_binary64_def)

lemma round_at_mono:
  assumes "x \<le> (y::rat)"
  shows "of_int (round_half_even (x / 2 powi q)) * (2::rat) powi q
       \<le> of_int (round_half_even (y / 2 powi q)) * 2 powi q"
  using assms by (simp add: round_half_even_mono divide_right_mono)

lemma round_binary64_mono_pos:
  assumes "0 < x" and "x \<le> y"
  shows "round_binary64 x \<le> round_binary64 y"
proof (cases "quantum x = quantum y")
  case True
  with assms round_at_mono [OF assms(2)] show ?thesis by (simp add: round_binary64_pos)
next
  case False
  with quantum_mono [OF assms] have less: "quantum x < quantum y" by simp
  then have qy: "quantum y = exponent2 y - 52" by (auto simp: quantum_def split: if_splits)
  have ex: "exponent2 x < exponent2 y" using less qy by (auto simp: quantum_def split: if_splits)
  define t :: rat where "t = 2 powi exponent2 y"
  have y: "0 < y" using assms by simp
  have ty: "t \<le> y" using exponent2_bounds(1) [OF y] by (simp add: t_def)
  have xt: "x \<le> t"
    using exponent2_bounds(2) [OF assms(1)] powi_mono2 [of "exponent2 x + 1" "exponent2 y"] ex
    by (simp add: t_def)
  have "round_binary64 x \<le> of_int (round_half_even (t / 2 powi quantum x)) * 2 powi quantum x"
    using round_at_mono [OF xt] by (simp add: round_binary64_pos assms(1))
  also have "\<dots> = t"
    using round_multiple [of "quantum x" "exponent2 y" 1] less qy by (simp add: t_def)
  also have "t = of_int (round_half_even (t / 2 powi quantum y)) * 2 powi quantum y"
    using round_multiple [of "quantum y" "exponent2 y" 1] qy by (simp add: t_def)
  also have "\<dots> \<le> round_binary64 y"
    using round_at_mono [OF ty] by (simp add: round_binary64_pos y)
  finally show ?thesis .
qed

lemma round_binary64_nonneg: "0 \<le> x \<Longrightarrow> 0 \<le> round_binary64 x"
  using round_half_even_mono [of 0 "x / 2 powi quantum \<bar>x\<bar>"] round_half_even_int [of 0]
  by (simp add: round_binary64_def)

lemma round_binary64_mono:
  assumes "x \<le> y"
  shows "round_binary64 x \<le> round_binary64 y"
proof -
  consider "0 < x" | "x \<le> 0" "0 \<le> y" | "y < 0" by linarith
  then show ?thesis
  proof cases
    case 1
    with assms show ?thesis by (simp add: round_binary64_mono_pos)
  next
    case 2
    with round_binary64_nonneg [of "- x"] round_binary64_nonneg [of y]
    show ?thesis by (simp add: round_binary64_minus)
  next
    case 3
    with assms round_binary64_mono_pos [of "- y" "- x"]
    show ?thesis by (simp add: round_binary64_minus)
  qed
qed

text \<open>The binary64 values: \<open>53\<close> bits of significand at an exponent of at least \<open>-1074\<close>.\<close>

lemma is_double_scaled_less:
  assumes "\<bar>m\<bar> < 2 ^ 53" and "-1074 \<le> k"
  shows "is_double (of_int m * 2 powi k)"
proof (cases "m = 0")
  case True
  then show ?thesis by (simp add: is_double_def)
next
  case False
  define x :: rat where "x = of_int m * 2 powi k"
  have x0: "0 < \<bar>x\<bar>" using False by (simp add: x_def)
  have "\<bar>x\<bar> = of_int \<bar>m\<bar> * 2 powi k" by (simp add: x_def abs_mult)
  also have "\<dots> < of_int (2 ^ 53) * 2 powi k"
    using assms(1) by (intro mult_strict_right_mono) (simp_all only: of_int_less_iff powi_pos2)
  also have "\<dots> = 2 powi (53 + k)" by (simp add: powi_add2)
  finally have "(2::rat) powi exponent2 \<bar>x\<bar> < 2 powi (53 + k)"
    using exponent2_bounds(1) [OF x0] by linarith
  then have "quantum \<bar>x\<bar> \<le> k" using assms(2) by (simp add: powi_less2 quantum_def)
  from round_multiple [OF this, of m] show ?thesis
    using x0 by (auto simp: is_double_def round_binary64_def x_def)
qed

lemma is_double_scaled:
  assumes "\<bar>m\<bar> \<le> 2 ^ 53" and "-1074 \<le> k"
  shows "is_double (of_int m * 2 powi k)"
proof (cases "\<bar>m\<bar> = 2 ^ 53")
  case True
  then have "m = sgn m * 2 ^ 53" by (metis mult_sgn_abs)
  then have "of_int m * (2::rat) powi k = of_int (sgn m) * 2 powi (53 + k)"
    by (metis (no_types, lifting) ab_semigroup_mult_class.mult_ac(1) of_int_mult of_int_numeral
        of_int_power powi_add2 power_int_numeral)
  moreover have "\<bar>sgn m\<bar> < (2::int) ^ 53" by (simp add: sgn_if)
  ultimately show ?thesis using is_double_scaled_less [of "sgn m" "53 + k"] assms(2) by simp
next
  case False
  with assms is_double_scaled_less show ?thesis by simp
qed

lemma round_binary64_scaled:
  obtains m k where "round_binary64 x = of_int m * 2 powi k" "\<bar>m\<bar> \<le> 2 ^ 53" "-1074 \<le> k"
proof (cases "x = 0")
  case True
  with that [of 0 0] show ?thesis by simp
next
  case False
  define q where "q = quantum \<bar>x\<bar>"
  define m where "m = round_half_even (x / 2 powi q)"
  have "\<bar>x\<bar> < 2 powi (53 + q)" using False quantum_bound [of "\<bar>x\<bar>"] by (simp add: q_def)
  then have b: "- of_int (2 ^ 53) \<le> x / 2 powi q" "x / 2 powi q \<le> of_int (2 ^ 53)"
    by (simp_all add: powi_add2 field_simps abs_less_iff)
  have "\<bar>m\<bar> \<le> 2 ^ 53"
    using round_half_even_mono [OF b(1)] round_half_even_mono [OF b(2)] round_half_even_int [of "- (2 ^ 53)"]
      round_half_even_int [of "2 ^ 53"]
    unfolding m_def by simp
  moreover have "round_binary64 x = of_int m * 2 powi q"
    using False by (simp add: round_binary64_def q_def m_def)
  moreover have "-1074 \<le> q" by (simp add: q_def quantum_def)
  ultimately show ?thesis using that by blast
qed

lemma is_double_round [simp]: "is_double (round_binary64 x)"
  by (rule round_binary64_scaled [of x]) (simp add: is_double_scaled)

lemma is_double_int: "\<bar>k\<bar> \<le> 2 ^ 53 \<Longrightarrow> is_double (of_int k)"
  using is_double_scaled [of k 0] by simp

lemma is_double_minus [simp]: "is_double (- x) \<longleftrightarrow> is_double x"
  by (auto simp: is_double_def round_binary64_minus)

text \<open>Scaling by a power of two is exact upwards, and downwards as long as the quotient is
  not subnormal: the divisions by \<open>1024\<close> of the size formatter lose nothing.\<close>

lemma is_double_times_pow2:
  assumes "is_double x"
  shows "is_double (x * 2 ^ n)"
proof -
  obtain m k where "round_binary64 x = of_int m * 2 powi k" and mk: "\<bar>m\<bar> \<le> 2 ^ 53" "-1074 \<le> k"
    by (rule round_binary64_scaled)
  then have "x * 2 ^ n = of_int m * 2 powi (k + int n)"
    using assms by (simp add: is_double_def powi_add2)
  moreover have "-1074 \<le> k + int n" using mk(2) by simp
  ultimately show ?thesis using is_double_scaled [OF mk(1)] by simp
qed

lemma is_double_div_pow2:
  assumes "is_double x" and "2 ^ n \<le> x"
  shows "is_double (x / 2 ^ n)"
proof -
  have pos: "0 < x" using assms(2) less_le_trans [of 0 "2 ^ n" x] by simp
  define q where "q = quantum x"
  define m where "m = round_half_even (x / 2 powi q)"
  have x: "x = of_int m * 2 powi q"
    using assms(1) pos by (simp add: is_double_def round_binary64_pos q_def m_def)
  have "(2::rat) powi int n < 2 powi (exponent2 x + 1)"
    using exponent2_bounds(2) [OF pos] assms(2) by simp
  then have "int n \<le> exponent2 x" unfolding powi_less2 by simp
  then have k: "-1074 \<le> q - int n" by (simp add: q_def quantum_def)
  have "\<bar>m\<bar> \<le> 2 ^ 53"
  proof -
    have "x < 2 powi (53 + q)" using quantum_bound [OF pos] by (simp add: q_def)
    then have "of_int m < (of_int (2 ^ 53) :: rat)" by (simp add: x powi_add2)
    then have "m < 2 ^ 53" by (simp only: of_int_less_iff)
    moreover have "0 < m"
      using pos powi_pos2 [of q] by (auto simp: x zero_less_mult_iff dest: less_asym)
    ultimately show ?thesis by simp
  qed
  moreover have "x / 2 ^ n = of_int m * 2 powi (q - int n)"
    by (simp add: x powi_diff2)
  ultimately show ?thesis using is_double_scaled [OF _ k] by simp
qed

section \<open>What clients rely on\<close>

locale rounding =
  fixes rnd :: "rat \<Rightarrow> rat"
  assumes rnd_mono: "x \<le> y \<Longrightarrow> rnd x \<le> rnd y"
    and rnd_minus: "rnd (- x) = - rnd x"
    and rnd_idem: "rnd (rnd x) = rnd x"
    and rnd_int: "\<bar>k\<bar> \<le> 2 ^ 53 \<Longrightarrow> rnd (of_int k) = of_int k"
begin

lemma rnd_numeral [simp]: "\<bar>numeral k :: int\<bar> \<le> 2 ^ 53 \<Longrightarrow> rnd (numeral k) = numeral k"
  using rnd_int [of "numeral k"] by simp

lemma rnd_zero [simp]: "rnd 0 = 0" and rnd_one [simp]: "rnd 1 = 1"
  using rnd_int [of 0] rnd_int [of 1] by simp_all

lemma rnd_ge_int: "of_int k \<le> x \<Longrightarrow> \<bar>k\<bar> \<le> 2 ^ 53 \<Longrightarrow> of_int k \<le> rnd x"
  using rnd_mono [of "of_int k" x] rnd_int [of k] by simp

lemma rnd_le_int: "x \<le> of_int k \<Longrightarrow> \<bar>k\<bar> \<le> 2 ^ 53 \<Longrightarrow> rnd x \<le> of_int k"
  using rnd_mono [of x "of_int k"] rnd_int [of k] by simp

lemma rnd_nonneg: "0 \<le> x \<Longrightarrow> 0 \<le> rnd x"
  using rnd_mono [of 0 x] by simp

lemma rnd_ge_1: "1 \<le> x \<Longrightarrow> 1 \<le> rnd x"
  using rnd_ge_int [of 1 x] by simp

lemma rnd_between:
  "of_int a \<le> x \<Longrightarrow> x \<le> of_int b \<Longrightarrow> \<bar>a\<bar> \<le> 2 ^ 53 \<Longrightarrow> \<bar>b\<bar> \<le> 2 ^ 53
   \<Longrightarrow> of_int a \<le> rnd x \<and> rnd x \<le> of_int b"
  using rnd_ge_int rnd_le_int by blast

end

interpretation ieee: rounding round_binary64
  by unfold_locales
    (use is_double_int is_double_round in
      \<open>auto simp: round_binary64_mono round_binary64_minus is_double_def\<close>)

end
