(* ===== verification/Prelude.thy ===== *)
theory Prelude
  imports Complex_Main "HOL-Library.AList" "HOL-Library.Monad_Syntax" "HOL-Library.Multiset"
    "HOL-Library.Code_Target_Nat"
begin

text \<open>
  Shared vocabulary of the development: the collections of rewrite rules the component
  theories fill, the option monad used for code that may throw, and the generic facts on
  lists and insertion-ordered maps that the components share.

  A computation that may throw has type \<open>'a option\<close>; \<open>None\<close> is an uncaught exception
  (a \<open>TypeError\<close> of a property access on \<open>null\<close>, a failed \<open>JSON.parse\<close> and so on).
\<close>

named_theorems js_num \<open>evaluation rules for JavaScript numbers\<close>
named_theorems js_str \<open>facts about JavaScript string operations\<close>
named_theorems dom_simps \<open>traversals of rendered trees\<close>
named_theorems loop_simps \<open>the shape of the refresh loops\<close>
named_theorems no_throw \<open>operations that never throw\<close>

type_synonym 'a throws = "'a option"

abbreviation throw :: "'a throws" where
  "throw \<equiv> None"

section \<open>Lists\<close>

text \<open>\<open>array.slice(Math.max(n - k, 0))\<close> keeps the last elements of an array.\<close>

definition last_n :: "nat \<Rightarrow> 'a list \<Rightarrow> 'a list" where
  "last_n k xs = drop (length xs - k) xs"

lemma length_last_n [simp]: "length (last_n k xs) = min k (length xs)"
  by (simp add: last_n_def)

lemma last_n_all [simp]: "length xs \<le> k \<Longrightarrow> last_n k xs = xs"
  by (simp add: last_n_def)

lemma last_n_snoc: "0 < k \<Longrightarrow> last_n k (xs @ [x]) = last_n (k - 1) xs @ [x]"
  by (cases k) (auto simp: last_n_def Suc_diff_le)

lemma last_n_last_n: "last_n j (last_n k xs) = last_n (min j k) xs"
  by (cases "length xs \<le> k") (auto simp: last_n_def min_def algebra_simps)

lemma set_last_n: "set (last_n k xs) \<subseteq> set xs"
  by (simp add: last_n_def set_drop_subset)

lemma last_last_n: "0 < k \<Longrightarrow> xs \<noteq> [] \<Longrightarrow> last (last_n k xs) = last xs"
  by (simp add: last_n_def last_drop)

text \<open>\<open>array[array.length - 1]\<close>: the last element, or \<open>undefined\<close>.\<close>

definition last_opt :: "'a list \<Rightarrow> 'a option" where
  "last_opt xs = (if xs = [] then None else Some (last xs))"

lemma last_opt_snoc [simp]: "last_opt (xs @ [x]) = Some x"
  by (simp add: last_opt_def)

lemma last_opt_Nil [simp]: "last_opt [] = None"
  by (simp add: last_opt_def)

lemma distinct_map_filter: "distinct (map f xs) \<Longrightarrow> distinct (map f (filter P xs))"
  by (induction xs) auto

lemma distinct_map_take: "distinct (map f xs) \<Longrightarrow> distinct (map f (take n xs))"
  by (metis distinct_take take_map)

lemma mset_distinct_map: "mset xs = mset ys \<Longrightarrow> distinct (map f xs) \<Longrightarrow> distinct (map f ys)"
  by (metis mset_eq_imp_distinct_iff mset_map)

text \<open>Mapping a computation that may throw over a list, left to right.\<close>

fun mapM :: "('a \<Rightarrow> 'b throws) \<Rightarrow> 'a list \<Rightarrow> 'b list throws" where
  "mapM f [] = Some []"
| "mapM f (x # xs) = do { y \<leftarrow> f x; ys \<leftarrow> mapM f xs; Some (y # ys) }"

lemma mapM_cong [fundef_cong]: "xs = ys \<Longrightarrow> (\<And>x. x \<in> set ys \<Longrightarrow> f x = g x) \<Longrightarrow> mapM f xs = mapM g ys"
proof -
  assume xs: "xs = ys" and "\<And>x. x \<in> set ys \<Longrightarrow> f x = g x"
  from this(2) have "mapM f ys = mapM g ys" by (induction ys) auto
  with xs show ?thesis by simp
qed

lemma mapM_Some_iff: "mapM f xs = Some ys \<longleftrightarrow> list_all2 (\<lambda>x y. f x = Some y) xs ys"
  by (induction xs arbitrary: ys) (auto simp: list_all2_Cons1 bind_eq_Some_conv)

lemma mapM_total [no_throw]: "(\<And>x. x \<in> set xs \<Longrightarrow> f x = Some (g x)) \<Longrightarrow> mapM f xs = Some (map g xs)"
  by (induction xs) auto

lemma mapM_eq_None_iff: "mapM f xs = None \<longleftrightarrow> (\<exists>x \<in> set xs. f x = None)"
  by (induction xs) (auto simp: bind_eq_None_conv)

lemma mapM_length: "mapM f xs = Some ys \<Longrightarrow> length ys = length xs"
  by (auto simp: mapM_Some_iff dest: list_all2_lengthD)

section \<open>Insertion-ordered maps\<close>

text \<open>
  A JavaScript \<open>Map\<close> and the string-keyed part of an object iterate in insertion order, and
  setting a present key keeps its place: the association lists of \<open>AList\<close> behave so.
  The interface the components use is the locale \<open>ordered_map\<close>; the grouping loop
  (\<open>if (!map.has(k)) map.set(k, []); map.get(k).push(x)\<close>) is verified once against it.
\<close>

type_synonym ('k, 'v) omap = "('k \<times> 'v) list"

definition has_key :: "('k, 'v) omap \<Rightarrow> 'k \<Rightarrow> bool" where
  "has_key m k \<longleftrightarrow> map_of m k \<noteq> None"

definition wf_omap :: "('k, 'v) omap \<Rightarrow> bool" where
  "wf_omap m \<longleftrightarrow> distinct (map fst m)"

lemma has_key_iff: "has_key m k \<longleftrightarrow> k \<in> fst ` set m"
  by (simp add: has_key_def map_of_eq_None_iff)

locale ordered_map =
  fixes put :: "'k \<Rightarrow> 'v \<Rightarrow> 'm \<Rightarrow> 'm"
    and get :: "'m \<Rightarrow> 'k \<Rightarrow> 'v option"
    and keys :: "'m \<Rightarrow> 'k list"
    and invar :: "'m \<Rightarrow> bool"
  assumes get_put: "get (put k v m) k' = (if k' = k then Some v else get m k')"
    and keys_put: "keys (put k v m) = (if get m k = None then keys m @ [k] else keys m)"
    and get_keys: "get m k \<noteq> None \<longleftrightarrow> k \<in> set (keys m)"
    and invar_put: "invar m \<Longrightarrow> invar (put k v m)"
    and invar_keys: "invar m \<Longrightarrow> distinct (keys m)"
begin

lemma put_put_get: "get (put k v (put k w m)) = get (put k v m)"
  by (rule ext) (simp add: get_put)

lemma keys_put_subset: "set (keys (put k v m)) = insert k (set (keys m))"
  using get_keys [of m k] by (auto simp: keys_put)

lemma fold_put_get:
  "get (fold (\<lambda>x. put (f x) (g x)) xs m) k =
     (case find (\<lambda>x. f x = k) (rev xs) of Some x \<Rightarrow> Some (g x) | None \<Rightarrow> get m k)"
  by (induction xs rule: rev_induct) (auto simp: get_put)

lemma fold_put_invar: "invar m \<Longrightarrow> invar (fold (\<lambda>x. put (f x) (g x)) xs m)"
  by (induction xs arbitrary: m) (auto simp: invar_put)

lemma fold_put_keys:
  "set (keys (fold (\<lambda>x. put (f x) (g x)) xs m)) = set (keys m) \<union> f ` set xs"
  by (induction xs arbitrary: m) (auto simp: keys_put_subset)

end

interpretation om: ordered_map "AList.update :: 'k \<Rightarrow> 'v \<Rightarrow> _" map_of "map fst" wf_omap
proof unfold_locales
  fix k k' :: 'k and v :: 'v and m :: "('k, 'v) omap"
  show "map_of (AList.update k v m) k' = (if k' = k then Some v else map_of m k')"
    by (simp add: update_conv)
  show "map fst (AList.update k v m) = (if map_of m k = None then map fst m @ [k] else map fst m)"
    by (simp add: update_keys map_of_eq_None_iff)
  show "map_of m k \<noteq> None \<longleftrightarrow> k \<in> set (map fst m)"
    by (simp add: map_of_eq_None_iff)
  show "wf_omap m \<Longrightarrow> wf_omap (AList.update k v m)"
    by (simp add: wf_omap_def distinct_update)
  show "wf_omap m \<Longrightarrow> distinct (map fst m)"
    by (simp add: wf_omap_def)
qed

text \<open>The grouping loop and what it computes.\<close>

definition group_push :: "('a \<Rightarrow> 'k) \<Rightarrow> 'a \<Rightarrow> ('k, 'a list) omap \<Rightarrow> ('k, 'a list) omap" where
  "group_push key x m =
     (let m' = (if has_key m (key x) then m else AList.update (key x) [] m)
      in case map_of m' (key x) of
           Some ys \<Rightarrow> AList.update (key x) (ys @ [x]) m'
         | None \<Rightarrow> m')"

definition group_by :: "('a \<Rightarrow> 'k) \<Rightarrow> 'a list \<Rightarrow> ('k, 'a list) omap" where
  "group_by key xs = fold (group_push key) xs []"

lemma group_push_get:
  "map_of (group_push key x m) k =
     (if k = key x then Some ((case map_of m k of Some ys \<Rightarrow> ys | None \<Rightarrow> []) @ [x])
      else map_of m k)"
  by (auto simp: group_push_def Let_def has_key_def om.get_put split: option.splits)

lemma group_push_keys:
  "map fst (group_push key x m) = (if has_key m (key x) then map fst m else map fst m @ [key x])"
  by (auto simp: group_push_def Let_def has_key_def om.get_put om.keys_put split: option.splits)

lemma group_push_wf: "wf_omap m \<Longrightarrow> wf_omap (group_push key x m)"
  by (auto simp: group_push_def Let_def intro!: om.invar_put split: option.splits)

lemma group_fold_get:
  "map_of (fold (group_push key) xs m) k =
     (let ys = filter (\<lambda>x. key x = k) xs
      in if ys = [] then map_of m k
         else Some ((case map_of m k of Some zs \<Rightarrow> zs | None \<Rightarrow> []) @ ys))"
  by (induction xs arbitrary: m) (auto simp: Let_def group_push_get split: option.splits)

lemma group_by_get:
  "map_of (group_by key xs) k =
     (let ys = filter (\<lambda>x. key x = k) xs in if ys = [] then None else Some ys)"
  by (simp add: group_by_def group_fold_get Let_def)

lemma group_fold_wf: "wf_omap m \<Longrightarrow> wf_omap (fold (group_push key) xs m)"
  by (induction xs arbitrary: m) (auto simp: group_push_wf)

lemma group_by_wf: "wf_omap (group_by key xs)"
  unfolding group_by_def by (rule group_fold_wf) (simp add: wf_omap_def)

lemma group_fold_keys: "fst ` set (fold (group_push key) xs m) = fst ` set m \<union> key ` set xs"
proof (induction xs arbitrary: m)
  case (Cons x xs)
  have "fst ` set (group_push key x m) = insert (key x) (fst ` set m)"
    using group_push_keys [of key x m] has_key_iff [of m "key x"]
    by (metis Un_insert_right insert_absorb list.set(1) list.set(2) list.set_map set_append sup_bot.right_neutral)
  with Cons show ?case by simp
qed simp

lemma group_by_keys: "fst ` set (group_by key xs) = key ` set xs"
  by (simp add: group_by_def group_fold_keys)

text \<open>Iterating a map visits every entry once; concatenating the groups loses nothing.\<close>

lemma update_mset:
  assumes "wf_omap m"
  shows "mset (concat (map snd (AList.update k v m))) + mset (case map_of m k of Some w \<Rightarrow> w | None \<Rightarrow> [])
      = mset (concat (map snd m)) + mset v"
  using assms by (induction m) (auto simp: wf_omap_def map_of_eq_None_iff split: option.splits)

lemma group_push_mset:
  assumes "wf_omap m"
  shows "mset (concat (map snd (group_push key x m))) = add_mset x (mset (concat (map snd m)))"
proof (cases "map_of m (key x)")
  case None
  then have "map_of (AList.update (key x) [] m) (key x) = Some []" by (simp add: om.get_put)
  with None update_mset [OF assms, of "key x" "[]"]
    update_mset [OF om.invar_put [OF assms], of "key x" "[x]" "key x" "[]"]
  show ?thesis by (simp add: group_push_def has_key_def)
next
  case (Some ys)
  with update_mset [OF assms, of "key x" "ys @ [x]"] show ?thesis
    by (simp add: group_push_def has_key_def)
qed

lemma group_by_mset: "mset (concat (map snd (group_by key xs))) = mset xs"
proof -
  have "wf_omap m \<Longrightarrow> mset (concat (map snd (fold (group_push key) xs m)))
      = mset (concat (map snd m)) + mset xs" for m
    by (induction xs arbitrary: m) (auto simp: group_push_wf group_push_mset)
  from this [of "[]"] show ?thesis by (simp add: group_by_def wf_omap_def)
qed

end
