(* ===== verification/JsString.thy ===== *)
theory JsString
  imports Prelude "HOL-Library.Sublist"
begin

text \<open>
  The string operations of the language that the web UI uses. A string is a list of 8-bit
  code units: ISO 8859-1, with the one character of the sources outside it, the em dash of
  \<open>EMDASH\<close>, at its Windows-1252 code 0x97 (a control code no server string contains).
  Every operation is per code unit, as in JavaScript. Indices are integers, since \<open>indexOf\<close>
  answers \<open>-1\<close>.
\<close>

section \<open>Character classes\<close>

definition code :: "char \<Rightarrow> nat" where
  "code c = of_char c"

definition is_space :: "char \<Rightarrow> bool" where
  "is_space c \<longleftrightarrow> code c \<in> {9, 10, 11, 12, 13, 32, 160}"

definition is_digit :: "char \<Rightarrow> bool" where
  "is_digit c \<longleftrightarrow> 48 \<le> code c \<and> code c \<le> 57"

definition is_upper :: "char \<Rightarrow> bool" where
  "is_upper c \<longleftrightarrow> 65 \<le> code c \<and> code c \<le> 90"

definition is_letter :: "char \<Rightarrow> bool" where
  "is_letter c \<longleftrightarrow> is_upper c \<or> (97 \<le> code c \<and> code c \<le> 122)"

definition is_word_char :: "char \<Rightarrow> bool" where
  "is_word_char c \<longleftrightarrow> is_letter c \<or> is_digit c \<or> code c = 95"

lemmas char_class_defs = is_space_def is_digit_def is_upper_def is_letter_def is_word_char_def code_def

lemma digit_not_space: "is_digit c \<Longrightarrow> \<not> is_space c"
  by (auto simp: char_class_defs)

lemma letter_not_space: "is_letter c \<Longrightarrow> \<not> is_space c"
  by (auto simp: char_class_defs)

lemma letter_not_digit: "is_letter c \<Longrightarrow> \<not> is_digit c"
  by (auto simp: char_class_defs)

definition lower_char :: "char \<Rightarrow> char" where
  "lower_char c =
     (if is_upper c \<or> (192 \<le> code c \<and> code c \<le> 222 \<and> code c \<noteq> 215)
      then char_of (code c + 32) else c)"

definition toLowerCase :: "string \<Rightarrow> string" where
  "toLowerCase s = map lower_char s"

lemma toLowerCase_append [js_str]: "toLowerCase (s @ t) = toLowerCase s @ toLowerCase t"
  by (simp add: toLowerCase_def)

section \<open>Searching\<close>

fun find_sub :: "string \<Rightarrow> string \<Rightarrow> nat option" where
  "find_sub pat [] = (if pat = [] then Some 0 else None)"
| "find_sub pat (c # s) =
     (if take (length pat) (c # s) = pat then Some 0 else map_option Suc (find_sub pat s))"

definition indexOf :: "string \<Rightarrow> string \<Rightarrow> int" where
  "indexOf s pat = (case find_sub pat s of Some i \<Rightarrow> int i | None \<Rightarrow> -1)"

lemma prefix_take: "prefix p s \<longleftrightarrow> take (length p) s = p"
  by (metis append_eq_conv_conj prefix_def)

lemma find_sub_None: "find_sub pat s = None \<longleftrightarrow> \<not> sublist pat s"
  by (induction pat s rule: find_sub.induct) (auto simp: sublist_Cons_right prefix_take)

lemma find_sub_Some:
  "find_sub pat s = Some i \<Longrightarrow> take (length pat) (drop i s) = pat \<and> i + length pat \<le> length s"
proof (induction pat s arbitrary: i rule: find_sub.induct)
  case (1 pat)
  then show ?case by (simp split: if_splits)
next
  case (2 pat c s)
  show ?case
  proof (cases "take (length pat) (c # s) = pat")
    case True
    then have "length pat \<le> length (c # s)" by (metis length_take min.cobounded1)
    with True 2 show ?thesis by simp
  next
    case False
    with 2 show ?thesis by auto
  qed
qed

lemma find_sub_decomp:
  assumes "find_sub pat s = Some i"
  shows "s = take i s @ pat @ drop (i + length pat) s"
  using find_sub_Some [OF assms] append_take_drop_id [of i s]
    append_take_drop_id [of "length pat" "drop i s"]
  by (metis add.commute drop_drop)

lemma find_sub_single:
  "find_sub [c] s = (if c \<in> set s then Some (length (takeWhile (\<lambda>x. x \<noteq> c) s)) else None)"
  by (induction s) auto

lemma indexOf_found: "indexOf s pat \<noteq> -1 \<longleftrightarrow> sublist pat s"
  using find_sub_None [of pat s] by (auto simp: indexOf_def split: option.splits)

definition str_includes :: "string \<Rightarrow> string \<Rightarrow> bool" where
  "str_includes s pat \<longleftrightarrow> find_sub pat s \<noteq> None"

lemma str_includes_iff: "str_includes s pat \<longleftrightarrow> sublist pat s"
  using find_sub_None [of pat s] by (simp add: str_includes_def)

section \<open>Cutting\<close>

definition clamp :: "int \<Rightarrow> nat \<Rightarrow> nat" where
  "clamp i n = nat (max 0 (min i (int n)))"

lemma clamp_nat [simp]: "clamp (int i) n = min i n"
  by (simp add: clamp_def)

lemma clamp_neg [simp]: "a \<le> 0 \<Longrightarrow> clamp a n = 0"
  by (simp add: clamp_def)

text \<open>\<open>s.substring(a, b)\<close> clamps both indices and swaps them when they are out of order.\<close>

definition substring :: "string \<Rightarrow> int \<Rightarrow> int \<Rightarrow> string" where
  "substring s a b =
     (let i = clamp a (length s); j = clamp b (length s)
      in take (max i j - min i j) (drop (min i j) s))"

abbreviation substring_from :: "string \<Rightarrow> int \<Rightarrow> string" where
  "substring_from s a \<equiv> substring s a (int (length s))"

text \<open>\<open>s.slice(a, b)\<close> counts negative indices from the end and does not swap.\<close>

definition slice :: "'a list \<Rightarrow> int \<Rightarrow> int \<Rightarrow> 'a list" where
  "slice s a b =
     (let n = length s;
          i = (if a < 0 then clamp (a + int n) n else clamp a n);
          j = (if b < 0 then clamp (b + int n) n else clamp b n)
      in take (j - i) (drop i s))"

lemma substring_from_nat [js_str]: "substring_from s (int i) = drop i s"
  by (cases "i \<le> length s") (simp_all add: substring_def Let_def)

lemma substring_prefix [js_str]: "substring s 0 (int n) = take n s"
  by (cases "n \<le> length s") (simp_all add: substring_def Let_def)

lemma substring_from_neg [js_str]: "a \<le> 0 \<Longrightarrow> substring_from s a = s"
  by (simp add: substring_def Let_def)

lemma slice_from_nat [js_str]: "slice s (int i) (int (length s)) = drop i s"
  by (cases "i \<le> length s") (simp_all add: slice_def Let_def)

text \<open>\<open>s.slice(s.indexOf(c) + 1, s.length)\<close> is what follows the first \<open>c\<close>, or all of \<open>s\<close>.\<close>

lemma slice_after:
  "slice s (indexOf s [c] + 1) (int (length s)) =
     (if c \<in> set s then tl (dropWhile (\<lambda>x. x \<noteq> c) s) else s)"
proof (cases "c \<in> set s")
  case True
  then have "indexOf s [c] + 1 = int (Suc (length (takeWhile (\<lambda>x. x \<noteq> c) s)))"
    by (simp add: indexOf_def find_sub_single)
  with True show ?thesis
    by (simp only: slice_from_nat) (simp add: drop_Suc tl_drop [symmetric] dropWhile_eq_drop)
next
  case False
  then show ?thesis using slice_from_nat [of s 0] by (simp add: indexOf_def find_sub_single)
qed

lemma tl_dropWhile_append: "c \<notin> set s \<Longrightarrow> tl (dropWhile (\<lambda>x. x \<noteq> c) (s @ c # t)) = t"
  by (induction s) auto

section \<open>Splitting and joining\<close>

function split :: "string \<Rightarrow> string \<Rightarrow> string list" where
  "split sep s =
     (if sep = [] then map (\<lambda>c. [c]) s
      else case find_sub sep s of
        None \<Rightarrow> [s]
      | Some i \<Rightarrow> take i s # split sep (drop (i + length sep) s))"
  by pat_completeness auto
termination
proof (relation "measure (\<lambda>(sep, s). length s)")
  fix sep s i
  assume "sep \<noteq> []" and "find_sub sep s = Some i"
  with find_sub_Some [OF this(2)]
  show "((sep, drop (i + length sep) s), sep, s) \<in> measure (\<lambda>(sep, s). length s)"
    by (cases sep) auto
qed simp

declare split.simps [simp del]

fun join :: "string \<Rightarrow> string list \<Rightarrow> string" where
  "join sep [] = []"
| "join sep [x] = x"
| "join sep (x # y # xs) = x @ sep @ join sep (y # xs)"

lemma split_nonempty [simp]: "sep \<noteq> [] \<Longrightarrow> split sep s \<noteq> []"
  by (subst split.simps) (simp split: option.splits)

lemma join_Cons: "xs \<noteq> [] \<Longrightarrow> join sep (x # xs) = x @ sep @ join sep xs"
  by (cases xs) auto

lemma join_split: "sep \<noteq> [] \<Longrightarrow> join sep (split sep s) = s"
proof (induction sep s rule: split.induct)
  case (1 sep s)
  show ?case
  proof (cases "find_sub sep s")
    case None
    with 1 show ?thesis by (simp add: split.simps [of sep s])
  next
    case (Some i)
    from 1(1) [OF 1(2) Some 1(2)] find_sub_decomp [OF Some] Some 1(2) show ?thesis
      by (simp add: split.simps [of sep s] join_Cons)
  qed
qed

lemma split_none: "c \<notin> set s \<Longrightarrow> split [c] s = [s]"
  by (subst split.simps) (simp add: find_sub_single)

lemma takeWhile_append_sep: "c \<notin> set s \<Longrightarrow> takeWhile (\<lambda>x. x \<noteq> c) (s @ c # t) = s"
  by (induction s) auto

lemma split_append: "c \<notin> set s \<Longrightarrow> split [c] (s @ c # t) = s # split [c] t"
  by (subst split.simps) (simp add: find_sub_single takeWhile_append_sep)

text \<open>Splitting undoes joining when no part contains the separator.\<close>

lemma split_join:
  assumes "xs \<noteq> []" and "\<forall>x \<in> set xs. c \<notin> set x"
  shows "split [c] (join [c] xs) = xs"
  using assms
proof (induction xs)
  case (Cons x xs)
  then show ?case by (cases xs) (auto simp: split_none split_append join_Cons)
qed simp

lemma split_no_sep: "\<forall>x \<in> set (split [c] s). c \<notin> set x"
proof (induction "[c]" s rule: split.induct)
  case (1 s)
  show ?case
  proof (cases "c \<in> set s")
    case True
    have f: "find_sub [c] s = Some (length (takeWhile (\<lambda>x. x \<noteq> c) s))"
      using True by (simp add: find_sub_single)
    have "c \<notin> set (take (length (takeWhile (\<lambda>x. x \<noteq> c) s)) s)"
      by (metis (mono_tags, lifting) set_takeWhileD takeWhile_eq_take)
    with 1 [OF _ f] f show ?thesis by (subst split.simps) simp
  next
    case False
    then show ?thesis by (simp add: split_none)
  qed
qed

section \<open>White space\<close>

definition trimStart :: "string \<Rightarrow> string" where
  "trimStart s = dropWhile is_space s"

definition trimEnd :: "string \<Rightarrow> string" where
  "trimEnd s = rev (dropWhile is_space (rev s))"

definition trim :: "string \<Rightarrow> string" where
  "trim s = trimEnd (trimStart s)"

definition leading_space :: "string \<Rightarrow> nat" where
  "leading_space s = length (takeWhile is_space s)"

text \<open>\<open>s.search(/\S/)\<close>: the index of the first character that is not white space, or \<open>-1\<close>.\<close>

definition search_nonspace :: "string \<Rightarrow> int" where
  "search_nonspace s = (if list_all is_space s then -1 else int (leading_space s))"

lemma trimEnd_decomp: "\<exists>w. s = trimEnd s @ w \<and> list_all is_space w"
proof -
  have "s = trimEnd s @ rev (takeWhile is_space (rev s))"
    unfolding trimEnd_def by (metis rev_append rev_rev_ident takeWhile_dropWhile_id)
  moreover have "list_all is_space (rev (takeWhile is_space (rev s)))"
    by (auto simp: list_all_iff dest: set_takeWhileD)
  ultimately show ?thesis by blast
qed

lemma trimEnd_Nil_iff: "trimEnd s = [] \<longleftrightarrow> list_all is_space s"
  by (simp add: trimEnd_def dropWhile_eq_Nil_conv list_all_iff)

lemma trim_Nil_iff: "trim s = [] \<longleftrightarrow> list_all is_space s"
proof
  assume "trim s = []"
  then have "list_all is_space (dropWhile is_space s)"
    by (simp add: trim_def trimStart_def trimEnd_Nil_iff)
  moreover have "list_all is_space (takeWhile is_space s)"
    by (auto simp: list_all_iff dest: set_takeWhileD)
  ultimately show "list_all is_space s"
    by (metis list_all_append takeWhile_dropWhile_id)
next
  assume "list_all is_space s"
  then show "trim s = []"
    by (auto simp: trim_def trimStart_def trimEnd_Nil_iff list_all_iff dest: set_dropWhileD)
qed

lemma take_leading_space: "n \<le> leading_space s \<Longrightarrow> list_all is_space (take n s)"
proof -
  assume "n \<le> leading_space s"
  then have "take n s = take n (takeWhile is_space s)"
    by (metis leading_space_def take_all_iff take_append takeWhile_dropWhile_id
        diff_is_0_eq append_Nil2 take_0)
  then show ?thesis by (auto simp: list_all_iff dest: in_set_takeD set_takeWhileD)
qed

section \<open>Replacing\<close>

text \<open>\<open>s.replace(pat, rep)\<close> with a string (or a single-character regular expression)
  replaces the first occurrence only.\<close>

definition replace_first :: "string \<Rightarrow> string \<Rightarrow> string \<Rightarrow> string" where
  "replace_first s pat rep =
     (case find_sub pat s of
        None \<Rightarrow> s
      | Some i \<Rightarrow> take i s @ rep @ drop (i + length pat) s)"

lemma replace_first_single: "c \<notin> set s \<Longrightarrow> replace_first (s @ c # t) [c] rep = s @ rep @ t"
  by (simp add: replace_first_def find_sub_single takeWhile_append_sep)

lemma replace_first_absent: "c \<notin> set s \<Longrightarrow> replace_first s [c] rep = s"
  by (simp add: replace_first_def find_sub_single)

section \<open>Decimal numerals\<close>

definition digit_char :: "nat \<Rightarrow> char" where
  "digit_char d = char_of (48 + d)"

definition digit_value :: "char \<Rightarrow> nat" where
  "digit_value c = code c - 48"

fun show_nat :: "nat \<Rightarrow> string" where
  "show_nat n = (if n < 10 then [digit_char n] else show_nat (n div 10) @ [digit_char (n mod 10)])"

declare show_nat.simps [simp del]

definition dec_value :: "string \<Rightarrow> nat" where
  "dec_value s = foldl (\<lambda>a c. 10 * a + digit_value c) 0 s"

definition show_int :: "int \<Rightarrow> string" where
  "show_int i = (if i < 0 then ''-'' @ show_nat (nat (- i)) else show_nat (nat i))"

lemma digit_char_digit: "d < 10 \<Longrightarrow> is_digit (digit_char d)"
  by (simp add: digit_char_def is_digit_def code_def)

lemma digit_value_char: "d < 10 \<Longrightarrow> digit_value (digit_char d) = d"
  by (simp add: digit_char_def digit_value_def code_def)

lemma show_nat_nonempty [simp]: "show_nat n \<noteq> []"
  by (subst show_nat.simps) simp

lemma show_nat_digits: "list_all is_digit (show_nat n)"
proof (induction n rule: show_nat.induct)
  case (1 n)
  then show ?case by (subst show_nat.simps) (auto simp: digit_char_digit)
qed

lemma dec_value_snoc [simp]: "dec_value (s @ [c]) = 10 * dec_value s + digit_value c"
  by (simp add: dec_value_def)

lemma dec_value_show_nat [simp]: "dec_value (show_nat n) = n"
proof (induction n rule: show_nat.induct)
  case (1 n)
  show ?case
  proof (cases "n < 10")
    case True
    then show ?thesis
      by (subst show_nat.simps) (simp add: dec_value_def digit_value_char)
  next
    case False
    with 1 show ?thesis by (subst show_nat.simps) (simp add: digit_value_char)
  qed
qed

lemma show_nat_inj: "show_nat m = show_nat n \<Longrightarrow> m = n"
  by (metis dec_value_show_nat)

lemma show_nat_no_char: "\<not> is_digit c \<Longrightarrow> c \<notin> set (show_nat n)"
  using show_nat_digits [of n] by (auto simp: list_all_iff)

section \<open>Property names\<close>

text \<open>The names every object inherits: reading them gives something that is not \<open>undefined\<close> and has
  no \<open>push\<close>.\<close>

definition prototype_names :: "string list" where
  "prototype_names = [''constructor'', ''__defineGetter__'', ''__defineSetter__'', ''hasOwnProperty'',
     ''__lookupGetter__'', ''__lookupSetter__'', ''isPrototypeOf'', ''propertyIsEnumerable'', ''toString'',
     ''valueOf'', ''__proto__'', ''toLocaleString'']"

end
