(* ===== verification/JsNumber.thy ===== *)
theory JsNumber
  imports Binary64 JsString
begin

text \<open>
  The JavaScript type \<open>Number\<close> and the operations on it that the web UI uses: arithmetic
  rounded to binary64, the comparisons with their treatment of \<open>NaN\<close>, \<open>Math.round\<close>,
  \<open>toFixed\<close>, the conversion to a string, \<open>parseInt\<close> and \<open>parseFloat\<close>.
  A finite number is the exact rational it stands for. There is one zero: the sources never
  divide by a negative zero and print \<open>-0\<close> as \<open>0\<close>.

  \<open>val\<close> is a number, \<open>null\<close> or \<open>undefined\<close>: what the parsers of the UI return and what an
  array read past its end gives.
\<close>

datatype jsnum = NaN | Infinity | NegInfinity | Fin rat

definition number :: "rat \<Rightarrow> jsnum" where
  "number x =
     (let r = round_binary64 x
      in if 2 ^ 1024 \<le> r then Infinity else if r \<le> - (2 ^ 1024) then NegInfinity else Fin r)"

text \<open>For evaluation the overflow test compares exponents.\<close>

lemma exponent2_ge_iff: "0 < x \<Longrightarrow> k \<le> exponent2 x \<longleftrightarrow> 2 powi k \<le> x"
  using exponent2_bounds [of x] powi_mono2 [of k "exponent2 x"] powi_mono2 [of "exponent2 x + 1" k]
  by linarith

lemma number_code [code]:
  "number x =
     (let r = round_binary64 x
      in if r \<noteq> 0 \<and> 1024 \<le> exponent2 \<bar>r\<bar> then (if 0 < r then Infinity else NegInfinity) else Fin r)"
proof (cases "round_binary64 x = 0")
  case True
  then show ?thesis by (simp add: number_def)
next
  case False
  then have "1024 \<le> exponent2 \<bar>round_binary64 x\<bar> \<longleftrightarrow> 2 ^ 1024 \<le> \<bar>round_binary64 x\<bar>"
    by (subst exponent2_ge_iff) auto
  with False show ?thesis by (auto simp: number_def Let_def abs_if)
qed

section \<open>Arithmetic and comparison\<close>

instantiation jsnum :: "{plus, minus, uminus, times, inverse, ord}"
begin

fun uminus_jsnum :: "jsnum \<Rightarrow> jsnum" where
  "- NaN = NaN"
| "- Infinity = NegInfinity"
| "- NegInfinity = Infinity"
| "- Fin a = Fin (- a)"

fun plus_jsnum :: "jsnum \<Rightarrow> jsnum \<Rightarrow> jsnum" where
  "Fin a + Fin b = number (a + b)"
| "NaN + y = NaN"
| "x + NaN = NaN"
| "Infinity + NegInfinity = NaN"
| "NegInfinity + Infinity = NaN"
| "Infinity + y = Infinity"
| "NegInfinity + y = NegInfinity"
| "x + Infinity = Infinity"
| "x + NegInfinity = NegInfinity"

definition minus_jsnum :: "jsnum \<Rightarrow> jsnum \<Rightarrow> jsnum" where
  "x - y = x + - y" for x y :: jsnum

fun infinite_times :: "jsnum \<Rightarrow> jsnum \<Rightarrow> jsnum" where
  "infinite_times x (Fin a) = (if a = 0 then NaN else if 0 < a then x else - x)"
| "infinite_times x NaN = NaN"
| "infinite_times x Infinity = x"
| "infinite_times x NegInfinity = - x"

fun times_jsnum :: "jsnum \<Rightarrow> jsnum \<Rightarrow> jsnum" where
  "Fin a * Fin b = number (a * b)"
| "NaN * y = NaN"
| "x * NaN = NaN"
| "Infinity * y = infinite_times Infinity y"
| "NegInfinity * y = infinite_times NegInfinity y"
| "x * Infinity = infinite_times Infinity x"
| "x * NegInfinity = infinite_times NegInfinity x"

fun divide_jsnum :: "jsnum \<Rightarrow> jsnum \<Rightarrow> jsnum" where
  "Fin a div Fin b =
     (if b = 0 then (if a = 0 then NaN else if 0 < a then Infinity else NegInfinity)
      else number (a / b))"
| "NaN div y = NaN"
| "x div NaN = NaN"
| "Infinity div Fin b = (if 0 \<le> b then Infinity else NegInfinity)"
| "NegInfinity div Fin b = (if 0 \<le> b then NegInfinity else Infinity)"
| "Infinity div y = NaN"
| "NegInfinity div y = NaN"
| "x div Infinity = Fin 0"
| "x div NegInfinity = Fin 0"

definition inverse_jsnum :: "jsnum \<Rightarrow> jsnum" where
  "inverse x = Fin 1 div x" for x :: jsnum

fun less_jsnum :: "jsnum \<Rightarrow> jsnum \<Rightarrow> bool" where
  "NaN < y \<longleftrightarrow> False"
| "x < NaN \<longleftrightarrow> False"
| "Fin a < Fin b \<longleftrightarrow> a < b"
| "NegInfinity < y \<longleftrightarrow> y \<noteq> NegInfinity"
| "x < Infinity \<longleftrightarrow> x \<noteq> Infinity"
| "Infinity < y \<longleftrightarrow> False"
| "x < NegInfinity \<longleftrightarrow> False"

definition less_eq_jsnum :: "jsnum \<Rightarrow> jsnum \<Rightarrow> bool" where
  "x \<le> y \<longleftrightarrow> x < y \<or> (x = y \<and> x \<noteq> NaN)" for x y :: jsnum

instance ..

end

text \<open>Strict equality: \<open>NaN\<close> differs from itself.\<close>

definition strict_eq :: "jsnum \<Rightarrow> jsnum \<Rightarrow> bool" where
  "strict_eq x y \<longleftrightarrow> x = y \<and> x \<noteq> NaN"

lemma jsnum_le_Fin [simp]: "Fin a \<le> Fin b \<longleftrightarrow> a \<le> b"
  by (auto simp: less_eq_jsnum_def)

lemma jsnum_le_NaN [simp]: "\<not> NaN \<le> x" "\<not> x \<le> NaN"
  by (cases x; simp add: less_eq_jsnum_def)+

lemma jsnum_less_NaN [simp]: "\<not> NaN < x" "\<not> x < NaN"
  by (cases x; simp)+

lemma jsnum_minus_Fin [simp]: "Fin a - Fin b = number (a - b)"
  by (simp add: minus_jsnum_def)

lemma jsnum_times_Fin: "Fin a * Fin b = number (a * b)"
  by simp

lemma jsnum_less_trans: "x < y \<Longrightarrow> y < z \<Longrightarrow> x < z" for x y z :: jsnum
  by (cases x; cases y; cases z) auto

lemma jsnum_not_less: "x \<noteq> NaN \<Longrightarrow> y \<noteq> NaN \<Longrightarrow> \<not> x < y \<longleftrightarrow> y \<le> x" for x y :: jsnum
  by (cases x; cases y) (auto simp: less_eq_jsnum_def)

text \<open>A number in range is finite, and an exact result needs no rounding.\<close>

lemma number_finite:
  assumes "- (2 ^ 1024) < round_binary64 x" and "round_binary64 x < 2 ^ 1024"
  shows "number x = Fin (round_binary64 x)"
  using assms by (simp add: number_def Let_def)

lemma number_exact: "is_double x \<Longrightarrow> \<bar>x\<bar> < 2 ^ 1024 \<Longrightarrow> number x = Fin x"
  using number_finite [of x] by (auto simp: is_double_def abs_less_iff)

lemma big_bound: "\<bar>x\<bar> \<le> 2 ^ 53 \<Longrightarrow> \<bar>x\<bar> < (2 :: rat) ^ 1024"
  by (rule le_less_trans) (auto intro: power_strict_increasing)

lemma number_int:
  assumes "\<bar>k\<bar> \<le> 2 ^ 53"
  shows "number (of_int k) = Fin (of_int k)"
proof -
  have "(of_int \<bar>k\<bar> :: rat) \<le> of_int (2 ^ 53)" using assms by (simp only: of_int_le_iff)
  then have "\<bar>of_int k :: rat\<bar> < 2 ^ 1024" by (intro big_bound) simp
  with is_double_int [OF assms] show ?thesis by (rule number_exact)
qed

lemma number_nat: "n \<le> 2 ^ 53 \<Longrightarrow> number (of_nat n) = Fin (of_nat n)"
  using number_int [of "int n"] by simp

lemma number_0 [simp]: "number 0 = Fin 0" and number_1 [simp]: "number 1 = Fin 1"
  using number_int [of 0] number_int [of 1] by simp_all

lemma number_not_NaN [simp]: "number x \<noteq> NaN"
  by (simp add: number_def Let_def)

lemma number_minus: "number (- x) = - number x"
  by (auto simp: number_def Let_def round_binary64_minus)

lemma number_mono: "x \<le> y \<Longrightarrow> number x \<le> number y"
  using ieee.rnd_mono [of x y] by (auto simp: number_def Let_def less_eq_jsnum_def)

lemma number_ge_int: "of_int k \<le> x \<Longrightarrow> \<bar>k\<bar> \<le> 2 ^ 53 \<Longrightarrow> Fin (of_int k) \<le> number x"
  using number_mono [of "of_int k" x] by (simp add: number_int)

lemma number_le_int: "x \<le> of_int k \<Longrightarrow> \<bar>k\<bar> \<le> 2 ^ 53 \<Longrightarrow> number x \<le> Fin (of_int k)"
  using number_mono [of x "of_int k"] by (simp add: number_int)

lemma number_nonneg: "0 \<le> x \<Longrightarrow> Fin 0 \<le> number x"
  using number_ge_int [of 0 x] by simp

lemma number_cases:
  assumes "0 \<le> x"
  obtains "number x = Infinity" | r where "number x = Fin r" "r = round_binary64 x" "0 \<le> r" "is_double r"
proof (cases "2 ^ 1024 \<le> round_binary64 x")
  case True
  then have "number x = Infinity" by (simp add: number_def)
  then show ?thesis by (rule that(1))
next
  case False
  moreover have "0 \<le> round_binary64 x" using assms by (rule ieee.rnd_nonneg)
  ultimately have "number x = Fin (round_binary64 x)"
    by (intro number_finite) (auto intro: less_le_trans [of _ 0])
  then show ?thesis using \<open>0 \<le> round_binary64 x\<close> by (intro that(2)) auto
qed

text \<open>Well-formed numbers: the finite ones are binary64 values.\<close>

fun wf_num :: "jsnum \<Rightarrow> bool" where
  "wf_num (Fin x) \<longleftrightarrow> is_double x \<and> \<bar>x\<bar> < 2 ^ 1024"
| "wf_num _ \<longleftrightarrow> True"

lemma wf_number [simp]: "wf_num (number x)"
  by (auto simp: number_def Let_def abs_less_iff)

lemma wf_Fin_int: "\<bar>k\<bar> \<le> 2 ^ 53 \<Longrightarrow> wf_num (Fin (of_int k))"
  using wf_number [of "of_int k"] by (simp add: number_int del: wf_number)

lemma wf_uminus [simp]: "wf_num (- x) \<longleftrightarrow> wf_num x"
  by (cases x) simp_all

lemma wf_plus: "wf_num (x + y)"
  by (cases x; cases y) simp_all

lemma wf_infinite_times: "x \<in> {Infinity, NegInfinity} \<Longrightarrow> wf_num (infinite_times x y)"
  by (cases y) auto

lemma wf_times: "wf_num (x * y)"
  by (cases x; cases y) (auto intro: wf_infinite_times simp del: infinite_times.simps)

lemma wf_divide: "wf_num (x / y)"
  using wf_Fin_int [of 0] by (cases x; cases y) (simp_all del: wf_num.simps add: wf_num.simps(2-4))

section \<open>Values that may be missing\<close>

datatype val = Undefined | Null | Num jsnum

fun toNumber :: "val \<Rightarrow> jsnum" where
  "toNumber Undefined = NaN"
| "toNumber Null = Fin 0"
| "toNumber (Num x) = x"

fun truthy :: "val \<Rightarrow> bool" where
  "truthy (Num x) \<longleftrightarrow> x \<noteq> NaN \<and> x \<noteq> Fin 0"
| "truthy _ \<longleftrightarrow> False"

text \<open>\<open>v === n\<close> for a number literal \<open>n\<close>: no conversion of \<open>null\<close> or \<open>undefined\<close>.\<close>

definition is_num :: "val \<Rightarrow> rat \<Rightarrow> bool" where
  "is_num v n \<longleftrightarrow> v = Num (Fin n)"

definition val_of :: "jsnum option \<Rightarrow> val" where
  "val_of x = (case x of None \<Rightarrow> Null | Some n \<Rightarrow> Num n)"

definition last_val :: "val list \<Rightarrow> val" where
  "last_val vs = (case last_opt vs of None \<Rightarrow> Undefined | Some v \<Rightarrow> v)"

lemma last_val_simps [simp]: "last_val [] = Undefined" "last_val (vs @ [v]) = v"
  by (simp_all add: last_val_def)

section \<open>Rounding functions\<close>

fun mathFloor :: "jsnum \<Rightarrow> jsnum" where
  "mathFloor (Fin x) = Fin (of_int \<lfloor>x\<rfloor>)"
| "mathFloor x = x"

text \<open>\<open>Math.round\<close> rounds halves up.\<close>

fun mathRound :: "jsnum \<Rightarrow> jsnum" where
  "mathRound (Fin x) = Fin (of_int \<lfloor>x + 1/2\<rfloor>)"
| "mathRound x = x"

fun mathMax :: "jsnum \<Rightarrow> jsnum \<Rightarrow> jsnum" where
  "mathMax x y = (if x = NaN \<or> y = NaN then NaN else if x < y then y else x)"

fun mathMin :: "jsnum \<Rightarrow> jsnum \<Rightarrow> jsnum" where
  "mathMin x y = (if x = NaN \<or> y = NaN then NaN else if y < x then y else x)"

section \<open>Conversion to strings\<close>

text \<open>The decimal exponent \<open>n\<close> of a positive number, \<open>10 ^ (n-1) \<le> x < 10 ^ n\<close>: the number of
  digits of the integer part, or found by scaling up. The smallest binary64 value is above
  \<open>10 ^ -324\<close>, so 330 steps are enough.\<close>

fun scale_up :: "nat \<Rightarrow> rat \<Rightarrow> nat" where
  "scale_up 0 x = 0"
| "scale_up (Suc fuel) x = (if 1 \<le> x then 0 else Suc (scale_up fuel (x * 10)))"

definition exponent10 :: "rat \<Rightarrow> int" where
  "exponent10 x =
     (if 1 \<le> x then int (length (show_nat (nat \<lfloor>x\<rfloor>))) else 1 - int (scale_up 330 x))"

text \<open>A \<open>k\<close>-digit decimal that converts back to \<open>x\<close>, the nearer of the two neighbours first.\<close>

definition decimal_at :: "rat \<Rightarrow> int \<Rightarrow> nat \<Rightarrow> nat option" where
  "decimal_at x n k =
     (let t = x * 10 powi (int k - n);
          lo = \<lfloor>t\<rfloor>; hi = lo + 1;
          back = (\<lambda>s. round_binary64 (of_int s * 10 powi (n - int k)) = x);
          (s1, s2) = (if t - of_int lo \<le> of_int hi - t then (lo, hi) else (hi, lo))
      in if back s1 then Some (nat s1) else if back s2 then Some (nat s2) else None)"

fun shortest_from :: "nat \<Rightarrow> nat \<Rightarrow> rat \<Rightarrow> int \<Rightarrow> nat \<times> nat" where
  "shortest_from 0 k x n = (nat \<lfloor>x * 10 powi (int k - n)\<rfloor>, k)"
| "shortest_from (Suc fuel) k x n =
     (case decimal_at x n k of Some s \<Rightarrow> (s, k) | None \<Rightarrow> shortest_from fuel (Suc k) x n)"

definition strip_zeros :: "string \<Rightarrow> string" where
  "strip_zeros ds = rev (dropWhile (\<lambda>c. c = CHR ''0'') (rev ds))"

text \<open>\<open>Number::toString\<close> for a positive number: the shortest digits that convert back (at most
  17 are needed), laid out by the position of the decimal point. For an integer up to
  \<open>2 ^ 53\<close> they are its plain decimal digits.\<close>

definition show_positive :: "rat \<Rightarrow> string" where
  "show_positive x =
     (if x = of_int \<lfloor>x\<rfloor> \<and> x \<le> 2 ^ 53 then show_nat (nat \<lfloor>x\<rfloor>)
      else
        (let (s, k0) = shortest_from 17 1 x (exponent10 x);
             all = show_nat s;
             n = exponent10 x + int (length all) - int k0;
             ds = strip_zeros all;
             k = int (length ds)
         in if k \<le> n \<and> n \<le> 21 then ds @ replicate (nat (n - k)) (CHR ''0'')
            else if 0 < n \<and> n \<le> 21 then take (nat n) ds @ ''.'' @ drop (nat n) ds
            else if -6 < n \<and> n \<le> 0 then ''0.'' @ replicate (nat (- n)) (CHR ''0'') @ ds
            else take 1 ds @ (if k = 1 then [] else ''.'' @ drop 1 ds) @ ''e''
                 @ (if 0 \<le> n - 1 then ''+'' else ''-'') @ show_nat (nat \<bar>n - 1\<bar>)))"

fun numToString :: "jsnum \<Rightarrow> string" where
  "numToString NaN = ''NaN''"
| "numToString Infinity = ''Infinity''"
| "numToString NegInfinity = ''-Infinity''"
| "numToString (Fin x) =
     (if x = 0 then ''0'' else if x < 0 then ''-'' @ show_positive (- x) else show_positive x)"

lemma numToString_nat:
  assumes "n \<le> 2 ^ 53"
  shows "numToString (Fin (of_nat n)) = show_nat n"
proof -
  have "(of_nat n :: rat) \<le> of_nat (2 ^ 53)" using assms by (simp only: of_nat_le_iff)
  moreover have "show_nat 0 = ''0''" by code_simp
  ultimately show ?thesis by (cases "n = 0") (simp_all add: show_positive_def)
qed

text \<open>\<open>x.toFixed(f)\<close>: the closest multiple of \<open>10 ^ -f\<close>, halves up, on the exact value.\<close>

definition fixed_digits :: "nat \<Rightarrow> nat \<Rightarrow> string" where
  "fixed_digits n f =
     (let m = show_nat n;
          m' = (if length m \<le> f then replicate (f + 1 - length m) (CHR ''0'') @ m else m);
          k = length m'
      in if f = 0 then m' else take (k - f) m' @ ''.'' @ drop (k - f) m')"

definition toFixed_num :: "jsnum \<Rightarrow> nat \<Rightarrow> string" where
  "toFixed_num x f =
     (case x of
        Fin r \<Rightarrow>
          (if 10 ^ 21 \<le> \<bar>r\<bar> then numToString x
           else (if r < 0 then ''-'' else []) @ fixed_digits (nat \<lfloor>\<bar>r\<bar> * 10 ^ f + 1/2\<rfloor>) f)
      | _ \<Rightarrow> numToString x)"

fun toFixed :: "val \<Rightarrow> nat \<Rightarrow> string throws" where
  "toFixed (Num x) f = Some (toFixed_num x f)"
| "toFixed _ f = throw"

section \<open>Conversion from strings\<close>

definition hex_value :: "char \<Rightarrow> nat option" where
  "hex_value c =
     (if is_digit c then Some (code c - 48)
      else if 97 \<le> code c \<and> code c \<le> 102 then Some (code c - 87)
      else if 65 \<le> code c \<and> code c \<le> 70 then Some (code c - 55) else None)"

fun hex_prefix :: "string \<Rightarrow> nat list" where
  "hex_prefix [] = []"
| "hex_prefix (c # s) = (case hex_value c of None \<Rightarrow> [] | Some d \<Rightarrow> d # hex_prefix s)"

text \<open>\<open>parseInt(s)\<close> without a radix: leading white space, a sign, the prefix \<open>0x\<close>, then the
  longest run of digits; \<open>NaN\<close> when there is none.\<close>

definition parseInt :: "string \<Rightarrow> jsnum" where
  "parseInt s =
     (let t = trimStart s;
          neg = (t \<noteq> [] \<and> hd t = CHR ''-'');
          u = (if t \<noteq> [] \<and> (hd t = CHR ''-'' \<or> hd t = CHR ''+'') then tl t else t);
          hex = (take 2 u = ''0x'' \<or> take 2 u = ''0X'');
          ds = (if hex then hex_prefix (drop 2 u) else map digit_value (takeWhile is_digit u));
          n = foldl (\<lambda>a d. (if hex then 16 else 10) * a + d) 0 ds
      in if ds = [] then NaN else number (if neg then - of_nat n else of_nat n))"

text \<open>\<open>parseFloat\<close> on a numeral \<open>\d+(\.\d+)?\<close>, the only form the sources pass to it.\<close>

definition parseFloat_parts :: "string \<Rightarrow> string \<Rightarrow> jsnum" where
  "parseFloat_parts ip fp =
     number (of_nat (dec_value ip) + of_nat (dec_value fp) / 10 ^ length fp)"

lemma takeWhile_all_append: "list_all P s \<Longrightarrow> takeWhile P (s @ t) = s @ takeWhile P t"
  by (simp add: list_all_iff)

lemma foldl_digits: "foldl (\<lambda>a d. 10 * a + d) z (map digit_value s) = foldl (\<lambda>a c. 10 * a + digit_value c) z s"
  by (induction s arbitrary: z) auto

text \<open>Parsing a decimal numeral that is followed by something else than a digit or a letter.\<close>

lemma parseInt_digits:
  assumes ds: "list_all is_digit ds" "ds \<noteq> []" and rest: "rest = [] \<or> \<not> is_word_char (hd rest)"
  shows "parseInt (ds @ rest) = number (of_nat (dec_value ds))"
proof -
  obtain c cs where c: "ds = c # cs" "is_digit c" using ds by (cases ds) auto
  have stop: "takeWhile is_digit rest = []" using rest by (cases rest) (auto simp: is_word_char_def)
  have t: "trimStart (ds @ rest) = ds @ rest" using c digit_not_space by (simp add: trimStart_def)
  have sign: "hd (ds @ rest) \<noteq> CHR ''-''" "hd (ds @ rest) \<noteq> CHR ''+''"
    using c by (auto simp: char_class_defs)
  have x: "\<not> is_digit (CHR ''x'')" "\<not> is_digit (CHR ''X'')"
    "is_word_char (CHR ''x'')" "is_word_char (CHR ''X'')"
    by (simp_all add: char_class_defs)
  have hex: "take 2 (ds @ rest) \<noteq> ''0x''" "take 2 (ds @ rest) \<noteq> ''0X''"
    using c ds rest x by (cases cs; cases rest; auto simp: numeral_2_eq_2)+
  have tw: "takeWhile is_digit (ds @ rest) = ds" using ds stop by (simp add: takeWhile_all_append)
  have "parseInt s = number (of_nat (dec_value ds))"
    if "trimStart s = s" "hd s \<noteq> CHR ''-''" "hd s \<noteq> CHR ''+''" "take 2 s \<noteq> ''0x''" "take 2 s \<noteq> ''0X''"
      "takeWhile is_digit s = ds" for s
    using that ds(2) by (simp add: parseInt_def Let_def foldl_digits dec_value_def)
  from this [OF t sign hex tw] show ?thesis .
qed

lemma parseInt_show_nat:
  assumes "n \<le> 2 ^ 53" and "rest = [] \<or> \<not> is_word_char (hd rest)"
  shows "parseInt (show_nat n @ rest) = Fin (of_nat n)"
proof -
  have "parseInt (show_nat n @ rest) = number (of_nat n)"
    using parseInt_digits [OF show_nat_digits show_nat_nonempty assms(2), of n] by simp
  also have "\<dots> = Fin (of_nat n)" using assms(1) by (rule number_nat)
  finally show ?thesis .
qed

end
