(* ===== verification/VDom.thy ===== *)
theory VDom
  imports JsNumber
begin

text \<open>
  What the React components return from \<open>render\<close>: a tree of elements with attributes, text and
  child components, and the calls a component makes on the page outside of React (\<open>jQuery\<close>
  plugins). A JSX element is \<^term>\<open>el\<close> applied to its tag, its attributes and the list of its
  children; an expression in a JSX child may throw, so \<^term>\<open>el\<close> builds the tree in the \<open>throws\<close> type and throws
  as soon as one child does. An event attribute holds the handler it calls, a value of
  the component's own type \<open>'a\<close> of handlers, and a child component its properties, of type \<open>'c\<close>.
\<close>

datatype 'a attr =
    Cls string
  | Id string
  | Attr string string
  | NumAttr string jsnum
  | NullAttr string
  | Style "(string \<times> string) list"
  | On string 'a

datatype ('c, 'a) vnode =
    VText string
  | VEmpty
  | VFrag "('c, 'a) vnode list"
  | VComp 'c
  | VElem string "'a attr list" "('c, 'a) vnode list"

type_synonym ('c, 'a) html = "('c, 'a) vnode throws"

definition nbsp :: string where
  "nbsp = [char_of (0xA0 :: nat)]"

definition times_sign :: string where
  "times_sign = [char_of (0xD7 :: nat)]"

definition apostrophe :: string where
  "apostrophe = [char_of (0x27 :: nat)]"

section \<open>Building trees\<close>

definition el :: "string \<Rightarrow> 'a attr list \<Rightarrow> ('c, 'a) html list \<Rightarrow> ('c, 'a) html" where
  "el tag attrs children = map_option (VElem tag attrs) (those children)"

definition frag :: "('c, 'a) html list \<Rightarrow> ('c, 'a) html" where
  "frag children = map_option VFrag (those children)"

text \<open>Literal text, the text an expression computes, a number or \<open>undefined\<close> or \<open>null\<close> (React shows
  nothing for the last two), a child component, and nothing at all.\<close>

definition lit :: "string \<Rightarrow> ('c, 'a) html" where
  "lit s = Some (VText s)"

definition str :: "string throws \<Rightarrow> ('c, 'a) html" where
  "str s = map_option VText s"

definition shown :: "val \<Rightarrow> ('c, 'a) html" where
  "shown v = Some (case v of Num n \<Rightarrow> VText (numToString n) | _ \<Rightarrow> VEmpty)"

definition component :: "'c \<Rightarrow> ('c, 'a) html" where
  "component c = Some (VComp c)"

definition blank :: "('c, 'a) html" where
  "blank = Some VEmpty"

text \<open>An attribute whose value is a number or missing.\<close>

definition val_attr :: "string \<Rightarrow> val \<Rightarrow> 'a attr" where
  "val_attr name v = (case v of Num n \<Rightarrow> NumAttr name n | _ \<Rightarrow> NullAttr name)"

section \<open>Reading trees\<close>

fun attr_ids :: "'a attr list \<Rightarrow> string list" where
  "attr_ids [] = []"
| "attr_ids (Id s # as) = s # attr_ids as"
| "attr_ids (a # as) = attr_ids as"

fun attr_handlers :: "'a attr list \<Rightarrow> 'a list" where
  "attr_handlers [] = []"
| "attr_handlers (On e a # as) = a # attr_handlers as"
| "attr_handlers (_ # as) = attr_handlers as"

lemma attr_val [simp]: "attr_ids (val_attr n v # as) = attr_ids as" "attr_handlers (val_attr n v # as) = attr_handlers as"
  by (simp_all add: val_attr_def split: val.splits)

text \<open>The ids, the handlers, the child components and the text of a tree, in document order.\<close>

fun ids :: "('c, 'a) vnode \<Rightarrow> string list" where
  "ids (VElem tag as cs) = attr_ids as @ concat (map ids cs)"
| "ids (VFrag cs) = concat (map ids cs)"
| "ids _ = []"

fun handlers :: "('c, 'a) vnode \<Rightarrow> 'a list" where
  "handlers (VElem tag as cs) = attr_handlers as @ concat (map handlers cs)"
| "handlers (VFrag cs) = concat (map handlers cs)"
| "handlers _ = []"

fun components :: "('c, 'a) vnode \<Rightarrow> 'c list" where
  "components (VElem tag as cs) = concat (map components cs)"
| "components (VFrag cs) = concat (map components cs)"
| "components (VComp c) = [c]"
| "components _ = []"

fun text_of :: "('c, 'a) vnode \<Rightarrow> string" where
  "text_of (VText s) = s"
| "text_of (VElem tag as cs) = concat (map text_of cs)"
| "text_of (VFrag cs) = concat (map text_of cs)"
| "text_of _ = []"

text \<open>The texts of the headings of third level, and the addresses of the links with their texts.\<close>

fun headings :: "('c, 'a) vnode \<Rightarrow> string list" where
  "headings (VElem tag as cs) = (if tag = ''h3'' then [concat (map text_of cs)] else concat (map headings cs))"
| "headings (VFrag cs) = concat (map headings cs)"
| "headings _ = []"

fun attr_links :: "'a attr list \<Rightarrow> string list" where
  "attr_links [] = []"
| "attr_links (Attr n v # as) = (if n = ''href'' then v # attr_links as else attr_links as)"
| "attr_links (_ # as) = attr_links as"

fun links :: "('c, 'a) vnode \<Rightarrow> (string \<times> string) list" where
  "links (VElem tag as cs) = map (\<lambda>href. (href, concat (map text_of cs))) (attr_links as) @ concat (map links cs)"
| "links (VFrag cs) = concat (map links cs)"
| "links _ = []"

text \<open>The same readings of a rendering that may have thrown.\<close>

definition html_ids :: "('c, 'a) html \<Rightarrow> string list" where
  "html_ids t = (case t of Some v \<Rightarrow> ids v | None \<Rightarrow> [])"

definition html_handlers :: "('c, 'a) html \<Rightarrow> 'a list" where
  "html_handlers t = (case t of Some v \<Rightarrow> handlers v | None \<Rightarrow> [])"

definition html_components :: "('c, 'a) html \<Rightarrow> 'c list" where
  "html_components t = (case t of Some v \<Rightarrow> components v | None \<Rightarrow> [])"

definition html_text :: "('c, 'a) html \<Rightarrow> string" where
  "html_text t = (case t of Some v \<Rightarrow> text_of v | None \<Rightarrow> [])"

definition html_headings :: "('c, 'a) html \<Rightarrow> string list" where
  "html_headings t = (case t of Some v \<Rightarrow> headings v | None \<Rightarrow> [])"

definition html_links :: "('c, 'a) html \<Rightarrow> (string \<times> string) list" where
  "html_links t = (case t of Some v \<Rightarrow> links v | None \<Rightarrow> [])"

section \<open>When a rendering throws\<close>

definition renders :: "('c, 'a) html \<Rightarrow> bool" where
  "renders t \<longleftrightarrow> t \<noteq> None"

lemma those_eq_None: "those xs = None \<longleftrightarrow> None \<in> set xs"
  by (induction xs) (auto split: option.splits)

lemma those_eq_Some: "those xs = Some ys \<longleftrightarrow> xs = map Some ys"
proof (induction xs arbitrary: ys)
  case (Cons x xs)
  show ?case by (cases x; cases ys) (auto simp: Cons.IH)
qed auto

lemma those_renders: "list_all renders cs \<longleftrightarrow> those cs \<noteq> None"
  unfolding those_eq_None list_all_iff renders_def by metis

lemma renders_el [dom_simps]: "renders (el tag as cs) \<longleftrightarrow> list_all renders cs"
  by (simp add: those_renders) (simp add: renders_def el_def)

lemma renders_frag [dom_simps]: "renders (frag cs) \<longleftrightarrow> list_all renders cs"
  by (simp add: those_renders) (simp add: renders_def frag_def)

lemma renders_leaf [dom_simps]:
  "renders (lit s)" "renders (shown v)" "renders (component c)" "renders blank"
  "renders (str t) \<longleftrightarrow> t \<noteq> throw"
  by (simp_all add: renders_def lit_def shown_def component_def blank_def str_def)

lemma renders_bind [dom_simps]:
  "renders (Option.bind t f) \<longleftrightarrow> t \<noteq> throw \<and> (\<forall>x. t = Some x \<longrightarrow> renders (f x))"
  by (cases t) (auto simp: renders_def)

text \<open>The readings of a tree from those of its children. A tree that threw has no children to read,
  hence the premise; for a tree known to render it is discharged by \<open>renders\<close>.\<close>

lemma html_el:
  assumes "list_all renders cs"
  shows "html_ids (el tag as cs) = attr_ids as @ concat (map html_ids cs)"
    and "html_handlers (el tag as cs) = attr_handlers as @ concat (map html_handlers cs)"
    and "html_components (el tag as cs) = concat (map html_components cs)"
    and "html_text (el tag as cs) = concat (map html_text cs)"
    and "html_headings (el tag as cs) = (if tag = ''h3'' then [concat (map html_text cs)] else concat (map html_headings cs))"
    and "html_links (el tag as cs) = map (\<lambda>href. (href, concat (map html_text cs))) (attr_links as) @ concat (map html_links cs)"
proof -
  from assms obtain ys where "those cs = Some ys" by (auto simp: those_renders)
  moreover from this have "cs = map Some ys" by (simp add: those_eq_Some)
  ultimately
  show "html_ids (el tag as cs) = attr_ids as @ concat (map html_ids cs)"
    and "html_handlers (el tag as cs) = attr_handlers as @ concat (map html_handlers cs)"
    and "html_components (el tag as cs) = concat (map html_components cs)"
    and "html_text (el tag as cs) = concat (map html_text cs)"
    and "html_headings (el tag as cs) = (if tag = ''h3'' then [concat (map html_text cs)] else concat (map html_headings cs))"
    and "html_links (el tag as cs) = map (\<lambda>href. (href, concat (map html_text cs))) (attr_links as) @ concat (map html_links cs)"
    by (simp_all add: el_def html_ids_def html_handlers_def html_components_def html_text_def html_headings_def html_links_def comp_def)
qed

lemma html_frag:
  assumes "list_all renders cs"
  shows "html_ids (frag cs) = concat (map html_ids cs)"
    and "html_handlers (frag cs) = concat (map html_handlers cs)"
    and "html_components (frag cs) = concat (map html_components cs)"
    and "html_text (frag cs) = concat (map html_text cs)"
    and "html_headings (frag cs) = concat (map html_headings cs)"
    and "html_links (frag cs) = concat (map html_links cs)"
proof -
  from assms obtain ys where "those cs = Some ys" by (auto simp: those_renders)
  moreover from this have "cs = map Some ys" by (simp add: those_eq_Some)
  ultimately
  show "html_ids (frag cs) = concat (map html_ids cs)"
    and "html_handlers (frag cs) = concat (map html_handlers cs)"
    and "html_components (frag cs) = concat (map html_components cs)"
    and "html_text (frag cs) = concat (map html_text cs)"
    and "html_headings (frag cs) = concat (map html_headings cs)"
    and "html_links (frag cs) = concat (map html_links cs)"
    by (simp_all add: frag_def html_ids_def html_handlers_def html_components_def html_text_def html_headings_def html_links_def comp_def)
qed

lemma html_leaf [dom_simps]:
  "html_ids (lit s) = []" "html_ids (shown v) = []" "html_ids (component c) = []"
  "html_ids blank = []" "html_ids (str t) = []"
  "html_handlers (lit s) = []" "html_handlers (shown v) = []" "html_handlers (component c) = []"
  "html_handlers blank = []" "html_handlers (str t) = []"
  "html_components (lit s) = []" "html_components (shown v) = []" "html_components (component c) = [c]"
  "html_components blank = []" "html_components (str t) = []"
  by (simp_all add: html_ids_def html_handlers_def html_components_def lit_def shown_def
      component_def blank_def str_def split: val.splits option.splits)

lemma text_leaf [dom_simps]:
  "html_text (lit s) = s" "html_text (component c) = []" "html_text blank = []"
  "html_headings (lit s) = []" "html_headings (shown v) = []" "html_headings (component c) = []"
  "html_headings blank = []" "html_headings (str t) = []"
  "html_links (lit s) = []" "html_links (shown v) = []" "html_links (component c) = []"
  "html_links blank = []" "html_links (str t) = []"
  by (simp_all add: html_text_def html_headings_def html_links_def lit_def shown_def
      component_def blank_def str_def split: val.splits option.splits)

section \<open>Calls on the page\<close>

text \<open>The \<open>jQuery\<close> calls a component makes when it has been updated: sparklines (the selector, the
  values, the options that extend the common properties), tooltips, clipboard buttons and modals.\<close>

datatype spark_option =
    ChartRangeMin jsnum
  | NumberFormatter "val \<Rightarrow> string throws"
  | RangeAndFormatter jsnum "val \<Rightarrow> string throws"

datatype effect =
    Sparkline string "val list" "(string \<times> string) list" spark_option
  | Tooltips
  | Clipboard string
  | ShowModal string
  | HideModal string
  | ReloadPage

fun spark_targets :: "effect list \<Rightarrow> string list" where
  "spark_targets [] = []"
| "spark_targets (Sparkline sel vs ps opt # es) = sel # spark_targets es"
| "spark_targets (_ # es) = spark_targets es"

end
