(* ===== verification/Polling.thy ===== *)
theory Polling
  imports Prelude
begin

text \<open>
  The refresh loop every page of the UI runs: \<open>refreshLoop\<close> clears the timer and sends a request;
  the callbacks of the response update the component and call \<open>resetTimer\<close>, which clears the timer
  and, unless the query has ended, sets a new one that calls \<open>refreshLoop\<close> again. The browser is a
  step relation over the page: a pending timer fires, a response arrives, or the user does something.
  The interface \<open>poller\<close> says what a component's callbacks have to do for the loop to be right; each component
  interprets it with its own callbacks.
\<close>

section \<open>Timers\<close>

text \<open>An instance variable holding a timer id, with the timers of that variable which have not fired
  or been cleared, and the next id \<open>setTimeout\<close> gives out.\<close>

record timer_slot =
  timerId :: "nat option"
  pending :: "nat set"
  nextId :: nat

definition no_timer :: timer_slot where
  "no_timer = \<lparr>timerId = None, pending = {}, nextId = 1\<rparr>"

definition clearTimeout :: "timer_slot \<Rightarrow> timer_slot" where
  "clearTimeout t = t\<lparr>pending := pending t - set_option (timerId t)\<rparr>"

definition setTimeout :: "timer_slot \<Rightarrow> timer_slot" where
  "setTimeout t = t\<lparr>timerId := Some (nextId t), pending := insert (nextId t) (pending t), nextId := nextId t + 1\<rparr>"

text \<open>A slot in which at most the timer the variable names is pending, so that clearing the variable
  clears every timer.\<close>

definition tracked :: "timer_slot \<Rightarrow> bool" where
  "tracked t \<longleftrightarrow> pending t \<subseteq> set_option (timerId t)"

lemma tracked_no_timer [loop_simps]: "tracked no_timer"
  by (simp add: tracked_def no_timer_def)

lemma clearTimeout_pending [loop_simps]: "tracked t \<Longrightarrow> pending (clearTimeout t) = {}"
  by (simp add: tracked_def clearTimeout_def)

lemma tracked_clear [loop_simps]: "tracked t \<Longrightarrow> tracked (clearTimeout t)"
  by (auto simp: tracked_def clearTimeout_def)

lemma setTimeout_pending [loop_simps]:
  "pending t = {} \<Longrightarrow> pending (setTimeout t) = {nextId t}" "pending t = {} \<Longrightarrow> tracked (setTimeout t)"
  by (simp_all add: tracked_def setTimeout_def)

lemma tracked_fire [loop_simps]: "tracked t \<Longrightarrow> tracked (t\<lparr>pending := pending t - {i}\<rparr>)"
  by (auto simp: tracked_def)

lemma tracked_card [loop_simps]: "tracked t \<Longrightarrow> finite (pending t) \<and> card (pending t) \<le> 1"
  by (cases "timerId t") (auto simp: tracked_def dest: card_mono [rotated] finite_subset)

section \<open>Pages\<close>

record 's page =
  this_state :: 's
  slot :: timer_slot
  inflight :: nat

definition mounted :: "'s \<Rightarrow> 's page" where
  "mounted s = \<lparr>this_state = s, slot = no_timer, inflight = 0\<rparr>"

definition setState :: "('s \<Rightarrow> 's) \<Rightarrow> 's page \<Rightarrow> 's page" where
  "setState f w = w\<lparr>this_state := f (this_state w)\<rparr>"

definition clear_timer :: "'s page \<Rightarrow> 's page" where
  "clear_timer w = w\<lparr>slot := clearTimeout (slot w)\<rparr>"

definition start_timer :: "'s page \<Rightarrow> 's page" where
  "start_timer w = w\<lparr>slot := setTimeout (slot w)\<rparr>"

definition send_request :: "'s page \<Rightarrow> 's page" where
  "send_request w = w\<lparr>inflight := inflight w + 1\<rparr>"

text \<open>The \<open>resetTimer\<close> of the components, with the condition under which they go on.\<close>

definition reset_timer :: "('s \<Rightarrow> bool) \<Rightarrow> 's page \<Rightarrow> 's page" where
  "reset_timer continues w =
     (let w' = clear_timer w in if continues (this_state w') then start_timer w' else w')"

lemma reset_timer_simps [loop_simps]:
  "this_state (reset_timer continues w) = this_state w"
  "slot (reset_timer continues w)
     = (if continues (this_state w) then setTimeout (clearTimeout (slot w)) else clearTimeout (slot w))"
  "inflight (reset_timer continues w) = inflight w"
  by (simp_all add: reset_timer_def clear_timer_def start_timer_def Let_def)

lemma setState_simps [loop_simps]:
  "this_state (setState f w) = f (this_state w)" "slot (setState f w) = slot w"
  "inflight (setState f w) = inflight w"
  by (simp_all add: setState_def)

lemma send_request_simps [loop_simps]:
  "this_state (send_request w) = this_state w" "slot (send_request w) = slot w"
  "inflight (send_request w) = inflight w + 1"
  by (simp_all add: send_request_def)

lemma clear_timer_simps [loop_simps]:
  "this_state (clear_timer w) = this_state w" "slot (clear_timer w) = clearTimeout (slot w)"
  "inflight (clear_timer w) = inflight w"
  by (simp_all add: clear_timer_def)

lemma mounted_simps [loop_simps]:
  "this_state (mounted s) = s" "slot (mounted s) = no_timer" "inflight (mounted s) = 0"
  by (simp_all add: mounted_def)

text \<open>A callback that throws leaves the page as it was: the exception reaches the event loop.\<close>

definition run :: "('s page \<Rightarrow> 's page throws) \<Rightarrow> 's page \<Rightarrow> 's page" where
  "run h w = (case h w of Some w' \<Rightarrow> w' | None \<Rightarrow> w)"

text \<open>One step of the browser: \<open>loop\<close> is the timer's callback, \<open>responses\<close> the callbacks of a request, for
  every response the server may give, and \<open>events\<close> the handlers of everything else.\<close>

inductive browser_step ::
  "('s page \<Rightarrow> 's page) \<Rightarrow> ('s page \<Rightarrow> 's page throws) set \<Rightarrow> ('s page \<Rightarrow> 's page throws) set
   \<Rightarrow> 's page \<Rightarrow> 's page \<Rightarrow> bool"
  for loop responses events where
  fire: "i \<in> pending (slot w) \<Longrightarrow>
    browser_step loop responses events w (loop (w\<lparr>slot := (slot w)\<lparr>pending := pending (slot w) - {i}\<rparr>\<rparr>))"
| respond: "inflight w > 0 \<Longrightarrow> r \<in> responses \<Longrightarrow>
    browser_step loop responses events w (run r (w\<lparr>inflight := inflight w - 1\<rparr>))"
| user: "e \<in> events \<Longrightarrow> browser_step loop responses events w (run e w)"

inductive_cases browser_stepE: "browser_step loop responses events w w'"

text \<open>The pages reached from a component that has just been mounted.\<close>

inductive reachable ::
  "('s page \<Rightarrow> 's page) \<Rightarrow> ('s page \<Rightarrow> 's page throws) set \<Rightarrow> ('s page \<Rightarrow> 's page throws) set
   \<Rightarrow> 's \<Rightarrow> 's page \<Rightarrow> bool"
  for loop responses events s where
  mount: "reachable loop responses events s (loop (mounted s))"
| step: "reachable loop responses events s w \<Longrightarrow> browser_step loop responses events w w'
    \<Longrightarrow> reachable loop responses events s w'"

text \<open>An invariant of the component's state: every callback keeps it.\<close>

lemma reachable_invariant:
  assumes "reachable loop responses events s w" and "P s"
    and loop: "\<And>w. P (this_state w) \<Longrightarrow> P (this_state (loop w))"
    and responses: "\<And>r w w'. r \<in> responses \<Longrightarrow> P (this_state w) \<Longrightarrow> r w = Some w' \<Longrightarrow> P (this_state w')"
    and events: "\<And>e w w'. e \<in> events \<Longrightarrow> P (this_state w) \<Longrightarrow> e w = Some w' \<Longrightarrow> P (this_state w')"
  shows "P (this_state w)"
  using assms(1)
proof (induction rule: reachable.induct)
  case mount
  show ?case using \<open>P s\<close> by (intro loop) (simp add: loop_simps)
next
  case (step w w')
  from step.hyps(2) show ?case
  proof (cases rule: browser_step.cases)
    case (fire i)
    with step.IH show ?thesis using loop by simp
  next
    case (respond r)
    with step.IH show ?thesis
      using responses [of r "w\<lparr>inflight := inflight w - 1\<rparr>"] by (auto simp: run_def split: option.splits)
  next
    case (user e)
    with step.IH show ?thesis using events [of e w] by (auto simp: run_def split: option.splits)
  qed
qed

lemma reachable_first_response:
  assumes "r \<in> responses" and "inflight (loop (mounted s)) = 1"
  shows "reachable loop responses events s (run r ((loop (mounted s))\<lparr>inflight := 0\<rparr>))"
proof -
  have "browser_step loop responses events (loop (mounted s)) (run r ((loop (mounted s))\<lparr>inflight := 0\<rparr>))"
    using browser_step.respond [of "loop (mounted s)" r responses loop events] assms by simp
  then show ?thesis by (rule reachable.step [OF reachable.mount])
qed

text \<open>How many refreshes are under way: pending timers and requests without a response.\<close>

definition activity :: "'s page \<Rightarrow> nat" where
  "activity w = card (pending (slot w)) + inflight w"

definition one_loop :: "('s \<Rightarrow> bool) \<Rightarrow> 's page \<Rightarrow> bool" where
  "one_loop continues w \<longleftrightarrow> tracked (slot w) \<and> activity w = (if continues (this_state w) then 1 else 0)"

section \<open>The interface\<close>

text \<open>\<open>continues\<close> is the condition of \<open>resetTimer\<close>; a good state is one in which no callback throws.\<close>

locale poller =
  fixes loop :: "'s page \<Rightarrow> 's page"
    and responses :: "('s page \<Rightarrow> 's page throws) set"
    and events :: "('s page \<Rightarrow> 's page throws) set"
    and continues :: "'s \<Rightarrow> bool"
    and good :: "'s \<Rightarrow> bool"
  assumes loop_sends: "slot (loop w) = clearTimeout (slot w) \<and> inflight (loop w) = inflight w + 1
      \<and> continues (this_state (loop w)) = continues (this_state w)
      \<and> (good (this_state w) \<longrightarrow> good (this_state (loop w)))"
    and response_resets: "r \<in> responses \<Longrightarrow> good (this_state w) \<Longrightarrow>
      \<exists>w'. r w = Some w' \<and> inflight w' = inflight w \<and> good (this_state w')
        \<and> slot w' = (if continues (this_state w') then setTimeout (clearTimeout (slot w))
                    else clearTimeout (slot w))"
    and event_quiet: "e \<in> events \<Longrightarrow> good (this_state w) \<Longrightarrow>
      \<exists>w'. e w = Some w' \<and> inflight w' = inflight w \<and> slot w' = slot w \<and> good (this_state w')
        \<and> continues (this_state w') = continues (this_state w)"
begin

lemma one_loop_loop:
  assumes "tracked (slot w)" and "inflight w = 0" and "continues (this_state w)" and "good (this_state w)"
  shows "one_loop continues (loop w) \<and> good (this_state (loop w))"
  using loop_sends [of w] assms by (simp add: one_loop_def activity_def loop_simps)

lemma one_loop_response:
  assumes "tracked (slot w)" and "pending (slot w) = {}" and "inflight w = 0"
    and "r \<in> responses" and "good (this_state w)"
  shows "one_loop continues (run r w) \<and> good (this_state (run r w))"
  using response_resets [OF assms(4,5)] assms(1-3)
  by (auto simp: one_loop_def activity_def run_def loop_simps)

lemma one_loop_event:
  assumes "one_loop continues w" and "e \<in> events" and "good (this_state w)"
  shows "one_loop continues (run e w) \<and> good (this_state (run e w))"
  using event_quiet [OF assms(2,3)] assms(1) by (auto simp: one_loop_def activity_def run_def)

lemma one_loop_step:
  assumes inv: "one_loop continues w" and good: "good (this_state w)"
    and step: "browser_step loop responses events w w'"
  shows "one_loop continues w' \<and> good (this_state w')"
  using step
proof (cases rule: browser_step.cases)
  case (fire i)
  let ?w = "w\<lparr>slot := (slot w)\<lparr>pending := pending (slot w) - {i}\<rparr>\<rparr>"
  from inv fire(2) have "card (pending (slot w)) > 0"
    by (auto simp: one_loop_def card_gt_0_iff dest!: tracked_card)
  with inv have "inflight w = 0" "continues (this_state w)"
    by (auto simp: one_loop_def activity_def split: if_splits)
  moreover from inv have "tracked (slot ?w)" by (simp add: one_loop_def loop_simps)
  ultimately show ?thesis using one_loop_loop [of ?w] good fire(1) by simp
next
  case (respond r)
  with inv have "inflight w = 1" "card (pending (slot w)) = 0"
    by (auto simp: one_loop_def activity_def split: if_splits)
  with inv have "pending (slot w) = {}" by (auto simp: one_loop_def dest!: tracked_card)
  moreover from inv have "tracked (slot w)" by (simp add: one_loop_def)
  ultimately show ?thesis
    using one_loop_response [of "w\<lparr>inflight := inflight w - 1\<rparr>" r] good respond \<open>inflight w = 1\<close> by simp
next
  case (user e)
  with inv good show ?thesis using one_loop_event by simp
qed

text \<open>The loop is never doubled and never dies early, and it stops once the component has ended.\<close>

theorem one_loop_reachable:
  assumes "reachable loop responses events s w" and "good s" and "continues s"
  shows "one_loop continues w \<and> good (this_state w)"
  using assms
proof (induction rule: reachable.induct)
  case mount
  then show ?case by (intro one_loop_loop) (simp_all add: mounted_def loop_simps)
next
  case (step w w')
  then show ?case using one_loop_step [OF _ _ step.hyps(2)] by blast
qed

text \<open>In a component that has ended, only the user makes anything happen.\<close>

lemma ended_is_quiet:
  assumes "reachable loop responses events s w" and "good s" and "continues s" and "\<not> continues (this_state w)"
  shows "pending (slot w) = {} \<and> inflight w = 0"
proof -
  have "one_loop continues w" using one_loop_reachable assms by blast
  with assms(4) show ?thesis by (auto simp: one_loop_def activity_def dest!: tracked_card)
qed

end

lemmas page_defs = mounted_def setState_def clear_timer_def start_timer_def send_request_def
  reset_timer_def run_def

end
