(* ===== verification/JsSort.thy ===== *)
theory JsSort
  imports JsNumber
begin

text \<open>
  \<open>Array.prototype.sort\<close> with a comparator: a stable sort in which an element goes behind another
  when the comparator is positive (\<open>NaN\<close> counts as 0). For a comparator that subtracts
  two numeric keys, the result is the one list that is sorted by the key and keeps the order of equal keys.
\<close>

fun js_insert :: "('a \<Rightarrow> 'a \<Rightarrow> jsnum) \<Rightarrow> 'a \<Rightarrow> 'a list \<Rightarrow> 'a list" where
  "js_insert cmp x [] = [x]"
| "js_insert cmp x (y # ys) = (if cmp x y > Fin 0 then y # js_insert cmp x ys else x # y # ys)"

definition js_sort :: "('a \<Rightarrow> 'a \<Rightarrow> jsnum) \<Rightarrow> 'a list \<Rightarrow> 'a list" where
  "js_sort cmp xs = foldr (js_insert cmp) xs []"

lemma mset_js_insert [simp]: "mset (js_insert cmp x ys) = add_mset x (mset ys)"
  by (induction ys) auto

lemma mset_js_sort [simp]: "mset (js_sort cmp xs) = mset xs"
  by (induction xs) (simp_all add: js_sort_def)

lemma set_js_sort [simp]: "set (js_sort cmp xs) = set xs"
  by (metis mset_js_sort set_mset_mset)

lemma length_js_sort [simp]: "length (js_sort cmp xs) = length xs"
  by (metis mset_js_sort size_mset)

lemma distinct_map_js_sort [simp]: "distinct (map f (js_sort cmp xs)) \<longleftrightarrow> distinct (map f xs)"
  using mset_distinct_map [of "js_sort cmp xs" xs f] mset_distinct_map [of xs "js_sort cmp xs" f] by auto

section \<open>Comparators on numeric keys\<close>

lemma js_insert_key:
  assumes "\<And>y. y \<in> set ys \<Longrightarrow> cmp x y > Fin 0 \<longleftrightarrow> key x > key y"
  shows "js_insert cmp x ys = insort_key key x ys"
  using assms by (induction ys) auto

lemma js_sort_key:
  fixes key :: "'a \<Rightarrow> 'k :: linorder"
  assumes "\<And>x y. x \<in> set xs \<Longrightarrow> y \<in> set xs \<Longrightarrow> cmp x y > Fin 0 \<longleftrightarrow> key x > key y"
  shows "js_sort cmp xs = sort_key key xs"
  using assms
proof (induction xs)
  case Nil
  show ?case by (simp add: js_sort_def)
next
  case (Cons x xs)
  then have IH: "js_sort cmp xs = sort_key key xs" by simp
  have "js_sort cmp (x # xs) = js_insert cmp x (js_sort cmp xs)" by (simp add: js_sort_def)
  also have "\<dots> = insort_key key x (js_sort cmp xs)"
    using Cons.prems by (intro js_insert_key) simp
  finally show ?case by (simp add: IH)
qed

text \<open>The difference of two doubles rounds to zero only when they are equal, so its sign is exact.\<close>

lemma double_multiple: "is_double x \<Longrightarrow> \<exists>m :: int. x = of_int m * 2 powi (-1074)"
proof -
  assume "is_double x"
  then have "round_binary64 x = x" by (simp add: is_double_def)
  moreover obtain m k where mk: "round_binary64 x = of_int m * 2 powi k" "-1074 \<le> k"
    by (rule round_binary64_scaled [of x]) blast
  have "(2::rat) powi k = of_int (2 ^ nat (k + 1074)) * 2 powi (-1074)"
    using powi_add2 [of "k + 1074" "-1074"] powi_nat_int [of "k + 1074"] mk(2) by simp
  ultimately have "x = of_int (m * 2 ^ nat (k + 1074)) * 2 powi (-1074)" using mk(1) by simp
  then show ?thesis by blast
qed

lemma number_diff_pos:
  assumes "is_double x" and "is_double y" and "y < x"
  shows "number (x - y) > Fin 0"
proof -
  let ?u = "(2::rat) powi (-1074)"
  obtain m n :: int where mn: "x = of_int m * ?u" "y = of_int n * ?u"
    using double_multiple assms(1,2) by metis
  then have "n < m" using assms(3) by (simp add: mult_less_cancel_right)
  then have "1 * ?u \<le> of_int (m - n) * ?u" by (intro mult_right_mono) simp_all
  then have "?u \<le> x - y" using mn by (simp add: left_diff_distrib)
  then have "number ?u \<le> number (x - y)" by (rule number_mono)
  moreover have "is_double ?u" using is_double_scaled [of 1 "-1074"] by simp
  then have "number ?u = Fin ?u"
  proof (rule number_exact)
    have "?u \<le> 2 powi 0" by (rule powi_mono2) simp
    then show "\<bar>?u\<bar> < 2 ^ 1024" by (intro big_bound) (simp add: abs_le_iff)
  qed
  ultimately show ?thesis
    using powi_pos2 [of "-1074"] by (cases "number (x - y)") (auto simp: less_eq_jsnum_def)
qed

lemma minus_pos_iff:
  assumes "wf_num (Fin x)" and "wf_num (Fin y)"
  shows "Fin x - Fin y > Fin 0 \<longleftrightarrow> y < x"
proof (cases "y < x")
  case True
  with assms number_diff_pos show ?thesis by simp
next
  case False
  then have "number (x - y) \<le> Fin 0" using number_mono [of "x - y" 0] by simp
  with False show ?thesis by (cases "number (x - y)") (auto simp: less_eq_jsnum_def)
qed

lemma js_sort_ascending:
  assumes "\<And>x. x \<in> set xs \<Longrightarrow> num x = Fin (key x) \<and> wf_num (num x)"
  shows "js_sort (\<lambda>a b. num a - num b) xs = sort_key key xs"
proof (rule js_sort_key)
  fix x y assume "x \<in> set xs" "y \<in> set xs"
  then have "num x = Fin (key x)" "wf_num (Fin (key x))" "num y = Fin (key y)" "wf_num (Fin (key y))"
    using assms by metis+
  then show "num x - num y > Fin 0 \<longleftrightarrow> key x > key y" by (simp only: minus_pos_iff)
qed

lemma js_sort_descending:
  assumes "\<And>x. x \<in> set xs \<Longrightarrow> num x = Fin (key x) \<and> wf_num (num x)"
  shows "js_sort (\<lambda>a b. - (num a - num b)) xs = sort_key (\<lambda>x. - key x) xs"
proof (rule js_sort_key)
  fix x y assume xy: "x \<in> set xs" "y \<in> set xs"
  then have k: "num x = Fin (key x)" "wf_num (Fin (key x))" "num y = Fin (key y)" "wf_num (Fin (key y))"
    using assms by metis+
  have "- (num x - num y) = num y - num x"
    using k number_minus [of "key x - key y"] by simp
  then show "- (num x - num y) > Fin 0 \<longleftrightarrow> - key x > - key y"
    using k by (simp only: minus_pos_iff neg_less_iff_less)
qed

section \<open>Consistent comparators\<close>

text \<open>A comparator that is a total preorder on the elements sorts by it.\<close>

lemma js_insert_sorted:
  assumes total: "\<And>x y. x \<in> A \<Longrightarrow> y \<in> A \<Longrightarrow> cmp x y > Fin 0 \<Longrightarrow> \<not> cmp y x > Fin 0"
    and trans: "\<And>x y z. x \<in> A \<Longrightarrow> y \<in> A \<Longrightarrow> z \<in> A \<Longrightarrow>
      \<not> cmp x y > Fin 0 \<Longrightarrow> \<not> cmp y z > Fin 0 \<Longrightarrow> \<not> cmp x z > Fin 0"
    and "x \<in> A" and "set ys \<subseteq> A" and "sorted_wrt (\<lambda>x y. \<not> cmp x y > Fin 0) ys"
  shows "sorted_wrt (\<lambda>x y. \<not> cmp x y > Fin 0) (js_insert cmp x ys)"
  using assms(3-)
proof (induction ys)
  case (Cons y ys)
  have s: "set (js_insert cmp x ys) = insert x (set ys)"
    by (metis mset_js_insert set_mset_add_mset_insert set_mset_mset)
  show ?case
  proof (cases "cmp x y > Fin 0")
    case True
    then have "\<not> cmp y x > Fin 0" using Cons.prems by (intro total) auto
    with True Cons show ?thesis by (simp add: s)
  next
    case False
    have "\<not> cmp x z > Fin 0" if "z \<in> set ys" for z
      by (rule trans [of x y z]) (use Cons.prems False that in auto)
    with False Cons.prems show ?thesis by simp
  qed
qed simp

lemma js_sort_sorted:
  assumes "\<And>x y. x \<in> set xs \<Longrightarrow> y \<in> set xs \<Longrightarrow> cmp x y > Fin 0 \<Longrightarrow> \<not> cmp y x > Fin 0"
    and "\<And>x y z. x \<in> set xs \<Longrightarrow> y \<in> set xs \<Longrightarrow> z \<in> set xs \<Longrightarrow>
      \<not> cmp x y > Fin 0 \<Longrightarrow> \<not> cmp y z > Fin 0 \<Longrightarrow> \<not> cmp x z > Fin 0"
  shows "sorted_wrt (\<lambda>x y. \<not> cmp x y > Fin 0) (js_sort cmp xs)"
proof -
  have "sorted_wrt (\<lambda>x y. \<not> cmp x y > Fin 0) (js_sort cmp ys)" if "set ys \<subseteq> set xs" for ys
    using that
  proof (induction ys)
    case (Cons y ys)
    have "sorted_wrt (\<lambda>x y. \<not> cmp x y > Fin 0) (js_insert cmp y (js_sort cmp ys))"
      by (rule js_insert_sorted [of "set xs", OF assms]) (use Cons in simp_all)
    then show ?case by (simp add: js_sort_def)
  qed (simp add: js_sort_def)
  then show ?thesis by simp
qed

end
