(* ===== verification/WorkerList.thy ===== *)
theory WorkerList
  imports VDom Polling JsSort
begin

text \<open>
  \<open>components/WorkerList.jsx\<close>: the list of nodes, which polls \<open>/ui/api/worker\<close> and shows the
  coordinators first. \<open>localeCompare\<close> depends on the locale of the browser and is an argument \<open>lc\<close> of the model.
\<close>

record worker =
  nodeId :: string
  nodeIp :: string
  nodeVersion :: string
  coordinator :: bool
  worker_state :: string

record worker_list =
  initialized :: bool
  workers :: "worker list option"

definition WorkerList_init :: worker_list where
  "WorkerList_init = \<lparr>initialized = False, workers = Some []\<rparr>"

definition compareWorkers :: "(string \<Rightarrow> string \<Rightarrow> jsnum) \<Rightarrow> worker \<Rightarrow> worker \<Rightarrow> jsnum" where
  "compareWorkers lc workerA workerB =
     (if coordinator workerA \<and> \<not> coordinator workerB then Fin (-1)
      else if \<not> coordinator workerA \<and> coordinator workerB then Fin 1
      else lc (nodeId workerA) (nodeId workerB))"

definition WorkerList_resetTimer :: "worker_list page \<Rightarrow> worker_list page" where
  "WorkerList_resetTimer w = reset_timer (\<lambda>s. True) w"

definition WorkerList_refreshLoop :: "worker_list page \<Rightarrow> worker_list page" where
  "WorkerList_refreshLoop w = send_request (clear_timer w)"

definition WorkerList_componentDidMount :: "worker_list page" where
  "WorkerList_componentDidMount = WorkerList_refreshLoop (mounted WorkerList_init)"

definition WorkerList_success ::
  "(string \<Rightarrow> string \<Rightarrow> jsnum) \<Rightarrow> worker list option \<Rightarrow> worker_list page \<Rightarrow> worker_list page throws" where
  "WorkerList_success lc ws w =
     Some (WorkerList_resetTimer (setState (\<lambda>s. s\<lparr>initialized := True,
       workers := map_option (js_sort (compareWorkers lc)) ws\<rparr>) w))"

definition WorkerList_fail :: "worker_list page \<Rightarrow> worker_list page throws" where
  "WorkerList_fail w = Some (WorkerList_resetTimer (setState (\<lambda>s. s\<lparr>initialized := True\<rparr>) w))"

section \<open>Rendering\<close>

definition WorkerList_row :: "worker \<Rightarrow> (unit, unit) html" where
  "WorkerList_row worker =
    el ''tr'' []
      [el ''td'' [Cls ''info-text wrap-text'']
        [el ''a'' [Attr ''href'' (''worker.html?'' @ nodeId worker), Cls ''font-light'',
              Attr ''target'' ''_blank'']
          [lit (nodeId worker)]],
       el ''td'' [Cls ''info-text wrap-text'']
        [el ''a'' [Attr ''href'' (''worker.html?'' @ nodeId worker), Cls ''font-light'',
              Attr ''target'' ''_blank'']
          [lit (nodeIp worker)]],
       el ''td'' [Cls ''info-text wrap-text''] [lit (nodeVersion worker)],
       el ''td'' [Cls ''info-text wrap-text'']
        [lit (if coordinator worker then ''true'' else ''false'')],
       el ''td'' [Cls ''info-text wrap-text''] [lit (worker_state worker)]]"

definition WorkerList_render :: "worker_list \<Rightarrow> (unit, unit) html" where
  "WorkerList_render s =
    (case workers s of
       None \<Rightarrow>
         (if \<not> initialized s then
            el ''div'' [Cls ''loader''] [lit ''Loading...'']
          else
            el ''div'' [Cls ''row error-message'']
              [el ''div'' [Cls ''col-xs-12'']
                [el ''h4'' [] [lit ''Worker list information could not be loaded'']]])
     | Some ws \<Rightarrow>
         el ''div'' []
           [el ''div'' [Cls ''row'']
             [el ''div'' [Cls ''col-xs-12'']
               [el ''h3'' [] [lit ''Overview''],
                el ''hr'' [Cls ''h3-hr''] [],
                el ''table'' [Cls ''table'']
                 [el ''tbody'' []
                   [el ''tr'' []
                     [el ''td'' [Cls ''info-title stage-table-stat-text''] [lit ''Node ID''],
                      el ''td'' [Cls ''info-title stage-table-stat-text''] [lit ''Node IP''],
                      el ''td'' [Cls ''info-title stage-table-stat-text''] [lit ''Node Version''],
                      el ''td'' [Cls ''info-title stage-table-stat-text''] [lit ''Coordinator''],
                      el ''td'' [Cls ''info-title stage-table-stat-text''] [lit ''State'']],
                    frag (map WorkerList_row ws)]]]]])"

section \<open>Facts\<close>

definition WorkerList_responses :: "(string \<Rightarrow> string \<Rightarrow> jsnum) \<Rightarrow> (worker_list page \<Rightarrow> worker_list page throws) set" where
  "WorkerList_responses lc = insert WorkerList_fail (range (WorkerList_success lc))"

interpretation wl: poller WorkerList_refreshLoop "WorkerList_responses lc" "{}" "\<lambda>s. True" "\<lambda>s. True"
  by unfold_locales
    (auto simp: WorkerList_refreshLoop_def WorkerList_responses_def WorkerList_success_def
      WorkerList_fail_def WorkerList_resetTimer_def loop_simps)

text \<open>What the list relies on: \<open>localeCompare\<close> orders strings consistently.\<close>

definition consistent_compare :: "(string \<Rightarrow> string \<Rightarrow> jsnum) \<Rightarrow> bool" where
  "consistent_compare lc \<longleftrightarrow>
     (\<forall>a b. lc a b > Fin 0 \<longrightarrow> lc b a < Fin 0) \<and> (\<forall>a b. lc a b < Fin 0 \<longrightarrow> lc b a > Fin 0)
     \<and> (\<forall>a b c. \<not> lc a b > Fin 0 \<longrightarrow> \<not> lc b c > Fin 0 \<longrightarrow> \<not> lc a c > Fin 0)"

lemma not_both: "x < Fin 0 \<Longrightarrow> \<not> x > Fin 0"
  by (cases x) auto

lemma consistent_total: "consistent_compare lc \<Longrightarrow> lc a b > Fin 0 \<Longrightarrow> \<not> lc b a > Fin 0"
  unfolding consistent_compare_def using not_both by blast

lemma consistent_trans:
  "consistent_compare lc \<Longrightarrow> \<not> lc a b > Fin 0 \<Longrightarrow> \<not> lc b c > Fin 0 \<Longrightarrow> \<not> lc a c > Fin 0"
  unfolding consistent_compare_def by blast

lemma compareWorkers_total:
  assumes "consistent_compare lc" and "compareWorkers lc x y > Fin 0"
  shows "\<not> compareWorkers lc y x > Fin 0"
  using consistent_total [OF assms(1), of "nodeId x" "nodeId y"] assms(2)
  by (cases "coordinator x"; cases "coordinator y") (simp_all add: compareWorkers_def)

lemma compareWorkers_trans:
  assumes "consistent_compare lc" and "\<not> compareWorkers lc x y > Fin 0" and "\<not> compareWorkers lc y z > Fin 0"
  shows "\<not> compareWorkers lc x z > Fin 0"
  using consistent_trans [OF assms(1), of "nodeId x" "nodeId y" "nodeId z"] assms(2,3)
  by (cases "coordinator x"; cases "coordinator y"; cases "coordinator z") (simp_all add: compareWorkers_def)

lemma sorted_workers:
  "consistent_compare lc \<Longrightarrow> sorted_wrt (\<lambda>x y. \<not> compareWorkers lc x y > Fin 0) (js_sort (compareWorkers lc) ws)"
  by (rule js_sort_sorted) (auto dest: compareWorkers_total compareWorkers_trans)

lemma rows_render [dom_simps]: "list_all renders (map WorkerList_row ws)"
  by (induction ws) (simp_all add: WorkerList_row_def dom_simps)

section \<open>Properties\<close>

text \<open>C25. After a response with a list of nodes the page holds the nodes the server reported, each as often as it was reported, with the
  coordinators before the other nodes and each group ordered by node id as \<open>localeCompare\<close> orders strings, provided it does so consistently.\<close>

theorem WorkerList_sorted:
  assumes "consistent_compare lc"
  shows "\<exists>w' ws'. WorkerList_success lc (Some ws) w = Some w' \<and> workers (this_state w') = Some ws'
    \<and> mset ws' = mset ws
    \<and> sorted_wrt (\<lambda>x y. (coordinator y \<longrightarrow> coordinator x)
        \<and> (coordinator x = coordinator y \<longrightarrow> \<not> lc (nodeId x) (nodeId y) > Fin 0)) ws'"
proof -
  have "sorted_wrt (\<lambda>x y. (coordinator y \<longrightarrow> coordinator x)
        \<and> (coordinator x = coordinator y \<longrightarrow> \<not> lc (nodeId x) (nodeId y) > Fin 0)) (js_sort (compareWorkers lc) ws)"
    using sorted_workers [OF assms, of ws]
    by (rule sorted_wrt_mono_rel [rotated]) (auto simp: compareWorkers_def split: if_splits)
  then show ?thesis by (simp add: WorkerList_success_def WorkerList_resetTimer_def loop_simps)
qed

text \<open>An order for the example: by code units.\<close>

fun compare_codes :: "string \<Rightarrow> string \<Rightarrow> jsnum" where
  "compare_codes [] [] = Fin 0"
| "compare_codes [] (_ # _) = Fin (-1)"
| "compare_codes (_ # _) [] = Fin 1"
| "compare_codes (a # as) (b # bs) =
     (if code a < code b then Fin (-1) else if code b < code a then Fin 1 else compare_codes as bs)"

lemma compare_codes_neg: "compare_codes b a < Fin 0 \<longleftrightarrow> compare_codes a b > Fin 0"
  by (induction a b rule: compare_codes.induct) auto

lemma compare_codes_trans:
  "\<not> compare_codes a b > Fin 0 \<Longrightarrow> \<not> compare_codes b c > Fin 0 \<Longrightarrow> \<not> compare_codes a c > Fin 0"
proof (induction a b arbitrary: c rule: compare_codes.induct)
  case (4 x xs y ys)
  show ?case
  proof (cases c)
    case (Cons z zs)
    have "code x < code y \<or> (code x = code y \<and> \<not> compare_codes xs ys > Fin 0)"
      using "4.prems"(1) by (cases "code x < code y"; cases "code y < code x") simp_all
    moreover have "code y < code z \<or> (code y = code z \<and> \<not> compare_codes ys zs > Fin 0)"
      using "4.prems"(2) Cons by (cases "code y < code z"; cases "code z < code y") simp_all
    ultimately show ?thesis using "4.IH" [of zs] Cons by (elim disjE conjE) simp_all
  qed (use 4 in simp)
next
  case (2 y ys)
  show ?case by (cases c) simp_all
qed (simp_all)

lemma compare_codes_consistent: "consistent_compare compare_codes"
  using compare_codes_neg compare_codes_trans unfolding consistent_compare_def by blast

theorem WorkerList_sorted_witness:
  "\<exists>w' ws'. WorkerList_success compare_codes
       (Some [\<lparr>nodeId = ''b'', nodeIp = [], nodeVersion = [], coordinator = False, worker_state = []\<rparr>,
              \<lparr>nodeId = ''c'', nodeIp = [], nodeVersion = [], coordinator = True, worker_state = []\<rparr>])
       (mounted WorkerList_init) = Some w'
     \<and> workers (this_state w') = Some ws' \<and> length ws' = 2"
proof -
  let ?ws = "[\<lparr>nodeId = ''b'', nodeIp = [], nodeVersion = [], coordinator = False, worker_state = []\<rparr>,
              \<lparr>nodeId = ''c'', nodeIp = [], nodeVersion = [], coordinator = True, worker_state = []\<rparr>]"
  obtain w' ws' where "WorkerList_success compare_codes (Some ?ws) (mounted WorkerList_init) = Some w'"
    "workers (this_state w') = Some ws'" "mset ws' = mset ?ws"
    using WorkerList_sorted [OF compare_codes_consistent, of ?ws "mounted WorkerList_init"] by blast
  moreover from this have "length ws' = 2" using mset_eq_length [of ws' ?ws] by simp
  ultimately show ?thesis by blast
qed

text \<open>The list of nodes never stops refreshing, never runs two refreshes at once, and
  renders in every state.\<close>

theorem WorkerList_refreshes:
  assumes "reachable WorkerList_refreshLoop (WorkerList_responses lc) {} WorkerList_init w"
  shows "activity w = 1 \<and> renders (WorkerList_render (this_state w))"
  using wl.one_loop_reachable [OF assms]
  by (auto simp: one_loop_def WorkerList_render_def dom_simps split: option.splits)

theorem WorkerList_refreshes_witness:
  "activity (run WorkerList_fail ((WorkerList_refreshLoop (mounted WorkerList_init))\<lparr>inflight := 0\<rparr>)) = 1"
proof -
  have "reachable WorkerList_refreshLoop (WorkerList_responses compare_codes) {} WorkerList_init
      (run WorkerList_fail ((WorkerList_refreshLoop (mounted WorkerList_init))\<lparr>inflight := 0\<rparr>))"
    by (rule reachable_first_response) (simp_all add: WorkerList_responses_def WorkerList_refreshLoop_def loop_simps)
  then show ?thesis using WorkerList_refreshes by blast
qed

definition sample_worker :: worker where
  "sample_worker = \<lparr>nodeId = ''n1'', nodeIp = ''10.0.0.1'', nodeVersion = ''1'', coordinator = False, worker_state = ''active''\<rparr>"

end
