(* ===== verification/StageTree.thy ===== *)
theory StageTree
  imports Prelude
begin

text \<open>
  The tree of stages of a query (\<open>outputStage\<close> and its \<open>subStages\<close>), with what a page reads of a stage as
  a type parameter, and the traversals the pages make of it.
\<close>

datatype 's stage_tree = Stage (stage_data: 's) (subStages: "'s stage_tree list")

fun preorder :: "'s stage_tree \<Rightarrow> 's list" where
  "preorder (Stage s ts) = s # concat (map preorder ts)"

fun postorder :: "'s stage_tree \<Rightarrow> 's list" where
  "postorder (Stage s ts) = concat (map postorder ts) @ [s]"

lemma mset_postorder: "mset (postorder t) = mset (preorder t)"
proof (induction t)
  case (Stage s ts)
  then have "mset (concat (map postorder ts)) = mset (concat (map preorder ts))"
    by (induction ts) auto
  then show ?case by simp
qed

lemma set_postorder: "set (postorder t) = set (preorder t)"
  by (metis mset_postorder set_mset_mset)

lemma preorder_nonempty [simp]: "preorder t \<noteq> []"
  by (cases t) simp

text \<open>A fold that visits the sub-stages before the stage.\<close>

fun fold_stages :: "('s \<Rightarrow> 'r \<Rightarrow> 'r throws) \<Rightarrow> 's stage_tree \<Rightarrow> 'r \<Rightarrow> 'r throws"
  and fold_all :: "('s \<Rightarrow> 'r \<Rightarrow> 'r throws) \<Rightarrow> 's stage_tree list \<Rightarrow> 'r \<Rightarrow> 'r throws" where
  "fold_stages f (Stage s ts) r = do { r' \<leftarrow> fold_all f ts r; f s r' }"
| "fold_all f [] r = Some r"
| "fold_all f (t # ts) r = do { r' \<leftarrow> fold_stages f t r; fold_all f ts r' }"

fun foldM :: "('s \<Rightarrow> 'r \<Rightarrow> 'r throws) \<Rightarrow> 's list \<Rightarrow> 'r \<Rightarrow> 'r throws" where
  "foldM f [] r = Some r"
| "foldM f (x # xs) r = do { r' \<leftarrow> f x r; foldM f xs r' }"

lemma foldM_append: "foldM f (xs @ ys) r = do { r' \<leftarrow> foldM f xs r; foldM f ys r' }"
  by (induction xs arbitrary: r) (auto split: bind_splits)

lemma fold_stages_postorder:
  "fold_stages f t r = foldM f (postorder t) r"
  "fold_all f ts r = foldM f (concat (map postorder ts)) r"
  by (induction f t r and f ts r rule: fold_stages_fold_all.induct) (auto simp: foldM_append split: bind_splits)

lemma foldM_total:
  assumes "\<And>x r. x \<in> set xs \<Longrightarrow> f x r = Some (g x r)"
  shows "foldM f xs r = Some (fold g xs r)"
  using assms by (induction xs arbitrary: r) auto

lemma foldM_throws:
  assumes "x \<in> set xs" and "\<And>r. f x r = throw"
  shows "foldM f xs r = throw"
  using assms by (induction xs arbitrary: r) (auto split: bind_splits)

end
