(* ===== verification/Timeline.thy ===== *)
theory Timeline
  imports JsNumber StageTree
begin

text \<open>
  The script of \<open>timeline.html\<close>, which draws the splits of a query: the tasks of all stages, each with four bars, one after the other, in the row of its
  stage. The data sets and the chart are those of the library \<open>vis\<close>: here they are the items the script adds, in the order it adds them. \<open>DataSet.add\<close> throws on
  an id it already has, so the groups have to have different ids. The script compares a string with a number, which converts the string.
\<close>

section \<open>Numbers written as strings\<close>

text \<open>\<open>s.substr(from, len)\<close>, for a item_start that is not negative.\<close>

definition substr :: "string \<Rightarrow> nat \<Rightarrow> int \<Rightarrow> string" where
  "substr s from len = take (nat len) (drop from s)"

text \<open>\<open>Number(s)\<close>: a decimal literal with an optional exponent, the infinities, or an integer in base 16, 8 or 2; a blank string is zero.\<close>

definition digits_in :: "nat \<Rightarrow> string \<Rightarrow> nat option" where
  "digits_in b s =
     (if s \<noteq> [] \<and> list_all (\<lambda>c. case hex_value c of Some d \<Rightarrow> d < b | None \<Rightarrow> False) s
      then Some (foldl (\<lambda>a c. b * a + the (hex_value c)) 0 s) else None)"

fun exponent_part :: "string \<Rightarrow> int option" where
  "exponent_part [] = Some 0"
| "exponent_part (e # s) =
     (let neg = (s \<noteq> [] \<and> hd s = CHR ''-'');
          ds = (if s \<noteq> [] \<and> (hd s = CHR ''-'' \<or> hd s = CHR ''+'') then tl s else s)
      in if (e = CHR ''e'' \<or> e = CHR ''E'') \<and> ds \<noteq> [] \<and> list_all is_digit ds
         then Some (if neg then - int (dec_value ds) else int (dec_value ds)) else None)"

definition decimal_literal :: "string \<Rightarrow> jsnum" where
  "decimal_literal s =
     (let ip = takeWhile is_digit s;
          rest = dropWhile is_digit s;
          point = (rest \<noteq> [] \<and> hd rest = CHR ''.'');
          fp = (if point then takeWhile is_digit (tl rest) else []);
          rest' = (if point then dropWhile is_digit (tl rest) else rest)
      in if ip = [] \<and> fp = [] then NaN
         else (case exponent_part rest' of
                 Some e \<Rightarrow> number ((of_nat (dec_value ip) + of_nat (dec_value fp) / 10 ^ length fp) * 10 powi e)
               | None \<Rightarrow> NaN))"

definition stringToNumber :: "string \<Rightarrow> jsnum" where
  "stringToNumber s =
     (let t = trim s; based = (\<lambda>b. case digits_in b (drop 2 t) of Some n \<Rightarrow> number (of_nat n) | None \<Rightarrow> NaN);
          u = (if t \<noteq> [] \<and> (hd t = CHR ''-'' \<or> hd t = CHR ''+'') then tl t else t);
          v = (if u = ''Infinity'' then Infinity else decimal_literal u)
      in if t = [] then Fin 0
         else if take 2 t \<in> {''0x'', ''0X''} then based 16
         else if take 2 t \<in> {''0o'', ''0O''} then based 8
         else if take 2 t \<in> {''0b'', ''0B''} then based 2
         else if hd t = CHR ''-'' then - v else v)"

section \<open>The script\<close>

text \<open>What has not happened yet has no time.\<close>

record timeline_stats =
  ts_createTime :: "string option"
  ts_firstStartTime :: "string option"
  ts_lastStartTime :: "string option"
  ts_lastEndTime :: "string option"
  ts_endTime :: "string option"

record timeline_task =
  taskStatus_taskId :: string
  task_stats :: timeline_stats

record timeline_query =
  tl_queryId :: string
  tl_outputStage :: "timeline_task list stage_tree option"

text \<open>\<open>[].concat.apply(stage.tasks, arrays)\<close> puts the tasks of the stage before those of the arrays.\<close>

fun getTasks :: "timeline_task list stage_tree \<Rightarrow> timeline_task list" where
  "getTasks (Stage ts subs) = ts @ concat (map getTasks subs)"

record task_times =
  tt_taskId :: string
  tt_time :: timeline_stats

definition shorten :: "timeline_task \<Rightarrow> task_times" where
  "shorten task =
     (let i = taskStatus_taskId task
      in \<lparr>tt_taskId = substring_from i (indexOf i ''.'' + 1), tt_time = task_stats task\<rparr>)"

record timeline_group =
  group_id :: string
  content :: string
  group_sort :: string
  subgroupOrder :: string

record timeline_item =
  item_group :: string
  item_start :: "string option"
  item_end :: "string option"
  item_class :: string
  subgroup :: string
  item_sort :: jsnum

definition task_stageId :: "task_times \<Rightarrow> string" where
  "task_stageId task = substr (tt_taskId task) 0 (indexOf (tt_taskId task) ''.'')"

definition taskNumber :: "task_times \<Rightarrow> string" where
  "taskNumber task = drop (nat (indexOf (tt_taskId task) ''.'' + 1)) (tt_taskId task)"

text \<open>The body of the loop: the groups and the items it adds for a task.\<close>

definition task_group :: "task_times \<Rightarrow> timeline_group list" where
  "task_group task =
     (if strict_eq (stringToNumber (taskNumber task)) (Fin 0)
      then [\<lparr>group_id = task_stageId task, content = task_stageId task, group_sort = task_stageId task, subgroupOrder = ''sort''\<rparr>]
      else [])"

definition bar :: "task_times \<Rightarrow> string option \<Rightarrow> string option \<Rightarrow> string \<Rightarrow> timeline_item" where
  "bar task from till colour =
     \<lparr>item_group = task_stageId task, item_start = from, item_end = till, item_class = colour, subgroup = taskNumber task,
      item_sort = - stringToNumber (taskNumber task)\<rparr>"

definition task_items :: "task_times \<Rightarrow> timeline_item list" where
  "task_items task =
     [bar task (ts_createTime (tt_time task)) (ts_firstStartTime (tt_time task)) ''red'',
      bar task (ts_firstStartTime (tt_time task)) (ts_lastStartTime (tt_time task)) ''green'',
      bar task (ts_lastStartTime (tt_time task)) (ts_lastEndTime (tt_time task)) ''blue'',
      bar task (ts_lastEndTime (tt_time task)) (ts_endTime (tt_time task)) ''orange'']"

fun timeline_loop :: "task_times list \<Rightarrow> timeline_group list \<Rightarrow> timeline_item list \<Rightarrow> timeline_group list \<times> timeline_item list" where
  "timeline_loop [] groups items = (groups, items)"
| "timeline_loop (task # rest) groups items = timeline_loop rest (groups @ task_group task) (items @ task_items task)"

text \<open>Without stages the script reads the tasks of \<open>null\<close>.\<close>

definition renderTimeline :: "timeline_query \<Rightarrow> (timeline_group list \<times> timeline_item list) throws" where
  "renderTimeline query =
     (case tl_outputStage query of
        None \<Rightarrow> throw
      | Some stage \<Rightarrow> Some (timeline_loop (map shorten (getTasks stage)) [] []))"

definition timeline_url :: "string \<Rightarrow> string" where
  "timeline_url search = ''/ui/api/query/'' @ substring_from search 1"

text \<open>The callback of the request: the title and what is drawn.\<close>

definition timeline_loaded :: "timeline_query option \<Rightarrow> (string \<times> timeline_group list \<times> timeline_item list) throws" where
  "timeline_loaded response = do { query \<leftarrow> response; drawn \<leftarrow> renderTimeline query; Some (tl_queryId query, drawn) }"

section \<open>Facts\<close>

lemma timeline_loop_eq:
  "timeline_loop ts groups items = (groups @ concat (map task_group ts), items @ concat (map task_items ts))"
  by (induction ts arbitrary: groups items) simp_all

lemma getTasks_preorder: "getTasks t = concat (preorder t)"
proof (induction t)
  case (Stage ts subs)
  then have "concat (map getTasks subs) = concat (concat (map preorder subs))" by (induction subs) auto
  then show ?case by simp
qed

text \<open>The ids of the tasks: the query, the stage, the partition and the attempt.\<close>

definition task_id :: "string \<Rightarrow> nat \<Rightarrow> nat \<Rightarrow> nat \<Rightarrow> string" where
  "task_id q s p a = q @ ''.'' @ show_nat s @ ''.'' @ show_nat p @ ''.'' @ show_nat a"

lemma cut_first_dot:
  assumes "CHR ''.'' \<notin> set x"
  shows "indexOf (x @ CHR ''.'' # y) ''.'' = int (length x)"
proof -
  have "find_sub ''.'' (x @ CHR ''.'' # y) = Some (length x)" using assms by (induction x) auto
  then show ?thesis by (simp add: indexOf_def)
qed

lemma shorten_parts:
  assumes "CHR ''.'' \<notin> set q" and "taskStatus_taskId t = task_id q s p a"
  shows "task_stageId (shorten t) = show_nat s" "taskNumber (shorten t) = show_nat p @ ''.'' @ show_nat a"
proof -
  have dot: "CHR ''.'' \<notin> set (show_nat n)" for n by (rule show_nat_no_char) (simp add: is_digit_def code_def)
  have rest: "substring_from (q @ CHR ''.'' # r) (int (length q) + 1) = r" for r
    using substring_from_nat [of "q @ CHR ''.'' # r" "length q + 1"] by (simp add: add.commute)
  have i: "taskStatus_taskId t = q @ CHR ''.'' # (show_nat s @ CHR ''.'' # show_nat p @ ''.'' @ show_nat a)"
    using assms(2) by (simp add: task_id_def)
  have short: "tt_taskId (shorten t) = show_nat s @ CHR ''.'' # show_nat p @ ''.'' @ show_nat a"
    unfolding shorten_def Let_def i cut_first_dot [OF assms(1)] rest by simp
  show "task_stageId (shorten t) = show_nat s" unfolding task_stageId_def short cut_first_dot [OF dot] by (simp add: substr_def)
  show "taskNumber (shorten t) = show_nat p @ ''.'' @ show_nat a" unfolding taskNumber_def short cut_first_dot [OF dot] by (simp add: nat_add_distrib)
qed

lemma trim_digits:
  assumes "is_digit c" and "is_digit d"
  shows "trim (c # s @ [d]) = c # s @ [d]"
  using assms digit_not_space by (simp add: trim_def trimStart_def trimEnd_def)

lemma decimal_literal_parts:
  assumes "list_all is_digit x" "x \<noteq> []" "list_all is_digit y"
  shows "decimal_literal (x @ CHR ''.'' # y) = number (of_nat (dec_value x) + of_nat (dec_value y) / 10 ^ length y)"
proof -
  have "\<not> is_digit CHR ''.''" by (simp add: is_digit_def code_def)
  then have parts: "takeWhile is_digit (x @ CHR ''.'' # y) = x" "dropWhile is_digit (x @ CHR ''.'' # y) = CHR ''.'' # y"
      "takeWhile is_digit y = y" "dropWhile is_digit y = []"
    using assms by (auto simp: list_all_iff takeWhile_append2 dropWhile_append2 takeWhile_eq_all_conv dropWhile_eq_Nil_conv)
  show ?thesis using assms(2) unfolding decimal_literal_def Let_def parts by (simp add: parts(3,4) del: takeWhile_eq_all_conv dropWhile_eq_Nil_conv)
qed

lemma stringToNumber_decimal:
  "stringToNumber (show_nat p @ ''.'' @ show_nat a) = number (of_nat p + of_nat a / 10 ^ length (show_nat a))"
proof -
  let ?t = "show_nat p @ CHR ''.'' # show_nat a"
  obtain c x where x: "show_nat p = c # x" "is_digit c" using show_nat_digits [of p] show_nat_nonempty [of p] by (cases "show_nat p") auto
  obtain y d where y: "show_nat a = y @ [d]" "is_digit d" using show_nat_digits [of a] show_nat_nonempty [of a] by (cases "show_nat a" rule: rev_cases) auto
  have t: "trim ?t = ?t" using trim_digits [OF x(2) y(2), of "x @ CHR ''.'' # y"] x(1) y(1) by simp
  have "hd x = CHR ''.'' \<or> is_digit (hd x)" if "x \<noteq> []" using that show_nat_digits [of p] x(1) by (cases x) auto
  then have second: "take 2 ?t = [c, CHR ''.''] \<or> (\<exists>e. is_digit e \<and> take 2 ?t = [c, e])"
    using show_nat_digits [of p] by (cases x) (auto simp: x(1) numeral_2_eq_2)
  have based: "take 2 ?t \<notin> {''0x'', ''0X''}" "take 2 ?t \<notin> {''0o'', ''0O''}" "take 2 ?t \<notin> {''0b'', ''0B''}"
    using second by (auto simp: is_digit_def code_def)
  have sign: "hd ?t \<noteq> CHR ''-''" "hd ?t \<noteq> CHR ''+''" "?t \<noteq> []" "?t \<noteq> ''Infinity''"
    using x by (auto simp: is_digit_def code_def)
  have "stringToNumber ?t = decimal_literal ?t"
    unfolding stringToNumber_def t Let_def using based sign by simp
  also have "\<dots> = number (of_nat p + of_nat a / 10 ^ length (show_nat a))"
    using decimal_literal_parts [OF show_nat_digits show_nat_nonempty show_nat_digits, of p a] by simp
  finally show ?thesis by simp
qed

lemma show_nat_length: "0 < n \<Longrightarrow> 10 ^ length (show_nat n) \<le> 10 * n"
proof (induction n rule: show_nat.induct)
  case (1 n)
  show ?case
  proof (cases "n < 10")
    case False
    then have "10 ^ length (show_nat (n div 10)) \<le> 10 * (n div 10)" using 1 by simp
    also have "\<dots> \<le> n" by simp
    finally show ?thesis using False by (subst show_nat.simps) simp
  qed (use 1 in \<open>subst show_nat.simps, simp\<close>)
qed

lemma first_task:
  "strict_eq (stringToNumber (show_nat p @ ''.'' @ show_nat a)) (Fin 0) \<longleftrightarrow> p = 0 \<and> a = 0"
proof -
  let ?x = "of_nat p + of_nat a / 10 ^ length (show_nat a) :: rat"
  have "\<not> number ?x \<le> Fin 0" if "p \<noteq> 0 \<or> a \<noteq> 0"
  proof -
    have "1 / 10 \<le> ?x"
    proof (cases "a = 0")
      case False
      then have "(10 ^ length (show_nat a) :: rat) \<le> 10 * of_nat a"
        using show_nat_length [of a] by (metis neq0_conv of_nat_le_iff of_nat_mult of_nat_numeral of_nat_power)
      then have "1 / 10 \<le> (of_nat a / 10 ^ length (show_nat a) :: rat)" by (simp add: field_simps)
      then show ?thesis by (simp add: add_increasing)
    next
      case True
      with that have "1 \<le> (of_nat p :: rat)" by (simp add: Suc_leI)
      with True show ?thesis by simp
    qed
    then have "number (1 / 10) \<le> number ?x" by (rule number_mono)
    moreover have "Fin 0 < number (1 / 10)" by code_simp
    ultimately show ?thesis using jsnum_not_less [of "Fin 0" "number ?x"] by (cases "number (1 / 10)"; cases "number ?x") (auto simp: less_eq_jsnum_def)
  qed
  then have "p = 0 \<and> a = 0" if "number ?x = Fin 0" using that by (metis jsnum_le_Fin order_refl)
  then show ?thesis unfolding stringToNumber_decimal by (auto simp: strict_eq_def)
qed

text \<open>Read as decimal numbers, the attempts 1 and 10 of a partition are the same.\<close>

lemma attempts_tie: "stringToNumber ''3.1'' = stringToNumber ''3.10''"
  by code_simp

section \<open>Properties\<close>

text \<open>The tasks of a query, with the parts of their ids.\<close>

definition tasks_of :: "string \<Rightarrow> (nat \<times> nat \<times> nat) list \<Rightarrow> timeline_task list \<Rightarrow> bool" where
  "tasks_of q parts ts \<longleftrightarrow> map taskStatus_taskId ts = map (\<lambda>(s, p, a). task_id q s p a) parts"

lemma tasks_of_Cons: "tasks_of q parts (t # ts) \<longleftrightarrow> (\<exists>s p a rest. parts = (s, p, a) # rest \<and> taskStatus_taskId t = task_id q s p a \<and> tasks_of q rest ts)"
  by (cases parts) (auto simp: tasks_of_def)

lemma groups_drawn:
  assumes "CHR ''.'' \<notin> set q"
  shows "tasks_of q parts ts \<Longrightarrow> map group_id (concat (map task_group (map shorten ts))) = map (\<lambda>(s, p, a). show_nat s) (filter (\<lambda>(s, p, a). p = 0 \<and> a = 0) parts)"
proof (induction ts arbitrary: parts)
  case (Cons t ts)
  then obtain s p a rest where t: "parts = (s, p, a) # rest" "taskStatus_taskId t = task_id q s p a" "tasks_of q rest ts" by (auto simp: tasks_of_Cons)
  then show ?case using Cons.IH [OF t(3)] by (simp add: task_group_def shorten_parts [OF assms t(2)] first_task [simplified])
qed (simp add: tasks_of_def)

lemma items_drawn:
  assumes "CHR ''.'' \<notin> set q"
  shows "tasks_of q parts ts \<Longrightarrow> map item_group (concat (map task_items (map shorten ts))) = concat (map (\<lambda>(s, p, a). replicate 4 (show_nat s)) parts)"
proof (induction ts arbitrary: parts)
  case (Cons t ts)
  then obtain s p a rest where t: "parts = (s, p, a) # rest" "taskStatus_taskId t = task_id q s p a" "tasks_of q rest ts" by (auto simp: tasks_of_Cons)
  then show ?case using Cons.IH [OF t(3)] by (simp add: task_items_def bar_def shorten_parts [OF assms t(2)] eval_nat_numeral)
qed (simp add: tasks_of_def)

lemma bars_chain:
  "Suc i < length (concat (map task_items ts)) \<Longrightarrow> Suc i mod 4 \<noteq> 0 \<Longrightarrow>
     item_start (concat (map task_items ts) ! Suc i) = item_end (concat (map task_items ts) ! i)"
proof (induction ts arbitrary: i)
  case (Cons t ts)
  have four: "length (task_items t) = 4" by (simp add: task_items_def)
  consider "i = 0" | "i = 1" | "i = 2" | "i = 3" | j where "i = j + 4" by atomize_elim presburger
  then show ?case
  proof cases
    case (5 j)
    then have "Suc j mod 4 \<noteq> 0" using Cons.prems(2) by presburger
    with 5 Cons.prems(1) Cons.IH [of j] four show ?thesis by (simp add: nth_append)
  qed (use Cons.prems(2) in \<open>simp_all add: task_items_def bar_def numeral_2_eq_2\<close>)
qed simp

text \<open>C23. The timeline of a query whose tasks are numbered by stage, partition and attempt, none twice: the script draws four bars for every task of every stage, in the
  row of its stage, each bar starting where the one before it ends; it adds a row exactly for the stages that have a first attempt of partition 0, and never the same row twice,
  so that no \<open>add\<close> throws.\<close>

theorem timeline_draws:
  assumes "tl_outputStage query = Some stage" and "CHR ''.'' \<notin> set q" and "tasks_of q parts (concat (preorder stage))" and "distinct parts"
  shows "\<exists>groups items. timeline_loaded (Some query) = Some (tl_queryId query, groups, items)
    \<and> map group_id groups = map (\<lambda>(s, p, a). show_nat s) (filter (\<lambda>(s, p, a). p = 0 \<and> a = 0) parts) \<and> distinct (map group_id groups)
    \<and> map item_group items = concat (map (\<lambda>(s, p, a). replicate 4 (show_nat s)) parts)
    \<and> (\<forall>i. Suc i < length items \<and> Suc i mod 4 \<noteq> 0 \<longrightarrow> item_start (items ! Suc i) = item_end (items ! i))"
proof -
  let ?ts = "map shorten (concat (preorder stage))"
  let ?groups = "concat (map task_group ?ts)" and ?items = "concat (map task_items ?ts)"
  have loaded: "timeline_loaded (Some query) = Some (tl_queryId query, ?groups, ?items)"
    by (simp add: timeline_loaded_def renderTimeline_def assms(1) timeline_loop_eq getTasks_preorder)
  have "inj_on (\<lambda>(s, p, a). show_nat s) (set (filter (\<lambda>(s, p, a). p = 0 \<and> a = 0) parts))"
    by (auto simp: inj_on_def dest: show_nat_inj)
  then have "distinct (map (\<lambda>(s, p, a). show_nat s) (filter (\<lambda>(s, p, a). p = 0 \<and> a = 0) parts))"
    using assms(4) by (simp add: distinct_map)
  then show ?thesis using loaded groups_drawn [OF assms(2,3)] items_drawn [OF assms(2,3)] bars_chain [where ts = ?ts]
    by (intro exI [of _ ?groups] exI [of _ ?items]) (simp del: map_map)
qed

definition sample_timeline_task :: "string \<Rightarrow> timeline_task" where
  "sample_timeline_task i = \<lparr>taskStatus_taskId = i,
     task_stats = \<lparr>ts_createTime = Some ''0'', ts_firstStartTime = Some ''1'', ts_lastStartTime = Some ''2'', ts_lastEndTime = Some ''3'', ts_endTime = None\<rparr>\<rparr>"

definition sample_timeline :: timeline_query where
  "sample_timeline = \<lparr>tl_queryId = ''q1'', tl_outputStage =
     Some (Stage [sample_timeline_task (task_id ''q1'' 0 0 0)] [Stage [sample_timeline_task (task_id ''q1'' 1 3 0)] []])\<rparr>"

theorem timeline_draws_witness:
  "\<exists>groups items. timeline_loaded (Some sample_timeline) = Some (''q1'', groups, items) \<and> map group_id groups = [''0''] \<and> length items = 8"
proof -
  have "show_nat 0 = ''0''" by code_simp
  moreover have "tasks_of ''q1'' [(0, 0, 0), (1, 3, 0)] (concat (preorder
      (Stage [sample_timeline_task (task_id ''q1'' 0 0 0)] [Stage [sample_timeline_task (task_id ''q1'' 1 3 0)] []])))"
    by (simp add: tasks_of_def sample_timeline_task_def)
  ultimately obtain groups items where t: "timeline_loaded (Some sample_timeline) = Some (tl_queryId sample_timeline, groups, items)"
      "map group_id groups = [''0'']" "map item_group items = concat (map (\<lambda>(s, p, a). replicate 4 (show_nat s)) [(0, 0, 0), (1 :: nat, 3 :: nat, 0 :: nat)])"
    using timeline_draws [of sample_timeline _ "''q1''" "[(0, 0, 0), (1, 3, 0)]"] by (auto simp: sample_timeline_def)
  from arg_cong [OF t(3), of length] have "length items = 8" by simp
  with t(1,2) show ?thesis by (intro exI [of _ groups] exI [of _ items]) (simp add: sample_timeline_def)
qed

end
