(* ===== verification/PageTitle.thy ===== *)
theory PageTitle
  imports VDom Polling
begin

text \<open>
  \<open>components/PageTitle.jsx\<close>: the bar at the top of every page, which polls \<open>/ui/api/cluster\<close>, shows the
  version, environment and uptime, and tells the user when the coordinator cannot be reached.
  The calls on the page (the modal, the reload) are logged in \<open>calls\<close>, the latest last.
  The information about the cluster has all its fields, as the coordinator sends it: \<open>version\<close> is \<open>nodeVersion.version\<close>, and an answer
  without \<open>nodeVersion\<close>, on which the source would throw, is not modelled.
\<close>

record cluster_info =
  version :: string
  environment :: string
  uptime :: string

record page_title =
  noConnection :: bool
  lightShown :: bool
  info :: "cluster_info option"
  lastSuccess :: int
  modalShown :: bool
  errorText :: "string option"
  calls :: "effect list"

definition PageTitle_init :: "int \<Rightarrow> page_title" where
  "PageTitle_init now = \<lparr>noConnection = False, lightShown = False, info = None, lastSuccess = now,
     modalShown = False, errorText = None, calls = []\<rparr>"

definition call :: "effect \<Rightarrow> page_title \<Rightarrow> page_title" where
  "call e s = s\<lparr>calls := calls s @ [e]\<rparr>"

section \<open>The refresh loop\<close>

definition PageTitle_resetTimer :: "page_title page \<Rightarrow> page_title page" where
  "PageTitle_resetTimer w = reset_timer (\<lambda>s. True) w"

definition PageTitle_refreshLoop :: "page_title page \<Rightarrow> page_title page" where
  "PageTitle_refreshLoop w = send_request (clear_timer w)"

text \<open>What \<open>fetch\<close> settles to: a response with a status and a body, \<open>Inl\<close> the error \<open>json()\<close> rejects with
  when the body is not JSON, or the error of a request that got no response. An error
  is given by its text; \<open>None\<close> is a rejection with no reason.\<close>

datatype fetch_result =
    Response nat "string option + cluster_info option"
  | NetworkError "string option"

definition PageTitle_success :: "cluster_info option \<Rightarrow> int \<Rightarrow> page_title page \<Rightarrow> page_title page" where
  "PageTitle_success i now w =
     (let w1 = setState (\<lambda>s. s\<lparr>info := i, noConnection := False, lastSuccess := now, modalShown := False\<rparr>) w;
          w2 = setState (call (HideModal ''#no-connection-modal'')) w1
      in PageTitle_resetTimer w2)"

definition PageTitle_catch :: "string option \<Rightarrow> int \<Rightarrow> page_title page \<Rightarrow> page_title page" where
  "PageTitle_catch fail now w =
     (let w1 = setState (\<lambda>s. s\<lparr>noConnection := True, lightShown := \<not> lightShown s, errorText := fail\<rparr>) w;
          w2 = PageTitle_resetTimer w1
      in if \<not> modalShown (this_state w2) \<and> (fail \<noteq> None \<or> now - lastSuccess (this_state w2) > 30 * 1000)
         then setState (\<lambda>s. s\<lparr>modalShown := True\<rparr>) (setState (call (ShowModal ''#no-connection-modal'')) w2)
         else w2)"

definition PageTitle_settled :: "fetch_result \<Rightarrow> int \<Rightarrow> page_title page \<Rightarrow> page_title page throws" where
  "PageTitle_settled res now w = Some
     (case res of
        Response status body \<Rightarrow>
          (let w1 = (if status = 401 then setState (call ReloadPage) w else w)
           in case body of Inr i \<Rightarrow> PageTitle_success i now w1 | Inl fail \<Rightarrow> PageTitle_catch fail now w1)
      | NetworkError fail \<Rightarrow> PageTitle_catch fail now w)"

definition PageTitle_componentDidMount :: "int \<Rightarrow> page_title page" where
  "PageTitle_componentDidMount now = PageTitle_refreshLoop (mounted (PageTitle_init now))"

section \<open>Rendering\<close>

definition PageTitle_renderStatusLight :: "page_title \<Rightarrow> (unit, unit) html" where
  "PageTitle_renderStatusLight s =
     (if noConnection s then
        (if lightShown s then el ''span'' [Cls ''status-light status-light-red'', Id ''status-indicator''] []
         else el ''span'' [Cls ''status-light'', Id ''status-indicator''] [])
      else el ''span'' [Cls ''status-light status-light-green'', Id ''status-indicator''] [])"

definition PageTitle_render :: "string \<Rightarrow> page_title \<Rightarrow> (unit, unit) html" where
  "PageTitle_render title s =
    (case info s of None \<Rightarrow> blank | Some i \<Rightarrow>
     el ''div'' []
       [el ''nav'' [Cls ''navbar'']
         [el ''div'' [Cls ''container-fluid'']
           [el ''div'' [Cls ''navbar-header'']
             [el ''table'' []
               [el ''tbody'' []
                 [el ''tr'' []
                   [el ''td'' []
                     [el ''a'' [Attr ''href'' ''/ui/'']
                       [el ''img'' [Attr ''src'' ''assets/logo.png''] []]],
                    el ''td'' [] [el ''span'' [Cls ''navbar-brand''] [lit title]]]]]],
            el ''div'' [Id ''navbar'', Cls ''navbar-collapse collapse'']
             [el ''ul'' [Cls ''nav navbar-nav navbar-right'']
               [el ''li'' []
                 [el ''span'' [Cls ''navbar-cluster-info'']
                   [el ''span'' [Cls ''uppercase''] [lit ''Version''],
                    el ''br'' [] [],
                    el ''span'' [Cls ''text uppercase'', Id ''version-number''] [lit (version i)]]],
                el ''li'' []
                 [el ''span'' [Cls ''navbar-cluster-info'']
                   [el ''span'' [Cls ''uppercase''] [lit ''Environment''],
                    el ''br'' [] [],
                    el ''span'' [Cls ''text uppercase'', Id ''environment''] [lit (environment i)]]],
                el ''li'' []
                 [el ''span'' [Cls ''navbar-cluster-info'']
                   [el ''span'' [Cls ''uppercase''] [lit ''Uptime''],
                    el ''br'' [] [],
                    el ''span'' [Attr ''data-toggle'' ''tooltip'',
                         Attr ''data-placement'' ''bottom'',
                         Attr ''title'' ''Connection status'']
                     [PageTitle_renderStatusLight s],
                    lit nbsp,
                    el ''span'' [Cls ''text'', Id ''uptime''] [lit (uptime i)]]],
                el ''li'' []
                 [el ''span'' [Cls ''navbar-cluster-info'']
                   [el ''span'' [Cls ''text'', Id ''logout'']
                     [el ''a'' [Cls ''btn btn-logout'', Attr ''href'' ''logout'']
                       [lit ''Log Out'']]]]]]]],
        el ''div'' [Id ''no-connection-modal'', Cls ''modal'', Attr ''tabIndex'' ''-1'',
             Attr ''role'' ''dialog'']
         [el ''div'' [Cls ''modal-dialog modal-sm'', Attr ''role'' ''document'']
           [el ''div'' [Cls ''modal-content'']
             [el ''div'' [Cls ''row error-message'']
               [el ''div'' [Cls ''col-xs-12'']
                 [el ''br'' [] [],
                  el ''h4'' [] [lit ''Unable to connect to server''],
                  el ''p'' []
                   [(case errorText s of Some t \<Rightarrow> lit (''Error: '' @ t) | None \<Rightarrow> blank)]]]]]]])"

section \<open>Facts\<close>

definition PageTitle_responses :: "(page_title page \<Rightarrow> page_title page throws) set" where
  "PageTitle_responses = {PageTitle_settled res now | res now. True}"

lemmas PageTitle_defs = PageTitle_settled_def PageTitle_success_def PageTitle_catch_def
  PageTitle_resetTimer_def PageTitle_refreshLoop_def page_defs call_def Let_def

lemma PageTitle_frame [loop_simps]:
  "slot (PageTitle_success i now w) = setTimeout (clearTimeout (slot w))"
  "inflight (PageTitle_success i now w) = inflight w"
  "slot (PageTitle_catch fail now w) = setTimeout (clearTimeout (slot w))"
  "inflight (PageTitle_catch fail now w) = inflight w"
  by (simp_all add: PageTitle_success_def PageTitle_catch_def PageTitle_resetTimer_def Let_def loop_simps)

interpretation pt: poller PageTitle_refreshLoop PageTitle_responses "{}" "\<lambda>s. True" "\<lambda>s. True"
  by unfold_locales
    (auto simp: PageTitle_refreshLoop_def PageTitle_responses_def PageTitle_settled_def Let_def loop_simps
      split: fetch_result.splits sum.splits)

text \<open>Whether the modal is open after the logged calls.\<close>

fun modal_open :: "effect list \<Rightarrow> bool \<Rightarrow> bool" where
  "modal_open [] b = b"
| "modal_open (ShowModal m # es) b = modal_open es True"
| "modal_open (HideModal m # es) b = modal_open es False"
| "modal_open (_ # es) b = modal_open es b"

lemma modal_open_append: "modal_open (xs @ ys) b = modal_open ys (modal_open xs b)"
  by (induction xs b rule: modal_open.induct) simp_all

definition modal_consistent :: "page_title \<Rightarrow> bool" where
  "modal_consistent s \<longleftrightarrow> modal_open (calls s) False = modalShown s \<and> (modalShown s \<longrightarrow> noConnection s)"

lemma modal_consistent_settled:
  assumes "modal_consistent (this_state w)" and "PageTitle_settled res now w = Some w'"
  shows "modal_consistent (this_state w')"
  using assms
  by (auto simp: modal_consistent_def PageTitle_settled_def PageTitle_success_def PageTitle_catch_def
      PageTitle_resetTimer_def call_def Let_def loop_simps modal_open_append
      split: fetch_result.splits sum.splits if_splits)

lemma modal_consistent_loop: "this_state (PageTitle_refreshLoop w) = this_state w"
  by (simp add: PageTitle_refreshLoop_def loop_simps)

section \<open>Properties\<close>

text \<open>The page title keeps refreshing: whatever the coordinator answers, at every moment exactly
  one refresh is under way, a pending timer or a request, never two and never none.\<close>

theorem PageTitle_refreshes:
  assumes "reachable PageTitle_refreshLoop PageTitle_responses {} (PageTitle_init now) w"
  shows "activity w = 1"
  using pt.one_loop_reachable [OF assms] by (simp add: one_loop_def)

lemma PageTitle_reachable_failure:
  "reachable PageTitle_refreshLoop PageTitle_responses {} (PageTitle_init 0)
     (run (PageTitle_settled (NetworkError (Some ''refused'')) 5)
       ((PageTitle_componentDidMount 0)\<lparr>inflight := 0\<rparr>))"
  unfolding PageTitle_componentDidMount_def
  by (rule reachable_first_response) (auto simp: PageTitle_responses_def PageTitle_refreshLoop_def loop_simps)

theorem PageTitle_refreshes_witness:
  "activity (run (PageTitle_settled (NetworkError (Some ''refused'')) 5)
       ((PageTitle_componentDidMount 0)\<lparr>inflight := 0\<rparr>)) = 1"
  by (rule PageTitle_refreshes [OF PageTitle_reachable_failure])

text \<open>In every reachable page the flag \<open>modalShown\<close> says whether the connection modal is open,
  and the modal is open only while the last request failed.\<close>

theorem PageTitle_modal_flag:
  assumes "reachable PageTitle_refreshLoop PageTitle_responses {} (PageTitle_init now) w"
  shows "modal_open (calls (this_state w)) False = modalShown (this_state w)
    \<and> (modalShown (this_state w) \<longrightarrow> noConnection (this_state w))"
  unfolding modal_consistent_def [symmetric]
  by (rule reachable_invariant [OF assms])
    (auto simp: modal_consistent_loop PageTitle_responses_def intro: modal_consistent_settled,
      simp add: modal_consistent_def PageTitle_init_def)

theorem PageTitle_modal_flag_witness:
  "let s = this_state (run (PageTitle_settled (NetworkError (Some ''refused'')) 5)
             ((PageTitle_componentDidMount 0)\<lparr>inflight := 0\<rparr>))
   in modalShown s \<and> noConnection s \<and> modal_open (calls s) False"
  using PageTitle_modal_flag [OF PageTitle_reachable_failure]
  by (simp add: run_def PageTitle_settled_def PageTitle_catch_def PageTitle_resetTimer_def
      PageTitle_componentDidMount_def PageTitle_refreshLoop_def PageTitle_init_def Let_def loop_simps)

text \<open>The modal opens at the first failure that has a reason, however recent the last success
  was: the 30 seconds in the condition never count.\<close>

theorem PageTitle_modal_at_once:
  assumes "\<not> modalShown (this_state w)"
  shows "\<exists>w'. PageTitle_settled (NetworkError (Some reason)) now w = Some w'
    \<and> modalShown (this_state w')
    \<and> calls (this_state w') = calls (this_state w) @ [ShowModal ''#no-connection-modal'']"
  using assms
  by (simp add: PageTitle_settled_def PageTitle_catch_def PageTitle_resetTimer_def Let_def loop_simps call_def)

theorem PageTitle_modal_at_once_witness:
  "\<exists>w'. PageTitle_settled (NetworkError (Some ''refused'')) 1 (PageTitle_componentDidMount 0) = Some w'
    \<and> modalShown (this_state w')"
  using PageTitle_modal_at_once [of "PageTitle_componentDidMount 0" "''refused''" 1]
  by (auto simp: PageTitle_componentDidMount_def PageTitle_refreshLoop_def PageTitle_init_def loop_simps)

end
