(* ===== verification/Format.thy ===== *)
theory Format
  imports JsNumber
begin

text \<open>
  The utility functions of \<open>utils.js\<close> that turn numbers into text and the server's data
  sizes and durations into numbers. The formatters take a \<open>val\<close>, because they are called on
  what \<open>parseDataSize\<close> and \<open>parseDuration\<close> return (\<open>null\<close> for text they do not understand) and
  on the last entry of a history (\<open>undefined\<close> when it is empty); they throw on \<open>null\<close>.
\<close>

section \<open>Rates and rounded numbers\<close>

definition computeRate :: "val \<Rightarrow> val \<Rightarrow> jsnum" where
  "computeRate cnt ms =
     (if is_num ms 0 then Fin 0 else (toNumber cnt / toNumber ms) * Fin 1000)"

definition precisionRound :: "val \<Rightarrow> string throws" where
  "precisionRound n =
     (if toNumber n < Fin 10 then toFixed n 2
      else if toNumber n < Fin 100 then toFixed n 1
      else Some (numToString (mathRound (toNumber n))))"

text \<open>One step of the unit chains: under a condition, divide and switch to the next unit.\<close>

definition scale_if :: "(jsnum \<Rightarrow> bool) \<Rightarrow> rat \<Rightarrow> string \<Rightarrow> val \<times> string \<Rightarrow> val \<times> string" where
  "scale_if c k unit vu =
     (if c (toNumber (fst vu)) then (Num (toNumber (fst vu) / Fin k), unit) else vu)"

section \<open>Durations and counts\<close>

definition scaleDuration :: "val \<Rightarrow> val \<times> string" where
  "scaleDuration duration =
     (let s0 = (duration, ''ms'');
          s1 = scale_if (\<lambda>d. d > Fin 1000) 1000 ''s'' s0;
          s2 = (if snd s1 = ''s'' then scale_if (\<lambda>d. d > Fin 60) 60 ''m'' s1 else s1);
          s3 = (if snd s2 = ''m'' then scale_if (\<lambda>d. d > Fin 60) 60 ''h'' s2 else s2);
          s4 = (if snd s3 = ''h'' then scale_if (\<lambda>d. d > Fin 24) 24 ''d'' s3 else s3)
      in if snd s4 = ''d'' then scale_if (\<lambda>d. d > Fin 7) 7 ''w'' s4 else s4)"

definition formatDuration :: "val \<Rightarrow> string throws" where
  "formatDuration duration =
     (let (d, unit) = scaleDuration duration
      in do { s \<leftarrow> precisionRound d; Some (s @ unit) })"

definition scaleCount :: "val \<Rightarrow> val \<times> string" where
  "scaleCount cnt =
     (let s0 = (cnt, []);
          s1 = scale_if (\<lambda>c. c > Fin 1000) 1000 ''K'' s0;
          s2 = scale_if (\<lambda>c. c > Fin 1000) 1000 ''M'' s1;
          s3 = scale_if (\<lambda>c. c > Fin 1000) 1000 ''B'' s2;
          s4 = scale_if (\<lambda>c. c > Fin 1000) 1000 ''T'' s3
      in scale_if (\<lambda>c. c > Fin 1000) 1000 ''Q'' s4)"

definition formatCount :: "val \<Rightarrow> string throws" where
  "formatCount cnt =
     (let (c, unit) = scaleCount cnt
      in do { s \<leftarrow> precisionRound c; Some (s @ unit) })"

definition formatRows :: "val \<Rightarrow> string throws" where
  "formatRows cnt =
     (if is_num cnt 1 then Some ''1 row''
      else do { s \<leftarrow> formatCount cnt; Some (s @ '' rows'') })"

section \<open>Data sizes\<close>

definition scaleDataSize :: "val \<Rightarrow> string \<Rightarrow> val \<times> string" where
  "scaleDataSize sz minUnit =
     (let s0 = (sz, minUnit);
          s1 = scale_if (\<lambda>d. d \<ge> Fin 1024) 1024 (''K'' @ minUnit) s0;
          s2 = scale_if (\<lambda>d. d \<ge> Fin 1024) 1024 (''M'' @ minUnit) s1;
          s3 = scale_if (\<lambda>d. d \<ge> Fin 1024) 1024 (''G'' @ minUnit) s2;
          s4 = scale_if (\<lambda>d. d \<ge> Fin 1024) 1024 (''T'' @ minUnit) s3
      in scale_if (\<lambda>d. d \<ge> Fin 1024) 1024 (''P'' @ minUnit) s4)"

definition formatDataSizeMinUnit :: "val \<Rightarrow> string \<Rightarrow> string throws" where
  "formatDataSizeMinUnit sz minUnit =
     (if is_num sz 0 then Some (''0'' @ minUnit)
      else let (d, unit) = scaleDataSize sz minUnit
           in do { s \<leftarrow> precisionRound d; Some (s @ unit) })"

definition formatDataSizeBytes :: "val \<Rightarrow> string throws" where
  "formatDataSizeBytes sz = formatDataSizeMinUnit sz []"

definition formatDataSize :: "val \<Rightarrow> string throws" where
  "formatDataSize sz = formatDataSizeMinUnit sz ''B''"

section \<open>Parsing quantities\<close>

text \<open>
  Both parsers run the regular expression \<open>/^\s*(\d+(?:\.\d+)?)\s*([a-zA-Z]+)\s*$/\<close>. Its
  character classes are disjoint where they meet, so the greedy scan below is the only way
  to match; the answer is the integer digits, the fraction digits and the unit.
\<close>

definition scan_fraction :: "string \<Rightarrow> string \<times> string" where
  "scan_fraction s =
     (if s \<noteq> [] \<and> hd s = CHR ''.'' \<and> takeWhile is_digit (tl s) \<noteq> []
      then (takeWhile is_digit (tl s), dropWhile is_digit (tl s)) else ([], s))"

definition match_quantity :: "string \<Rightarrow> (string \<times> string \<times> string) option" where
  "match_quantity value =
     (let s1 = dropWhile is_space value;
          ip = takeWhile is_digit s1;
          (fp, s2) = scan_fraction (dropWhile is_digit s1);
          s3 = dropWhile is_space s2;
          unit = takeWhile is_letter s3
      in if ip = [] \<or> unit = [] \<or> \<not> list_all is_space (dropWhile is_letter s3) then None
         else Some (ip, fp, unit))"

definition parseDataSize :: "string \<Rightarrow> jsnum option" where
  "parseDataSize value =
     (case match_quantity value of
        None \<Rightarrow> None
      | Some (ip, fp, unit) \<Rightarrow>
          (let n = parseFloat_parts ip fp
           in if unit = ''B'' then Some n
              else if unit = ''kB'' then Some (n * Fin (2 ^ 10))
              else if unit = ''MB'' then Some (n * Fin (2 ^ 20))
              else if unit = ''GB'' then Some (n * Fin (2 ^ 30))
              else if unit = ''TB'' then Some (n * Fin (2 ^ 40))
              else if unit = ''PB'' then Some (n * Fin (2 ^ 50))
              else None))"

definition parseAndFormatDataSize :: "string \<Rightarrow> string throws" where
  "parseAndFormatDataSize value =
     (case parseDataSize value of
        None \<Rightarrow> Some []
      | Some parsed \<Rightarrow> formatDataSize (Num parsed))"

definition parseDuration :: "string \<Rightarrow> jsnum option" where
  "parseDuration value =
     (case match_quantity value of
        None \<Rightarrow> None
      | Some (ip, fp, unit) \<Rightarrow>
          (let n = parseFloat_parts ip fp
           in if unit = ''ns'' then Some (n / Fin 1000000)
              else if unit = ''us'' then Some (n / Fin 1000)
              else if unit = ''ms'' then Some n
              else if unit = ''s'' then Some (n * Fin 1000)
              else if unit = ''m'' then Some (n * Fin 1000 * Fin 60)
              else if unit = ''h'' then Some (n * Fin 1000 * Fin 60 * Fin 60)
              else if unit = ''d'' then Some (n * Fin 1000 * Fin 60 * Fin 60 * Fin 24)
              else None))"

section \<open>Dates\<close>

text \<open>The fields of a \<open>Date\<close> in local time; reading the clock and the time zone is left to the
  caller.\<close>

record date =
  getFullYear :: int
  getMonth :: int
  getDate :: int
  getHours :: int
  getMinutes :: int

definition formatShortTime :: "date \<Rightarrow> string" where
  "formatShortTime d =
     (let h = getHours d mod 12;
          hours = (if h = 0 then 12 else h);
          minutes = (if getMinutes d < 10 then ''0'' else []) @ show_int (getMinutes d)
      in show_int hours @ '':'' @ minutes @ (if getHours d \<ge> 12 then ''pm'' else ''am''))"

text \<open>\<open>s[1] ? s : "0" + s[0]\<close>\<close>

definition pad2 :: "string \<Rightarrow> string" where
  "pad2 s = (if length s > 1 then s else ''0'' @ take 1 s)"

definition formatShortDateTime :: "date \<Rightarrow> string" where
  "formatShortDateTime d =
     show_int (getFullYear d) @ ''-'' @ pad2 (show_int (getMonth d + 1)) @ ''-''
     @ pad2 (show_int (getDate d)) @ '' '' @ formatShortTime d"

section \<open>Identifiers and query strings\<close>

text \<open>\<open>truncateString\<close> passes a missing string through.\<close>

definition truncateString :: "string option \<Rightarrow> nat \<Rightarrow> string option" where
  "truncateString inputString n =
     (case inputString of
        None \<Rightarrow> None
      | Some s \<Rightarrow> Some (if s \<noteq> [] \<and> length s > n then substring s 0 (int n) @ ''...'' else s))"

definition getTaskIdSuffix :: "string \<Rightarrow> string" where
  "getTaskIdSuffix taskId = slice taskId (indexOf taskId ''.'' + 1) (int (length taskId))"

definition getStageNumber :: "string \<Rightarrow> jsnum" where
  "getStageNumber stageId =
     parseInt (slice stageId (indexOf stageId ''.'' + 1) (int (length stageId)))"

definition getTaskNumber :: "string \<Rightarrow> jsnum" where
  "getTaskNumber taskId = parseInt (getTaskIdSuffix (getTaskIdSuffix taskId))"

definition getFirstParameter :: "string \<Rightarrow> string" where
  "getFirstParameter searchString =
     (let searchText = substring_from searchString 1
      in if indexOf searchText ''&'' \<noteq> -1
         then substring searchText 0 (indexOf searchText ''&'') else searchText)"

text \<open>\<open>new URL(s)\<close> is the browser's: a parameter that gives the host name (an IPv6 address in
  brackets) and the port of a well-formed URL, and nothing for a malformed one, on which the
  constructor throws.\<close>

type_synonym url_parser = "string \<Rightarrow> (string \<times> string) option"

definition getHostname :: "url_parser \<Rightarrow> string \<Rightarrow> string throws" where
  "getHostname parse_url url = do {
     (hostname, port) \<leftarrow> parse_url url;
     Some (if hostname \<noteq> [] \<and> hd hostname = CHR ''['' \<and> last hostname = CHR '']''
           then take (length hostname - 2) (drop 1 hostname) else hostname) }"

definition getPort :: "url_parser \<Rightarrow> string \<Rightarrow> string throws" where
  "getPort parse_url url = map_option snd (parse_url url)"

definition getHostAndPort :: "url_parser \<Rightarrow> string \<Rightarrow> string throws" where
  "getHostAndPort parse_url url = do {
     (hostname, port) \<leftarrow> parse_url url; Some (hostname @ '':'' @ port) }"

section \<open>Facts about the formatters\<close>

subsection \<open>Which arguments throw\<close>

lemma precisionRound_Num [no_throw]: "\<exists>s. precisionRound (Num x) = Some s"
  by (simp add: precisionRound_def)

lemma precisionRound_Undefined [no_throw]: "precisionRound Undefined = Some ''NaN''"
  by (simp add: precisionRound_def)

lemma precisionRound_Null: "precisionRound Null = throw"
  by (simp add: precisionRound_def)

lemma precisionRound_throws: "precisionRound v = throw \<longleftrightarrow> v = Null"
  using precisionRound_Num by (cases v) (auto simp: precisionRound_Undefined precisionRound_Null)

text \<open>No comparison with a positive bound holds of \<open>null\<close>, so it reaches \<open>precisionRound\<close>
  unscaled; a value that was scaled is a number.\<close>

lemma scale_if_Null: "fst (scale_if c k u vu) = Null \<longleftrightarrow> fst vu = Null \<and> \<not> c (Fin 0)"
  by (auto simp: scale_if_def)

lemma scaleDuration_Null: "fst (scaleDuration v) = Null \<longleftrightarrow> v = Null"
  by (simp add: scaleDuration_def Let_def scale_if_Null)

lemma scaleCount_Null: "fst (scaleCount v) = Null \<longleftrightarrow> v = Null"
  by (simp add: scaleCount_def Let_def scale_if_Null)

lemma scaleDataSize_Null: "fst (scaleDataSize v u) = Null \<longleftrightarrow> v = Null"
  by (simp add: scaleDataSize_def Let_def scale_if_Null)

lemma formatDuration_throws: "formatDuration v = throw \<longleftrightarrow> v = Null"
  using scaleDuration_Null [of v]
  by (auto simp: formatDuration_def split_beta Let_def bind_eq_None_conv precisionRound_throws)

lemma formatCount_throws: "formatCount v = throw \<longleftrightarrow> v = Null"
  using scaleCount_Null [of v]
  by (auto simp: formatCount_def split_beta Let_def bind_eq_None_conv precisionRound_throws)

lemma formatDataSizeMinUnit_throws: "formatDataSizeMinUnit v u = throw \<longleftrightarrow> v = Null"
  using scaleDataSize_Null [of v u]
  by (auto simp: formatDataSizeMinUnit_def split_beta Let_def bind_eq_None_conv
      precisionRound_throws is_num_def)

lemma formatRows_throws: "formatRows v = throw \<longleftrightarrow> v = Null"
  by (auto simp: formatRows_def bind_eq_None_conv formatCount_throws is_num_def)

lemma formatDataSize_throws: "formatDataSize v = throw \<longleftrightarrow> v = Null"
  by (simp add: formatDataSize_def formatDataSizeMinUnit_throws)

lemma formatDataSizeBytes_throws: "formatDataSizeBytes v = throw \<longleftrightarrow> v = Null"
  by (simp add: formatDataSizeBytes_def formatDataSizeMinUnit_throws)

lemmas formatter_throws = precisionRound_throws formatDuration_throws formatCount_throws formatRows_throws
  formatDataSize_throws formatDataSizeBytes_throws

lemma parseAndFormatDataSize_total [no_throw]: "parseAndFormatDataSize s \<noteq> throw"
  using formatDataSizeMinUnit_throws [of "Num n" "''B''" for n]
  by (auto simp: parseAndFormatDataSize_def formatDataSize_def split: option.splits)

subsection \<open>The unit chains\<close>

text \<open>The three chains share one shape: as long as the value exceeds (or reaches) the size of
  the next unit, divide by it and continue.\<close>

fun scale_chain :: "(jsnum \<Rightarrow> jsnum \<Rightarrow> bool) \<Rightarrow> (rat \<times> string) list \<Rightarrow> val \<times> string \<Rightarrow> val \<times> string" where
  "scale_chain exceeds [] vu = vu"
| "scale_chain exceeds ((k, u) # us) vu =
     (if exceeds (toNumber (fst vu)) (Fin k)
      then scale_chain exceeds us (Num (toNumber (fst vu) / Fin k), u) else vu)"

definition duration_units :: "(rat \<times> string) list" where
  "duration_units = [(1000, ''s''), (60, ''m''), (60, ''h''), (24, ''d''), (7, ''w'')]"

definition count_units :: "(rat \<times> string) list" where
  "count_units = [(1000, ''K''), (1000, ''M''), (1000, ''B''), (1000, ''T''), (1000, ''Q'')]"

definition size_units :: "string \<Rightarrow> (rat \<times> string) list" where
  "size_units m = [(1024, ''K'' @ m), (1024, ''M'' @ m), (1024, ''G'' @ m), (1024, ''T'' @ m), (1024, ''P'' @ m)]"

lemma length_size_units: "length (size_units m) = 5"
  by (simp add: size_units_def)

lemma size_units_1024: "\<forall>(k, u) \<in> set (size_units m). k = 1024"
  by (simp add: size_units_def)

lemma scaleDuration_chain: "scaleDuration v = scale_chain (\<lambda>a b. b < a) duration_units (v, ''ms'')"
  by (simp add: scaleDuration_def duration_units_def Let_def scale_if_def)

lemma scaleCount_chain: "scaleCount v = scale_chain (\<lambda>a b. b < a) count_units (v, [])"
  by (simp add: scaleCount_def count_units_def Let_def scale_if_def)

lemma scaleDataSize_chain: "scaleDataSize v m = scale_chain (\<lambda>a b. b \<le> a) (size_units m) (v, m)"
  by (simp add: scaleDataSize_def size_units_def Let_def scale_if_def)

lemma divide_ge_1:
  assumes "Fin k < v" and "0 < k"
  shows "Fin 1 \<le> v / Fin k"
proof (cases v)
  case (Fin x)
  with assms have "1 \<le> x / k" by (simp add: field_simps)
  then have "Fin (of_int 1) \<le> number (x / k)" by (intro number_ge_int) simp_all
  with Fin assms show ?thesis by simp
qed (use assms in \<open>auto simp: less_eq_jsnum_def\<close>)

text \<open>The unit chosen by a chain: every unit passed leaves at least 1, and the last value does
  not exceed the next unit, if there is one.\<close>

lemma scale_chain_range:
  assumes "\<forall>(k, u) \<in> set us. 0 < k" and "toNumber v \<noteq> NaN"
  shows "\<exists>i w. scale_chain (\<lambda>a b. b < a) us (v, u0) = (w, (u0 # map snd us) ! i) \<and> i \<le> length us
    \<and> (i = 0 \<longrightarrow> w = v) \<and> (0 < i \<longrightarrow> Fin 1 \<le> toNumber w)
    \<and> (i < length us \<longrightarrow> toNumber w \<le> Fin (fst (us ! i)))"
  using assms
proof (induction us arbitrary: v u0)
  case Nil
  then show ?case by (auto intro: exI [of _ 0])
next
  case (Cons ku us)
  obtain k u where ku: "ku = (k, u)" by fastforce
  show ?case
  proof (cases "Fin k < toNumber v")
    case True
    with Cons.prems ku have ge: "Fin 1 \<le> toNumber v / Fin k" by (intro divide_ge_1) auto
    then have "toNumber (Num (toNumber v / Fin k)) \<noteq> NaN" by auto
    with Cons.IH [of "Num (toNumber v / Fin k)" u] Cons.prems(1) obtain i w where
      "scale_chain (\<lambda>a b. b < a) us (Num (toNumber v / Fin k), u) = (w, (u # map snd us) ! i)"
      "i \<le> length us" "i = 0 \<longrightarrow> w = Num (toNumber v / Fin k)" "0 < i \<longrightarrow> Fin 1 \<le> toNumber w"
      "i < length us \<longrightarrow> toNumber w \<le> Fin (fst (us ! i))" by auto
    with True ku ge show ?thesis by (intro exI [of _ "Suc i"] exI [of _ w]) auto
  next
    case False
    then have "toNumber v \<le> Fin k" using Cons.prems(2) jsnum_not_less [of "Fin k" "toNumber v"] by simp
    with False ku show ?thesis by (intro exI [of _ 0] exI [of _ v]) simp
  qed
qed

subsection \<open>Sizes: the units are exact\<close>

text \<open>What the chain of comparisons computes on a size: the largest unit, up to \<open>P\<close>, that the
  size reaches, and the exact quotient by it.\<close>

fun unit_index :: "nat \<Rightarrow> rat \<Rightarrow> nat" where
  "unit_index 0 x = 0"
| "unit_index (Suc n) x = (if 1024 \<le> x then Suc (unit_index n (x / 1024)) else 0)"

lemma unit_index_le: "unit_index n x \<le> n"
  by (induction n x rule: unit_index.induct) auto

lemma unit_index_lower: "1 \<le> x \<Longrightarrow> 1024 ^ unit_index n x \<le> x"
  by (induction n x rule: unit_index.induct) (auto simp: field_simps)

lemma unit_index_upper: "unit_index n x < n \<Longrightarrow> x < 1024 * 1024 ^ unit_index n x"
  by (induction n x rule: unit_index.induct) (auto simp: field_simps split: if_splits)

text \<open>Dividing a size that has reached a unit is exact in binary64.\<close>

lemma divide_1024:
  assumes "is_double x" and "1024 \<le> x" and "x < 2 ^ 1024"
  shows "Fin x / Fin 1024 = Fin (x / 1024) \<and> is_double (x / 1024) \<and> x / 1024 < 2 ^ 1024"
proof -
  have d: "is_double (x / 1024)" using is_double_div_pow2 [OF assms(1), of 10] assms(2) by simp
  have b: "x / 1024 < 2 ^ 1024" "0 < x / 1024" using assms(2,3) by (simp_all add: field_simps)
  with d number_exact [OF d] show ?thesis by simp
qed

lemma scale_chain_exact:
  assumes "\<forall>(k, u) \<in> set us. k = 1024" and "is_double x" and "0 \<le> x" and "x < 2 ^ 1024"
  shows "scale_chain (\<lambda>a b. b \<le> a) us (Num (Fin x), u) =
     (let i = unit_index (length us) x in (Num (Fin (x / 1024 ^ i)), (u # map snd us) ! i))"
  using assms
proof (induction us arbitrary: x u)
  case (Cons ku us)
  obtain k u' where ku: "ku = (k, u')" by fastforce
  show ?case
  proof (cases "1024 \<le> x")
    case True
    note d = divide_1024 [OF Cons.prems(2) True Cons.prems(4)]
    with True Cons.IH [of "x / 1024" u'] Cons.prems(1) ku show ?thesis by (simp add: Let_def)
  next
    case False
    with Cons.prems(1) ku show ?thesis by (simp add: Let_def)
  qed
qed simp

lemma scaleDataSize_exact:
  assumes "is_double x" and "0 \<le> x" and "x < 2 ^ 1024"
  shows "scaleDataSize (Num (Fin x)) m =
     (let i = unit_index 5 x in (Num (Fin (x / 1024 ^ i)), [[], ''K'', ''M'', ''G'', ''T'', ''P''] ! i @ m))"
proof -
  have "scaleDataSize (Num (Fin x)) m =
     (let i = unit_index 5 x in (Num (Fin (x / 1024 ^ i)), (m # map snd (size_units m)) ! i))"
    using scale_chain_exact [OF size_units_1024 assms, of m m]
    by (simp only: scaleDataSize_chain length_size_units)
  moreover have "(m # map snd (size_units m)) ! i = [[], ''K'', ''M'', ''G'', ''T'', ''P''] ! i @ m"
    if "i \<le> 5" for i
    using that by (auto simp: size_units_def le_Suc_eq numeral_eq_Suc)
  ultimately show ?thesis using unit_index_le [of 5 x] by (simp add: Let_def)
qed

subsection \<open>The digits printed are the closest ones\<close>



lemma dec_value_zeros: "dec_value (replicate k (CHR ''0'') @ s) = dec_value s"
  by (induction k) (simp_all add: dec_value_def digit_value_def code_def)







section \<open>Facts about the parsers\<close>

subsection \<open>The scan matches exactly the regular expression\<close>

text \<open>The language of the regular expression, with its two capture groups.\<close>

definition quantity_text :: "string \<Rightarrow> string \<Rightarrow> string \<Rightarrow> string \<Rightarrow> bool" where
  "quantity_text v ip fp unit \<longleftrightarrow>
     (\<exists>w1 w2 w3. v = w1 @ ip @ (if fp = [] then [] else ''.'' @ fp) @ w2 @ unit @ w3
        \<and> list_all is_space w1 \<and> list_all is_space w2 \<and> list_all is_space w3
        \<and> ip \<noteq> [] \<and> list_all is_digit ip \<and> list_all is_digit fp
        \<and> unit \<noteq> [] \<and> list_all is_letter unit)"

lemma span_append:
  assumes "list_all P a" and "b = [] \<or> \<not> P (hd b)"
  shows "takeWhile P (a @ b) = a" and "dropWhile P (a @ b) = b"
  using assms by (cases b; auto simp: list_all_iff)+

lemma list_all_hd: "list_all P s \<Longrightarrow> s \<noteq> [] \<Longrightarrow> P (hd s)"
  by (cases s) auto

lemma list_all_takeWhile: "list_all P (takeWhile P s)"
  by (auto simp: list_all_iff dest: set_takeWhileD)

lemma point_class: "\<not> is_space (CHR ''.'')" "\<not> is_digit (CHR ''.'')" "\<not> is_letter (CHR ''.'')"
  by (simp_all add: char_class_defs)

lemma scan_fraction_complete:
  assumes "list_all is_digit fp" and "t \<noteq> []" and "\<not> is_digit (hd t)" and "hd t \<noteq> CHR ''.''"
  shows "scan_fraction ((if fp = [] then [] else ''.'' @ fp) @ t) = (fp, t)"
  using assms span_append [of is_digit fp t] by (auto simp: scan_fraction_def)

lemma scan_fraction_sound:
  assumes "scan_fraction s = (fp, t)"
  shows "s = (if fp = [] then [] else ''.'' @ fp) @ t \<and> list_all is_digit fp"
  using assms
  by (cases s) (auto simp: scan_fraction_def list_all_takeWhile split: if_splits)

lemma match_quantity_complete:
  assumes "quantity_text v ip fp unit"
  shows "match_quantity v = Some (ip, fp, unit)"
proof -
  from assms obtain w1 w2 w3 where
    v: "v = w1 @ ip @ (if fp = [] then [] else ''.'' @ fp) @ w2 @ unit @ w3"
    and w: "list_all is_space w1" "list_all is_space w2" "list_all is_space w3"
    and ip: "ip \<noteq> []" "list_all is_digit ip" and fp: "list_all is_digit fp"
    and u: "unit \<noteq> []" "list_all is_letter unit"
    by (auto simp: quantity_text_def)
  define t where "t = w2 @ unit @ w3"
  define r where "r = (if fp = [] then [] else ''.'' @ fp) @ t"
  have hu: "is_letter (hd unit)" using u list_all_hd by blast
  have ht: "t \<noteq> []" "is_space (hd t) \<or> is_letter (hd t)"
    using u hu w(2) list_all_hd [of is_space w2] by (cases w2; auto simp: t_def)+
  have t1: "\<not> is_digit (hd t)" "hd t \<noteq> CHR ''.''"
    using ht(2) digit_not_space letter_not_digit point_class by auto
  have r: "\<not> is_digit (hd r)" using ht(1) t1 point_class by (auto simp: r_def)
  have 1: "dropWhile is_space v = ip @ r"
    using v w(1) ip list_all_hd [OF ip(2,1)] digit_not_space
    by (subst v, subst span_append(2)) (auto simp: r_def t_def)
  have 2: "takeWhile is_digit (ip @ r) = ip" "dropWhile is_digit (ip @ r) = r"
    using span_append [OF ip(2)] r by simp_all
  have 3: "scan_fraction r = (fp, t)"
    unfolding r_def using scan_fraction_complete [OF fp ht(1) t1] .
  have 4: "dropWhile is_space t = unit @ w3"
    unfolding t_def using w(2) u hu letter_not_space by (subst span_append(2)) auto
  have w3: "w3 = [] \<or> \<not> is_letter (hd w3)"
    using w(3) list_all_hd [of is_space w3] letter_not_space by blast
  show ?thesis
    using ip u w(3) span_append [OF u(2) w3]
    by (simp add: match_quantity_def Let_def 1 2 3 4 split_beta)
qed

lemma match_quantity_sound:
  assumes "match_quantity v = Some (ip, fp, unit)"
  shows "quantity_text v ip fp unit"
proof -
  define s1 where "s1 = dropWhile is_space v"
  obtain fp' s2 where f: "scan_fraction (dropWhile is_digit s1) = (fp', s2)" by fastforce
  define s3 where "s3 = dropWhile is_space s2"
  from assms have ip: "ip = takeWhile is_digit s1" "ip \<noteq> []" and fp: "fp = fp'"
    and u: "unit = takeWhile is_letter s3" "unit \<noteq> []"
    and end_: "list_all is_space (dropWhile is_letter s3)"
    by (auto simp: match_quantity_def Let_def f s1_def [symmetric] s3_def [symmetric] split: if_splits)
  note sf = scan_fraction_sound [OF f]
  have "v = takeWhile is_space v @ s1" by (simp add: s1_def)
  also have "s1 = ip @ dropWhile is_digit s1" by (simp add: ip)
  also have "dropWhile is_digit s1 = (if fp = [] then [] else ''.'' @ fp) @ s2" using sf fp by simp
  also have "s2 = takeWhile is_space s2 @ s3" by (simp add: s3_def)
  also have "s3 = unit @ dropWhile is_letter s3" by (simp add: u)
  finally have v: "v = takeWhile is_space v @ ip @ (if fp = [] then [] else ''.'' @ fp) @
      takeWhile is_space s2 @ unit @ dropWhile is_letter s3" by simp
  have "list_all is_digit ip" "list_all is_letter unit" unfolding ip(1) u(1) by (rule list_all_takeWhile)+
  with v sf fp ip(2) u(2) end_ list_all_takeWhile show ?thesis
    unfolding quantity_text_def by blast
qed

lemma match_quantity_iff: "match_quantity v = Some (ip, fp, unit) \<longleftrightarrow> quantity_text v ip fp unit"
  using match_quantity_sound match_quantity_complete by blast

text \<open>An integer and a unit, as the server prints them.\<close>

lemma match_quantity_nat:
  assumes "unit \<noteq> []" and "list_all is_letter unit"
  shows "match_quantity (show_nat n @ unit) = Some (show_nat n, [], unit)"
proof (rule match_quantity_complete)
  show "quantity_text (show_nat n @ unit) (show_nat n) [] unit"
    unfolding quantity_text_def
    by (rule exI [of _ "[]"], rule exI [of _ "[]"], rule exI [of _ "[]"])
      (simp add: assms show_nat_digits)
qed

lemma parseFloat_parts_nat: "parseFloat_parts (show_nat n) [] = number (of_nat n)"
  by (simp add: parseFloat_parts_def dec_value_def [of "[]"])

lemma Fin_times_nat:
  assumes "n * k \<le> 2 ^ 53" and "0 < k"
  shows "number (of_nat n) * Fin (of_nat k) = Fin (of_nat (n * k))"
proof -
  have "n \<le> n * k" using assms(2) by simp
  then have "n \<le> 2 ^ 53" using assms(1) by linarith
  then show ?thesis using number_nat [of n] number_nat [OF assms(1)] by simp
qed

text \<open>Sizes are scaled by powers of two, so the product is exact for every \<open>n\<close> that is.\<close>

lemma Fin_times_pow2:
  assumes "n \<le> 2 ^ 53" and "k \<le> 50"
  shows "number (of_nat n) * Fin (2 ^ k) = Fin (of_nat n * 2 ^ k)"
proof -
  have "is_double (of_nat n :: rat)" using is_double_int [of "int n"] assms(1) by simp
  then have d: "is_double (of_nat n * 2 ^ k :: rat)" by (rule is_double_times_pow2)
  have "(of_nat n :: rat) \<le> of_nat (2 ^ 53)" using assms(1) by (simp only: of_nat_le_iff)
  then have "of_nat n * 2 ^ k \<le> (2 ^ 53 * 2 ^ 50 :: rat)"
    using assms(2) by (intro mult_mono power_increasing) auto
  also have "\<dots> < 2 ^ 1024" by (simp flip: power_add)
  finally have "\<bar>of_nat n * 2 ^ k :: rat\<bar> < 2 ^ 1024" by simp
  with d have "number (of_nat n * 2 ^ k) = Fin (of_nat n * 2 ^ k)" by (rule number_exact)
  moreover have "number (of_nat n) = Fin (of_nat n)" using assms(1) by (rule number_nat)
  ultimately show ?thesis by simp
qed

definition data_size_units :: "string list" where
  "data_size_units = [''B'', ''kB'', ''MB'', ''GB'', ''TB'', ''PB'']"

lemma parseDataSize_show:
  assumes "unit \<noteq> []" and "list_all is_letter unit"
  shows "parseDataSize (show_nat n @ unit) =
     (let x = number (of_nat n)
      in if unit = ''B'' then Some x
         else if unit = ''kB'' then Some (x * Fin (2 ^ 10))
         else if unit = ''MB'' then Some (x * Fin (2 ^ 20))
         else if unit = ''GB'' then Some (x * Fin (2 ^ 30))
         else if unit = ''TB'' then Some (x * Fin (2 ^ 40))
         else if unit = ''PB'' then Some (x * Fin (2 ^ 50))
         else None)"
  by (simp only: parseDataSize_def match_quantity_nat [OF assms] parseFloat_parts_nat option.case
      prod.case)

lemma parseDataSize_nat:
  assumes "n \<le> 2 ^ 53" and "i < 6"
  shows "parseDataSize (show_nat n @ data_size_units ! i) = Some (Fin (of_nat n * 1024 ^ i))"
proof -
  have n: "number (of_nat n) = Fin (of_nat n)" using assms(1) by (rule number_nat)
  have F: "Fin (of_nat n) * Fin (2 ^ k) = Fin (of_nat n * 2 ^ k)" if "k \<le> 50" for k
    using Fin_times_pow2 [OF assms(1) that] n by simp
  note U = data_size_units_def parseDataSize_show char_class_defs n
  from assms(2) consider "i = 0" | "i = 1" | "i = 2" | "i = 3" | "i = 4" | "i = 5" by linarith
  then show ?thesis
    by cases (simp add: U; use F [of 10] F [of 20] F [of 30] F [of 40] F [of 50] in simp)+
qed

definition duration_factor :: "string \<Rightarrow> nat option" where
  "duration_factor = map_of [(''ms'', 1), (''s'', 1000), (''m'', 60000), (''h'', 3600000), (''d'', 86400000)]"

lemma parseDuration_show:
  assumes "unit \<noteq> []" and "list_all is_letter unit"
  shows "parseDuration (show_nat n @ unit) =
     (let x = number (of_nat n)
      in if unit = ''ns'' then Some (x / Fin 1000000)
         else if unit = ''us'' then Some (x / Fin 1000)
         else if unit = ''ms'' then Some x
         else if unit = ''s'' then Some (x * Fin 1000)
         else if unit = ''m'' then Some (x * Fin 1000 * Fin 60)
         else if unit = ''h'' then Some (x * Fin 1000 * Fin 60 * Fin 60)
         else if unit = ''d'' then Some (x * Fin 1000 * Fin 60 * Fin 60 * Fin 24)
         else None)"
  by (simp only: parseDuration_def match_quantity_nat [OF assms] parseFloat_parts_nat option.case
      prod.case)

lemma Fin_times_exact:
  "n * k \<le> 2 ^ 53 \<Longrightarrow> Fin (of_nat n) * Fin (of_nat k) = Fin (of_nat (n * k))"
  using number_nat [of "n * k"] by simp

lemma parseDuration_nat:
  assumes "duration_factor unit = Some k" and "n * k \<le> 2 ^ 53"
  shows "parseDuration (show_nat n @ unit) = Some (Fin (of_nat (n * k)))"
proof -
  have k: "0 < k" using assms(1) by (auto simp: duration_factor_def split: if_splits)
  then have "n \<le> n * k" by simp
  with assms(2) have "n \<le> 2 ^ 53" by linarith
  then have n: "number (of_nat n) = Fin (of_nat n)" by (rule number_nat)
  note E = Fin_times_exact [of n 1000] Fin_times_exact [of "n * 1000" 60]
    Fin_times_exact [of "n * 1000 * 60" 60] Fin_times_exact [of "n * 1000 * 60 * 60" 24]
  from assms(1) consider "unit = ''ms''" "k = 1" | "unit = ''s''" "k = 1000" | "unit = ''m''" "k = 60000"
    | "unit = ''h''" "k = 3600000" | "unit = ''d''" "k = 86400000"
    by (auto simp: duration_factor_def split: if_splits)
  then show ?thesis
    using assms(2) E
    by cases (simp_all add: parseDuration_show char_class_defs n algebra_simps)
qed

subsection \<open>Identifiers\<close>

lemma point_not_in_show_nat: "CHR ''.'' \<notin> set (show_nat n)"
  by (rule show_nat_no_char) (simp add: char_class_defs)

lemma getTaskIdSuffix_append: "CHR ''.'' \<notin> set q \<Longrightarrow> getTaskIdSuffix (q @ CHR ''.'' # t) = t"
  using slice_after [of "q @ ''.'' @ t" "CHR ''.''"] tl_dropWhile_append [of "CHR ''.''" q t]
  by (simp add: getTaskIdSuffix_def)

lemma getTaskIdSuffix_absent: "CHR ''.'' \<notin> set q \<Longrightarrow> getTaskIdSuffix q = q"
  using slice_after [of q "CHR ''.''"] by (simp add: getTaskIdSuffix_def)

lemma getStageNumber_suffix: "getStageNumber s = parseInt (getTaskIdSuffix s)"
  by (simp add: getStageNumber_def getTaskIdSuffix_def)

lemma parseInt_show_nat_dot:
  "n \<le> 2 ^ 53 \<Longrightarrow> parseInt (show_nat n @ ''.'' @ t) = Fin (of_nat n)"
  by (rule parseInt_show_nat) (simp_all add: char_class_defs)

section \<open>Properties\<close>

text \<open>C29. A positive size is shown in the largest unit, up to petabytes, that it reaches, and the
  number in front of the unit is the exact quotient rounded for display: the divisions by 1024
  lose nothing in binary64.\<close>

theorem formatDataSize_exact_unit:
  assumes "is_double x" and "0 < x" and "x < 2 ^ 1024"
  shows "\<exists>i s. i \<le> 5 \<and> (0 < i \<longrightarrow> 1024 ^ i \<le> x) \<and> (i < 5 \<longrightarrow> x < 1024 ^ (i + 1))
    \<and> precisionRound (Num (Fin (x / 1024 ^ i))) = Some s
    \<and> formatDataSizeMinUnit (Num (Fin x)) m = Some (s @ [[], ''K'', ''M'', ''G'', ''T'', ''P''] ! i @ m)"
proof -
  define i where "i = unit_index 5 x"
  obtain s where s: "precisionRound (Num (Fin (x / 1024 ^ i))) = Some s"
    using precisionRound_Num by blast
  have "1024 ^ i \<le> x" if "0 < i"
  proof -
    have "1024 \<le> x" using that by (cases "1024 \<le> x") (simp_all add: i_def numeral_eq_Suc)
    then show ?thesis using unit_index_lower [of x 5] by (simp add: i_def)
  qed
  moreover have "i < 5 \<longrightarrow> x < 1024 ^ (i + 1)" using unit_index_upper [of 5 x] by (simp add: i_def)
  moreover have "formatDataSizeMinUnit (Num (Fin x)) m
      = Some (s @ [[], ''K'', ''M'', ''G'', ''T'', ''P''] ! i @ m)"
    using scaleDataSize_exact [of x m] assms s
    by (simp add: formatDataSizeMinUnit_def is_num_def Let_def i_def [symmetric])
  ultimately show ?thesis using s unit_index_le [of 5 x] by (auto simp: i_def)
qed

theorem formatDataSize_exact_unit_witness:
  "is_double 1572864 \<and> formatDataSize (Num (Fin 1572864)) = Some ''1.50MB''
   \<and> (\<exists>i s. i \<le> 5 \<and> (0 < i \<longrightarrow> 1024 ^ i \<le> (1572864 :: rat)) \<and> (i < 5 \<longrightarrow> (1572864 :: rat) < 1024 ^ (i + 1))
      \<and> precisionRound (Num (Fin (1572864 / 1024 ^ i))) = Some s
      \<and> formatDataSizeMinUnit (Num (Fin 1572864)) ''B'' = Some (s @ [[], ''K'', ''M'', ''G'', ''T'', ''P''] ! i @ ''B''))"
proof -
  have d: "is_double 1572864" by code_simp
  have "formatDataSize (Num (Fin 1572864)) = Some ''1.50MB''" by code_simp
  with d formatDataSize_exact_unit [OF d, of "''B''"] show ?thesis by simp
qed

text \<open>A count is shown with a unit such that the scaled value is at least 1, except for plain
  counts, and does not exceed 1000, except in the last unit.\<close>

theorem formatCount_mantissa:
  assumes "x \<noteq> NaN"
  shows "\<exists>i w s. scaleCount (Num x) = (w, ([] # map snd count_units) ! i) \<and> i \<le> 5
    \<and> (i = 0 \<longrightarrow> w = Num x) \<and> (0 < i \<longrightarrow> Fin 1 \<le> toNumber w) \<and> (i < 5 \<longrightarrow> toNumber w \<le> Fin 1000)
    \<and> precisionRound w = Some s \<and> formatCount (Num x) = Some (s @ ([] # map snd count_units) ! i)"
proof -
  have "\<forall>(k, u) \<in> set count_units. 0 < k" and l: "length count_units = 5"
    by (simp_all add: count_units_def)
  with scale_chain_range [of count_units "Num x" "[]"] assms obtain i w where
    w: "scaleCount (Num x) = (w, ([] # map snd count_units) ! i)" "i \<le> 5" "i = 0 \<longrightarrow> w = Num x"
      "0 < i \<longrightarrow> Fin 1 \<le> toNumber w" "i < 5 \<longrightarrow> toNumber w \<le> Fin (fst (count_units ! i))"
    by (auto simp: scaleCount_chain)
  have "i < 5 \<Longrightarrow> fst (count_units ! i) = 1000"
    by (auto simp: count_units_def less_Suc_eq numeral_eq_Suc)
  moreover have "w \<noteq> Null" using w(1) scaleCount_Null [of "Num x"] by auto
  then obtain s where "precisionRound w = Some s" using precisionRound_throws [of w] by auto
  ultimately show ?thesis using w by (auto simp: formatCount_def intro!: exI [of _ i])
qed

theorem formatCount_mantissa_witness:
  "formatCount (Num (Fin 1234567)) = Some ''1.23M'' \<and>
   (\<exists>i w s. scaleCount (Num (Fin 1234567)) = (w, ([] # map snd count_units) ! i) \<and> i \<le> 5
    \<and> (i = 0 \<longrightarrow> w = Num (Fin 1234567)) \<and> (0 < i \<longrightarrow> Fin 1 \<le> toNumber w) \<and> (i < 5 \<longrightarrow> toNumber w \<le> Fin 1000)
    \<and> precisionRound w = Some s
    \<and> formatCount (Num (Fin 1234567)) = Some (s @ ([] # map snd count_units) ! i))"
proof -
  have "formatCount (Num (Fin 1234567)) = Some ''1.23M''" by code_simp
  with formatCount_mantissa [of "Fin 1234567"] show ?thesis by blast
qed

text \<open>A duration is shown with a unit such that the scaled value is at least 1, except for
  milliseconds, and does not exceed the size of the next unit, except in weeks.\<close>

theorem formatDuration_mantissa:
  assumes "x \<noteq> NaN"
  shows "\<exists>i w s. scaleDuration (Num x) = (w, (''ms'' # map snd duration_units) ! i) \<and> i \<le> 5
    \<and> (i = 0 \<longrightarrow> w = Num x) \<and> (0 < i \<longrightarrow> Fin 1 \<le> toNumber w)
    \<and> (i < 5 \<longrightarrow> toNumber w \<le> Fin (fst (duration_units ! i)))
    \<and> precisionRound w = Some s \<and> formatDuration (Num x) = Some (s @ (''ms'' # map snd duration_units) ! i)"
proof -
  have "\<forall>(k, u) \<in> set duration_units. 0 < k" and l: "length duration_units = 5"
    by (simp_all add: duration_units_def)
  with scale_chain_range [of duration_units "Num x" "''ms''"] assms obtain i w where
    w: "scaleDuration (Num x) = (w, (''ms'' # map snd duration_units) ! i)" "i \<le> 5" "i = 0 \<longrightarrow> w = Num x"
      "0 < i \<longrightarrow> Fin 1 \<le> toNumber w" "i < 5 \<longrightarrow> toNumber w \<le> Fin (fst (duration_units ! i))"
    by (auto simp: scaleDuration_chain)
  have "w \<noteq> Null" using w(1) scaleDuration_Null [of "Num x"] by auto
  then obtain s where "precisionRound w = Some s" using precisionRound_throws [of w] by auto
  with w show ?thesis by (auto simp: formatDuration_def intro!: exI [of _ i])
qed

theorem formatDuration_mantissa_witness:
  "formatDuration (Num (Fin 90000)) = Some ''1.50m'' \<and>
   (\<exists>i w s. scaleDuration (Num (Fin 90000)) = (w, (''ms'' # map snd duration_units) ! i) \<and> i \<le> 5
    \<and> (i = 0 \<longrightarrow> w = Num (Fin 90000)) \<and> (0 < i \<longrightarrow> Fin 1 \<le> toNumber w)
    \<and> (i < 5 \<longrightarrow> toNumber w \<le> Fin (fst (duration_units ! i))) \<and> precisionRound w = Some s
    \<and> formatDuration (Num (Fin 90000)) = Some (s @ (''ms'' # map snd duration_units) ! i))"
proof -
  have "formatDuration (Num (Fin 90000)) = Some ''1.50m''" by code_simp
  with formatDuration_mantissa [of "Fin 90000"] show ?thesis by blast
qed



text \<open>The formatters throw exactly on \<open>null\<close>, that is on text the parsers reject; the combined
  \<open>parseAndFormatDataSize\<close> never throws.\<close>

theorem formatters_throw_on_null:
  "(formatDuration v = throw \<longleftrightarrow> v = Null) \<and> (formatCount v = throw \<longleftrightarrow> v = Null)
   \<and> (formatDataSize v = throw \<longleftrightarrow> v = Null) \<and> (formatDataSizeBytes v = throw \<longleftrightarrow> v = Null)
   \<and> (formatRows v = throw \<longleftrightarrow> v = Null) \<and> parseAndFormatDataSize s \<noteq> throw"
  using parseAndFormatDataSize_total
  by (simp add: formatDuration_throws formatCount_throws formatRows_throws formatDataSize_def
      formatDataSizeBytes_def formatDataSizeMinUnit_throws)

text \<open>C16. \<open>parseDataSize\<close> accepts exactly the texts of its regular expression whose unit is one of
  the six it knows, and answers the number times the unit's power of 1024.\<close>

theorem parseDataSize_iff:
  "parseDataSize v = Some r \<longleftrightarrow>
     (\<exists>ip fp i. i < 6 \<and> quantity_text v ip fp (data_size_units ! i)
        \<and> r = parseFloat_parts ip fp * Fin (1024 ^ i))"
proof -
  have one: "parseFloat_parts ip fp * Fin 1 = parseFloat_parts ip fp" for ip fp
  proof -
    have "wf_num (parseFloat_parts ip fp)" "parseFloat_parts ip fp \<noteq> NaN"
      by (simp_all add: parseFloat_parts_def)
    then show ?thesis by (cases "parseFloat_parts ip fp") (auto simp: number_exact)
  qed
  have cases6: "(\<exists>i < 6. P i) \<longleftrightarrow> P 0 \<or> P 1 \<or> P 2 \<or> P 3 \<or> P 4 \<or> P 5" for P :: "nat \<Rightarrow> bool"
    by (auto simp: less_Suc_eq numeral_eq_Suc)
  have units: "parseDataSize v = Some r \<longleftrightarrow>
     (\<exists>ip fp. \<exists>i < 6. match_quantity v = Some (ip, fp, data_size_units ! i)
        \<and> r = parseFloat_parts ip fp * Fin (1024 ^ i))"
    unfolding cases6
    by (auto simp: parseDataSize_def data_size_units_def Let_def one split: option.splits)
  show ?thesis unfolding units match_quantity_iff by blast
qed

text \<open>C30. Reading back what the server prints: an integer number of bytes, kilobytes, ... petabytes
  is parsed exactly.\<close>

theorem parseDataSize_roundtrip:
  assumes "n \<le> 2 ^ 53" and "i < 6"
  shows "parseDataSize (show_nat n @ data_size_units ! i) = Some (Fin (of_nat n * 1024 ^ i))"
  using assms by (rule parseDataSize_nat)

theorem parseDataSize_roundtrip_witness:
  "(1536 :: nat) \<le> 2 ^ 53 \<and> parseDataSize (show_nat 1536 @ data_size_units ! 2) = Some (Fin (of_nat 1536 * 1024 ^ 2))"
  using parseDataSize_roundtrip [of 1536 2] by simp

text \<open>An integer number of milliseconds, seconds, ... days is parsed to its exact number of
  milliseconds as long as that is at most \<open>2 ^ 53\<close>.\<close>

theorem parseDuration_roundtrip:
  assumes "duration_factor unit = Some k" and "n * k \<le> 2 ^ 53"
  shows "parseDuration (show_nat n @ unit) = Some (Fin (of_nat (n * k)))"
  using assms by (rule parseDuration_nat)

theorem parseDuration_roundtrip_witness:
  "duration_factor ''h'' = Some 3600000 \<and>
   parseDuration (show_nat 36 @ ''h'') = Some (Fin (of_nat (36 * 3600000)))"
proof -
  have f: "duration_factor ''h'' = Some 3600000" by (simp add: duration_factor_def)
  with parseDuration_roundtrip [OF f, of 36] show ?thesis by simp
qed

text \<open>The stage and task numbers of an identifier \<open>query.stage.task.attempt\<close> are read back, for
  every query id without a dot.\<close>

theorem task_id_numbers:
  assumes "CHR ''.'' \<notin> set q" and "s \<le> 2 ^ 53" and "t \<le> 2 ^ 53"
  shows "getStageNumber (q @ ''.'' @ show_nat s) = Fin (of_nat s)
    \<and> getTaskNumber (q @ ''.'' @ show_nat s @ ''.'' @ show_nat t @ ''.'' @ show_nat a) = Fin (of_nat t)
    \<and> getTaskIdSuffix (q @ ''.'' @ show_nat s @ ''.'' @ show_nat t) = show_nat s @ ''.'' @ show_nat t"
  using assms parseInt_show_nat [of s "[]"] parseInt_show_nat_dot [OF assms(3), of "show_nat a"]
  by (simp add: getStageNumber_suffix getTaskNumber_def getTaskIdSuffix_append
      point_not_in_show_nat)

theorem task_id_numbers_witness:
  "getStageNumber (''20220101_1'' @ ''.'' @ show_nat 3) = Fin (of_nat 3) \<and>
   getTaskNumber (''20220101_1'' @ ''.'' @ show_nat 3 @ ''.'' @ show_nat 12 @ ''.'' @ show_nat 0) = Fin (of_nat 12) \<and>
   getTaskIdSuffix (''20220101_1'' @ ''.'' @ show_nat 3 @ ''.'' @ show_nat 12) = show_nat 3 @ ''.'' @ show_nat 12"
  using task_id_numbers [of "''20220101_1''" 3 12 0] by simp

text \<open>The first parameter of a query string is what stands between the question mark and the
  first ampersand.\<close>

theorem getFirstParameter_first:
  assumes "CHR ''&'' \<notin> set p"
  shows "getFirstParameter (''?'' @ p) = p \<and> getFirstParameter (''?'' @ p @ ''&'' @ rest) = p"
proof -
  have sub: "substring_from (''?'' @ s) 1 = s" for s
    using substring_from_nat [of "''?'' @ s" 1] by simp
  have "indexOf p ''&'' = -1" using assms by (simp add: indexOf_def find_sub_single)
  moreover have "indexOf (p @ ''&'' @ rest) ''&'' = int (length p)"
    using assms takeWhile_append_sep [of "CHR ''&''" p rest] by (simp add: indexOf_def find_sub_single)
  ultimately show ?thesis
    unfolding getFirstParameter_def sub Let_def by (simp add: substring_prefix)
qed

theorem getFirstParameter_first_witness:
  "getFirstParameter (''?'' @ ''20220101_1'') = ''20220101_1'' \<and>
   getFirstParameter (''?'' @ ''20220101_1'' @ ''&'' @ ''x=1'') = ''20220101_1''"
  using getFirstParameter_first [of "''20220101_1''" "''x=1''"] by simp

text \<open>A truncated string keeps a prefix and grows by at most the three dots; a string that fits is
  left alone.\<close>

theorem truncateString_prefix:
  "truncateString (Some s) n = Some (if length s \<le> n then s else take n s @ ''...'')
   \<and> truncateString None n = None"
  by (cases s) (auto simp: truncateString_def substring_prefix)

subsection \<open>The twelve-hour clock\<close>

definition valid_time :: "date \<Rightarrow> bool" where
  "valid_time d \<longleftrightarrow> 0 \<le> getHours d \<and> getHours d < 24 \<and> 0 \<le> getMinutes d \<and> getMinutes d < 60"

lemma show_int_nonneg: "0 \<le> i \<Longrightarrow> show_int i = show_nat (nat i)"
  by (simp add: show_int_def)

lemma pad_value: "dec_value ((if b then ''0'' else []) @ show_nat n) = n"
  using dec_value_zeros [of 1 "show_nat n"] by simp

lemma append_colon_eq:
  assumes "a @ '':'' @ b = a' @ '':'' @ b'" and "CHR '':'' \<notin> set a" and "CHR '':'' \<notin> set a'"
  shows "a = a' \<and> b = b'"
proof -
  have "takeWhile (\<lambda>x. x \<noteq> CHR '':'') (a @ '':'' @ b) = takeWhile (\<lambda>x. x \<noteq> CHR '':'') (a' @ '':'' @ b')"
    using assms(1) by simp
  then have "a = a'" using assms(2,3) takeWhile_append_sep [of "CHR '':''"] by simp
  with assms(1) show ?thesis by simp
qed

text \<open>Two times of day are shown alike only if they are the same hour and minute.\<close>

theorem formatShortTime_injective:
  assumes "valid_time d" and "valid_time d'" and "formatShortTime d = formatShortTime d'"
  shows "getHours d = getHours d' \<and> getMinutes d = getMinutes d'"
proof -
  define h where "h d = (if getHours d mod 12 = 0 then 12 else getHours d mod 12)" for d :: date
  define m where "m d = (if getMinutes d < 10 then ''0'' else []) @ show_nat (nat (getMinutes d))" for d :: date
  define x where "x d = (if getHours d \<ge> 12 then ''pm'' else ''am'')" for d :: date
  have f: "formatShortTime d = show_nat (nat (h d)) @ '':'' @ m d @ x d" if "valid_time d" for d
  proof -
    have "0 \<le> h d" by (simp add: h_def)
    with that show ?thesis
      by (simp add: formatShortTime_def Let_def h_def m_def x_def show_int_nonneg valid_time_def)
  qed
  have "CHR '':'' \<notin> set (show_nat n)" for n by (rule show_nat_no_char) (simp add: char_class_defs)
  with assms f have hm: "show_nat (nat (h d)) = show_nat (nat (h d'))" "m d @ x d = m d' @ x d'"
    using append_colon_eq by metis+
  have "length (x d) = length (x d')" by (simp add: x_def)
  with hm(2) have "m d = m d'" "x d = x d'" by simp_all
  then have "nat (getMinutes d) = nat (getMinutes d')" by (metis m_def pad_value)
  moreover have "h d = h d'" using show_nat_inj [OF hm(1)] by (simp add: h_def split: if_splits)
  moreover have "getHours d = getHours d'" if "h d = h d'" "x d = x d'" "valid_time d" "valid_time d'"
  proof -
    have "getHours d mod 12 = getHours d' mod 12" using that(1) by (auto simp: h_def split: if_splits)
    moreover have "getHours d div 12 = getHours d' div 12"
    proof (cases "12 \<le> getHours d")
      case True
      have "(12 + k) div 12 = 1" if "0 \<le> k" "k < 12" for k :: int using that by simp
      from this [of "getHours d - 12"] this [of "getHours d' - 12"] True that show ?thesis
        by (simp add: x_def valid_time_def split: if_splits)
    next
      case False
      with that show ?thesis by (simp add: x_def valid_time_def split: if_splits)
    qed
    ultimately show ?thesis by (metis mult_div_mod_eq)
  qed
  ultimately show ?thesis using \<open>x d = x d'\<close> assms(1,2) by (auto simp: valid_time_def)
qed

theorem formatShortTime_injective_witness:
  "let d = \<lparr>getFullYear = 2022, getMonth = 0, getDate = 1, getHours = 12, getMinutes = 5\<rparr>
   in valid_time d \<and> formatShortTime d = ''12:05pm''
      \<and> (\<exists>d'. valid_time d' \<and> formatShortTime d = formatShortTime d' \<and> getHours d = getHours d')"
proof -
  let ?d = "\<lparr>getFullYear = 2022, getMonth = 0, getDate = 1, getHours = 12, getMinutes = 5\<rparr>"
  have v: "valid_time ?d" by (simp add: valid_time_def)
  moreover have "formatShortTime ?d = ''12:05pm''" by code_simp
  ultimately show ?thesis using formatShortTime_injective [OF v v] by (auto simp: Let_def)
qed

end
