(* ===== verification/History.thy ===== *)
theory History
  imports JsNumber
begin

text \<open>
  The sparkline histories of \<open>utils.js\<close>: an array of measurements to which every refresh
  appends one, cut to the most recent ones. The abstract view is the window of the last
  measurements of the whole sequence; \<open>history_window\<close> states it once for both appenders.
\<close>

definition MAX_HISTORY :: nat where
  "MAX_HISTORY = 60 * 5"

definition MOVING_AVERAGE_ALPHA :: jsnum where
  "MOVING_AVERAGE_ALPHA = number (2/10)"

definition cut_history :: "nat \<Rightarrow> 'a list \<Rightarrow> 'a list" where
  "cut_history n xs = slice xs (max (int n - int MAX_HISTORY) 0) (int (length xs))"

definition addToHistory :: "val \<Rightarrow> val list \<Rightarrow> val list" where
  "addToHistory value valuesArray =
     (if length valuesArray = 0 then valuesArray @ [value]
      else cut_history (length valuesArray) (valuesArray @ [value]))"

definition movingAverage :: "val \<Rightarrow> val \<Rightarrow> jsnum" where
  "movingAverage value previous =
     (let average = (toNumber value * MOVING_AVERAGE_ALPHA)
            + (toNumber previous * (Fin 1 - MOVING_AVERAGE_ALPHA))
      in if toNumber value < Fin 1 then Fin 0 else average)"

definition addExponentiallyWeightedToHistory :: "val \<Rightarrow> val list \<Rightarrow> val list" where
  "addExponentiallyWeightedToHistory value valuesArray =
     (if length valuesArray = 0 then valuesArray @ [value]
      else cut_history (length valuesArray)
             (valuesArray @ [Num (movingAverage value (last valuesArray))]))"

section \<open>Windows\<close>

lemma cut_history_snoc: "cut_history (length xs) (xs @ [x]) = last_n (MAX_HISTORY + 1) (xs @ [x])"
proof -
  have "max (int (length xs) - int MAX_HISTORY) 0 = int (length xs - MAX_HISTORY)" by simp
  then show ?thesis unfolding cut_history_def by (simp only: slice_from_nat last_n_def) simp
qed

lemma addToHistory_window: "addToHistory v xs = last_n (MAX_HISTORY + 1) (xs @ [v])"
  by (simp add: addToHistory_def cut_history_snoc)

lemma addExp_window:
  "addExponentiallyWeightedToHistory v xs =
     last_n (MAX_HISTORY + 1) (xs @ [if xs = [] then v else Num (movingAverage v (last xs))])"
  by (simp add: addExponentiallyWeightedToHistory_def cut_history_snoc)

text \<open>An appender that keeps the most recent entries: the interface the components rely on.\<close>

locale history_window =
  fixes add :: "val \<Rightarrow> val list \<Rightarrow> val list"
    and entry :: "val \<Rightarrow> val list \<Rightarrow> val"
    and bound :: nat
  assumes add_window: "add v xs = last_n bound (xs @ [entry v xs])"
    and bound_pos: "0 < bound"
begin

lemma add_length: "length (add v xs) \<le> bound"
  by (simp add: add_window)

lemma add_length_min: "length (add v xs) = min bound (Suc (length xs))"
  by (simp add: add_window)

lemma add_nonempty: "add v xs \<noteq> []"
  using bound_pos by (metis add_length_min length_0_conv min_def nat.distinct(1) not_gr_zero)

lemma add_last: "last (add v xs) = entry v xs"
  using bound_pos by (simp add: add_window last_last_n)

lemma add_last_val: "last_val (add v xs) = entry v xs"
  using add_last [of v xs] add_nonempty [of v xs] by (simp add: last_val_def last_opt_def)

lemma add_keeps: "set (add v xs) \<subseteq> insert (entry v xs) (set xs)"
  using set_last_n [of bound "xs @ [entry v xs]"] by (auto simp: add_window)

lemma add_invariant: "\<forall>x \<in> set xs. P x \<Longrightarrow> P (entry v xs) \<Longrightarrow> \<forall>x \<in> set (add v xs). P x"
  using add_keeps by blast

end

interpretation plain: history_window addToHistory "\<lambda>v xs. v" "MAX_HISTORY + 1"
  by unfold_locales (simp_all add: addToHistory_window)

interpretation weighted: history_window addExponentiallyWeightedToHistory
  "\<lambda>v xs. if xs = [] then v else Num (movingAverage v (last xs))" "MAX_HISTORY + 1"
  by unfold_locales (simp_all add: addExp_window)

text \<open>The averages of non-negative measurements are non-negative.\<close>

lemma number_nonneg_cases: "Fin 0 \<le> x \<Longrightarrow> x = Infinity \<or> (\<exists>r \<ge> 0. x = Fin r)"
  by (cases x) (auto simp: less_eq_jsnum_def)

lemma nonneg_Infinity [simp]: "Fin 0 \<le> Infinity"
  by (simp add: less_eq_jsnum_def)

lemma nonneg_times: "Fin 0 \<le> x \<Longrightarrow> 0 < k \<Longrightarrow> Fin 0 \<le> x * Fin k"
  by (drule number_nonneg_cases) (auto intro!: number_nonneg)

lemma nonneg_plus: "Fin 0 \<le> x \<Longrightarrow> Fin 0 \<le> y \<Longrightarrow> Fin 0 \<le> x + y"
  by (drule number_nonneg_cases)+ (auto intro!: number_nonneg)

lemma alpha_values:
  "MOVING_AVERAGE_ALPHA = Fin (3602879701896397 / 18014398509481984)"
  "Fin 1 - MOVING_AVERAGE_ALPHA = Fin (3602879701896397 / 4503599627370496)"
  by code_simp+

lemma movingAverage_nonneg:
  assumes "Fin 0 \<le> toNumber v" and "Fin 0 \<le> toNumber p"
  shows "Fin 0 \<le> movingAverage v p"
proof -
  have "Fin 0 \<le> toNumber v * MOVING_AVERAGE_ALPHA + toNumber p * (Fin 1 - MOVING_AVERAGE_ALPHA)"
    unfolding alpha_values(2) unfolding alpha_values(1)
    by (intro nonneg_plus nonneg_times assms) simp_all
  then show ?thesis by (simp add: movingAverage_def)
qed

lemma addToHistory_fold: "fold addToHistory vs [] = last_n (MAX_HISTORY + 1) vs"
proof (induction vs rule: rev_induct)
  case (snoc v vs)
  have pos: "0 < MAX_HISTORY + 1" by simp
  have "fold addToHistory (vs @ [v]) [] = addToHistory v (fold addToHistory vs [])" by simp
  also have "\<dots> = last_n (MAX_HISTORY + 1) (last_n (MAX_HISTORY + 1) vs @ [v])"
    by (simp only: snoc addToHistory_window)
  also have "\<dots> = last_n (MAX_HISTORY + 1 - 1) (last_n (MAX_HISTORY + 1) vs) @ [v]"
    by (rule last_n_snoc [OF pos])
  also have "\<dots> = last_n (MAX_HISTORY + 1 - 1) vs @ [v]" by (simp add: last_n_last_n)
  also have "\<dots> = last_n (MAX_HISTORY + 1) (vs @ [v])" by (rule last_n_snoc [OF pos, symmetric])
  finally show ?case .
qed simp

section \<open>Properties\<close>

text \<open>Pushing a sequence of measurements one by one leaves exactly the most recent ones, in
  order.\<close>

theorem addToHistory_sliding_window:
  "fold addToHistory vs [] = last_n (MAX_HISTORY + 1) vs"
  by (rule addToHistory_fold)

text \<open>A history holds up to \<open>MAX_HISTORY + 1 = 301\<close> entries, one more than the 300 its comment
  announces: after 301 pushes it has 301 entries.\<close>

theorem addToHistory_holds_301:
  "MAX_HISTORY = 300 \<and> length (fold addToHistory (replicate 301 v) []) = 301
   \<and> (\<forall>vs. length (fold addToHistory vs []) \<le> 301)"
  unfolding addToHistory_fold by (simp add: MAX_HISTORY_def)

text \<open>An exponentially weighted history keeps the same window bound, stays non-negative on
  non-negative measurements, and a measurement below 1 resets the average to 0.\<close>

theorem weighted_history_step:
  assumes "\<forall>x \<in> set xs. Fin 0 \<le> toNumber x" and "Fin 0 \<le> toNumber v"
  shows "(\<forall>x \<in> set (addExponentiallyWeightedToHistory v xs). Fin 0 \<le> toNumber x)
    \<and> length (addExponentiallyWeightedToHistory v xs) \<le> MAX_HISTORY + 1
    \<and> (xs \<noteq> [] \<and> toNumber v < Fin 1 \<longrightarrow> last_val (addExponentiallyWeightedToHistory v xs) = Num (Fin 0))"
proof -
  have "Fin 0 \<le> toNumber (if xs = [] then v else Num (movingAverage v (last xs)))"
    using assms movingAverage_nonneg [of v "last xs"] by simp
  then have "\<forall>x \<in> set (addExponentiallyWeightedToHistory v xs). Fin 0 \<le> toNumber x"
    using weighted.add_invariant [of xs "\<lambda>x. Fin 0 \<le> toNumber x" v] assms(1) by blast
  moreover have "movingAverage v (last xs) = Fin 0" if "toNumber v < Fin 1"
    using that by (simp add: movingAverage_def)
  ultimately show ?thesis
    using weighted.add_length [of v xs] weighted.add_last_val [of v xs] by simp
qed

theorem weighted_history_step_witness:
  "let xs = [Num (Fin 10)] in
   addExponentiallyWeightedToHistory (Num (Fin (1/2))) xs = [Num (Fin 10), Num (Fin 0)]
   \<and> (\<forall>x \<in> set (addExponentiallyWeightedToHistory (Num (Fin (1/2))) xs). Fin 0 \<le> toNumber x)"
proof -
  have "addExponentiallyWeightedToHistory (Num (Fin (1/2))) [Num (Fin 10)] = [Num (Fin 10), Num (Fin 0)]"
    by code_simp
  with weighted_history_step [of "[Num (Fin 10)]" "Num (Fin (1/2))"] show ?thesis by (simp add: Let_def)
qed

end
