(* ===== verification/ClusterHUD.thy ===== *)
theory ClusterHUD
  imports VDom Polling Format History
begin

text \<open>
  \<open>components/ClusterHUD.jsx\<close>: the cluster overview, which polls \<open>/ui/api/stats\<close>, keeps a history of nine
  statistics and draws each as a number and a sparkline. Time stamps are the
  numbers \<open>Date.now()\<close> returned, in the order of the calls.
\<close>

record cluster_stats =
  stat_runningQueries :: jsnum
  stat_queuedQueries :: jsnum
  stat_blockedQueries :: jsnum
  stat_activeWorkers :: jsnum
  stat_runningDrivers :: jsnum
  stat_reservedMemory :: jsnum
  totalInputRows :: jsnum
  totalInputBytes :: jsnum
  totalCpuTimeSecs :: jsnum

record cluster_hud =
  runningQueries :: "val list"
  queuedQueries :: "val list"
  blockedQueries :: "val list"
  activeWorkers :: "val list"
  runningDrivers :: "val list"
  reservedMemory :: "val list"
  rowInputRate :: "val list"
  byteInputRate :: "val list"
  perWorkerCpuTimeRate :: "val list"
  lastRender :: val
  lastRefresh :: val
  lastInputRows :: val
  lastInputBytes :: val
  lastCpuTime :: val
  initialized :: bool

definition SPARKLINE_PROPERTIES :: "(string \<times> string) list" where
  "SPARKLINE_PROPERTIES = [(''width'', ''100%''), (''height'', ''75px''), (''fillColor'', ''#3F4552''),
     (''lineColor'', ''#747F96''), (''spotColor'', ''#1EDCFF''), (''tooltipClassname'', ''sparkline-tooltip''),
     (''disableHiddenCheck'', ''true'')]"

definition ClusterHUD_init :: cluster_hud where
  "ClusterHUD_init = \<lparr>runningQueries = [], queuedQueries = [], blockedQueries = [], activeWorkers = [],
     runningDrivers = [], reservedMemory = [], rowInputRate = [], byteInputRate = [],
     perWorkerCpuTimeRate = [], lastRender = Null, lastRefresh = Null, lastInputRows = Null,
     lastInputBytes = Null, lastCpuTime = Null, initialized = False\<rparr>"

section \<open>The refresh loop\<close>

text \<open>\<open>this.state\<close> has neither \<open>query\<close> nor \<open>ended\<close>: the condition of \<open>resetTimer\<close> always holds.\<close>

definition ClusterHUD_resetTimer :: "cluster_hud page \<Rightarrow> cluster_hud page" where
  "ClusterHUD_resetTimer w = reset_timer (\<lambda>s. True) w"

definition ClusterHUD_refreshLoop :: "cluster_hud page \<Rightarrow> cluster_hud page" where
  "ClusterHUD_refreshLoop w = send_request (clear_timer w)"

definition ClusterHUD_componentDidMount :: "cluster_hud page" where
  "ClusterHUD_componentDidMount = ClusterHUD_refreshLoop (mounted ClusterHUD_init)"

definition ClusterHUD_newRates :: "cluster_stats \<Rightarrow> jsnum \<Rightarrow> cluster_hud \<Rightarrow> val list \<times> val list \<times> val list" where
  "ClusterHUD_newRates c now s =
     (if lastRefresh s \<noteq> Null then
        (let rowsInputSinceRefresh = totalInputRows c - toNumber (lastInputRows s);
             bytesInputSinceRefresh = totalInputBytes c - toNumber (lastInputBytes s);
             cpuTimeSinceRefresh = totalCpuTimeSecs c - toNumber (lastCpuTime s);
             secsSinceRefresh = (now - toNumber (lastRefresh s)) / Fin 1000
         in (addExponentiallyWeightedToHistory (Num (rowsInputSinceRefresh / secsSinceRefresh)) (rowInputRate s),
             addExponentiallyWeightedToHistory (Num (bytesInputSinceRefresh / secsSinceRefresh)) (byteInputRate s),
             addExponentiallyWeightedToHistory (Num ((cpuTimeSinceRefresh / stat_activeWorkers c) / secsSinceRefresh))
               (perWorkerCpuTimeRate s)))
      else ([], [], []))"

definition ClusterHUD_update :: "cluster_stats \<Rightarrow> jsnum \<Rightarrow> jsnum \<Rightarrow> cluster_hud \<Rightarrow> cluster_hud" where
  "ClusterHUD_update c now now' s =
     (let (newRowInputRate, newByteInputRate, newPerWorkerCpuTimeRate) = ClusterHUD_newRates c now s
      in s\<lparr>runningQueries := addToHistory (Num (stat_runningQueries c)) (runningQueries s),
           queuedQueries := addToHistory (Num (stat_queuedQueries c)) (queuedQueries s),
           blockedQueries := addToHistory (Num (stat_blockedQueries c)) (blockedQueries s),
           activeWorkers := addToHistory (Num (stat_activeWorkers c)) (activeWorkers s),
           runningDrivers := addExponentiallyWeightedToHistory (Num (stat_runningDrivers c)) (runningDrivers s),
           reservedMemory := addExponentiallyWeightedToHistory (Num (stat_reservedMemory c)) (reservedMemory s),
           rowInputRate := newRowInputRate,
           byteInputRate := newByteInputRate,
           perWorkerCpuTimeRate := newPerWorkerCpuTimeRate,
           lastInputRows := Num (totalInputRows c),
           lastInputBytes := Num (totalInputBytes c),
           lastCpuTime := Num (totalCpuTimeSecs c),
           initialized := True,
           lastRefresh := Num now'\<rparr>)"

text \<open>\<open>componentDidUpdate\<close>: the calls it makes and the state it sets; \<open>now\<close> and \<open>now'\<close> are its two
  readings of the clock. At the first update \<open>lastRender\<close> is \<open>null\<close> and the clock is read once.
  The state it sets updates the component once more; that update finds \<open>lastRender\<close> just set.\<close>

definition ClusterHUD_sparklines :: "cluster_hud \<Rightarrow> effect list" where
  "ClusterHUD_sparklines s =
     [Sparkline ''#running-queries-sparkline'' (runningQueries s) SPARKLINE_PROPERTIES (ChartRangeMin (Fin 0)),
      Sparkline ''#blocked-queries-sparkline'' (blockedQueries s) SPARKLINE_PROPERTIES (ChartRangeMin (Fin 0)),
      Sparkline ''#queued-queries-sparkline'' (queuedQueries s) SPARKLINE_PROPERTIES (ChartRangeMin (Fin 0)),
      Sparkline ''#active-workers-sparkline'' (activeWorkers s) SPARKLINE_PROPERTIES (ChartRangeMin (Fin 0)),
      Sparkline ''#running-drivers-sparkline'' (runningDrivers s) SPARKLINE_PROPERTIES (NumberFormatter precisionRound),
      Sparkline ''#reserved-memory-sparkline'' (reservedMemory s) SPARKLINE_PROPERTIES (NumberFormatter formatDataSizeBytes),
      Sparkline ''#row-input-rate-sparkline'' (rowInputRate s) SPARKLINE_PROPERTIES (NumberFormatter formatCount),
      Sparkline ''#byte-input-rate-sparkline'' (byteInputRate s) SPARKLINE_PROPERTIES (NumberFormatter formatDataSizeBytes),
      Sparkline ''#cpu-time-rate-sparkline'' (perWorkerCpuTimeRate s) SPARKLINE_PROPERTIES (NumberFormatter precisionRound)]"

definition ClusterHUD_componentDidUpdate :: "jsnum \<Rightarrow> jsnum \<Rightarrow> cluster_hud \<Rightarrow> cluster_hud \<times> effect list" where
  "ClusterHUD_componentDidUpdate now now' s =
     (if lastRender s = Null \<or> now - toNumber (lastRender s) \<ge> Fin 1000
      then (s\<lparr>lastRender := Num now'\<rparr>, ClusterHUD_sparklines s @ [Tooltips])
      else (s, [Tooltips]))"

text \<open>The callbacks of the request; \<open>now\<close> and \<open>now'\<close> are the readings of the clock in the first, \<open>draw\<close> and \<open>draw'\<close> those of
  the update that its \<open>setState\<close> causes.\<close>

definition ClusterHUD_success ::
  "cluster_stats \<Rightarrow> jsnum \<Rightarrow> jsnum \<Rightarrow> jsnum \<Rightarrow> jsnum \<Rightarrow> cluster_hud page \<Rightarrow> cluster_hud page throws" where
  "ClusterHUD_success c now now' draw draw' w =
     Some (ClusterHUD_resetTimer (setState (\<lambda>s. fst (ClusterHUD_componentDidUpdate draw draw' (ClusterHUD_update c now now' s))) w))"

definition ClusterHUD_fail :: "cluster_hud page \<Rightarrow> cluster_hud page throws" where
  "ClusterHUD_fail w = Some (ClusterHUD_resetTimer w)"

section \<open>Rendering\<close>

definition ClusterHUD_row1 :: "cluster_hud \<Rightarrow> (unit, unit) html list" where
  "ClusterHUD_row1 s =
     [
      el ''div'' [Cls ''row'']
        [el ''div'' [Cls ''col-xs-4'']
          [el ''div'' [Cls ''stat-title'']
            [el ''span'' [Cls ''text'', Attr ''data-toggle'' ''tooltip'',
                  Attr ''data-placement'' ''right'',
                  Attr ''title'' ''Total number of queries currently running'']
              [lit ''Running queries'']]],
         el ''div'' [Cls ''col-xs-4'']
          [el ''div'' [Cls ''stat-title'']
            [el ''span'' [Cls ''text'', Attr ''data-toggle'' ''tooltip'',
                  Attr ''data-placement'' ''right'',
                  Attr ''title'' ''Total number of active worker nodes'']
              [lit ''Active workers'']]],
         el ''div'' [Cls ''col-xs-4'']
          [el ''div'' [Cls ''stat-title'']
            [el ''span'' [Cls ''text'', Attr ''data-toggle'' ''tooltip'',
                  Attr ''data-placement'' ''right'',
                  Attr ''title'' ''Moving average of input rows processed per second'']
              [lit ''Rows/sec'']]]],
      el ''div'' [Cls ''row stat-line-end'']
        [el ''div'' [Cls ''col-xs-4'']
          [el ''div'' [Cls ''stat stat-large'']
            [el ''span'' [Cls ''stat-text''] [shown (last_val (runningQueries s))],
             el ''span'' [Cls ''sparkline'', Id ''running-queries-sparkline'']
              [el ''div'' [Cls ''loader''] [lit ''Loading ...'']]]],
         el ''div'' [Cls ''col-xs-4'']
          [el ''div'' [Cls ''stat stat-large'']
            [el ''a'' [Attr ''target'' ''_blank'', Attr ''href'' ''workers.html'']
              [el ''span'' [Cls ''stat-text''] [shown (last_val (activeWorkers s))]],
             el ''span'' [Cls ''sparkline'', Id ''active-workers-sparkline'']
              [el ''div'' [Cls ''loader''] [lit ''Loading ...'']]]],
         el ''div'' [Cls ''col-xs-4'']
          [el ''div'' [Cls ''stat stat-large'']
            [el ''span'' [Cls ''stat-text''] [str (formatCount (last_val (rowInputRate s)))],
             el ''span'' [Cls ''sparkline'', Id ''row-input-rate-sparkline'']
              [el ''div'' [Cls ''loader''] [lit ''Loading ...'']]]]]]"

definition ClusterHUD_row2 :: "cluster_hud \<Rightarrow> (unit, unit) html list" where
  "ClusterHUD_row2 s =
     [
      el ''div'' [Cls ''row'']
        [el ''div'' [Cls ''col-xs-4'']
          [el ''div'' [Cls ''stat-title'']
            [el ''span'' [Cls ''text'', Attr ''data-toggle'' ''tooltip'',
                  Attr ''data-placement'' ''right'',
                  Attr ''title'' ''Total number of queries currently queued and awaiting execution'']
              [lit ''Queued queries'']]],
         el ''div'' [Cls ''col-xs-4'']
          [el ''div'' [Cls ''stat-title'']
            [el ''span'' [Cls ''text'', Attr ''data-toggle'' ''tooltip'',
                  Attr ''data-placement'' ''right'',
                  Attr ''title'' ''Moving average of total running drivers'']
              [lit ''Runnable drivers'']]],
         el ''div'' [Cls ''col-xs-4'']
          [el ''div'' [Cls ''stat-title'']
            [el ''span'' [Cls ''text'', Attr ''data-toggle'' ''tooltip'',
                  Attr ''data-placement'' ''right'',
                  Attr ''title'' ''Moving average of input bytes processed per second'']
              [lit ''Bytes/sec'']]]],
      el ''div'' [Cls ''row stat-line-end'']
        [el ''div'' [Cls ''col-xs-4'']
          [el ''div'' [Cls ''stat stat-large'']
            [el ''span'' [Cls ''stat-text''] [shown (last_val (queuedQueries s))],
             el ''span'' [Cls ''sparkline'', Id ''queued-queries-sparkline'']
              [el ''div'' [Cls ''loader''] [lit ''Loading ...'']]]],
         el ''div'' [Cls ''col-xs-4'']
          [el ''div'' [Cls ''stat stat-large'']
            [el ''span'' [Cls ''stat-text''] [str (formatCount (last_val (runningDrivers s)))],
             el ''span'' [Cls ''sparkline'', Id ''running-drivers-sparkline'']
              [el ''div'' [Cls ''loader''] [lit ''Loading ...'']]]],
         el ''div'' [Cls ''col-xs-4'']
          [el ''div'' [Cls ''stat stat-large'']
            [el ''span'' [Cls ''stat-text'']
              [str (formatDataSizeBytes (last_val (byteInputRate s)))],
             el ''span'' [Cls ''sparkline'', Id ''byte-input-rate-sparkline'']
              [el ''div'' [Cls ''loader''] [lit ''Loading ...'']]]]]]"

definition ClusterHUD_row3 :: "cluster_hud \<Rightarrow> (unit, unit) html list" where
  "ClusterHUD_row3 s =
     [
      el ''div'' [Cls ''row'']
        [el ''div'' [Cls ''col-xs-4'']
          [el ''div'' [Cls ''stat-title'']
            [el ''span'' [Cls ''text'', Attr ''data-toggle'' ''tooltip'',
                  Attr ''data-placement'' ''right'',
                  Attr ''title'' ''Total number of queries currently blocked and unable to make progress'']
              [lit ''Blocked Queries'']]],
         el ''div'' [Cls ''col-xs-4'']
          [el ''div'' [Cls ''stat-title'']
            [el ''span'' [Cls ''text'', Attr ''data-toggle'' ''tooltip'',
                  Attr ''data-placement'' ''right'',
                  Attr ''title'' ''Total amount of memory reserved by all running queries'']
              [lit ''Reserved Memory (B)'']]],
         el ''div'' [Cls ''col-xs-4'']
          [el ''div'' [Cls ''stat-title'']
            [el ''span'' [Cls ''text'', Attr ''data-toggle'' ''tooltip'',
                  Attr ''data-placement'' ''right'',
                  Attr ''title'' ''Moving average of CPU time utilized per second per worker'']
              [lit ''Worker Parallelism'']]]],
      el ''div'' [Cls ''row stat-line-end'']
        [el ''div'' [Cls ''col-xs-4'']
          [el ''div'' [Cls ''stat stat-large'']
            [el ''span'' [Cls ''stat-text''] [shown (last_val (blockedQueries s))],
             el ''span'' [Cls ''sparkline'', Id ''blocked-queries-sparkline'']
              [el ''div'' [Cls ''loader''] [lit ''Loading ...'']]]],
         el ''div'' [Cls ''col-xs-4'']
          [el ''div'' [Cls ''stat stat-large'']
            [el ''span'' [Cls ''stat-text'']
              [str (formatDataSizeBytes (last_val (reservedMemory s)))],
             el ''span'' [Cls ''sparkline'', Id ''reserved-memory-sparkline'']
              [el ''div'' [Cls ''loader''] [lit ''Loading ...'']]]],
         el ''div'' [Cls ''col-xs-4'']
          [el ''div'' [Cls ''stat stat-large'']
            [el ''span'' [Cls ''stat-text'']
              [str (formatCount (last_val (perWorkerCpuTimeRate s)))],
             el ''span'' [Cls ''sparkline'', Id ''cpu-time-rate-sparkline'']
              [el ''div'' [Cls ''loader''] [lit ''Loading ...'']]]]]]"

definition ClusterHUD_render :: "cluster_hud \<Rightarrow> (unit, unit) html" where
  "ClusterHUD_render s =
     el ''div'' [Cls ''row'']
       [el ''div'' [Cls ''col-xs-12''] (ClusterHUD_row1 s @ ClusterHUD_row2 s @ ClusterHUD_row3 s)]"


section \<open>Facts\<close>

definition ClusterHUD_responses :: "(cluster_hud page \<Rightarrow> cluster_hud page throws) set" where
  "ClusterHUD_responses = insert ClusterHUD_fail {ClusterHUD_success c now now' draw draw' | c now now' draw draw'. True}"

interpretation hud: poller ClusterHUD_refreshLoop ClusterHUD_responses "{}" "\<lambda>s. True" "\<lambda>s. True"
  by unfold_locales
    (auto simp: ClusterHUD_refreshLoop_def ClusterHUD_responses_def ClusterHUD_success_def
      ClusterHUD_fail_def ClusterHUD_resetTimer_def loop_simps)

text \<open>The state of the overview is well formed: every history is a bounded list of numbers, and the
  totals of the last refresh are known as soon as there was one.\<close>

definition history_ok :: "val list \<Rightarrow> bool" where
  "history_ok xs \<longleftrightarrow> length xs \<le> MAX_HISTORY + 1 \<and> (\<forall>x \<in> set xs. \<exists>n. x = Num n)"

definition wf_hud :: "cluster_hud \<Rightarrow> bool" where
  "wf_hud s \<longleftrightarrow>
     list_all history_ok [runningQueries s, queuedQueries s, blockedQueries s, activeWorkers s,
       runningDrivers s, reservedMemory s, rowInputRate s, byteInputRate s, perWorkerCpuTimeRate s]
     \<and> (lastRefresh s \<noteq> Null \<longrightarrow> lastInputRows s \<noteq> Null \<and> lastInputBytes s \<noteq> Null \<and> lastCpuTime s \<noteq> Null)"

lemma history_ok_Nil [simp]: "history_ok []"
  by (simp add: history_ok_def)

lemma history_ok_addToHistory [simp]: "history_ok xs \<Longrightarrow> history_ok (addToHistory (Num n) xs)"
  unfolding history_ok_def by (intro conjI plain.add_length plain.add_invariant) auto

lemma history_ok_addExp [simp]: "history_ok xs \<Longrightarrow> history_ok (addExponentiallyWeightedToHistory (Num n) xs)"
  unfolding history_ok_def by (intro conjI weighted.add_length weighted.add_invariant) auto

lemma last_val_ok: "history_ok xs \<Longrightarrow> last_val xs \<noteq> Null"
  by (cases xs rule: rev_cases) (auto simp: history_ok_def)

lemma wf_hud_update: "wf_hud s \<Longrightarrow> wf_hud (ClusterHUD_update c now now' s)"
  by (simp add: wf_hud_def ClusterHUD_update_def ClusterHUD_newRates_def Let_def)

lemma wf_hud_drawn: "wf_hud (fst (ClusterHUD_componentDidUpdate now now' s)) \<longleftrightarrow> wf_hud s"
  by (simp add: wf_hud_def ClusterHUD_componentDidUpdate_def)

lemma wf_hud_init: "wf_hud ClusterHUD_init"
  by (simp add: wf_hud_def ClusterHUD_init_def)

lemma wf_hud_reachable:
  "reachable ClusterHUD_refreshLoop ClusterHUD_responses {} ClusterHUD_init w \<Longrightarrow> wf_hud (this_state w)"
  by (erule reachable_invariant)
    (auto simp: wf_hud_init ClusterHUD_refreshLoop_def ClusterHUD_responses_def ClusterHUD_success_def
      ClusterHUD_fail_def ClusterHUD_resetTimer_def loop_simps wf_hud_update wf_hud_drawn)

lemma ClusterHUD_rows_render:
  assumes "wf_hud s"
  shows "list_all renders (ClusterHUD_row1 s)" and "list_all renders (ClusterHUD_row2 s)"
    and "list_all renders (ClusterHUD_row3 s)"
  using assms last_val_ok
  by (simp_all add: ClusterHUD_row1_def ClusterHUD_row2_def ClusterHUD_row3_def dom_simps formatter_throws wf_hud_def)

lemma ClusterHUD_row_ids:
  assumes "wf_hud s"
  shows "concat (map html_ids (ClusterHUD_row1 s))
      = [''running-queries-sparkline'', ''active-workers-sparkline'', ''row-input-rate-sparkline'']"
    and "concat (map html_ids (ClusterHUD_row2 s))
      = [''queued-queries-sparkline'', ''running-drivers-sparkline'', ''byte-input-rate-sparkline'']"
    and "concat (map html_ids (ClusterHUD_row3 s))
      = [''blocked-queries-sparkline'', ''reserved-memory-sparkline'', ''cpu-time-rate-sparkline'']"
  using assms last_val_ok
  by (simp_all add: ClusterHUD_row1_def ClusterHUD_row2_def ClusterHUD_row3_def html_el dom_simps
      formatter_throws wf_hud_def)

section \<open>Properties\<close>

text \<open>The cluster overview is drawn in every reachable state without an exception, each history
  holding at most 301 numbers, and the sparklines it draws after an update are exactly the
  placeholders it has rendered, each once.\<close>

theorem ClusterHUD_draws:
  assumes "reachable ClusterHUD_refreshLoop ClusterHUD_responses {} ClusterHUD_init w"
  shows "wf_hud (this_state w) \<and> renders (ClusterHUD_render (this_state w))
    \<and> mset (spark_targets (ClusterHUD_sparklines (this_state w)))
      = mset (map ((@) ''#'') (html_ids (ClusterHUD_render (this_state w))))"
proof -
  note wf = wf_hud_reachable [OF assms]
  have "renders (ClusterHUD_render (this_state w))"
    using wf by (simp add: ClusterHUD_render_def dom_simps ClusterHUD_rows_render)
  moreover have "html_ids (ClusterHUD_render (this_state w)) =
      [''running-queries-sparkline'', ''active-workers-sparkline'', ''row-input-rate-sparkline'',
       ''queued-queries-sparkline'', ''running-drivers-sparkline'', ''byte-input-rate-sparkline'',
       ''blocked-queries-sparkline'', ''reserved-memory-sparkline'', ''cpu-time-rate-sparkline'']"
    using wf by (simp add: ClusterHUD_render_def html_el dom_simps ClusterHUD_rows_render ClusterHUD_row_ids)
  ultimately show ?thesis using wf by (simp add: ClusterHUD_sparklines_def)
qed

definition sample_stats :: cluster_stats where
  "sample_stats = \<lparr>stat_runningQueries = Fin 2, stat_queuedQueries = Fin 1, stat_blockedQueries = Fin 0,
     stat_activeWorkers = Fin 4, stat_runningDrivers = Fin 10, stat_reservedMemory = Fin 4096,
     totalInputRows = Fin 100, totalInputBytes = Fin 1000, totalCpuTimeSecs = Fin 3\<rparr>"

definition sample_hud :: "cluster_hud page" where
  "sample_hud = run (ClusterHUD_success sample_stats (Fin 0) (Fin 0) (Fin 0) (Fin 0))
     ((ClusterHUD_refreshLoop (mounted ClusterHUD_init))\<lparr>inflight := 0\<rparr>)"

lemma sample_hud_reachable: "reachable ClusterHUD_refreshLoop ClusterHUD_responses {} ClusterHUD_init sample_hud"
  unfolding sample_hud_def
proof (rule reachable_first_response)
  show "ClusterHUD_success sample_stats (Fin 0) (Fin 0) (Fin 0) (Fin 0) \<in> ClusterHUD_responses"
    unfolding ClusterHUD_responses_def by blast
qed (simp add: ClusterHUD_refreshLoop_def loop_simps)

theorem ClusterHUD_draws_witness:
  "runningQueries (this_state sample_hud) = [Num (Fin 2)] \<and> renders (ClusterHUD_render (this_state sample_hud))"
proof
  show "runningQueries (this_state sample_hud) = [Num (Fin 2)]"
    by (simp add: sample_hud_def run_def ClusterHUD_success_def ClusterHUD_resetTimer_def
        ClusterHUD_refreshLoop_def ClusterHUD_update_def ClusterHUD_newRates_def ClusterHUD_componentDidUpdate_def ClusterHUD_init_def
        sample_stats_def addToHistory_def loop_simps)
  show "renders (ClusterHUD_render (this_state sample_hud))"
    using ClusterHUD_draws [OF sample_hud_reachable] by blast
qed

text \<open>The overview never stops refreshing and never runs two refreshes at once.\<close>

theorem ClusterHUD_refreshes:
  assumes "reachable ClusterHUD_refreshLoop ClusterHUD_responses {} ClusterHUD_init w"
  shows "activity w = 1"
  using hud.one_loop_reachable [OF assms] by (simp add: one_loop_def)

theorem ClusterHUD_refreshes_witness: "activity sample_hud = 1"
  by (rule ClusterHUD_refreshes [OF sample_hud_reachable])

end
