(* ===== verification/QueryDisplay.thy ===== *)
theory QueryDisplay
  imports JsNumber
begin

text \<open>
  How \<open>utils.js\<close> shows the state of queries and stages: colours, the readable state, the
  progress bar. The records hold the fields these functions read; the pages extend them
  (\<open>queryStats\<close> and \<open>stageStats\<close> are type parameters, so that a page adds its own statistics).
  The server leaves \<open>errorType\<close>, \<open>errorCode\<close> and \<open>memoryPool\<close> out of a query that has none.
\<close>

record error_code =
  ec_code :: jsnum
  ec_name :: string

record query_stats =
  totalDrivers :: jsnum
  runningDrivers :: jsnum
  fullyBlocked :: bool
  blockedReasons :: "string list"
  progressPercentage :: val

record 'stats query =
  queryId :: string
  state :: string
  scheduled :: bool
  memoryPool :: "string option"
  errorType :: "string option"
  errorCode :: "error_code option"
  queryStats :: 'stats

record stage_stats_base =
  stageFullyBlocked :: bool

record 'stats stage_base =
  stageState :: string
  stageStats :: 'stats

definition GLYPHICON_DEFAULT :: "(string \<times> string) list" where
  "GLYPHICON_DEFAULT = [(''color'', ''#1edcff'')]"

definition GLYPHICON_HIGHLIGHT :: "(string \<times> string) list" where
  "GLYPHICON_HIGHLIGHT = [(''color'', ''#999999'')]"

definition EMDASH :: string where
  "EMDASH = [char_of (0x97 :: nat)]"

section \<open>Colours\<close>

definition STATE_COLOR_MAP :: "string \<Rightarrow> string" where
  "STATE_COLOR_MAP s =
     (case map_of
        [(''QUEUED'', ''#1b8f72''), (''RUNNING'', ''#19874e''), (''PLANNING'', ''#674f98''),
         (''FINISHED'', ''#1a4629''), (''BLOCKED'', ''#61003b''), (''USER_ERROR'', ''#9a7d66''),
         (''CANCELED'', ''#858959''), (''INSUFFICIENT_RESOURCES'', ''#7f5b72''),
         (''EXTERNAL_ERROR'', ''#ca7640''), (''UNKNOWN_ERROR'', ''#943524'')] s of
        Some c \<Rightarrow> c | None \<Rightarrow> ''undefined'')"

definition getQueryStateColor :: "('s query_stats_scheme, 'q) query_scheme \<Rightarrow> string throws" where
  "getQueryStateColor query =
     (if state query = ''QUEUED'' then Some (STATE_COLOR_MAP ''QUEUED'')
      else if state query = ''PLANNING'' then Some (STATE_COLOR_MAP ''PLANNING'')
      else if state query \<in> {''STARTING'', ''FINISHING'', ''RUNNING''} then
        Some (STATE_COLOR_MAP (if fullyBlocked (queryStats query) then ''BLOCKED'' else ''RUNNING''))
      else if state query = ''FAILED'' then
        (if errorType query = Some ''USER_ERROR'' then
           do { e \<leftarrow> errorCode query;
                Some (STATE_COLOR_MAP (if ec_name e = ''USER_CANCELED'' then ''CANCELED'' else ''USER_ERROR'')) }
         else if errorType query = Some ''EXTERNAL'' then Some (STATE_COLOR_MAP ''EXTERNAL_ERROR'')
         else if errorType query = Some ''INSUFFICIENT_RESOURCES''
           then Some (STATE_COLOR_MAP ''INSUFFICIENT_RESOURCES'')
         else Some (STATE_COLOR_MAP ''UNKNOWN_ERROR''))
      else if state query = ''FINISHED'' then Some (STATE_COLOR_MAP ''FINISHED'')
      else Some (STATE_COLOR_MAP ''QUEUED''))"

definition getStageStateColor :: "('s stage_stats_base_scheme, 'q) stage_base_scheme \<Rightarrow> string" where
  "getStageStateColor stage =
     (if stageState stage = ''PLANNED'' then STATE_COLOR_MAP ''QUEUED''
      else if stageState stage \<in> {''SCHEDULING'', ''SCHEDULING_SPLITS'', ''SCHEDULED''}
        then STATE_COLOR_MAP ''PLANNING''
      else if stageState stage = ''RUNNING'' then
        STATE_COLOR_MAP (if stageFullyBlocked (stageStats stage) then ''BLOCKED'' else ''RUNNING'')
      else if stageState stage = ''FINISHED'' then STATE_COLOR_MAP ''FINISHED''
      else if stageState stage \<in> {''CANCELED'', ''ABORTED''} then STATE_COLOR_MAP ''CANCELED''
      else if stageState stage = ''FAILED'' then STATE_COLOR_MAP ''UNKNOWN_ERROR''
      else ''#b5b5b5'')"

section \<open>The readable state\<close>

definition runningTitle :: "('s query_stats_scheme, 'q) query_scheme \<Rightarrow> string" where
  "runningTitle query =
     (let stats = queryStats query;
          title = (if fullyBlocked stats
                   then ''BLOCKED'' @ (if blockedReasons stats \<noteq> []
                                      then '' ('' @ join '', '' (blockedReasons stats) @ '')'' else [])
                   else ''RUNNING'')
      in if memoryPool query = Some ''reserved'' then title @ '' (RESERVED)'' else title)"

text \<open>The \<open>switch\<close> on the error type has no \<open>break\<close>: from the case that matches, control falls
  through the bodies of every later case, and each assigns the message. The labels and bodies, in
  source order; the first body reads \<open>query.errorCode.name\<close>.\<close>

definition errorMsgCases :: "('s, 'q) query_scheme \<Rightarrow> (string \<times> (string \<Rightarrow> string throws)) list" where
  "errorMsgCases query =
     [(''USER_ERROR'', \<lambda>errorMsg. do { e \<leftarrow> errorCode query;
         Some (if ec_name e = ''USER_CANCELED'' then ''USER CANCELED'' else ''USER ERROR'') }),
      (''INTERNAL_ERROR'', \<lambda>errorMsg. Some ''INTERNAL ERROR''),
      (''INSUFFICIENT_RESOURCES'', \<lambda>errorMsg. Some ''INSUFFICIENT RESOURCES''),
      (''EXTERNAL'', \<lambda>errorMsg. Some ''EXTERNAL ERROR'')]"

fun fall_through :: "(string \<times> (string \<Rightarrow> string throws)) list \<Rightarrow> string \<Rightarrow> string throws" where
  "fall_through [] msg = Some msg"
| "fall_through ((l, body) # cs) msg = do { m \<leftarrow> body msg; fall_through cs m }"

fun switch_cases :: "string option \<Rightarrow> (string \<times> (string \<Rightarrow> string throws)) list \<Rightarrow> string \<Rightarrow> string throws" where
  "switch_cases t [] msg = Some msg"
| "switch_cases t ((l, body) # cs) msg =
     (if t = Some l then fall_through ((l, body) # cs) msg else switch_cases t cs msg)"

definition getHumanReadableState :: "('s query_stats_scheme, 'q) query_scheme \<Rightarrow> bool \<Rightarrow> string throws" where
  "getHumanReadableState query forOverviewPage =
     (if state query = ''RUNNING'' \<and> scheduled query \<and> totalDrivers (queryStats query) > Fin 0
         \<and> runningDrivers (queryStats query) \<ge> Fin 0
      then Some (runningTitle query)
      else if state query = ''FAILED'' then
        do { errorMsg \<leftarrow> switch_cases (errorType query) (errorMsgCases query) [];
             Some (case errorCode query of
                     Some e \<Rightarrow> if forOverviewPage \<and> ec_name e \<noteq> []
                              then errorMsg @ '' '' @ EMDASH @ '' '' @ ec_name e else errorMsg
                   | None \<Rightarrow> errorMsg) }
      else Some (state query))"

section \<open>The progress bar\<close>

definition getProgressBarPercentage :: "('s query_stats_scheme, 'q) query_scheme \<Rightarrow> jsnum" where
  "getProgressBarPercentage query =
     (let progress = progressPercentage (queryStats query)
      in if \<not> truthy progress \<or> state query \<noteq> ''RUNNING'' then Fin 100
         else mathRound (toNumber progress))"

definition getProgressBarTitle :: "('s query_stats_scheme, 'q) query_scheme \<Rightarrow> bool \<Rightarrow> string throws" where
  "getProgressBarTitle query forOverviewPage =
     (if truthy (progressPercentage (queryStats query)) \<and> state query = ''RUNNING''
      then do { s \<leftarrow> getHumanReadableState query forOverviewPage;
                Some (s @ '' ('' @ numToString (getProgressBarPercentage query) @ ''%)'') }
      else getHumanReadableState query forOverviewPage)"

definition isQueryEnded :: "('s, 'q) query_scheme \<Rightarrow> bool" where
  "isQueryEnded query \<longleftrightarrow> state query \<in> set [''FINISHED'', ''FAILED'', ''CANCELED'']"

section \<open>Facts\<close>

text \<open>A query the display functions handle: a user error comes with its error code.\<close>

definition displayable :: "('s, 'q) query_scheme \<Rightarrow> bool" where
  "displayable query \<longleftrightarrow>
     (state query = ''FAILED'' \<and> errorType query = Some ''USER_ERROR'' \<longrightarrow> errorCode query \<noteq> None)"

lemma getQueryStateColor_throws: "getQueryStateColor query = throw \<longleftrightarrow> \<not> displayable query"
  by (auto simp: getQueryStateColor_def displayable_def bind_eq_None_conv)

lemma errorMsg_throws:
  "switch_cases (errorType query) (errorMsgCases query) [] = throw
   \<longleftrightarrow> errorType query = Some ''USER_ERROR'' \<and> errorCode query = None"
  by (cases "errorCode query") (simp_all add: errorMsgCases_def)

lemma getHumanReadableState_throws: "getHumanReadableState query b = throw \<longleftrightarrow> \<not> displayable query"
  by (simp add: getHumanReadableState_def displayable_def bind_eq_None_conv errorMsg_throws)

lemma getProgressBarTitle_throws: "getProgressBarTitle query b = throw \<longleftrightarrow> \<not> displayable query"
  by (auto simp: getProgressBarTitle_def bind_eq_None_conv getHumanReadableState_throws)

lemma switch_errorMsg:
  assumes "errorCode query = Some e"
    and "t \<in> {''USER_ERROR'', ''INTERNAL_ERROR'', ''INSUFFICIENT_RESOURCES'', ''EXTERNAL''}"
  shows "switch_cases (Some t) (errorMsgCases query) [] = Some ''EXTERNAL ERROR''"
  using assms(2) by (elim insertE) (simp_all add: errorMsgCases_def assms(1))

lemma mathRound_range: "0 \<le> p \<Longrightarrow> p \<le> 100 \<Longrightarrow> \<exists>n \<le> 100. mathRound (Fin p) = Fin (of_nat n)"
proof -
  assume p: "0 \<le> p" "p \<le> 100"
  then have "p + 1/2 < of_int 101" by simp
  then have "\<lfloor>p + 1/2\<rfloor> < 101" by (simp only: floor_less_iff)
  then have "nat \<lfloor>p + 1/2\<rfloor> \<le> 100" by (simp del: floor_less_numeral)
  moreover have "0 \<le> \<lfloor>p + 1/2\<rfloor>" using p by simp
  ultimately show ?thesis by (intro exI [of _ "nat \<lfloor>p + 1/2\<rfloor>"]) simp
qed

section \<open>Properties\<close>

text \<open>Showing a query (its colour, readable state and progress title) throws exactly when it
  failed with a user error but carries no error code.\<close>

theorem query_display_throws:
  "(getQueryStateColor query = throw \<longleftrightarrow> \<not> displayable query)
   \<and> (getHumanReadableState query b = throw \<longleftrightarrow> \<not> displayable query)
   \<and> (getProgressBarTitle query b = throw \<longleftrightarrow> \<not> displayable query)"
  by (simp add: getQueryStateColor_throws getHumanReadableState_throws getProgressBarTitle_throws)

text \<open>Because the \<open>switch\<close> falls through, a failed query reads \<open>EXTERNAL ERROR\<close> whatever its error
  type is, a query canceled by its user included.\<close>

theorem failed_query_reads_external:
  assumes "state query = ''FAILED''" and "errorCode query = Some e"
    and "errorType query \<in> Some ` {''USER_ERROR'', ''INTERNAL_ERROR'', ''INSUFFICIENT_RESOURCES'', ''EXTERNAL''}"
  shows "getHumanReadableState query False = Some ''EXTERNAL ERROR''"
proof -
  obtain t where t: "errorType query = Some t"
    "t \<in> {''USER_ERROR'', ''INTERNAL_ERROR'', ''INSUFFICIENT_RESOURCES'', ''EXTERNAL''}"
    using assms(3) by (elim imageE)
  show ?thesis using assms(1,2) switch_errorMsg [OF assms(2) t(2)] t(1)
    by (simp add: getHumanReadableState_def)
qed

definition canceled_query :: "query_stats query" where
  "canceled_query = \<lparr>queryId = ''q1'', state = ''FAILED'', scheduled = True, memoryPool = None,
     errorType = Some ''USER_ERROR'', errorCode = Some \<lparr>ec_code = Fin 3, ec_name = ''USER_CANCELED''\<rparr>,
     queryStats = \<lparr>totalDrivers = Fin 1, runningDrivers = Fin 0, fullyBlocked = False,
       blockedReasons = [], progressPercentage = Null\<rparr>\<rparr>"

theorem failed_query_reads_external_witness:
  "getHumanReadableState canceled_query False = Some ''EXTERNAL ERROR''
   \<and> getQueryStateColor canceled_query = Some (STATE_COLOR_MAP ''CANCELED'')"
proof -
  have "getHumanReadableState canceled_query False = Some ''EXTERNAL ERROR''"
    by (rule failed_query_reads_external [of _ "\<lparr>ec_code = Fin 3, ec_name = ''USER_CANCELED''\<rparr>"])
      (simp_all add: canceled_query_def)
  then show ?thesis by (simp add: getQueryStateColor_def canceled_query_def)
qed

text \<open>The progress bar shows a whole percentage between 0 and 100 whenever the server reports a
  progress between 0 and 100, and it is full for every query that is not running.\<close>

theorem progress_percentage_range:
  assumes "progressPercentage (queryStats query) = Num (Fin p)" and "0 \<le> p" and "p \<le> 100"
  shows "\<exists>n \<le> 100. getProgressBarPercentage query = Fin (of_nat n)
    \<and> (state query \<noteq> ''RUNNING'' \<longrightarrow> n = 100)"
  using assms mathRound_range [of p]
  by (cases "truthy (progressPercentage (queryStats query)) \<and> state query = ''RUNNING''")
    (auto simp: getProgressBarPercentage_def Let_def intro: exI [of _ 100])

theorem progress_percentage_range_witness:
  "\<exists>n \<le> 100. getProgressBarPercentage (canceled_query \<lparr>state := ''RUNNING'',
       queryStats := (queryStats canceled_query) \<lparr>progressPercentage := Num (Fin (85/2))\<rparr>\<rparr>) = Fin (of_nat n)"
  using progress_percentage_range [of "canceled_query \<lparr>state := ''RUNNING'',
       queryStats := (queryStats canceled_query) \<lparr>progressPercentage := Num (Fin (85/2))\<rparr>\<rparr>" "85/2"]
  by auto

end
