(* ===== verification/DateTime.thy ===== *)
theory DateTime
  imports Format
begin

text \<open>
  The dates the pages read: \<open>Date.parse\<close> on the ISO 8601 time stamps of the server
  (\<open>YYYY-MM-DDTHH:mm:ss.sssZ\<close>, the format the language defines; any other text gives \<open>NaN\<close>), and \<open>new Date(ms)\<close> with its
  fields in local time. The time zone is an argument \<open>tz\<close>: the offset in minutes at a given instant.
\<close>

definition is_leap :: "int \<Rightarrow> bool" where
  "is_leap y \<longleftrightarrow> y mod 4 = 0 \<and> (y mod 100 \<noteq> 0 \<or> y mod 400 = 0)"

definition month_days :: "int \<Rightarrow> int list" where
  "month_days y = [31, if is_leap y then 29 else 28, 31, 30, 31, 30, 31, 31, 30, 31, 30, 31]"

text \<open>The day number of the first of January, and of a date (the month counts from 1).\<close>

definition dayFromYear :: "int \<Rightarrow> int" where
  "dayFromYear y = 365 * (y - 1970) + (y - 1969) div 4 - (y - 1901) div 100 + (y - 1601) div 400"

definition dayFromDate :: "int \<Rightarrow> nat \<Rightarrow> int \<Rightarrow> int" where
  "dayFromDate y m d = dayFromYear y + sum_list (take (m - 1) (month_days y)) + (d - 1)"

definition msPerDay :: int where
  "msPerDay = 86400000"

definition dateParse :: "string \<Rightarrow> jsnum" where
  "dateParse s =
     (let fld = (\<lambda>i n. take n (drop i s));
          digits = concat (map (\<lambda>(i, n). fld i n) [(0, 4), (5, 2), (8, 2), (11, 2), (14, 2), (17, 2), (20, 3)]);
          num = (\<lambda>i n. dec_value (fld i n));
          y = int (num 0 4); m = num 5 2; d = num 8 2; h = num 11 2; mi = num 14 2; se = num 17 2; ms = num 20 3
      in if length s = 24 \<and> list_all is_digit digits
            \<and> map (\<lambda>i. s ! i) [4, 7, 10, 13, 16, 19, 23] = ''--T::.Z''
            \<and> 1 \<le> m \<and> m \<le> 12 \<and> 1 \<le> d \<and> int d \<le> month_days y ! (m - 1) \<and> h < 24 \<and> mi < 60 \<and> se < 60
         then Fin (of_int (dayFromDate y m (int d) * msPerDay
                + int (((h * 60 + mi) * 60 + se) * 1000 + ms)))
         else NaN)"

text \<open>The month and the year that hold a day number. The year is computed in 400-year eras of
  146097 days, in years that begin on the first of March.\<close>

fun find_month :: "int list \<Rightarrow> int \<Rightarrow> int \<times> int" where
  "find_month [] d = (0, d)"
| "find_month (n # ns) d = (if d < n then (0, d) else (let (m, r) = find_month ns (d - n) in (m + 1, r)))"

definition yearFromDay :: "int \<Rightarrow> int" where
  "yearFromDay d =
     (let z = d + 719468;
          doe = z mod 146097;
          yoe = (doe - doe div 1460 + doe div 36524 - doe div 146096) div 365;
          doy = doe - (365 * yoe + yoe div 4 - yoe div 100)
      in yoe + z div 146097 * 400 + (if doy \<ge> 306 then 1 else 0))"

definition localDate :: "(int \<Rightarrow> int) \<Rightarrow> int \<Rightarrow> date" where
  "localDate tz t =
     (let l = t + tz t * 60000;
          day = l div msPerDay;
          y = yearFromDay day;
          (m, d) = find_month (month_days y) (day - dayFromYear y)
      in \<lparr>getFullYear = y, getMonth = m, getDate = d + 1,
          getHours = (l div 3600000) mod 24, getMinutes = (l div 60000) mod 60\<rparr>)"

text \<open>The formatters on \<open>new Date(ms)\<close>: the fields of an invalid date are \<open>NaN\<close>.\<close>

definition shortTime :: "(int \<Rightarrow> int) \<Rightarrow> jsnum \<Rightarrow> string" where
  "shortTime tz t = (case t of Fin ms \<Rightarrow> formatShortTime (localDate tz \<lfloor>ms\<rfloor>) | _ \<Rightarrow> ''12:NaNam'')"

definition shortDateTime :: "(int \<Rightarrow> int) \<Rightarrow> jsnum \<Rightarrow> string" where
  "shortDateTime tz t =
     (case t of Fin ms \<Rightarrow> formatShortDateTime (localDate tz \<lfloor>ms\<rfloor>) | _ \<Rightarrow> ''NaN-NaN-NaN 12:NaNam'')"

lemma sum_list_take_bound: "\<forall>x \<in> set xs. (0::int) \<le> x \<and> x \<le> 31 \<Longrightarrow> sum_list (take n xs) \<in> {0..31 * int n}"
proof (induction xs arbitrary: n)
  case (Cons x xs)
  show ?case
  proof (cases n)
    case (Suc k)
    with Cons.IH [of k] Cons.prems show ?thesis by simp
  qed simp
qed simp

lemma dec_value_bound: "list_all is_digit s \<Longrightarrow> dec_value s < 10 ^ length s"
proof (induction s rule: rev_induct)
  case (snoc c s)
  then have "digit_value c \<le> 9" by (auto simp: is_digit_def digit_value_def code_def)
  with snoc show ?case by simp
qed (simp add: dec_value_def)

text \<open>A time stamp the server sends is a number whose integer value is exact.\<close>

lemma dateParse_wf: "wf_num (dateParse s)"
proof (cases "dateParse s = NaN")
  case False
  define y where "y = dec_value (take 4 s)"
  define m where "m = dec_value (take 2 (drop 5 s))"
  define d where "d = dec_value (take 2 (drop 8 s))"
  define r where "r = ((dec_value (take 2 (drop 11 s)) * 60 + dec_value (take 2 (drop 14 s))) * 60
      + dec_value (take 2 (drop 17 s))) * 1000 + dec_value (take 3 (drop 20 s))"
  have eq: "dateParse s = Fin (of_int (dayFromDate (int y) m (int d) * msPerDay + int r))"
    and len: "length s = 24" and dig: "list_all is_digit (take 4 s)" "list_all is_digit (take 2 (drop 5 s))"
    "list_all is_digit (take 2 (drop 8 s))" "list_all is_digit (take 3 (drop 20 s))"
    and hms: "dec_value (take 2 (drop 11 s)) < 24" "dec_value (take 2 (drop 14 s)) < 60"
    "dec_value (take 2 (drop 17 s)) < 60" and mon: "m \<le> 12"
    using False by (auto simp: dateParse_def Let_def y_def m_def d_def r_def split: if_splits)
  have "y < 10 ^ 4" "d < 10 ^ 2" "dec_value (take 3 (drop 20 s)) < 10 ^ 3"
    using dec_value_bound [OF dig(1)] dec_value_bound [OF dig(3)] dec_value_bound [OF dig(4)] len
    by (simp_all add: y_def d_def)
  moreover have "sum_list (take (m - 1) (month_days (int y))) \<in> {0..31 * int (m - 1)}"
    by (rule sum_list_take_bound) (simp add: month_days_def)
  ultimately have "\<bar>dayFromDate (int y) m (int d)\<bar> \<le> 10000000" "r \<le> 100000000"
    using hms mon by (auto simp: dayFromDate_def dayFromYear_def r_def abs_le_iff)
  then have "\<bar>dayFromDate (int y) m (int d) * msPerDay + int r\<bar> \<le> 2 ^ 53"
    by (simp add: msPerDay_def abs_le_iff)
  then show ?thesis unfolding eq by (rule wf_Fin_int)
qed simp

end
