(* ===== verification/QueryHeader.thy ===== *)
theory QueryHeader
  imports VDom QueryDisplay
begin

text \<open>
  \<open>components/QueryHeader.jsx\<close>: the header of the pages about one query, with the tabs between them,
  the progress bar, and the buttons that preempt or kill a query that has not ended.
\<close>

text \<open>The one kind of handler: \<open>$.ajax\<close> with a URL, the method \<open>PUT\<close> and a body.\<close>

datatype header_action = AjaxPut string string

definition progressBarStyle :: "('s query_stats_scheme, 'q) query_scheme \<Rightarrow> (string \<times> string) list throws" where
  "progressBarStyle query =
     do { color \<leftarrow> getQueryStateColor query;
          Some [(''width'', numToString (getProgressBarPercentage query) @ ''%''), (''backgroundColor'', color)] }"

definition QueryHeader_renderProgressBar :: "('s query_stats_scheme, 'q) query_scheme \<Rightarrow> (unit, header_action) html" where
  "QueryHeader_renderProgressBar query =
     do { style \<leftarrow> progressBarStyle query;
          if isQueryEnded query then
     el ''div'' [Cls ''progress-large'']
       [el ''div'' [Cls ''progress-bar progress-bar-info'', Attr ''role'' ''progressbar'',
             NumAttr ''aria-valuenow'' (getProgressBarPercentage query),
             Attr ''aria-valuemin'' ''0'', Attr ''aria-valuemax'' ''100'', Style style]
         [str (getProgressBarTitle query False)]]
          else
     el ''table'' []
       [el ''tbody'' []
         [el ''tr'' []
           [el ''td'' [Attr ''width'' ''100%'']
             [el ''div'' [Cls ''progress-large'']
               [el ''div'' [Cls ''progress-bar progress-bar-info'', Attr ''role'' ''progressbar'',
                     NumAttr ''aria-valuenow'' (getProgressBarPercentage query),
                     Attr ''aria-valuemin'' ''0'', Attr ''aria-valuemax'' ''100'',
                     Style style]
                 [str (getProgressBarTitle query False)]]],
            el ''td'' []
             [el ''a'' [On ''onClick'' (AjaxPut (''/ui/api/query/'' @ queryId query @ ''/preempted'') ''Preempted via web UI''),
                   Cls ''btn btn-warning'', Attr ''target'' ''_blank'']
               [lit ''Preempt'']],
            el ''td'' []
             [el ''a'' [On ''onClick'' (AjaxPut (''/ui/api/query/'' @ queryId query @ ''/killed'') ''Killed via web UI''),
                   Cls ''btn btn-warning'', Attr ''target'' ''_blank'']
               [lit ''Kill'']]]]] }"

text \<open>\<open>pathname\<close> is \<open>window.location.pathname\<close>.\<close>

definition QueryHeader_renderTab :: "string \<Rightarrow> ('s, 'q) query_scheme \<Rightarrow> string \<Rightarrow> string \<Rightarrow> (unit, header_action) html" where
  "QueryHeader_renderTab pathname query path name =
     (if str_includes pathname path
      then el ''a'' [Attr ''href'' (path @ ''?'' @ queryId query), Cls ''btn btn-info navbar-btn nav-disabled''] [lit name]
      else el ''a'' [Attr ''href'' (path @ ''?'' @ queryId query), Cls ''btn btn-info navbar-btn''] [lit name])"

definition QueryHeader_render :: "string \<Rightarrow> ('s query_stats_scheme, 'q) query_scheme \<Rightarrow> (unit, header_action) html" where
  "QueryHeader_render pathname query =
    el ''div'' []
      [el ''div'' [Cls ''row'']
        [el ''div'' [Cls ''col-xs-6'']
          [el ''h3'' [Cls ''query-id'']
            [el ''span'' [Id ''query-id''] [lit (queryId query)],
             el ''a'' [Cls ''btn copy-button'', Attr ''data-clipboard-target'' ''#query-id'',
                  Attr ''data-toggle'' ''tooltip'', Attr ''data-placement'' ''right'',
                  Attr ''title'' ''Copy to clipboard'']
              [el ''span'' [Cls ''glyphicon glyphicon-copy'', Attr ''aria-hidden'' ''true'',
                    Attr ''alt'' ''Copy to clipboard''] []]]],
         el ''div'' [Cls ''col-xs-6'']
          [el ''table'' [Cls ''header-inline-links'']
            [el ''tbody'' []
              [el ''tr'' []
                [el ''td'' []
                  [QueryHeader_renderTab pathname query ''query.html'' ''Overview'',
                   lit nbsp,
                   QueryHeader_renderTab pathname query ''plan.html'' ''Live Plan'',
                   lit nbsp,
                   QueryHeader_renderTab pathname query ''stage.html'' ''Stage Performance'',
                   lit nbsp,
                   QueryHeader_renderTab pathname query ''timeline.html'' ''Splits'',
                   lit nbsp,
                   el ''a'' [Attr ''href'' (''/ui/api/query/'' @ queryId query @ ''?pretty''),
                        Cls ''btn btn-info navbar-btn'', Attr ''target'' ''_blank'']
                    [lit ''JSON'']]]]]]],
       el ''hr'' [Cls ''h2-hr''] [],
       el ''div'' [Cls ''row'']
        [el ''div'' [Cls ''col-xs-12''] [QueryHeader_renderProgressBar query]]]"

section \<open>Facts\<close>

lemma progressBarStyle_throws: "progressBarStyle query = throw \<longleftrightarrow> \<not> displayable query"
  by (auto simp: progressBarStyle_def bind_eq_None_conv getQueryStateColor_throws)

lemma renders_renderTab [dom_simps]: "renders (QueryHeader_renderTab p q path name)"
  by (simp add: QueryHeader_renderTab_def dom_simps)

lemma handlers_renderTab [dom_simps]: "html_handlers (QueryHeader_renderTab p q path name) = []"
  by (simp add: QueryHeader_renderTab_def html_el dom_simps)

lemma renders_renderProgressBar [dom_simps]:
  "renders (QueryHeader_renderProgressBar query) \<longleftrightarrow> displayable query"
proof (cases "progressBarStyle query")
  case None
  then have "\<not> displayable query" using progressBarStyle_throws [of query] by simp
  with None show ?thesis by (simp add: QueryHeader_renderProgressBar_def renders_def)
next
  case (Some style)
  then have "displayable query" using progressBarStyle_throws [of query] by simp
  with Some show ?thesis
    by (simp add: QueryHeader_renderProgressBar_def dom_simps getProgressBarTitle_throws del: not_None_eq)
qed

lemma handlers_renderProgressBar:
  assumes "displayable query"
  shows "html_handlers (QueryHeader_renderProgressBar query) =
    (if isQueryEnded query then []
     else [AjaxPut (''/ui/api/query/'' @ queryId query @ ''/preempted'') ''Preempted via web UI'',
           AjaxPut (''/ui/api/query/'' @ queryId query @ ''/killed'') ''Killed via web UI''])"
proof -
  have "getProgressBarTitle query False \<noteq> throw" using assms by (simp add: getProgressBarTitle_throws)
  moreover obtain style where "progressBarStyle query = Some style"
    using assms progressBarStyle_throws [of query] by (cases "progressBarStyle query") auto
  ultimately show ?thesis by (simp add: QueryHeader_renderProgressBar_def html_el dom_simps del: not_None_eq)
qed

section \<open>Properties\<close>

text \<open>The header renders exactly the displayable queries. It offers to preempt or kill the
  query as long as it has not ended, each button sending its request for that very query, and offers nothing once it has ended.\<close>

theorem QueryHeader_actions:
  "(renders (QueryHeader_render pathname query) \<longleftrightarrow> displayable query)
   \<and> (displayable query \<longrightarrow>
      html_handlers (QueryHeader_render pathname query) =
        (if isQueryEnded query then []
         else [AjaxPut (''/ui/api/query/'' @ queryId query @ ''/preempted'') ''Preempted via web UI'',
               AjaxPut (''/ui/api/query/'' @ queryId query @ ''/killed'') ''Killed via web UI'']))"
  by (simp add: QueryHeader_render_def html_el dom_simps handlers_renderProgressBar)

theorem QueryHeader_actions_witness:
  "html_handlers (QueryHeader_render ''/ui/query.html'' (canceled_query \<lparr>state := ''RUNNING''\<rparr>)) =
     [AjaxPut ''/ui/api/query/q1/preempted'' ''Preempted via web UI'',
      AjaxPut ''/ui/api/query/q1/killed'' ''Killed via web UI'']"
  using QueryHeader_actions [of "''/ui/query.html''" "canceled_query \<lparr>state := ''RUNNING''\<rparr>"]
  by (simp add: displayable_def isQueryEnded_def canceled_query_def)

end
