(* ===== verification/QueryListItem.thy ===== *)
theory QueryListItem
  imports VDom QueryDisplay DateTime QueryHeader
begin

text \<open>
  \<open>QueryListItem\<close> of \<open>components/QueryList.jsx\<close>: one query in the list of queries, with a preview of its
  text that is cut to a few lines and stripped of its common indentation. The records extend those of
  \<open>QueryDisplay\<close> with the fields of the server's \<open>BasicQueryInfo\<close>.
\<close>

record basic_query_stats = query_stats +
  createTime :: string
  elapsedTime :: string
  executionTime :: string
  totalCpuTime :: string
  cumulativeUserMemory :: jsnum
  userMemoryReservation :: string
  totalMemoryReservation :: string
  peakTotalMemoryReservation :: string
  completedDrivers :: jsnum
  queuedDrivers :: jsnum
  failedTasks :: jsnum

record basic_query = "basic_query_stats query" +
  sessionUser :: string
  sessionPrincipal :: "string option"
  sessionSource :: "string option"
  resourceGroupId :: "string list option"
  queryTextPreview :: string
  retryPolicy :: string

section \<open>The preview of the query text\<close>

definition newline :: string where
  "newline = [char_of (10 :: nat)]"

text \<open>The two loops of \<open>stripQueryTextWhitespace\<close>: the first finds the smallest indentation of a line
  that is not blank (\<open>-1\<close> when there is none), the second emits the lines.\<close>

fun minLeadingWhitespace :: "int \<Rightarrow> string list \<Rightarrow> int" where
  "minLeadingWhitespace m [] = m"
| "minLeadingWhitespace m (line # lines) =
     (if m = 0 then m
      else if length (trim line) = 0 then minLeadingWhitespace m lines
      else let lw = search_nonspace line
           in minLeadingWhitespace (if lw > -1 \<and> (lw < m \<or> m = -1) then lw else m) lines)"

definition maxLines :: nat where
  "maxLines = 6"

fun formatLines :: "int \<Rightarrow> nat \<Rightarrow> string list \<Rightarrow> string" where
  "formatLines m i [] = []"
| "formatLines m i (line # lines) =
     (let trimmedLine = trimEnd (substring_from line m)
      in if length trimmedLine > 0
         then trimmedLine @ (if i < maxLines - 1 then newline @ formatLines m (i + 1) lines
                             else newline @ ''...'')
         else formatLines m (i + 1) lines)"

definition stripQueryTextWhitespace :: "string \<Rightarrow> string" where
  "stripQueryTextWhitespace queryText =
     (let lines = split newline queryText
      in formatLines (minLeadingWhitespace (-1) lines) 0 lines)"

section \<open>Rendering\<close>

definition QueryListItem_failedTasks :: "basic_query \<Rightarrow> (unit, unit) html" where
  "QueryListItem_failedTasks query =
    (if retryPolicy query = ''TASK'' then
      el ''span'' [Cls ''tinystat'', Attr ''data-toggle'' ''tooltip'',
            Attr ''data-placement'' ''top'', Attr ''title'' ''Failed tasks'']
        [el ''span'' [Cls ''glyphicon glyphicon-remove-circle'', Style GLYPHICON_HIGHLIGHT] [],
         lit (nbsp @ nbsp),
         shown (Num (failedTasks (queryStats query)))]
     else blank)"

definition QueryListItem_splitDetails :: "basic_query \<Rightarrow> (unit, unit) html" where
  "QueryListItem_splitDetails query =
    el ''div'' [Cls ''col-xs-12 tinystat-row'']
      [el ''span'' [Cls ''tinystat'', Attr ''data-toggle'' ''tooltip'',
            Attr ''data-placement'' ''top'', Attr ''title'' ''Completed splits'']
        [el ''span'' [Cls ''glyphicon glyphicon-ok'', Style GLYPHICON_HIGHLIGHT] [],
         lit (nbsp @ nbsp),
         shown (Num (completedDrivers (queryStats query)))],
       el ''span'' [Cls ''tinystat'', Attr ''data-toggle'' ''tooltip'',
            Attr ''data-placement'' ''top'', Attr ''title'' ''Running splits'']
        [el ''span'' [Cls ''glyphicon glyphicon-play'', Style GLYPHICON_HIGHLIGHT] [],
         lit (nbsp @ nbsp),
         shown (Num (if state query = ''FINISHED'' \<or> state query = ''FAILED'' then Fin 0 else runningDrivers (queryStats query)))],
       el ''span'' [Cls ''tinystat'', Attr ''data-toggle'' ''tooltip'',
            Attr ''data-placement'' ''top'', Attr ''title'' ''Queued splits'']
        [el ''span'' [Cls ''glyphicon glyphicon-pause'', Style GLYPHICON_HIGHLIGHT] [],
         lit (nbsp @ nbsp),
         shown (Num (if state query = ''FINISHED'' \<or> state query = ''FAILED'' then Fin 0 else queuedDrivers (queryStats query)))],
       QueryListItem_failedTasks query]"

definition QueryListItem_timingDetails :: "basic_query \<Rightarrow> (unit, unit) html" where
  "QueryListItem_timingDetails query =
    el ''div'' [Cls ''col-xs-12 tinystat-row'']
      [el ''span'' [Cls ''tinystat'', Attr ''data-toggle'' ''tooltip'',
            Attr ''data-placement'' ''top'',
            Attr ''title'' ''Wall time spent executing the query (not including queued time)'']
        [el ''span'' [Cls ''glyphicon glyphicon-hourglass'', Style GLYPHICON_HIGHLIGHT] [],
         lit (nbsp @ nbsp),
         lit (executionTime (queryStats query))],
       el ''span'' [Cls ''tinystat'', Attr ''data-toggle'' ''tooltip'',
            Attr ''data-placement'' ''top'', Attr ''title'' ''Total query wall time'']
        [el ''span'' [Cls ''glyphicon glyphicon-time'', Style GLYPHICON_HIGHLIGHT] [],
         lit (nbsp @ nbsp),
         lit (elapsedTime (queryStats query))],
       el ''span'' [Cls ''tinystat'', Attr ''data-toggle'' ''tooltip'',
            Attr ''data-placement'' ''top'',
            Attr ''title'' ''CPU time spent by this query'']
        [el ''span'' [Cls ''glyphicon glyphicon-dashboard'', Style GLYPHICON_HIGHLIGHT] [],
         lit (nbsp @ nbsp),
         lit (totalCpuTime (queryStats query))]]"

definition QueryListItem_memoryDetails :: "basic_query \<Rightarrow> (unit, unit) html" where
  "QueryListItem_memoryDetails query =
    el ''div'' [Cls ''col-xs-12 tinystat-row'']
      [el ''span'' [Cls ''tinystat'', Attr ''data-toggle'' ''tooltip'',
            Attr ''data-placement'' ''top'',
            Attr ''title'' ''Current total reserved memory'']
        [el ''span'' [Cls ''glyphicon glyphicon-scale'', Style GLYPHICON_HIGHLIGHT] [],
         lit (nbsp @ nbsp),
         str (parseAndFormatDataSize (totalMemoryReservation (queryStats query)))],
       el ''span'' [Cls ''tinystat'', Attr ''data-toggle'' ''tooltip'',
            Attr ''data-placement'' ''top'', Attr ''title'' ''Peak total memory'']
        [el ''span'' [Cls ''glyphicon glyphicon-fire'', Style GLYPHICON_HIGHLIGHT] [],
         lit (nbsp @ nbsp),
         str (parseAndFormatDataSize (peakTotalMemoryReservation (queryStats query)))],
       el ''span'' [Cls ''tinystat'', Attr ''data-toggle'' ''tooltip'',
            Attr ''data-placement'' ''top'', Attr ''title'' ''Cumulative user memory'']
        [el ''span'' [Cls ''glyphicon glyphicon-equalizer'', Style GLYPHICON_HIGHLIGHT] [],
         lit (nbsp @ nbsp),
         str (formatDataSizeBytes (Num (cumulativeUserMemory (queryStats query) / Fin 1000)))]]"

text \<open>\<open>truncateString(user, 35)\<close> is given an element, which has no \<open>length\<close>, and returns it unchanged.\<close>

definition QueryListItem_user :: "basic_query \<Rightarrow> (unit, unit) html" where
  "QueryListItem_user query =
     (if sessionPrincipal query \<notin> {None, Some []}
      then el ''span'' [] [lit (sessionUser query),
             el ''span'' [Cls ''glyphicon glyphicon-lock-inverse'', Style GLYPHICON_DEFAULT] []]
      else el ''span'' [] [lit (sessionUser query)])"

definition optional_text :: "string option \<Rightarrow> ('c, 'a) html" where
  "optional_text s = (case s of None \<Rightarrow> blank | Some t \<Rightarrow> lit t)"

definition QueryListItem_header :: "(int \<Rightarrow> int) \<Rightarrow> basic_query \<Rightarrow> (unit, unit) html" where
  "QueryListItem_header tz query =
    el ''div'' [Cls ''col-xs-4'']
      [el ''div'' [Cls ''row stat-row query-header query-header-queryid'']
        [el ''div'' [Cls ''col-xs-9'', Attr ''data-toggle'' ''tooltip'',
              Attr ''data-placement'' ''bottom'', Attr ''data-trigger'' ''hover'',
              Attr ''title'' ''Query ID'']
          [el ''a'' [Attr ''href'' (''query.html?'' @ queryId query), Attr ''target'' ''_blank'']
            [lit (queryId query)]],
         el ''div'' [Cls ''col-xs-3 query-header-timestamp'', Attr ''data-toggle'' ''tooltip'',
              Attr ''data-placement'' ''bottom'', Attr ''title'' ''Submit time'']
          [el ''span'' [] [lit (shortTime tz (dateParse (createTime (queryStats query))))]]],
       el ''div'' [Cls ''row stat-row'']
        [el ''div'' [Cls ''col-xs-12'']
          [el ''span'' [Attr ''data-toggle'' ''tooltip'', Attr ''data-placement'' ''right'',
                Attr ''title'' ''User'']
            [el ''span'' [Cls ''glyphicon glyphicon-user'', Style GLYPHICON_DEFAULT] [],
             lit (nbsp @ nbsp),
             el ''span'' [] [QueryListItem_user query]]]],
       el ''div'' [Cls ''row stat-row'']
        [el ''div'' [Cls ''col-xs-12'']
          [el ''span'' [Attr ''data-toggle'' ''tooltip'', Attr ''data-placement'' ''right'',
                Attr ''title'' ''Source'']
            [el ''span'' [Cls ''glyphicon glyphicon-log-in'', Style GLYPHICON_DEFAULT] [],
             lit (nbsp @ nbsp),
             el ''span'' [] [optional_text (truncateString (sessionSource query) 35)]]]],
       el ''div'' [Cls ''row stat-row'']
        [el ''div'' [Cls ''col-xs-12'']
          [el ''span'' [Attr ''data-toggle'' ''tooltip'', Attr ''data-placement'' ''right'',
                Attr ''title'' ''Resource Group'']
            [el ''span'' [Cls ''glyphicon glyphicon-road'', Style GLYPHICON_DEFAULT] [],
             lit (nbsp @ nbsp),
             el ''span'' []
              [optional_text (truncateString (Some (case resourceGroupId query of Some g \<Rightarrow> join ''.'' g | None \<Rightarrow> ''n/a'')) 35)]]]],
       el ''div'' [Cls ''row stat-row''] [QueryListItem_splitDetails query],
       el ''div'' [Cls ''row stat-row''] [QueryListItem_timingDetails query],
       el ''div'' [Cls ''row stat-row''] [QueryListItem_memoryDetails query]]"

definition QueryListItem_render :: "(int \<Rightarrow> int) \<Rightarrow> basic_query \<Rightarrow> (unit, unit) html" where
  "QueryListItem_render tz query =
     do { style \<leftarrow> progressBarStyle query;
         el ''div'' [Cls ''query'']
           [el ''div'' [Cls ''row'']
             [QueryListItem_header tz query,
              el ''div'' [Cls ''col-xs-8'']
               [el ''div'' [Cls ''row query-header'']
                 [el ''div'' [Cls ''col-xs-12 query-progress-container'']
                   [el ''div'' [Cls ''progress'']
                     [el ''div'' [Cls ''progress-bar progress-bar-info'',
                           Attr ''role'' ''progressbar'',
                           NumAttr ''aria-valuenow'' (getProgressBarPercentage query),
                           Attr ''aria-valuemin'' ''0'', Attr ''aria-valuemax'' ''100'',
                           Style style]
                       [str (getProgressBarTitle query True)]]]],
                el ''div'' [Cls ''row query-row-bottom'']
                 [el ''div'' [Cls ''col-xs-12'']
                   [el ''pre'' [Cls ''query-snippet'']
                     [el ''code'' [Cls ''sql'']
                       [lit (stripQueryTextWhitespace (queryTextPreview query))]]]]]]] }"


section \<open>Facts\<close>

lemma optional_text_renders [dom_simps]: "renders (optional_text s)"
  by (simp add: optional_text_def dom_simps split: option.splits)

lemma QueryListItem_parts_render [dom_simps]:
  "renders (QueryListItem_failedTasks query)" "renders (QueryListItem_splitDetails query)"
  "renders (QueryListItem_timingDetails query)" "renders (QueryListItem_memoryDetails query)"
  "renders (QueryListItem_user query)"
  using parseAndFormatDataSize_total
  by (simp_all add: QueryListItem_failedTasks_def QueryListItem_splitDetails_def QueryListItem_timingDetails_def
      QueryListItem_memoryDetails_def QueryListItem_user_def dom_simps formatter_throws)

lemma QueryListItem_header_renders [dom_simps]: "renders (QueryListItem_header tz query)"
  by (simp add: QueryListItem_header_def dom_simps)

lemma QueryListItem_renders: "renders (QueryListItem_render tz query) \<longleftrightarrow> displayable query"
proof (cases "progressBarStyle query")
  case None
  then have "\<not> displayable query" using progressBarStyle_throws [of query] by simp
  with None show ?thesis by (simp add: QueryListItem_render_def renders_def)
next
  case (Some style)
  then have "displayable query" using progressBarStyle_throws [of query] by simp
  with Some show ?thesis
    by (simp add: QueryListItem_render_def dom_simps getProgressBarTitle_throws del: not_None_eq)
qed

text \<open>The indentation common to the lines that are not blank.\<close>

definition blank_line :: "string \<Rightarrow> bool" where
  "blank_line l \<longleftrightarrow> list_all is_space l"

definition common_indent :: "string list \<Rightarrow> nat" where
  "common_indent lines = Min (leading_space ` {l \<in> set lines. \<not> blank_line l})"

lemma search_nonspace_line: "\<not> blank_line l \<Longrightarrow> search_nonspace l = int (leading_space l)"
  by (simp add: search_nonspace_def blank_line_def)

lemma Min_insert_0: "finite S \<Longrightarrow> Min (insert 0 S) = (0 :: nat)"
  by (intro Min_eqI) auto

lemma Min_insert_min: "finite S \<Longrightarrow> Min (insert (min a b) S) = Min (insert b (insert (a :: nat) S))"
  by (cases "S = {}") (simp_all add: min.assoc min.commute min.left_commute)

lemma minLeadingWhitespace_acc:
  "minLeadingWhitespace (int k) lines = int (Min (insert k (leading_space ` {l \<in> set lines. \<not> blank_line l})))"
proof (induction lines arbitrary: k)
  case (Cons l ls)
  let ?S = "leading_space ` {l \<in> set ls. \<not> blank_line l}"
  show ?case
  proof (cases "blank_line l")
    case True
    then have "{x \<in> set (l # ls). \<not> blank_line x} = {x \<in> set ls. \<not> blank_line x}" by auto
    with True show ?thesis by (simp add: Cons.IH trim_Nil_iff blank_line_def Let_def Min_insert_0)
  next
    case False
    then have S: "leading_space ` {x \<in> set (l # ls). \<not> blank_line x} = insert (leading_space l) ?S" by auto
    have fin: "finite ?S" by simp
    have "minLeadingWhitespace (int k) (l # ls) =
        (if k = 0 then 0 else minLeadingWhitespace (int (min (leading_space l) k)) ls)"
      using False search_nonspace_line [of l] by (auto simp: Let_def trim_Nil_iff blank_line_def min_def)
    also have "\<dots> = int (Min (insert k (insert (leading_space l) ?S)))"
    proof (cases "k = 0")
      case True
      then show ?thesis by (simp add: Min_insert_0)
    next
      case False
      have "minLeadingWhitespace (int (min (leading_space l) k)) ls
          = int (Min (insert (min (leading_space l) k) ?S))" by (rule Cons.IH [of "min (leading_space l) k"])
      with False show ?thesis using Min_insert_min [OF fin] by simp
    qed
    finally show ?thesis by (simp only: S)
  qed
qed simp

lemma minLeadingWhitespace_min:
  assumes "\<exists>l \<in> set lines. \<not> blank_line l"
  shows "minLeadingWhitespace (-1) lines = int (common_indent lines)"
  using assms
proof (induction lines)
  case (Cons l ls)
  show ?case
  proof (cases "blank_line l")
    case True
    then have "{x \<in> set (l # ls). \<not> blank_line x} = {x \<in> set ls. \<not> blank_line x}" by auto
    with True Cons show ?thesis by (auto simp: trim_Nil_iff blank_line_def common_indent_def)
  next
    case False
    then have "leading_space ` {x \<in> set (l # ls). \<not> blank_line x}
        = insert (leading_space l) (leading_space ` {x \<in> set ls. \<not> blank_line x})" by auto
    with False show ?thesis
      using search_nonspace_line [OF False] minLeadingWhitespace_acc [of "leading_space l" ls]
      by (simp add: trim_Nil_iff blank_line_def common_indent_def)
  qed
qed simp

lemma minLeadingWhitespace_blank:
  "\<forall>l \<in> set lines. blank_line l \<Longrightarrow> minLeadingWhitespace (-1) lines = -1"
  by (induction lines) (auto simp: trim_Nil_iff blank_line_def)

lemma common_indent_le: "l \<in> set lines \<Longrightarrow> \<not> blank_line l \<Longrightarrow> common_indent lines \<le> leading_space l"
  unfolding common_indent_def by (rule Min_le) auto

lemma blank_stripped:
  assumes "n \<le> leading_space l \<or> blank_line l"
  shows "trimEnd (drop n l) = [] \<longleftrightarrow> blank_line l"
proof (cases "blank_line l")
  case True
  then have "list_all is_space (drop n l)" by (metis append_take_drop_id blank_line_def list_all_append)
  with True show ?thesis by (simp add: trimEnd_Nil_iff)
next
  case False
  with assms have "list_all is_space (take n l)" by (auto intro: take_leading_space)
  with False have "\<not> list_all is_space (drop n l)"
    by (metis append_take_drop_id blank_line_def list_all_append)
  with False show ?thesis by (simp add: trimEnd_Nil_iff)
qed

text \<open>What the second loop emits, from line number \<open>i\<close> on.\<close>

definition preview_line :: "nat \<Rightarrow> string \<Rightarrow> string" where
  "preview_line n l = trimEnd (drop n l) @ newline"

definition preview :: "nat \<Rightarrow> nat \<Rightarrow> string list \<Rightarrow> string" where
  "preview n i lines =
     concat (map (preview_line n) (filter (\<lambda>l. \<not> blank_line l) (take (maxLines - 1 - i) lines)))
     @ (case filter (\<lambda>l. \<not> blank_line l) (drop (maxLines - 1 - i) lines) of
          [] \<Rightarrow> [] | l # _ \<Rightarrow> preview_line n l @ ''...'')"

lemma formatLines_preview:
  assumes "\<forall>l \<in> set lines. n \<le> leading_space l \<or> blank_line l"
  shows "formatLines (int n) i lines = preview n i lines"
  using assms
proof (induction lines arbitrary: i)
  case (Cons l ls)
  then have IH: "formatLines (int n) (i + 1) ls = preview n (i + 1) ls" by simp
  have b: "trimEnd (drop n l) = [] \<longleftrightarrow> blank_line l" using Cons.prems by (intro blank_stripped) simp
  have step: "formatLines (int n) i (l # ls) =
      (if blank_line l then preview n (i + 1) ls
       else if i < maxLines - 1 then preview_line n l @ preview n (i + 1) ls
       else preview_line n l @ ''...'')"
    using b IH by (simp add: Let_def substring_from_nat preview_line_def)
  show ?case
  proof (cases "i < maxLines - 1")
    case True
    then have "maxLines - 1 - i = Suc (maxLines - 1 - (i + 1))" by simp
    then show ?thesis using step True by (simp add: preview_def)
  next
    case False
    then show ?thesis using step by (simp add: preview_def)
  qed
qed (simp add: preview_def)

section \<open>Properties\<close>

text \<open>C32. The preview of a query text consists of its lines without their common indentation
  and trailing white space: the lines among the first five that are not blank and then, if any later
  line is not blank, the first of those and an ellipsis. Only white space is lost from a line that is
  shown: every line that is not blank is its preview between white space. A text without any other character has an empty preview.\<close>

theorem stripQueryTextWhitespace_preview:
  "let lines = split newline text; n = common_indent lines in
     (if \<forall>l \<in> set lines. blank_line l then stripQueryTextWhitespace text = []
      else stripQueryTextWhitespace text = preview n 0 lines
        \<and> (\<forall>l \<in> set lines. \<not> blank_line l \<longrightarrow>
             (\<exists>u v. l = u @ trimEnd (drop n l) @ v \<and> length u = n \<and> list_all is_space u \<and> list_all is_space v)))"
proof -
  define lines where "lines = split newline text"
  define n where "n = common_indent lines"
  have blank: "stripQueryTextWhitespace text = []" if all: "\<forall>l \<in> set lines. blank_line l"
  proof -
    have "formatLines m i ls = []" if "\<forall>l \<in> set ls. blank_line l" "m \<le> 0" for m i ls
      using that by (induction ls arbitrary: i)
        (auto simp: Let_def substring_from_neg trimEnd_Nil_iff blank_line_def)
    with all show ?thesis
      by (simp add: stripQueryTextWhitespace_def lines_def [symmetric] minLeadingWhitespace_blank)
  qed
  have shown: "stripQueryTextWhitespace text = preview n 0 lines" if "\<exists>l \<in> set lines. \<not> blank_line l"
    using that minLeadingWhitespace_min [of lines] formatLines_preview [of lines n 0] common_indent_le [of _ lines]
    by (auto simp: stripQueryTextWhitespace_def lines_def [symmetric] n_def)
  have split: "\<exists>u v. l = u @ trimEnd (drop n l) @ v \<and> length u = n \<and> list_all is_space u \<and> list_all is_space v"
    if "l \<in> set lines" "\<not> blank_line l" for l
  proof -
    have le: "n \<le> leading_space l" using common_indent_le that by (simp add: n_def)
    then have len: "length (take n l) = n" using length_takeWhile_le [of is_space l] by (simp add: leading_space_def)
    obtain v where "drop n l = trimEnd (drop n l) @ v" "list_all is_space v"
      using trimEnd_decomp [of "drop n l"] by blast
    with take_leading_space [OF le] len show ?thesis
      by (metis append_take_drop_id)
  qed
  from blank shown split show ?thesis unfolding Let_def lines_def [symmetric] n_def [symmetric] by auto
qed

theorem stripQueryTextWhitespace_preview_witness:
  "stripQueryTextWhitespace (''  SELECT 1'' @ newline @ ''    FROM t  '')
   = ''SELECT 1'' @ newline @ ''  FROM t'' @ newline"
proof -
  define t where "t = ''  SELECT 1'' @ newline @ ''    FROM t  ''"
  define lines where "lines = [''  SELECT 1'', ''    FROM t  '']"
  have lines: "split newline t = lines" unfolding t_def lines_def by code_simp
  have "leading_space ` {l \<in> set lines. \<not> blank_line l} = {2, 4}" unfolding lines_def by code_simp
  then have "common_indent lines = 2" by (simp add: common_indent_def)
  moreover have "preview 2 0 lines = ''SELECT 1'' @ newline @ ''  FROM t'' @ newline"
    unfolding lines_def by code_simp
  moreover have "\<not> (\<forall>l \<in> set lines. blank_line l)" unfolding lines_def by code_simp
  ultimately have "stripQueryTextWhitespace t = ''SELECT 1'' @ newline @ ''  FROM t'' @ newline"
    using stripQueryTextWhitespace_preview [of t] unfolding lines Let_def by presburger
  then show ?thesis by (simp only: t_def)
qed

text \<open>A query is listed without an exception exactly when it is displayable.\<close>

theorem QueryListItem_renders_displayable:
  "renders (QueryListItem_render tz query) \<longleftrightarrow> displayable query"
  by (rule QueryListItem_renders)

end
