(* ===== verification/QueryList.thy ===== *)
theory QueryList
  imports QueryListItem Polling JsSort
begin

text \<open>
  \<open>QueryList\<close> of \<open>components/QueryList.jsx\<close>: the list of queries, which polls \<open>/ui/api/query\<close> and shows the
  queries that match the chosen filters and the search text, in the chosen order. The filter, sort
  and order functions are compared by identity in the code; here each is a constructor, with the function it stands for.
  Query ids are neither array indices nor names of \<open>Object.prototype\<close>, so an object keyed by them
  is an association list in insertion order.
\<close>

section \<open>Filters and orders\<close>

datatype filter_type = RUNNING | QUEUED | FINISHED

fun FILTER_TYPE :: "filter_type \<Rightarrow> basic_query \<Rightarrow> bool" where
  "FILTER_TYPE RUNNING query \<longleftrightarrow> \<not> (state query = ''QUEUED'' \<or> state query = ''FINISHED'' \<or> state query = ''FAILED'')"
| "FILTER_TYPE QUEUED query \<longleftrightarrow> state query = ''QUEUED''"
| "FILTER_TYPE FINISHED query \<longleftrightarrow> state query = ''FINISHED''"

datatype sort_type = CREATED | ELAPSED | EXECUTION | CPU | CUMULATIVE_MEMORY | CURRENT_MEMORY

fun SORT_TYPE :: "sort_type \<Rightarrow> basic_query \<Rightarrow> val" where
  "SORT_TYPE CREATED query = Num (dateParse (createTime (queryStats query)))"
| "SORT_TYPE ELAPSED query = val_of (parseDuration (elapsedTime (queryStats query)))"
| "SORT_TYPE EXECUTION query = val_of (parseDuration (executionTime (queryStats query)))"
| "SORT_TYPE CPU query = val_of (parseDuration (totalCpuTime (queryStats query)))"
| "SORT_TYPE CUMULATIVE_MEMORY query = Num (cumulativeUserMemory (queryStats query))"
| "SORT_TYPE CURRENT_MEMORY query = val_of (parseDataSize (userMemoryReservation (queryStats query)))"

datatype error_filter = USER_ERROR | INTERNAL_ERROR | INSUFFICIENT_RESOURCES | EXTERNAL

fun ERROR_TYPE :: "error_filter \<Rightarrow> basic_query \<Rightarrow> bool" where
  "ERROR_TYPE USER_ERROR query \<longleftrightarrow> state query = ''FAILED'' \<and> errorType query = Some ''USER_ERROR''"
| "ERROR_TYPE INTERNAL_ERROR query \<longleftrightarrow> state query = ''FAILED'' \<and> errorType query = Some ''INTERNAL_ERROR''"
| "ERROR_TYPE INSUFFICIENT_RESOURCES query \<longleftrightarrow>
     state query = ''FAILED'' \<and> errorType query = Some ''INSUFFICIENT_RESOURCES''"
| "ERROR_TYPE EXTERNAL query \<longleftrightarrow> state query = ''FAILED'' \<and> errorType query = Some ''EXTERNAL''"

datatype sort_order = ASCENDING | DESCENDING

fun SORT_ORDER :: "sort_order \<Rightarrow> jsnum \<Rightarrow> jsnum" where
  "SORT_ORDER ASCENDING v = v"
| "SORT_ORDER DESCENDING v = - v"

section \<open>State\<close>

text \<open>\<open>searchTimer\<close> is the instance variable \<open>searchTimeoutId\<close> with its pending timers.\<close>

record query_list =
  allQueries :: "basic_query list"
  displayedQueries :: "basic_query list"
  reorderInterval :: nat
  currentSortType :: sort_type
  currentSortOrder :: sort_order
  stateFilters :: "filter_type list"
  errorTypeFilters :: "error_filter list"
  searchString :: string
  maxQueries :: nat
  lastRefresh :: int
  lastReorder :: int
  initialized :: bool
  searchTimer :: timer_slot

definition QueryList_init :: "int \<Rightarrow> int \<Rightarrow> query_list" where
  "QueryList_init now now' = \<lparr>allQueries = [], displayedQueries = [], reorderInterval = 5000,
     currentSortType = CREATED, currentSortOrder = DESCENDING, stateFilters = [RUNNING, QUEUED],
     errorTypeFilters = [INTERNAL_ERROR, INSUFFICIENT_RESOURCES, EXTERNAL], searchString = [],
     maxQueries = 100, lastRefresh = now, lastReorder = now', initialized = False, searchTimer = no_timer\<rparr>"

section \<open>Sorting and filtering\<close>

definition sortQueries :: "basic_query list \<Rightarrow> sort_type \<Rightarrow> sort_order \<Rightarrow> basic_query list" where
  "sortQueries queries sortType sortOrder =
     js_sort (\<lambda>queryA queryB.
       SORT_ORDER sortOrder (toNumber (SORT_TYPE sortType queryA) - toNumber (SORT_TYPE sortType queryB))) queries"

text \<open>\<open>splice\<close> removes the queries from the given position on.\<close>

definition sortAndLimitQueries :: "basic_query list \<Rightarrow> sort_type \<Rightarrow> sort_order \<Rightarrow> nat \<Rightarrow> basic_query list" where
  "sortAndLimitQueries queries sortType sortOrder limit =
     (let sorted = sortQueries queries sortType sortOrder
      in if length sorted > limit then take limit sorted else sorted)"

fun some_filter :: "('f \<Rightarrow> basic_query \<Rightarrow> bool) \<Rightarrow> 'f list \<Rightarrow> basic_query \<Rightarrow> bool" where
  "some_filter f [] query \<longleftrightarrow> False"
| "some_filter f (x # xs) query \<longleftrightarrow> (if f x query then True else some_filter f xs query)"

definition matches_filters :: "filter_type list \<Rightarrow> error_filter list \<Rightarrow> basic_query \<Rightarrow> bool" where
  "matches_filters fs es query =
     (if some_filter FILTER_TYPE fs query then True
      else if some_filter ERROR_TYPE es query then True else False)"

definition contains :: "string \<Rightarrow> string \<Rightarrow> bool" where
  "contains s term = (indexOf (toLowerCase s) term \<noteq> -1)"

text \<open>The disjunction of the code reads the readable state, which may throw, only when the id
  does not match.\<close>

definition matches_search :: "string \<Rightarrow> basic_query \<Rightarrow> bool throws" where
  "matches_search search query =
     (let term = toLowerCase search
      in if contains (queryId query) term then Some True
         else do {
           s \<leftarrow> getHumanReadableState query False;
           Some (if contains s term \<or> contains (queryTextPreview query) term then True
                 else if sessionUser query \<noteq> [] \<and> contains (sessionUser query) term then True
                 else if sessionSource query \<notin> {None, Some []} \<and> contains (the (sessionSource query)) term then True
                 else if resourceGroupId query \<noteq> None \<and> contains (join ''.'' (the (resourceGroupId query))) term then True
                 else case errorCode query of
                        Some e \<Rightarrow> ec_name e \<noteq> [] \<and> contains (ec_name e) term
                      | None \<Rightarrow> False) })"

fun filterM :: "('a \<Rightarrow> bool throws) \<Rightarrow> 'a list \<Rightarrow> 'a list throws" where
  "filterM p [] = Some []"
| "filterM p (x # xs) = do { b \<leftarrow> p x; ys \<leftarrow> filterM p xs; Some (if b then x # ys else ys) }"

definition filterQueries ::
  "basic_query list \<Rightarrow> filter_type list \<Rightarrow> error_filter list \<Rightarrow> string \<Rightarrow> basic_query list throws" where
  "filterQueries queries fs es search =
     (let stateFilteredQueries = filter (matches_filters fs es) queries
      in if search = [] then Some stateFilteredQueries
         else filterM (matches_search search) stateFilteredQueries)"

section \<open>The refresh loop\<close>

text \<open>\<open>this.state\<close> has neither \<open>query\<close> nor \<open>ended\<close>: the condition of \<open>resetTimer\<close> always holds.\<close>

definition QueryList_resetTimer :: "query_list page \<Rightarrow> query_list page" where
  "QueryList_resetTimer w = reset_timer (\<lambda>s. True) w"

definition QueryList_refreshLoop :: "query_list page \<Rightarrow> query_list page" where
  "QueryList_refreshLoop w =
     send_request (setState (\<lambda>s. s\<lparr>searchTimer := clearTimeout (searchTimer s)\<rparr>) (clear_timer w))"

definition QueryList_componentDidMount :: "int \<Rightarrow> int \<Rightarrow> query_list page" where
  "QueryList_componentDidMount now now' = QueryList_refreshLoop (mounted (QueryList_init now now'))"

text \<open>The object \<open>queryMap\<close>: a query already seen is replaced by \<open>false\<close>, here \<open>None\<close>.\<close>

definition queryMap :: "basic_query list \<Rightarrow> (string, basic_query option) omap" where
  "queryMap queryList = fold (\<lambda>query. AList.update (queryId query) (Some query)) queryList []"

text \<open>The pass over the displayed queries: the ones still known, with their new data, and what is left
  in the map. An id displayed twice would push \<open>false\<close>.\<close>

fun take_known :: "basic_query list \<Rightarrow> (string, basic_query option) omap
    \<Rightarrow> basic_query option list \<times> (string, basic_query option) omap" where
  "take_known [] m = ([], m)"
| "take_known (old # olds) m =
     (case map_of m (queryId old) of
        Some e \<Rightarrow> (let (es, m') = take_known olds (AList.update (queryId old) None m) in (e # es, m'))
      | None \<Rightarrow> take_known olds m)"

definition newQueries :: "(string, basic_query option) omap \<Rightarrow> basic_query list" where
  "newQueries m = List.map_filter snd m"

text \<open>The array may hold \<open>false\<close>: a filter reads \<open>false.state\<close>, which is \<open>undefined\<close>, so only the
  running filter accepts it; the search and a comparison throw on it, and so does rendering it.\<close>

definition filterEntries ::
  "basic_query option list \<Rightarrow> filter_type list \<Rightarrow> error_filter list \<Rightarrow> string \<Rightarrow> basic_query option list throws" where
  "filterEntries entries fs es search =
     (let kept = filter (\<lambda>e. case e of Some q \<Rightarrow> matches_filters fs es q | None \<Rightarrow> RUNNING \<in> set fs) entries
      in if search = [] then Some kept
         else filterM (\<lambda>e. do { q \<leftarrow> e; matches_search search q }) kept)"

definition sortEntries :: "basic_query option list \<Rightarrow> sort_type \<Rightarrow> sort_order \<Rightarrow> basic_query option list throws" where
  "sortEntries entries sortType sortOrder =
     (if length entries < 2 then Some entries
      else do { qs \<leftarrow> those entries; Some (map Some (sortQueries qs sortType sortOrder)) })"

text \<open>The queries to display after a refresh, and the time of the last reordering. \<open>now\<close> and \<open>now'\<close> are
  the two readings of the clock.\<close>

definition updatedQueries ::
  "basic_query list \<Rightarrow> int \<Rightarrow> int \<Rightarrow> query_list \<Rightarrow> (basic_query option list \<times> int) throws" where
  "updatedQueries queryList now now' s =
     (let (known, rest) = take_known (displayedQueries s) (queryMap queryList)
      in do {
        new \<leftarrow> filterQueries (newQueries rest) (stateFilters s) (errorTypeFilters s) (searchString s);
        (updated, reorder) \<leftarrow>
          (if reorderInterval s \<noteq> 0 \<and> now - lastReorder s \<ge> int (reorderInterval s)
           then do { known' \<leftarrow> filterEntries known (stateFilters s) (errorTypeFilters s) (searchString s);
                     sorted \<leftarrow> sortEntries (known' @ map Some new) (currentSortType s) (currentSortOrder s);
                     Some (sorted, now') }
           else Some (known @ map Some (sortQueries new (currentSortType s) (currentSortOrder s)), lastReorder s));
        Some (if maxQueries s \<noteq> 0 \<and> length updated > maxQueries s then take (maxQueries s) updated else updated,
              reorder) })"

text \<open>Outside of an event handler \<open>setState\<close> renders at once, and the rendering throws when the
  array still holds \<open>false\<close> or a query that is not displayable.\<close>

definition show_queries :: "(int \<Rightarrow> int) \<Rightarrow> basic_query option list \<Rightarrow> basic_query list throws" where
  "show_queries tz entries =
     do { qs \<leftarrow> those entries; _ \<leftarrow> mapM (QueryListItem_render tz) qs; Some qs }"

definition QueryList_success ::
  "(int \<Rightarrow> int) \<Rightarrow> basic_query list \<Rightarrow> int \<Rightarrow> int \<Rightarrow> query_list page \<Rightarrow> query_list page throws" where
  "QueryList_success tz queryList now now' w =
     do { (updated, reorder) \<leftarrow> updatedQueries queryList now now' (this_state w);
          qs \<leftarrow> show_queries tz updated;
          Some (QueryList_resetTimer (setState (\<lambda>s. s\<lparr>allQueries := queryList, displayedQueries := qs,
            lastRefresh := now, lastReorder := reorder, initialized := True\<rparr>) w)) }"

definition QueryList_fail :: "query_list page \<Rightarrow> query_list page throws" where
  "QueryList_fail w = Some (QueryList_resetTimer (setState (\<lambda>s. s\<lparr>initialized := True\<rparr>) w))"

section \<open>Handlers\<close>

text \<open>The queries the handlers display: all those known that match, sorted and limited.\<close>

definition filteredAndSorted ::
  "(int \<Rightarrow> int) \<Rightarrow> query_list \<Rightarrow> filter_type list \<Rightarrow> error_filter list \<Rightarrow> sort_type \<Rightarrow> sort_order \<Rightarrow> nat
   \<Rightarrow> basic_query list throws" where
  "filteredAndSorted tz s fs es sortType sortOrder limit =
     do { qs \<leftarrow> filterQueries (allQueries s) fs es (searchString s);
          show_queries tz (map Some (sortAndLimitQueries qs sortType sortOrder limit)) }"

definition handleSearchStringChange :: "string \<Rightarrow> query_list \<Rightarrow> query_list throws" where
  "handleSearchStringChange newSearchString s =
     Some (s\<lparr>searchString := newSearchString, searchTimer := setTimeout (clearTimeout (searchTimer s))\<rparr>)"

definition executeSearch :: "(int \<Rightarrow> int) \<Rightarrow> query_list \<Rightarrow> query_list throws" where
  "executeSearch tz s =
     (let s' = s\<lparr>searchTimer := clearTimeout (searchTimer s)\<rparr>
      in do { qs \<leftarrow> filteredAndSorted tz s' (stateFilters s') (errorTypeFilters s')
                      (currentSortType s') (currentSortOrder s') (maxQueries s');
              Some (s'\<lparr>displayedQueries := qs\<rparr>) })"

text \<open>The search timer fires.\<close>

definition searchTimer_fires :: "(int \<Rightarrow> int) \<Rightarrow> query_list \<Rightarrow> query_list throws" where
  "searchTimer_fires tz s =
     (if pending (searchTimer s) = {} then Some s
      else executeSearch tz (s\<lparr>searchTimer := (searchTimer s)\<lparr>pending := {}\<rparr>\<rparr>))"

definition handleMaxQueriesClick :: "(int \<Rightarrow> int) \<Rightarrow> nat \<Rightarrow> query_list \<Rightarrow> query_list throws" where
  "handleMaxQueriesClick tz newMaxQueries s =
     do { qs \<leftarrow> filteredAndSorted tz s (stateFilters s) (errorTypeFilters s)
                  (currentSortType s) (currentSortOrder s) newMaxQueries;
          Some (s\<lparr>maxQueries := newMaxQueries, displayedQueries := qs\<rparr>) }"

definition handleReorderClick :: "nat \<Rightarrow> query_list \<Rightarrow> query_list throws" where
  "handleReorderClick interval s =
     Some (if reorderInterval s \<noteq> interval then s\<lparr>reorderInterval := interval\<rparr> else s)"

definition handleSortClick :: "(int \<Rightarrow> int) \<Rightarrow> sort_type \<Rightarrow> query_list \<Rightarrow> query_list throws" where
  "handleSortClick tz sortType s =
     (let newSortOrder = (if currentSortType s = sortType \<and> currentSortOrder s = DESCENDING
                          then ASCENDING else DESCENDING)
      in do { qs \<leftarrow> filteredAndSorted tz s (stateFilters s) (errorTypeFilters s) sortType newSortOrder (maxQueries s);
              Some (s\<lparr>displayedQueries := qs, currentSortType := sortType, currentSortOrder := newSortOrder\<rparr>) })"

text \<open>\<open>splice(indexOf(x), 1)\<close> removes the first occurrence, \<open>push\<close> appends.\<close>

definition toggle :: "'f \<Rightarrow> 'f list \<Rightarrow> 'f list" where
  "toggle x xs = (if x \<in> set xs then remove1 x xs else xs @ [x])"

definition handleStateFilterClick :: "(int \<Rightarrow> int) \<Rightarrow> filter_type \<Rightarrow> query_list \<Rightarrow> query_list throws" where
  "handleStateFilterClick tz flt s =
     (let newFilters = toggle flt (stateFilters s)
      in do { qs \<leftarrow> filteredAndSorted tz s newFilters (errorTypeFilters s)
                      (currentSortType s) (currentSortOrder s) (maxQueries s);
              Some (s\<lparr>stateFilters := newFilters, displayedQueries := qs\<rparr>) })"

definition handleErrorTypeFilterClick :: "(int \<Rightarrow> int) \<Rightarrow> error_filter \<Rightarrow> query_list \<Rightarrow> query_list throws" where
  "handleErrorTypeFilterClick tz err s =
     (let newFilters = toggle err (errorTypeFilters s)
      in do { qs \<leftarrow> filteredAndSorted tz s (stateFilters s) newFilters
                      (currentSortType s) (currentSortOrder s) (maxQueries s);
              Some (s\<lparr>errorTypeFilters := newFilters, displayedQueries := qs\<rparr>) })"

text \<open>A handler on the page.\<close>

definition lift_handler :: "(query_list \<Rightarrow> query_list throws) \<Rightarrow> query_list page \<Rightarrow> query_list page throws" where
  "lift_handler h w = do { s \<leftarrow> h (this_state w); Some (w\<lparr>this_state := s\<rparr>) }"

section \<open>Facts\<close>

subsection \<open>Filters\<close>

lemma some_filter_iff: "some_filter f xs q \<longleftrightarrow> (\<exists>x \<in> set xs. f x q)"
  by (induction xs) auto

lemma matches_filters_iff:
  "matches_filters fs es q \<longleftrightarrow> (\<exists>f \<in> set fs. FILTER_TYPE f q) \<or> (\<exists>e \<in> set es. ERROR_TYPE e q)"
  by (simp add: matches_filters_def some_filter_iff)

text \<open>The queries a choice of filters and a search text lets through.\<close>

definition matches :: "filter_type list \<Rightarrow> error_filter list \<Rightarrow> string \<Rightarrow> basic_query \<Rightarrow> bool" where
  "matches fs es search q \<longleftrightarrow>
     matches_filters fs es q \<and> (search = [] \<or> matches_search search q = Some True)"

lemma matches_search_total: "displayable q \<Longrightarrow> matches_search search q \<noteq> throw"
  using getHumanReadableState_throws [of q False] by (auto simp: matches_search_def Let_def)

lemma filterM_total: "\<forall>x \<in> set xs. p x \<noteq> throw \<Longrightarrow> filterM p xs = Some (filter (\<lambda>x. p x = Some True) xs)"
  by (induction xs) auto

lemma filterQueries_total:
  assumes "list_all displayable qs"
  shows "filterQueries qs fs es search = Some (filter (matches fs es search) qs)"
proof (cases "search = []")
  case True
  then show ?thesis by (simp add: filterQueries_def, intro filter_cong) (simp_all add: matches_def)
next
  case False
  have "filterM (matches_search search) (filter (matches_filters fs es) qs)
      = Some (filter (\<lambda>q. matches_search search q = Some True) (filter (matches_filters fs es) qs))"
    using assms matches_search_total by (intro filterM_total) (auto simp: list_all_iff)
  with False show ?thesis
    by (simp add: filterQueries_def conj_commute, intro filter_cong) (simp_all add: matches_def conj_commute)
qed

lemma filterM_map_Some:
  "filterM (\<lambda>e. do { q \<leftarrow> e; p q }) (map Some qs) = map_option (map Some) (filterM p qs)"
  by (induction qs) (auto simp: bind_map_option split: bind_splits)

lemma filterEntries_map_Some:
  "filterEntries (map Some qs) fs es search = map_option (map Some) (filterQueries qs fs es search)"
  by (simp add: filterEntries_def filterQueries_def Let_def filter_map comp_def filterM_map_Some)

lemma those_map_Some [simp]: "those (map Some qs) = Some qs"
  by (simp add: those_eq_Some)

lemma mset_sortQueries [simp]: "mset (sortQueries qs st so) = mset qs"
  by (simp add: sortQueries_def)

lemma set_sortQueries [simp]: "set (sortQueries qs st so) = set qs"
  by (simp add: sortQueries_def)

lemma length_sortQueries [simp]: "length (sortQueries qs st so) = length qs"
  by (simp add: sortQueries_def)

lemma distinct_sortQueries [simp]: "distinct (map f (sortQueries qs st so)) \<longleftrightarrow> distinct (map f qs)"
  by (simp add: sortQueries_def)

lemma sortQueries_short: "length qs < 2 \<Longrightarrow> sortQueries qs st so = qs"
  by (cases qs; cases "tl qs") (auto simp: sortQueries_def js_sort_def)

lemma sortEntries_map_Some: "sortEntries (map Some qs) st so = Some (map Some (sortQueries qs st so))"
  by (simp add: sortEntries_def sortQueries_short)

lemma sortAndLimit_take: "sortAndLimitQueries qs st so n = take n (sortQueries qs st so)"
  by (simp add: sortAndLimitQueries_def Let_def)

lemma show_queries_total:
  assumes "list_all displayable qs"
  shows "show_queries tz (map Some qs) = Some qs"
proof -
  have "mapM (QueryListItem_render tz) qs \<noteq> None"
    using assms QueryListItem_renders [of tz] by (auto simp: mapM_eq_None_iff list_all_iff renders_def)
  then show ?thesis by (auto simp: show_queries_def)
qed

subsection \<open>The refresh\<close>

lemma update_existing:
  assumes "distinct (map fst m)" and "k \<in> fst ` set m"
  shows "AList.update k v m = map (\<lambda>(k', e). (k', if k' = k then v else e)) m"
  using assms
proof (induction m)
  case (Cons p m)
  show ?case
  proof (cases "fst p = k")
    case True
    then have "map (\<lambda>(k', e). (k', if k' = k then v else e)) m = m"
      using Cons.prems(1) by (intro map_idI) (auto split: prod.split intro: rev_image_eqI)
    with True show ?thesis by (cases p) simp
  next
    case False
    with Cons show ?thesis by (cases p) auto
  qed
qed simp

lemma update_missing: "k \<notin> fst ` set m \<Longrightarrow> AList.update k v m = m @ [(k, v)]"
  by (induction m) auto

lemma map_filter_cong: "(\<And>x. x \<in> set xs \<Longrightarrow> f x = g x) \<Longrightarrow> List.map_filter f xs = List.map_filter g xs"
  by (induction xs) (auto split: option.split)

lemma queryMap_distinct:
  assumes "distinct (map queryId L)"
  shows "queryMap L = map (\<lambda>q. (queryId q, Some q)) L"
proof -
  have "fold (\<lambda>q. AList.update (queryId q) (Some q)) L m = m @ map (\<lambda>q. (queryId q, Some q)) L"
    if "distinct (map queryId L)" "\<forall>q \<in> set L. queryId q \<notin> fst ` set m" for L and m :: "(string \<times> basic_query option) list"
    using that
  proof (induction L arbitrary: m)
    case (Cons q L)
    have "AList.update (queryId q) (Some q) m = m @ [(queryId q, Some q)]"
      using Cons.prems(2) by (intro update_missing) simp
    moreover have "\<forall>q' \<in> set L. queryId q' \<notin> fst ` set (m @ [(queryId q, Some q)])"
      using Cons.prems by (auto simp: rev_image_eqI)
    ultimately show ?case using Cons.IH [of "m @ [(queryId q, Some q)]"] Cons.prems(1) by simp
  qed simp
  from this [OF assms, of "[]"] show ?thesis by (simp add: queryMap_def)
qed

text \<open>Marking the displayed ids, and looking each of them up.\<close>

definition mark :: "string set \<Rightarrow> (string, basic_query option) omap \<Rightarrow> (string, basic_query option) omap" where
  "mark K m = map (\<lambda>(k, e). (k, if k \<in> K then None else e)) m"

lemma map_of_mark: "k \<notin> K \<Longrightarrow> map_of (mark K m) k = map_of m k"
  by (induction m) (auto simp: mark_def)

lemma take_known_spec:
  assumes "distinct (map fst m)" and "distinct (map queryId olds)"
  shows "take_known olds m = (List.map_filter (\<lambda>old. map_of m (queryId old)) olds, mark (queryId ` set olds) m)"
  using assms
proof (induction olds arbitrary: m)
  case Nil
  show ?case by (auto simp: mark_def List.map_filter_def intro!: map_idI [symmetric])
next
  case (Cons old olds)
  have marks: "mark (queryId ` set olds) (mark {queryId old} m) = mark (queryId ` set (old # olds)) m"
    by (auto simp: mark_def)
  have same: "List.map_filter (\<lambda>o'. map_of (mark {queryId old} m) (queryId o')) olds
      = List.map_filter (\<lambda>o'. map_of m (queryId o')) olds"
    using Cons.prems(2) by (intro map_filter_cong map_of_mark) (auto simp: rev_image_eqI)
  show ?case
  proof (cases "map_of m (queryId old)")
    case None
    then have "mark {queryId old} m = m"
      by (force simp: mark_def map_of_eq_None_iff intro!: map_idI)
    with None Cons marks show ?thesis by (simp add: List.map_filter_simps)
  next
    case (Some e)
    then have "queryId old \<in> fst ` set m" by (auto dest!: map_of_SomeD intro: rev_image_eqI)
    then have "AList.update (queryId old) None m = mark {queryId old} m"
      using update_existing [OF Cons.prems(1)] by (simp add: mark_def)
    moreover have "distinct (map fst (mark {queryId old} m))"
      using Cons.prems(1) by (simp add: mark_def comp_def case_prod_beta)
    ultimately show ?thesis using Some Cons.IH Cons.prems(2) marks same by (simp add: List.map_filter_simps)
  qed
qed

text \<open>The queries a refresh keeps displaying, with their new data, and the ones that are new.\<close>

definition survivors :: "basic_query list \<Rightarrow> basic_query list \<Rightarrow> basic_query list" where
  "survivors L olds = List.map_filter (\<lambda>old. map_of (map (\<lambda>q. (queryId q, q)) L) (queryId old)) olds"

definition arrivals :: "basic_query list \<Rightarrow> basic_query list \<Rightarrow> basic_query list" where
  "arrivals L olds = filter (\<lambda>q. queryId q \<notin> queryId ` set olds) L"

lemma map_of_Some_map: "map_of (map (\<lambda>q. (f q, Some q)) L) k = map_option Some (map_of (map (\<lambda>q. (f q, q)) L) k)"
  by (induction L) auto

lemma map_filter_map_option: "List.map_filter (\<lambda>x. map_option g (f x)) xs = map g (List.map_filter f xs)"
  by (induction xs) (auto split: option.split)

lemma take_known_queryMap:
  assumes "distinct (map queryId L)" and "distinct (map queryId olds)"
  shows "fst (take_known olds (queryMap L)) = map Some (survivors L olds)"
    and "newQueries (snd (take_known olds (queryMap L))) = arrivals L olds"
proof -
  let ?m = "map (\<lambda>q. (queryId q, Some q)) L"
  have t: "take_known olds (queryMap L)
      = (List.map_filter (\<lambda>old. map_of ?m (queryId old)) olds, mark (queryId ` set olds) ?m)"
    using take_known_spec [of ?m olds] assms by (simp add: queryMap_distinct comp_def)
  show "fst (take_known olds (queryMap L)) = map Some (survivors L olds)"
    by (simp add: t map_of_Some_map map_filter_map_option survivors_def)
  show "newQueries (snd (take_known olds (queryMap L))) = arrivals L olds"
    unfolding t snd_conv newQueries_def arrivals_def mark_def
    by (induction L) (auto simp: List.map_filter_simps)
qed

lemma survivors_in: "q \<in> set (survivors L olds) \<Longrightarrow> q \<in> set L \<and> queryId q \<in> queryId ` set olds"
  by (induction olds) (auto simp: survivors_def dest!: map_of_SomeD split: option.splits)

lemma survivors_ids:
  "map queryId (survivors L olds) = filter (\<lambda>i. i \<in> queryId ` set L) (map queryId olds)"
proof (induction olds)
  case (Cons old olds)
  show ?case
  proof (cases "map_of (map (\<lambda>q. (queryId q, q)) L) (queryId old)")
    case None
    then have "queryId old \<notin> queryId ` set L" by (simp add: map_of_eq_None_iff image_image)
    with None Cons show ?thesis by (simp add: survivors_def)
  next
    case (Some q)
    then have "q \<in> set L" "queryId q = queryId old" by (auto dest!: map_of_SomeD)
    with Some Cons show ?thesis by (simp add: survivors_def) (metis image_eqI)
  qed
qed (simp add: survivors_def)

lemma mset_survivors_arrivals:
  assumes "distinct (map queryId L)" and "distinct (map queryId olds)"
  shows "mset (survivors L olds @ arrivals L olds) = mset L"
proof -
  have old: "queryId ` set (survivors L olds) \<subseteq> queryId ` set olds" using survivors_in by blast
  have new: "queryId ` set (arrivals L olds) \<inter> queryId ` set olds = {}" by (auto simp: arrivals_def)
  have "distinct (map queryId (survivors L olds))" unfolding survivors_ids using assms(2) by simp
  moreover have "distinct (map queryId (arrivals L olds))"
    using assms(1) by (simp add: arrivals_def distinct_map_filter)
  moreover have "queryId ` set (survivors L olds) \<inter> queryId ` set (arrivals L olds) = {}"
    using old new by blast
  ultimately have "distinct (map queryId (survivors L olds @ arrivals L olds))" by simp
  then have d: "distinct (survivors L olds @ arrivals L olds)" by (simp only: distinct_map)
  have "set L \<subseteq> set (survivors L olds) \<union> set (arrivals L olds)"
  proof
    fix q assume q: "q \<in> set L"
    show "q \<in> set (survivors L olds) \<union> set (arrivals L olds)"
    proof (cases "queryId q \<in> queryId ` set olds")
      case True
      with q have "queryId q \<in> set (map queryId (survivors L olds))" unfolding survivors_ids by auto
      then obtain q' where "q' \<in> set (survivors L olds)" "queryId q' = queryId q" by auto
      moreover from this have "q' = q"
        using survivors_in [of q'] q assms(1) by (auto simp: distinct_map inj_on_def)
      ultimately show ?thesis by simp
    next
      case False
      with q show ?thesis by (simp add: arrivals_def)
    qed
  qed
  then have "set (survivors L olds @ arrivals L olds) = set L"
    using survivors_in by (auto simp: arrivals_def)
  with d assms(1) show ?thesis using set_eq_iff_mset_eq_distinct distinct_map by metis
qed

subsection \<open>What a refresh displays\<close>

definition wf_queries :: "basic_query list \<Rightarrow> bool" where
  "wf_queries qs \<longleftrightarrow> distinct (map queryId qs) \<and> list_all displayable qs"

definition good_list :: "query_list \<Rightarrow> bool" where
  "good_list s \<longleftrightarrow> wf_queries (allQueries s) \<and> wf_queries (displayedQueries s)
     \<and> set (displayedQueries s) \<subseteq> set (allQueries s) \<and> tracked (searchTimer s)
     \<and> (maxQueries s \<noteq> 0 \<longrightarrow> length (displayedQueries s) \<le> maxQueries s)"

definition matching :: "query_list \<Rightarrow> basic_query list \<Rightarrow> basic_query list" where
  "matching s qs = filter (matches (stateFilters s) (errorTypeFilters s) (searchString s)) qs"

definition reorder_due :: "int \<Rightarrow> query_list \<Rightarrow> bool" where
  "reorder_due now s \<longleftrightarrow> reorderInterval s \<noteq> 0 \<and> now - lastReorder s \<ge> int (reorderInterval s)"

definition limit_to :: "nat \<Rightarrow> 'a list \<Rightarrow> 'a list" where
  "limit_to n xs = (if n = 0 then xs else take n xs)"

definition sorted_by :: "query_list \<Rightarrow> basic_query list \<Rightarrow> basic_query list" where
  "sorted_by s qs = sortQueries qs (currentSortType s) (currentSortOrder s)"

definition refreshed :: "basic_query list \<Rightarrow> int \<Rightarrow> query_list \<Rightarrow> basic_query list" where
  "refreshed L now s =
     (let known = survivors L (displayedQueries s); new = arrivals L (displayedQueries s)
      in limit_to (maxQueries s)
          (if reorder_due now s then sorted_by s (matching s (known @ new))
           else known @ sorted_by s (matching s new)))"

lemma list_all_subset: "list_all P xs \<Longrightarrow> set ys \<subseteq> set xs \<Longrightarrow> list_all P ys"
  by (auto simp: list_all_iff)

lemma matching_append: "matching s (xs @ ys) = matching s xs @ matching s ys"
  by (simp add: matching_def)

lemma updatedQueries_total:
  assumes "good_list s" and "wf_queries L"
  shows "updatedQueries L now now' s
    = Some (map Some (refreshed L now s), if reorder_due now s then now' else lastReorder s)"
proof -
  let ?olds = "displayedQueries s"
  have d: "distinct (map queryId L)" "distinct (map queryId ?olds)"
    using assms by (auto simp: good_list_def wf_queries_def)
  obtain rest where t: "take_known ?olds (queryMap L) = (map Some (survivors L ?olds), rest)"
    and rest: "newQueries rest = arrivals L ?olds"
    using take_known_queryMap [OF d] by (metis prod.collapse)
  have disp: "list_all displayable (survivors L ?olds)" "list_all displayable (arrivals L ?olds)"
    using assms(2) survivors_in [of _ L ?olds] by (auto simp: wf_queries_def list_all_iff arrivals_def)
  have f: "filterQueries (survivors L ?olds) (stateFilters s) (errorTypeFilters s) (searchString s)
      = Some (matching s (survivors L ?olds))"
    "filterQueries (arrivals L ?olds) (stateFilters s) (errorTypeFilters s) (searchString s)
      = Some (matching s (arrivals L ?olds))"
    using disp by (simp_all add: filterQueries_total matching_def)
  show ?thesis
    unfolding updatedQueries_def reorder_due_def [symmetric]
    by (cases "reorder_due now s")
      (simp_all add: t rest f filterEntries_map_Some refreshed_def limit_to_def sorted_by_def
        Let_def take_map matching_append sortEntries_map_Some flip: map_append)
qed

lemma set_limit_to: "set (limit_to n xs) \<subseteq> set xs"
  by (auto simp: limit_to_def dest: in_set_takeD)

lemma distinct_limit_to: "distinct (map f xs) \<Longrightarrow> distinct (map f (limit_to n xs))"
  by (simp add: limit_to_def distinct_map_take)

lemma refreshed_from:
  assumes "distinct (map queryId L)" and "distinct (map queryId (displayedQueries s))"
  shows "set (refreshed L now s) \<subseteq> set L" and "distinct (map queryId (refreshed L now s))"
proof -
  let ?o = "displayedQueries s"
  note m = mset_survivors_arrivals [OF assms]
  have dist: "distinct (map queryId (survivors L ?o @ arrivals L ?o))"
    using m assms(1) mset_distinct_map by metis
  have sub: "set (survivors L ?o) \<subseteq> set L" using survivors_in by blast
  show "set (refreshed L now s) \<subseteq> set L"
    unfolding refreshed_def Let_def
    by (rule subset_trans [OF set_limit_to]) (use sub in \<open>auto simp: sorted_by_def matching_def arrivals_def\<close>)
  have "distinct (map queryId (matching s (survivors L ?o @ arrivals L ?o)))"
    using dist unfolding matching_def by (rule distinct_map_filter)
  moreover have "distinct (map queryId (survivors L ?o @ sorted_by s (matching s (arrivals L ?o))))"
    using dist by (auto simp: sorted_by_def matching_def distinct_map_filter)
  ultimately show "distinct (map queryId (refreshed L now s))"
    by (simp add: refreshed_def Let_def sorted_by_def distinct_limit_to del: map_append)
qed

lemma QueryList_success_total:
  assumes "good_list (this_state w)" and "wf_queries L"
  shows "QueryList_success tz L now now' w = Some (QueryList_resetTimer (setState (\<lambda>s. s\<lparr>allQueries := L,
      displayedQueries := refreshed L now (this_state w), lastRefresh := now,
      lastReorder := (if reorder_due now (this_state w) then now' else lastReorder (this_state w)),
      initialized := True\<rparr>) w))"
proof -
  have "list_all displayable (refreshed L now (this_state w))"
    using assms refreshed_from [of L "this_state w" now] list_all_subset
    by (auto simp: wf_queries_def good_list_def)
  then show ?thesis
    by (simp add: QueryList_success_def updatedQueries_total [OF assms] show_queries_total)
qed

lemma length_limit_to: "n \<noteq> 0 \<Longrightarrow> length (limit_to n xs) \<le> n"
  by (simp add: limit_to_def)

lemma good_success:
  assumes "good_list (this_state w)" and "wf_queries L" and "QueryList_success tz L now now' w = Some w'"
  shows "good_list (this_state w')"
proof -
  have r: "set (refreshed L now (this_state w)) \<subseteq> set L" "distinct (map queryId (refreshed L now (this_state w)))"
    using assms(1,2) refreshed_from by (auto simp: good_list_def wf_queries_def)
  then have "list_all displayable (refreshed L now (this_state w))"
    using assms(2) list_all_subset by (auto simp: wf_queries_def)
  moreover have "maxQueries (this_state w) \<noteq> 0 \<Longrightarrow>
      length (refreshed L now (this_state w)) \<le> maxQueries (this_state w)"
    unfolding refreshed_def Let_def by (rule length_limit_to)
  ultimately show ?thesis
    using r assms(1,2) QueryList_success_total [OF assms(1,2)] assms(3)
    by (auto simp: good_list_def wf_queries_def QueryList_resetTimer_def loop_simps)
qed

end
