(* ===== verification/QueryListSpec.thy ===== *)
theory QueryListSpec
  imports QueryList
begin

text \<open>
  What the list of queries promises: what a refresh and every handler display, the invariant of
  its state, and its refresh loop, as an instance of the interface \<open>poller\<close>.
\<close>

section \<open>Handlers\<close>

lemma filteredAndSorted_total:
  assumes "good_list s"
  shows "filteredAndSorted tz s fs es st so n
    = Some (take n (sortQueries (filter (matches fs es (searchString s)) (allQueries s)) st so))"
proof -
  have all: "list_all displayable (allQueries s)" using assms by (simp add: good_list_def wf_queries_def)
  then have "list_all displayable (take n (sortQueries (filter (matches fs es (searchString s)) (allQueries s)) st so))"
    by (auto simp: list_all_iff dest!: in_set_takeD)
  with all show ?thesis
    by (simp add: filteredAndSorted_def filterQueries_total sortAndLimit_take show_queries_total)
qed

lemma good_displayed:
  assumes "good_list s"
  shows "wf_queries (take n (sortQueries (filter P (allQueries s)) st so))"
    and "set (take n (sortQueries (filter P (allQueries s)) st so)) \<subseteq> set (allQueries s)"
  using assms
  by (auto simp: good_list_def wf_queries_def list_all_iff distinct_map_take distinct_map_filter dest!: in_set_takeD)

lemma good_search_timer: "good_list s \<Longrightarrow> tracked t \<Longrightarrow> good_list (s\<lparr>searchTimer := t\<rparr>)"
  by (simp add: good_list_def)

definition QueryList_handlers :: "(int \<Rightarrow> int) \<Rightarrow> (query_list \<Rightarrow> query_list throws) set" where
  "QueryList_handlers tz =
     {searchTimer_fires tz} \<union> range handleSearchStringChange \<union> range (handleMaxQueriesClick tz)
     \<union> range handleReorderClick \<union> range (handleSortClick tz) \<union> range (handleStateFilterClick tz)
     \<union> range (handleErrorTypeFilterClick tz)"

lemma executeSearch_good:
  assumes "good_list s"
  shows "\<exists>s'. executeSearch tz s = Some s' \<and> good_list s'"
proof -
  let ?s = "s\<lparr>searchTimer := clearTimeout (searchTimer s)\<rparr>"
  have s': "good_list ?s" using assms by (simp add: good_list_def loop_simps)
  show ?thesis
    using filteredAndSorted_total [OF s'] good_displayed [OF s'] s'
    by (simp add: executeSearch_def Let_def good_list_def)
qed

lemma searchTimer_fires_good:
  assumes "good_list s"
  shows "\<exists>s'. searchTimer_fires tz s = Some s' \<and> good_list s'"
  using assms executeSearch_good good_search_timer
  by (simp add: searchTimer_fires_def tracked_def)

lemma handlers_good:
  assumes "good_list s" and "h \<in> QueryList_handlers tz"
  shows "\<exists>s'. h s = Some s' \<and> good_list s'"
  using assms(2) assms(1) good_displayed [OF assms(1)] filteredAndSorted_total [OF assms(1)]
    searchTimer_fires_good [OF assms(1)] tracked_clear
  unfolding QueryList_handlers_def
  by (elim UnE rangeE singletonE)
    (simp_all add: handleSearchStringChange_def handleMaxQueriesClick_def handleReorderClick_def
      handleSortClick_def handleStateFilterClick_def handleErrorTypeFilterClick_def Let_def
      good_list_def loop_simps)

section \<open>The refresh loop\<close>

definition QueryList_responses :: "(int \<Rightarrow> int) \<Rightarrow> (query_list page \<Rightarrow> query_list page throws) set" where
  "QueryList_responses tz = insert QueryList_fail {QueryList_success tz L now now' | L now now'. wf_queries L}"

definition QueryList_events :: "(int \<Rightarrow> int) \<Rightarrow> (query_list page \<Rightarrow> query_list page throws) set" where
  "QueryList_events tz = lift_handler ` QueryList_handlers tz"

lemma QueryList_loop_frame:
  "slot (QueryList_refreshLoop w) = clearTimeout (slot w)" "inflight (QueryList_refreshLoop w) = inflight w + 1"
  "this_state (QueryList_refreshLoop w) = (this_state w)\<lparr>searchTimer := clearTimeout (searchTimer (this_state w))\<rparr>"
  by (simp_all add: QueryList_refreshLoop_def loop_simps)

lemma good_loop: "good_list (this_state w) \<Longrightarrow> good_list (this_state (QueryList_refreshLoop w))"
  by (simp add: QueryList_loop_frame good_search_timer tracked_clear good_list_def)

lemma good_fail: "good_list (this_state w) \<Longrightarrow> QueryList_fail w = Some w' \<Longrightarrow> good_list (this_state w')"
  by (auto simp: QueryList_fail_def QueryList_resetTimer_def loop_simps good_list_def)

lemma response_frame:
  assumes "r \<in> QueryList_responses tz" and "good_list (this_state w)"
  shows "\<exists>w'. r w = Some w' \<and> inflight w' = inflight w \<and> good_list (this_state w')
    \<and> slot w' = setTimeout (clearTimeout (slot w))"
proof (cases "r = QueryList_fail")
  case True
  with assms(2) good_fail [of w] show ?thesis
    by (auto simp: QueryList_fail_def QueryList_resetTimer_def loop_simps)
next
  case False
  with assms(1) obtain L now now' where r: "r = QueryList_success tz L now now'" and wf: "wf_queries L"
    by (auto simp: QueryList_responses_def)
  note t = QueryList_success_total [OF assms(2) wf, of tz now now']
  then have "good_list (this_state (the (r w)))" using good_success [OF assms(2) wf] r by simp
  with t r show ?thesis by (simp add: QueryList_resetTimer_def loop_simps)
qed

lemma event_frame:
  assumes "e \<in> QueryList_events tz" and "good_list (this_state w)"
  shows "\<exists>w'. e w = Some w' \<and> inflight w' = inflight w \<and> slot w' = slot w \<and> good_list (this_state w')"
proof -
  obtain h where h: "e = lift_handler h" "h \<in> QueryList_handlers tz" using assms(1) by (auto simp: QueryList_events_def)
  obtain s' where "h (this_state w) = Some s'" "good_list s'" using handlers_good [OF assms(2) h(2)] by blast
  then show ?thesis by (simp add: h(1) lift_handler_def)
qed

interpretation ql: poller QueryList_refreshLoop "QueryList_responses tz" "QueryList_events tz" "\<lambda>s. True" good_list
proof
  show "slot (QueryList_refreshLoop w) = clearTimeout (slot w) \<and> inflight (QueryList_refreshLoop w) = inflight w + 1
      \<and> True = True \<and> (good_list (this_state w) \<longrightarrow> good_list (this_state (QueryList_refreshLoop w)))" for w
    using good_loop [of w] by (simp add: QueryList_loop_frame)
qed (use response_frame event_frame in auto)

lemma good_init: "good_list (QueryList_init now now')"
  by (simp add: good_list_def QueryList_init_def wf_queries_def loop_simps)

text \<open>A list of three queries, for the examples below.\<close>

definition sample_query :: "string \<Rightarrow> string \<Rightarrow> jsnum \<Rightarrow> basic_query" where
  "sample_query i st mem = \<lparr>queryId = i, state = st, scheduled = True, memoryPool = None,
     errorType = None, errorCode = None,
     queryStats = \<lparr>totalDrivers = Fin 1, runningDrivers = Fin 0, fullyBlocked = False,
       blockedReasons = [], progressPercentage = Null, createTime = ''2022-03-01T12:34:56.789Z'',
       elapsedTime = ''1.00s'', executionTime = ''1.00s'', totalCpuTime = ''1.00s'', cumulativeUserMemory = mem,
       userMemoryReservation = ''0B'', totalMemoryReservation = ''0B'', peakTotalMemoryReservation = ''0B'',
       completedDrivers = Fin 0, queuedDrivers = Fin 0, failedTasks = Fin 0\<rparr>,
     sessionUser = ''user'', sessionPrincipal = None, sessionSource = None, resourceGroupId = None,
     queryTextPreview = ''SELECT 1'', retryPolicy = ''NONE''\<rparr>"

definition sample_queries :: "basic_query list" where
  "sample_queries = [sample_query ''a'' ''RUNNING'' (Fin 1), sample_query ''b'' ''FINISHED'' (Fin 2),
     sample_query ''c'' ''QUEUED'' (Fin 3)]"

definition sample_list :: query_list where
  "sample_list = (QueryList_init 0 0)\<lparr>allQueries := sample_queries,
     displayedQueries := [sample_query ''c'' ''QUEUED'' (Fin 3)], currentSortType := CUMULATIVE_MEMORY\<rparr>"

lemma sample_displayable: "st \<noteq> ''FAILED'' \<Longrightarrow> displayable (sample_query i st m)"
  by (simp add: displayable_def sample_query_def)

lemma sample_memory: "cumulativeUserMemory (queryStats (sample_query i st m)) = m"
  by (simp add: sample_query_def)

lemma wf_sample: "wf_queries sample_queries"
  by (simp add: wf_queries_def sample_queries_def sample_displayable) (simp add: sample_query_def)

lemma good_sample: "good_list sample_list"
  using wf_sample
  by (simp add: good_list_def sample_list_def QueryList_init_def loop_simps)
    (simp add: wf_queries_def sample_displayable sample_queries_def)

lemma matches_sample:
  "matches fs es [] (sample_query i st m) \<longleftrightarrow> matches_filters fs es (sample_query i st m)"
  by (simp add: matches_def)

section \<open>Properties\<close>

text \<open>C1. What a refresh displays, when the server lists displayable queries with distinct ids. As
  long as no reordering is due, the queries on display keep their places, with
  their new data, less those the server no longer lists, and the new queries that match follow them in
  the chosen order; so the list never jumps under the user. When a reordering is due, the list is sorted anew, from exactly the queries of the
  server that match. Either way it is cut at the limit, and the timer of the next refresh is set, in place of any that was pending.\<close>

theorem QueryList_refresh_displays:
  assumes "good_list (this_state w)" and "wf_queries L"
  shows "\<exists>w' s'. QueryList_success tz L now now' w = Some w' \<and> s' = this_state w' \<and> allQueries s' = L
    \<and> slot w' = setTimeout (clearTimeout (slot w)) \<and> inflight w' = inflight w
    \<and> (let s = this_state w; limited = limit_to (maxQueries s) in
        if reorder_due now s
        then \<exists>candidates. mset candidates = mset (matching s L)
               \<and> displayedQueries s' = limited (sorted_by s candidates) \<and> lastReorder s' = now'
        else displayedQueries s'
               = limited (survivors L (displayedQueries s)
                          @ sorted_by s (matching s (arrivals L (displayedQueries s))))
             \<and> map queryId (survivors L (displayedQueries s))
               = filter (\<lambda>i. i \<in> queryId ` set L) (map queryId (displayedQueries s)))"
proof -
  let ?s = "this_state w"
  let ?c = "matching ?s (survivors L (displayedQueries ?s) @ arrivals L (displayedQueries ?s))"
  have "mset ?c = mset (matching ?s L)"
    using mset_survivors_arrivals [of L "displayedQueries ?s"] assms
    by (simp add: good_list_def wf_queries_def matching_def mset_filter del: mset_append filter_append)
  then show ?thesis
    by (simp add: QueryList_success_total [OF assms] QueryList_resetTimer_def loop_simps refreshed_def Let_def
        survivors_ids) blast
qed

theorem QueryList_refresh_displays_witness:
  "\<exists>w'. QueryList_success (\<lambda>_. 0) sample_queries 0 0 (mounted sample_list) = Some w'
     \<and> allQueries (this_state w') = sample_queries \<and> pending (slot w') = {1}"
  using QueryList_refresh_displays [of "mounted sample_list" sample_queries "\<lambda>_. 0" 0 0] good_sample wf_sample
  by (auto simp: loop_simps) (simp_all add: mounted_def no_timer_def clearTimeout_def setTimeout_def)

text \<open>C6. While the number of queries shown is limited: after a search, and after a click that chooses a filter, an order or another limit, the list
  shows exactly the matching queries among all those the server listed, sorted in the chosen order and cut at the limit; a second click on the sort column in use reverses
  a descending order. A click that chooses how often the list is reordered changes that interval only and leaves the list as it is. (The menu entry for all queries, which
  stands for no limit, is not covered: see \<open>QueryList_show_all_empties\<close>.)\<close>

theorem QueryList_handlers_display:
  assumes "good_list s" and "maxQueries s \<noteq> 0" and "n \<noteq> 0"
  shows "(\<exists>s'. executeSearch tz s = Some s' \<and> displayedQueries s'
            = limit_to (maxQueries s) (sorted_by s (matching s (allQueries s))))
    \<and> (\<exists>s'. handleMaxQueriesClick tz n s = Some s' \<and> maxQueries s' = n
            \<and> displayedQueries s' = limit_to n (sorted_by s' (matching s' (allQueries s))))
    \<and> (\<exists>s'. handleSortClick tz t s = Some s' \<and> currentSortType s' = t
            \<and> (currentSortOrder s' = ASCENDING \<longleftrightarrow> currentSortType s = t \<and> currentSortOrder s = DESCENDING)
            \<and> displayedQueries s' = limit_to (maxQueries s) (sorted_by s' (matching s' (allQueries s))))
    \<and> (\<exists>s'. handleStateFilterClick tz f s = Some s' \<and> stateFilters s' = toggle f (stateFilters s)
            \<and> displayedQueries s' = limit_to (maxQueries s) (sorted_by s' (matching s' (allQueries s))))
    \<and> (\<exists>s'. handleErrorTypeFilterClick tz e s = Some s' \<and> errorTypeFilters s' = toggle e (errorTypeFilters s)
            \<and> displayedQueries s' = limit_to (maxQueries s) (sorted_by s' (matching s' (allQueries s))))
    \<and> handleReorderClick interval s = Some (s\<lparr>reorderInterval := interval\<rparr>)"
proof -
  have s': "good_list (s\<lparr>searchTimer := clearTimeout (searchTimer s)\<rparr>)"
    using assms(1) by (simp add: good_list_def loop_simps)
  show ?thesis
    using filteredAndSorted_total [OF assms(1)] filteredAndSorted_total [OF s'] assms(2,3)
    by (simp add: executeSearch_def handleMaxQueriesClick_def handleSortClick_def handleStateFilterClick_def
        handleErrorTypeFilterClick_def handleReorderClick_def Let_def sorted_by_def matching_def limit_to_def)
qed

theorem QueryList_handlers_display_witness:
  "\<exists>s'. handleStateFilterClick (\<lambda>_. 0) FINISHED sample_list = Some s'
     \<and> map queryId (displayedQueries s') = [''c'', ''b'', ''a'']"
proof -
  obtain s' where s': "handleStateFilterClick (\<lambda>_. 0) FINISHED sample_list = Some s'"
    "displayedQueries s' = limit_to (maxQueries sample_list) (sorted_by s' (matching s' (allQueries sample_list)))"
    using QueryList_handlers_display [OF good_sample, of 100 "\<lambda>_. 0" CPU FINISHED EXTERNAL] by (fastforce simp: sample_list_def QueryList_init_def)
  then obtain qs where "s' = sample_list\<lparr>stateFilters := [RUNNING, QUEUED, FINISHED], displayedQueries := qs\<rparr>"
    using filteredAndSorted_total [OF good_sample]
    by (auto simp: handleStateFilterClick_def sample_list_def QueryList_init_def toggle_def Let_def)
  then have f: "stateFilters s' = [RUNNING, QUEUED, FINISHED]" "searchString s' = []"
    "errorTypeFilters s' = errorTypeFilters sample_list" "currentSortType s' = CUMULATIVE_MEMORY"
    "currentSortOrder s' = DESCENDING"
    by (simp_all add: sample_list_def QueryList_init_def)
  have "matching s' sample_queries = sample_queries"
    by (simp add: matching_def f sample_queries_def matches_sample matches_filters_iff) (simp add: sample_query_def)
  moreover have "sorted_by s' sample_queries = rev sample_queries"
    by (simp add: sorted_by_def f sortQueries_def js_sort_def sample_queries_def)
      (simp add: sample_query_def number_int [of "-1", simplified] number_int [of "-2", simplified])
  ultimately show ?thesis using s'
    by (simp add: sample_list_def QueryList_init_def sample_queries_def limit_to_def) (simp add: sample_query_def)
qed

text \<open>C4. In every reachable state the list is consistent: no query is displayed twice, every
  displayed query is one the server listed, with the same data, at most \<open>maxQueries\<close> are displayed
  unless that is 0, at most one search is pending, and exactly one refresh is under way.\<close>

theorem QueryList_invariant:
  assumes "reachable QueryList_refreshLoop (QueryList_responses tz) (QueryList_events tz) (QueryList_init now now') w"
  shows "distinct (map queryId (displayedQueries (this_state w)))
    \<and> set (displayedQueries (this_state w)) \<subseteq> set (allQueries (this_state w))
    \<and> (maxQueries (this_state w) \<noteq> 0 \<longrightarrow> length (displayedQueries (this_state w)) \<le> maxQueries (this_state w))
    \<and> card (pending (searchTimer (this_state w))) \<le> 1 \<and> activity w = 1"
  using ql.one_loop_reachable [OF assms good_init] tracked_card [of "searchTimer (this_state w)"]
  by (simp add: one_loop_def good_list_def wf_queries_def)

lemma QueryList_success_response: "wf_queries L \<Longrightarrow> QueryList_success tz L now now' \<in> QueryList_responses tz"
  unfolding QueryList_responses_def by blast

lemma QueryList_sample_reachable:
  "reachable QueryList_refreshLoop (QueryList_responses tz) (QueryList_events tz) (QueryList_init 0 0)
     (run (QueryList_success tz sample_queries 0 0) ((QueryList_refreshLoop (mounted (QueryList_init 0 0)))\<lparr>inflight := 0\<rparr>))"
  by (rule reachable_first_response [OF QueryList_success_response [OF wf_sample]])
    (simp add: QueryList_loop_frame loop_simps)

theorem QueryList_invariant_witness:
  "activity (run (QueryList_success (\<lambda>_. 0) sample_queries 0 0)
     ((QueryList_refreshLoop (mounted (QueryList_init 0 0)))\<lparr>inflight := 0\<rparr>)) = 1"
  using QueryList_invariant [OF QueryList_sample_reachable] by blast

text \<open>C15. Sorting is stable and by the chosen key, in the chosen direction, whenever the keys
  are finite numbers.\<close>

theorem sortQueries_by_key:
  assumes "\<And>q. q \<in> set qs \<Longrightarrow> toNumber (SORT_TYPE t q) = Fin (key q) \<and> wf_num (toNumber (SORT_TYPE t q))"
  shows "sortQueries qs t ASCENDING = sort_key key qs \<and> sortQueries qs t DESCENDING = sort_key (\<lambda>q. - key q) qs"
  unfolding sortQueries_def SORT_ORDER.simps
  by (intro conjI js_sort_ascending js_sort_descending assms)

theorem sortQueries_by_key_witness:
  "sortQueries sample_queries CUMULATIVE_MEMORY DESCENDING = rev sample_queries"
proof -
  let ?key = "\<lambda>q. case cumulativeUserMemory (queryStats q) of Fin r \<Rightarrow> r | _ \<Rightarrow> 0"
  have wf: "wf_num (Fin 1)" "wf_num (Fin 2)" "wf_num (Fin 3)"
    using wf_Fin_int [of 1] wf_Fin_int [of 2] wf_Fin_int [of 3] by simp_all
  have keys: "toNumber (SORT_TYPE CUMULATIVE_MEMORY q) = Fin (?key q)
      \<and> wf_num (toNumber (SORT_TYPE CUMULATIVE_MEMORY q))" if "q \<in> set sample_queries" for q
    using that wf by (auto simp: sample_queries_def sample_memory simp del: wf_num.simps)
  have "sortQueries sample_queries CUMULATIVE_MEMORY DESCENDING = sort_key (\<lambda>q. - ?key q) sample_queries"
    using sortQueries_by_key [OF keys] by blast
  then show ?thesis by (simp add: sample_queries_def sample_memory)
qed

text \<open>A refresh that begins while a search is pending cancels it, and unless a
  reordering is due the queries on display stay whether or not they match the new search text.\<close>

theorem QueryList_search_lost:
  assumes "good_list (this_state w)" and "wf_queries L" and "reorderInterval (this_state w) = 0"
    and "maxQueries (this_state w) = 0"
  shows "\<exists>w1 w2. lift_handler (handleSearchStringChange search) w = Some w1
    \<and> pending (searchTimer (this_state w1)) \<noteq> {}
    \<and> pending (searchTimer (this_state (QueryList_refreshLoop w1))) = {}
    \<and> QueryList_success tz L now now' (QueryList_refreshLoop w1) = Some w2
    \<and> set (survivors L (displayedQueries (this_state w))) \<subseteq> set (displayedQueries (this_state w2))"
proof -
  let ?w1 = "w\<lparr>this_state := (this_state w)\<lparr>searchString := search,
      searchTimer := setTimeout (clearTimeout (searchTimer (this_state w)))\<rparr>\<rparr>"
  have "good_list (this_state (QueryList_refreshLoop ?w1))"
    using assms(1) by (intro good_loop) (simp add: good_list_def loop_simps)
  note QueryList_success_total [OF this assms(2), of tz now now']
  moreover have "tracked (searchTimer (this_state w))" using assms(1) by (simp add: good_list_def)
  ultimately show ?thesis
    using assms(3,4)
    by (simp add: lift_handler_def handleSearchStringChange_def QueryList_loop_frame loop_simps
        QueryList_resetTimer_def refreshed_def reorder_due_def limit_to_def Let_def)
qed

theorem QueryList_search_lost_witness:
  "\<exists>w1. lift_handler (handleSearchStringChange ''zzz'') (mounted (sample_list\<lparr>reorderInterval := 0, maxQueries := 0\<rparr>)) = Some w1
     \<and> pending (searchTimer (this_state w1)) \<noteq> {}
     \<and> pending (searchTimer (this_state (QueryList_refreshLoop w1))) = {}"
proof -
  let ?w = "mounted (sample_list\<lparr>reorderInterval := 0, maxQueries := 0\<rparr>)"
  have "good_list (this_state ?w)" using good_sample by (simp add: loop_simps good_list_def)
  then show ?thesis
    using QueryList_search_lost [of ?w sample_queries "''zzz''" "\<lambda>_. 0" 0 0] wf_sample
    by (simp only: mounted_simps) force
qed

text \<open>Choosing to show all queries empties the list until the next refresh, because the
  handlers take the limit 0 literally; the refresh then shows them all.\<close>

theorem QueryList_show_all_empties:
  assumes "good_list s"
  shows "\<exists>s'. handleMaxQueriesClick tz 0 s = Some s' \<and> displayedQueries s' = []
    \<and> limit_to (maxQueries s') qs = qs"
  using filteredAndSorted_total [OF assms] by (simp add: handleMaxQueriesClick_def limit_to_def)

theorem QueryList_show_all_empties_witness:
  "\<exists>s'. handleMaxQueriesClick (\<lambda>_. 0) 0 sample_list = Some s' \<and> displayedQueries s' = []
     \<and> allQueries sample_list \<noteq> []"
  using QueryList_show_all_empties [OF good_sample, of "\<lambda>_. 0" "[]"]
  by (auto simp: sample_list_def sample_queries_def)

end
