(* ===== verification/QueryListView.thy ===== *)
theory QueryListView
  imports QueryListSpec
begin

text \<open>
  The rendering of \<open>QueryList\<close> and \<open>DisplayedQueriesList\<close> of \<open>components/QueryList.jsx\<close>: the toolbar, whose
  controls call the handlers, and the list itself.
\<close>

datatype list_action =
    SearchStringChange
  | StateFilterClick filter_type
  | ErrorTypeFilterClick error_filter
  | SortClick sort_type
  | ReorderClick nat
  | MaxQueriesClick nat

text \<open>The handler an action runs; the event of a text field carries its text.\<close>

fun dispatch :: "(int \<Rightarrow> int) \<Rightarrow> string \<Rightarrow> list_action \<Rightarrow> query_list \<Rightarrow> query_list throws" where
  "dispatch tz text SearchStringChange = handleSearchStringChange text"
| "dispatch tz text (StateFilterClick f) = handleStateFilterClick tz f"
| "dispatch tz text (ErrorTypeFilterClick e) = handleErrorTypeFilterClick tz e"
| "dispatch tz text (SortClick t) = handleSortClick tz t"
| "dispatch tz text (ReorderClick n) = handleReorderClick n"
| "dispatch tz text (MaxQueriesClick n) = handleMaxQueriesClick tz n"

text \<open>A \<open>QueryListItem\<close> element is the child component with the query as its property.\<close>

definition DisplayedQueriesList_render :: "basic_query list \<Rightarrow> (basic_query, list_action) html" where
  "DisplayedQueriesList_render queries = el ''div'' [] [frag (map component queries)]"

definition renderMaxQueriesListItem :: "query_list \<Rightarrow> nat \<Rightarrow> string \<Rightarrow> (basic_query, list_action) html" where
  "renderMaxQueriesListItem s n label =
    el ''li'' []
      [el ''a'' [Attr ''href'' ''#'', Cls (if maxQueries s = n then ''selected'' else []),
            On ''onClick'' (MaxQueriesClick n)]
        [lit label]]"

definition renderReorderListItem :: "query_list \<Rightarrow> nat \<Rightarrow> string \<Rightarrow> (basic_query, list_action) html" where
  "renderReorderListItem s interval label =
    el ''li'' []
      [el ''a'' [Attr ''href'' ''#'',
            Cls (if reorderInterval s = interval then ''selected'' else []),
            On ''onClick'' (ReorderClick interval)]
        [lit label]]"

definition renderSortListItem :: "query_list \<Rightarrow> sort_type \<Rightarrow> string \<Rightarrow> (basic_query, list_action) html" where
  "renderSortListItem s sortType label =
    (if currentSortType s = sortType then
       (let directionArrow = (if currentSortOrder s = ASCENDING
                              then el ''span'' [Cls ''glyphicon glyphicon-triangle-top''] []
                              else el ''span'' [Cls ''glyphicon glyphicon-triangle-bottom''] [])
        in
        el ''li'' []
          [el ''a'' [Attr ''href'' ''#'', Cls ''selected'', On ''onClick'' (SortClick sortType)]
            [lit label,
             lit '' '',
             directionArrow]])
     else
       el ''li'' []
         [el ''a'' [Attr ''href'' ''#'', On ''onClick'' (SortClick sortType)] [lit label]])"

definition renderFilterButton :: "query_list \<Rightarrow> filter_type \<Rightarrow> string \<Rightarrow> (basic_query, list_action) html" where
  "renderFilterButton s filterType label =
    (let active = filterType \<in> set (stateFilters s);
         checkmarkStyle = [(''color'', if active then ''#ffffff'' else ''#57aac7'')];
         classNames = ''btn btn-sm btn-info style-check'' @ (if active then '' active'' else [])
     in
      el ''button'' [Attr ''type'' ''button'', Cls classNames,
            On ''onClick'' (StateFilterClick filterType)]
        [el ''span'' [Cls ''glyphicon glyphicon-ok'', Style checkmarkStyle] [],
         lit nbsp,
         lit label])"

definition renderErrorTypeListItem :: "query_list \<Rightarrow> error_filter \<Rightarrow> string \<Rightarrow> (basic_query, list_action) html" where
  "renderErrorTypeListItem s err label =
    (let checkmarkStyle = (if err \<in> set (errorTypeFilters s) then GLYPHICON_HIGHLIGHT else [(''color'', ''#ffffff'')])
     in
      el ''li'' []
        [el ''a'' [Attr ''href'' ''#'', On ''onClick'' (ErrorTypeFilterClick err)]
          [el ''span'' [Cls ''glyphicon glyphicon-ok'', Style checkmarkStyle] [],
           lit nbsp,
           lit label]])"

text \<open>The list, or a message when there is nothing to list.\<close>

definition QueryList_label :: "query_list \<Rightarrow> (basic_query, list_action) html" where
  "QueryList_label s =
     (if initialized s then
        (if allQueries s = [] then lit ''No queries'' else lit ''No queries matched filters'')
      else el ''div'' [Cls ''loader''] [lit ''Loading...''])"

definition QueryList_body :: "query_list \<Rightarrow> (basic_query, list_action) html" where
  "QueryList_body s =
    (if displayedQueries s = [] then
       el ''div'' [Cls ''row error-message'']
         [el ''div'' [Cls ''col-xs-12''] [el ''h4'' [] [QueryList_label s]]]
     else DisplayedQueriesList_render (displayedQueries s))"

definition QueryList_toolbar :: "query_list \<Rightarrow> (basic_query, list_action) html" where
  "QueryList_toolbar s =
    el ''div'' [Cls ''input-group input-group-sm'']
      [el ''input'' [Attr ''type'' ''text'', Cls ''form-control form-control-small search-bar'',
            Attr ''placeholder'' ''User, source, query ID, query state, resource group, error name, or query text'',
            On ''onChange'' SearchStringChange, Attr ''value'' (searchString s)] [],
       el ''span'' [Cls ''input-group-addon filter-addon''] [lit ''State:''],
       el ''div'' [Cls ''input-group-btn'']
        [renderFilterButton s RUNNING ''Running'',
         renderFilterButton s QUEUED ''Queued'',
         renderFilterButton s FINISHED ''Finished'',
         el ''button'' [Attr ''type'' ''button'', Id ''error-type-dropdown'',
              Cls ''btn btn-default dropdown-toggle'', Attr ''data-toggle'' ''dropdown'',
              Attr ''aria-haspopup'' ''true'', Attr ''aria-expanded'' ''false'']
          [lit ''Failed '',
           el ''span'' [Cls ''caret''] []],
         el ''ul'' [Cls ''dropdown-menu error-type-dropdown-menu'']
          [renderErrorTypeListItem s INTERNAL_ERROR ''Internal Error'',
           renderErrorTypeListItem s EXTERNAL ''External Error'',
           renderErrorTypeListItem s INSUFFICIENT_RESOURCES ''Resources Error'',
           renderErrorTypeListItem s USER_ERROR ''User Error'']],
       lit nbsp,
       el ''div'' [Cls ''input-group-btn'']
        [el ''button'' [Attr ''type'' ''button'', Cls ''btn btn-default dropdown-toggle'',
              Attr ''data-toggle'' ''dropdown'', Attr ''aria-haspopup'' ''true'',
              Attr ''aria-expanded'' ''false'']
          [lit ''Sort '',
           el ''span'' [Cls ''caret''] []],
         el ''ul'' [Cls ''dropdown-menu'']
          [renderSortListItem s CREATED ''Creation Time'',
           renderSortListItem s ELAPSED ''Elapsed Time'',
           renderSortListItem s CPU ''CPU Time'',
           renderSortListItem s EXECUTION ''Execution Time'',
           renderSortListItem s CURRENT_MEMORY ''Current Memory'',
           renderSortListItem s CUMULATIVE_MEMORY ''Cumulative User Memory'']],
       lit nbsp,
       el ''div'' [Cls ''input-group-btn'']
        [el ''button'' [Attr ''type'' ''button'', Cls ''btn btn-default dropdown-toggle'',
              Attr ''data-toggle'' ''dropdown'', Attr ''aria-haspopup'' ''true'',
              Attr ''aria-expanded'' ''false'']
          [lit ''Reorder Interval '',
           el ''span'' [Cls ''caret''] []],
         el ''ul'' [Cls ''dropdown-menu'']
          [renderReorderListItem s 1000 ''1s'',
           renderReorderListItem s 5000 ''5s'',
           renderReorderListItem s 10000 ''10s'',
           renderReorderListItem s 30000 ''30s'',
           el ''li'' [Attr ''role'' ''separator'', Cls ''divider''] [],
           renderReorderListItem s 0 ''Off'']],
       lit nbsp,
       el ''div'' [Cls ''input-group-btn'']
        [el ''button'' [Attr ''type'' ''button'', Cls ''btn btn-default dropdown-toggle'',
              Attr ''data-toggle'' ''dropdown'', Attr ''aria-haspopup'' ''true'',
              Attr ''aria-expanded'' ''false'']
          [lit ''Show '',
           el ''span'' [Cls ''caret''] []],
         el ''ul'' [Cls ''dropdown-menu'']
          [renderMaxQueriesListItem s 20 ''20 queries'',
           renderMaxQueriesListItem s 50 ''50 queries'',
           renderMaxQueriesListItem s 100 ''100 queries'',
           el ''li'' [Attr ''role'' ''separator'', Cls ''divider''] [],
           renderMaxQueriesListItem s 0 ''All queries'']]]"

definition QueryList_render :: "query_list \<Rightarrow> (basic_query, list_action) html" where
  "QueryList_render s =
    el ''div'' []
      [el ''div'' [Cls ''row toolbar-row'']
        [el ''div'' [Cls ''col-xs-12 toolbar-col''] [QueryList_toolbar s]],
       QueryList_body s]"

section \<open>Facts\<close>

lemma items_render [dom_simps]:
  "renders (renderMaxQueriesListItem s n l)" "renders (renderReorderListItem s n l)"
  "renders (renderSortListItem s t l)" "renders (renderFilterButton s f l)" "renders (renderErrorTypeListItem s e l)"
  by (simp_all add: renderMaxQueriesListItem_def renderReorderListItem_def renderSortListItem_def
      renderFilterButton_def renderErrorTypeListItem_def Let_def dom_simps)

lemma items_handlers [dom_simps]:
  "html_handlers (renderMaxQueriesListItem s n l) = [MaxQueriesClick n]"
  "html_handlers (renderReorderListItem s n l) = [ReorderClick n]"
  "html_handlers (renderSortListItem s t l) = [SortClick t]"
  "html_handlers (renderFilterButton s f l) = [StateFilterClick f]"
  "html_handlers (renderErrorTypeListItem s e l) = [ErrorTypeFilterClick e]"
  by (simp_all add: renderMaxQueriesListItem_def renderReorderListItem_def renderSortListItem_def
      renderFilterButton_def renderErrorTypeListItem_def Let_def html_el dom_simps)

lemma items_components [dom_simps]:
  "html_components (renderMaxQueriesListItem s n l) = []" "html_components (renderReorderListItem s n l) = []"
  "html_components (renderSortListItem s t l) = []" "html_components (renderFilterButton s f l) = []"
  "html_components (renderErrorTypeListItem s e l) = []"
  by (simp_all add: renderMaxQueriesListItem_def renderReorderListItem_def renderSortListItem_def
      renderFilterButton_def renderErrorTypeListItem_def Let_def html_el dom_simps)

lemma component_list [dom_simps]:
  "list_all renders (map component qs)" "concat (map (\<lambda>x. html_handlers (component x)) qs) = []"
  "concat (map (\<lambda>x. html_components (component x)) qs) = qs"
  by (induction qs) (simp_all add: dom_simps)

lemma QueryList_body_html [dom_simps]:
  "renders (QueryList_body s)" "html_handlers (QueryList_body s) = []"
  "html_components (QueryList_body s) = displayedQueries s"
  by (simp_all add: QueryList_body_def QueryList_label_def DisplayedQueriesList_render_def html_el html_frag
      dom_simps comp_def)

lemma QueryList_toolbar_renders [dom_simps]: "renders (QueryList_toolbar s)"
  by (simp add: QueryList_toolbar_def dom_simps)

lemma QueryList_toolbar_components [dom_simps]: "html_components (QueryList_toolbar s) = []"
  by (simp add: QueryList_toolbar_def html_el dom_simps)

lemma QueryList_toolbar_handlers [dom_simps]:
  "html_handlers (QueryList_toolbar s) =
     [SearchStringChange, StateFilterClick RUNNING, StateFilterClick QUEUED, StateFilterClick FINISHED,
      ErrorTypeFilterClick INTERNAL_ERROR, ErrorTypeFilterClick EXTERNAL,
      ErrorTypeFilterClick INSUFFICIENT_RESOURCES, ErrorTypeFilterClick USER_ERROR,
      SortClick CREATED, SortClick ELAPSED, SortClick CPU, SortClick EXECUTION, SortClick CURRENT_MEMORY,
      SortClick CUMULATIVE_MEMORY, ReorderClick 1000, ReorderClick 5000, ReorderClick 10000,
      ReorderClick 30000, ReorderClick 0, MaxQueriesClick 20, MaxQueriesClick 50, MaxQueriesClick 100,
      MaxQueriesClick 0]"
  by (simp add: QueryList_toolbar_def html_el dom_simps)

lemma dispatch_handler: "dispatch tz text a \<in> QueryList_handlers tz"
  by (cases a) (simp_all add: QueryList_handlers_def)

section \<open>Properties\<close>

text \<open>C26. The page of queries always renders; it lists exactly the displayed queries, in
  order; its toolbar offers every state filter, every error type and every sort order exactly once; and
  in every reachable state each control it offers runs without an exception.\<close>

theorem QueryList_page:
  assumes "reachable QueryList_refreshLoop (QueryList_responses tz) (QueryList_events tz) (QueryList_init now now') w"
  shows "renders (QueryList_render (this_state w))
    \<and> html_components (QueryList_render (this_state w)) = displayedQueries (this_state w)
    \<and> distinct (html_handlers (QueryList_render (this_state w)))
    \<and> range StateFilterClick \<union> range ErrorTypeFilterClick \<union> range SortClick
        \<subseteq> set (html_handlers (QueryList_render (this_state w)))
    \<and> (\<forall>a \<in> set (html_handlers (QueryList_render (this_state w))).
         dispatch tz text a (this_state w) \<noteq> throw)"
proof -
  let ?s = "this_state w"
  have good: "good_list ?s" using ql.one_loop_reachable [OF assms good_init] by simp
  have h: "html_handlers (QueryList_render ?s) = html_handlers (QueryList_toolbar ?s)"
    and r: "renders (QueryList_render ?s)"
    and c: "html_components (QueryList_render ?s) = displayedQueries ?s"
    by (simp_all add: QueryList_render_def html_el dom_simps)
  have "StateFilterClick f \<in> set (html_handlers (QueryList_toolbar ?s))"
    "ErrorTypeFilterClick e \<in> set (html_handlers (QueryList_toolbar ?s))"
    "SortClick t \<in> set (html_handlers (QueryList_toolbar ?s))" for f e t
    by (cases f; cases e; cases t; simp add: dom_simps)+
  moreover have "dispatch tz text a ?s \<noteq> throw" for a
    using handlers_good [OF good dispatch_handler] by (metis option.distinct(1))
  moreover have "distinct (html_handlers (QueryList_toolbar ?s))" by (simp add: dom_simps)
  ultimately show ?thesis using r c h by auto
qed

theorem QueryList_page_witness:
  "renders (QueryList_render (this_state (run (QueryList_success (\<lambda>_. 0) sample_queries 0 0)
     ((QueryList_refreshLoop (mounted (QueryList_init 0 0)))\<lparr>inflight := 0\<rparr>))))"
  using QueryList_page [OF QueryList_sample_reachable] by blast

end
