(* ===== verification/WorkerStatus.thy ===== *)
theory WorkerStatus
  imports VDom Polling Format History
begin

text \<open>
  \<open>components/WorkerStatus.jsx\<close>: the page of one node, which polls \<open>/ui/api/worker/<id>/status\<close>, keeps four
  histories, and shows the memory pool and the queries that use it. The server's objects of
  reservations by query are association lists. The field \<open>pool\<close> is \<open>memoryInfo.pool\<close> of the server's answer, which may be missing; the object
  \<open>memoryInfo\<close> around it, which the server always sends, is not a record of its own, nor is an answer without it.
\<close>

record memory_pool =
  maxBytes :: jsnum
  reservedBytes :: jsnum
  reservedRevocableBytes :: jsnum
  queryMemoryReservations :: "(string, jsnum) omap"
  queryMemoryRevocableReservations :: "(string, jsnum) omap"

record server_info =
  nodeId :: string
  heapAvailable :: jsnum
  heapUsed :: jsnum
  info_nonHeapUsed :: jsnum
  info_processCpuLoad :: jsnum
  info_systemCpuLoad :: jsnum
  processors :: jsnum
  uptime :: string
  externalAddress :: string
  internalAddress :: string
  pool :: "memory_pool option"

record worker_status =
  serverInfo :: "server_info option"
  initialized :: bool
  ended :: bool
  processCpuLoad :: "val list"
  systemCpuLoad :: "val list"
  heapPercentUsed :: "val list"
  nonHeapUsed :: "val list"

definition SMALL_SPARKLINE_PROPERTIES :: "(string \<times> string) list" where
  "SMALL_SPARKLINE_PROPERTIES = [(''width'', ''100%''), (''height'', ''57px''), (''fillColor'', ''#3F4552''),
     (''lineColor'', ''#747F96''), (''spotColor'', ''#1EDCFF''), (''tooltipClassname'', ''sparkline-tooltip''),
     (''disableHiddenCheck'', ''true'')]"

definition WorkerStatus_init :: worker_status where
  "WorkerStatus_init = \<lparr>serverInfo = None, initialized = False, ended = False, processCpuLoad = [],
     systemCpuLoad = [], heapPercentUsed = [], nonHeapUsed = []\<rparr>"

section \<open>The refresh loop\<close>

text \<open>\<open>this.state.query\<close> is \<open>undefined\<close>, so the loop goes on as long as \<open>ended\<close> is false.\<close>

definition WorkerStatus_resetTimer :: "worker_status page \<Rightarrow> worker_status page" where
  "WorkerStatus_resetTimer w = reset_timer (\<lambda>s. \<not> ended s) w"

definition WorkerStatus_refreshLoop :: "worker_status page \<Rightarrow> worker_status page" where
  "WorkerStatus_refreshLoop w = send_request (clear_timer w)"

definition WorkerStatus_componentDidMount :: "worker_status page" where
  "WorkerStatus_componentDidMount = WorkerStatus_refreshLoop (mounted WorkerStatus_init)"

definition WorkerStatus_url :: "string \<Rightarrow> string" where
  "WorkerStatus_url search = ''/ui/api/worker/'' @ getFirstParameter search @ ''/status''"

definition WorkerStatus_success :: "server_info \<Rightarrow> worker_status page \<Rightarrow> worker_status page throws" where
  "WorkerStatus_success i w =
     Some (WorkerStatus_resetTimer (setState (\<lambda>s. s\<lparr>serverInfo := Some i, initialized := True,
       processCpuLoad := addToHistory (Num (info_processCpuLoad i * Fin 100)) (processCpuLoad s),
       systemCpuLoad := addToHistory (Num (info_systemCpuLoad i * Fin 100)) (systemCpuLoad s),
       heapPercentUsed := addToHistory (Num (heapUsed i * Fin 100 / heapAvailable i)) (heapPercentUsed s),
       nonHeapUsed := addToHistory (Num (info_nonHeapUsed i)) (nonHeapUsed s)\<rparr>) w))"

definition WorkerStatus_fail :: "worker_status page \<Rightarrow> worker_status page throws" where
  "WorkerStatus_fail w = Some (WorkerStatus_resetTimer (setState (\<lambda>s. s\<lparr>initialized := True\<rparr>) w))"

definition WorkerStatus_componentDidUpdate :: "worker_status \<Rightarrow> effect list" where
  "WorkerStatus_componentDidUpdate s =
     [Sparkline ''#process-cpu-load-sparkline'' (processCpuLoad s) SMALL_SPARKLINE_PROPERTIES (RangeAndFormatter (Fin 0) precisionRound),
      Sparkline ''#system-cpu-load-sparkline'' (systemCpuLoad s) SMALL_SPARKLINE_PROPERTIES (RangeAndFormatter (Fin 0) precisionRound),
      Sparkline ''#heap-percent-used-sparkline'' (heapPercentUsed s) SMALL_SPARKLINE_PROPERTIES (RangeAndFormatter (Fin 0) precisionRound),
      Sparkline ''#nonheap-used-sparkline'' (nonHeapUsed s) SMALL_SPARKLINE_PROPERTIES (RangeAndFormatter (Fin 0) formatDataSize),
      Tooltips, Clipboard ''.copy-button'']"

section \<open>The memory pool\<close>

text \<open>The widths of the three bars: reserved, revocable and free.\<close>

definition bar_percentage :: "jsnum \<Rightarrow> jsnum \<Rightarrow> jsnum" where
  "bar_percentage bytes sz =
     (if bytes = Fin 0 then Fin 0 else mathMax (mathRound (bytes * Fin 100 / sz)) (Fin 15))"

definition pool_percentages :: "memory_pool \<Rightarrow> jsnum \<times> jsnum \<times> jsnum" where
  "pool_percentages p =
     (let percentageReservedNonRevocable = bar_percentage (reservedBytes p) (maxBytes p);
          percentageRevocable = bar_percentage (reservedRevocableBytes p) (maxBytes p);
          percentageFree = Fin 100 - (percentageRevocable + percentageReservedNonRevocable)
      in (percentageReservedNonRevocable, percentageRevocable, percentageFree))"

definition renderPoolBar :: "string \<Rightarrow> memory_pool option \<Rightarrow> (unit, unit) html" where
  "renderPoolBar name pl =
    (case pl of None \<Rightarrow> blank | Some p \<Rightarrow>
       (let (percentageReservedNonRevocable, percentageRevocable, percentageFree) = pool_percentages p in
        el ''div'' [Cls ''row'']
          [el ''div'' [Cls ''col-xs-12'']
            [el ''div'' [Cls ''row'']
              [el ''div'' [Cls ''col-xs-8''] [el ''h4'' [] [lit name, lit '' Pool'']],
               el ''div'' [Cls ''col-xs-4'']
                [el ''div'' [Cls ''progress'', Style [(''marginTop'', ''6px'')]]
                  [el ''div'' [Cls ''progress-bar memory-progress-bar memory-progress-bar-info'',
                        Attr ''role'' ''progressbar'', Style [(''width'', ''100%'')]]
                    [str (formatDataSize (Num (maxBytes p))),
                     lit '' total'']]]],
             el ''div'' [Cls ''row'']
              [el ''div'' [Cls ''col-xs-12'']
                [el ''hr'' [Cls ''h4-hr''] [],
                 el ''div'' [Cls ''progress'']
                  [el ''div'' [Cls ''progress-bar memory-progress-bar progress-bar-warning progress-bar-striped active'',
                        Attr ''role'' ''progressbar'',
                        Style [(''width'', numToString percentageReservedNonRevocable @ ''%'')]]
                    [str (formatDataSize (Num (reservedBytes p)))],
                   el ''div'' [Cls ''progress-bar memory-progress-bar progress-bar-danger progress-bar-striped active'',
                        Attr ''role'' ''progressbar'',
                        Style [(''width'', numToString percentageRevocable @ ''%'')]]
                    [str (formatDataSize (Num (reservedRevocableBytes p)))],
                   el ''div'' [Cls ''progress-bar memory-progress-bar progress-bar-success'',
                        Attr ''role'' ''progressbar'',
                        Style [(''width'', numToString percentageFree @ ''%'')]]
                    [str (formatDataSize (Num (maxBytes p - reservedBytes p - reservedRevocableBytes p)))]]]]]]))"

definition renderPoolQuery :: "string \<Rightarrow> jsnum \<Rightarrow> jsnum \<Rightarrow> jsnum \<Rightarrow> (unit, unit) html" where
  "renderPoolQuery query reserved revocable sz =
    do { reservedText \<leftarrow> formatDataSize (Num reserved);
         revocableText \<leftarrow> formatDataSize (Num revocable);
         el ''tr'' []
           [el ''td'' []
             [el ''div'' [Cls ''row query-memory-list-header'']
               [el ''div'' [Cls ''col-xs-7'']
                 [el ''a'' [Attr ''href'' (''query.html?'' @ query), Attr ''target'' ''_blank'']
                   [lit query]],
                el ''div'' [Cls ''col-xs-5'']
                 [el ''div'' [Cls ''row text-right'']
                   [el ''div'' [Cls ''col-xs-6'']
                     [el ''span'' [Attr ''data-toggle'' ''tooltip'',
                           Attr ''data-placement'' ''top'',
                           Attr ''title'' ''% of pool memory reserved'']
                       [shown (Num (mathRound (reserved * Fin 100 / sz))),
                        lit ''%'']],
                    el ''div'' [Cls ''col-xs-6'']
                     [el ''span'' [Attr ''data-toggle'' ''tooltip'',
                           Attr ''data-placement'' ''top'',
                           Attr ''title'' (''Reserved: '' @ reservedText @ ''. Revocable: '' @ revocableText)]
                       [lit reservedText]]]]]]] }"

text \<open>The object \<open>queries\<close>: for each query its reservation and its revocable reservation.\<close>

definition pool_queries :: "memory_pool \<Rightarrow> (string, jsnum \<times> jsnum) omap" where
  "pool_queries p =
     (let reserved = fold (\<lambda>(query, n). AList.update query (n, Fin 0)) (queryMemoryReservations p) []
      in fold (\<lambda>(query, n) queries.
            (case map_of queries query of
               Some (r, _) \<Rightarrow> AList.update query (r, n) queries
             | None \<Rightarrow> AList.update query (Fin 0, n) queries))
          (queryMemoryRevocableReservations p) reserved)"

definition renderPoolQueries :: "memory_pool option \<Rightarrow> (unit, unit) html" where
  "renderPoolQueries pl =
    (case pl of None \<Rightarrow> blank | Some p \<Rightarrow>
       (if pool_queries p = [] then
         el ''div'' []
           [el ''table'' [Cls ''table table-condensed'']
             [el ''tbody'' [] [el ''tr'' [] [el ''td'' [] [lit ''No queries using pool'']]]]]
        else
         el ''div'' []
           [el ''table'' [Cls ''table'']
             [el ''tbody'' []
               [frag (map (\<lambda>(key, reserved, revocable). renderPoolQuery key reserved revocable (maxBytes p)) (pool_queries p))]]]))"

section \<open>Rendering\<close>

definition WorkerStatus_identity :: "server_info \<Rightarrow> (unit, unit) html" where
  "WorkerStatus_identity i =
    el ''div'' [Cls ''col-xs-6'']
      [el ''table'' [Cls ''table'']
        [el ''tbody'' []
          [el ''tr'' []
            [el ''td'' [Cls ''info-title''] [lit ''Node ID''],
             el ''td'' [Cls ''info-text wrap-text'']
              [el ''span'' [Id ''node-id''] [lit (nodeId i)],
               lit (nbsp @ nbsp),
               el ''a'' [Attr ''href'' ''#'', Cls ''copy-button'',
                    Attr ''data-clipboard-target'' ''#node-id'',
                    Attr ''data-toggle'' ''tooltip'', Attr ''data-placement'' ''right'',
                    Attr ''title'' ''Copy to clipboard'']
                [el ''span'' [Cls ''glyphicon glyphicon-copy'', Attr ''alt'' ''Copy to clipboard''] []]]],
           el ''tr'' []
            [el ''td'' [Cls ''info-title''] [lit ''Heap Memory''],
             el ''td'' [Cls ''info-text wrap-text'']
              [el ''span'' [Id ''node-heap-available'']
                [str (formatDataSize (Num (heapAvailable i)))]]],
           el ''tr'' []
            [el ''td'' [Cls ''info-title''] [lit ''Processors''],
             el ''td'' [Cls ''info-text wrap-text'']
              [el ''span'' [Id ''node-processors''] [shown (Num (processors i))]]]]]]"

definition WorkerStatus_addresses :: "server_info \<Rightarrow> (unit, unit) html" where
  "WorkerStatus_addresses i =
    el ''div'' [Cls ''col-xs-6'']
      [el ''table'' [Cls ''table'']
        [el ''tbody'' []
          [el ''tr'' []
            [el ''td'' [Cls ''info-title''] [lit ''Uptime''],
             el ''td'' [Cls ''info-text wrap-text''] [lit (uptime i)]],
           el ''tr'' []
            [el ''td'' [Cls ''info-title''] [lit ''External Address''],
             el ''td'' [Cls ''info-text wrap-text'']
              [el ''span'' [Id ''external-address''] [lit (externalAddress i)],
               lit (nbsp @ nbsp),
               el ''a'' [Attr ''href'' ''#'', Cls ''copy-button'',
                    Attr ''data-clipboard-target'' ''#external-address'',
                    Attr ''data-toggle'' ''tooltip'', Attr ''data-placement'' ''right'',
                    Attr ''title'' ''Copy to clipboard'']
                [el ''span'' [Cls ''glyphicon glyphicon-copy'', Attr ''alt'' ''Copy to clipboard''] []]]],
           el ''tr'' []
            [el ''td'' [Cls ''info-title''] [lit ''Internal Address''],
             el ''td'' [Cls ''info-text wrap-text'']
              [el ''span'' [Id ''internal-address''] [lit (internalAddress i)],
               lit (nbsp @ nbsp),
               el ''a'' [Attr ''href'' ''#'', Cls ''copy-button'',
                    Attr ''data-clipboard-target'' ''#internal-address'',
                    Attr ''data-toggle'' ''tooltip'', Attr ''data-placement'' ''right'',
                    Attr ''title'' ''Copy to clipboard'']
                [el ''span'' [Cls ''glyphicon glyphicon-copy'', Attr ''alt'' ''Copy to clipboard''] []]]]]]]"

definition WorkerStatus_utilization :: "worker_status \<Rightarrow> (unit, unit) html" where
  "WorkerStatus_utilization s =
    el ''div'' [Cls ''row'']
      [el ''div'' [Cls ''col-xs-12'']
        [el ''h3'' [] [lit ''Resource Utilization''],
         el ''hr'' [Cls ''h3-hr''] [],
         el ''div'' [Cls ''row'']
          [el ''div'' [Cls ''col-xs-6'']
            [el ''table'' [Cls ''table'']
              [el ''tbody'' []
                [el ''tr'' []
                  [el ''td'' [Cls ''info-title''] [lit ''Process CPU Utilization''],
                   el ''td'' [Attr ''rowSpan'' ''2'']
                    [el ''div'' [Cls ''query-stats-sparkline-container'']
                      [el ''span'' [Cls ''sparkline'', Id ''process-cpu-load-sparkline'']
                        [el ''div'' [Cls ''loader''] [lit ''Loading ...'']]]]],
                 el ''tr'' [Cls ''tr-noborder'']
                  [el ''td'' [Cls ''info-sparkline-text'']
                    [str (formatCount (last_val (processCpuLoad s))),
                     lit ''%'']],
                 el ''tr'' []
                  [el ''td'' [Cls ''info-title''] [lit ''System CPU Utilization''],
                   el ''td'' [Attr ''rowSpan'' ''2'']
                    [el ''div'' [Cls ''query-stats-sparkline-container'']
                      [el ''span'' [Cls ''sparkline'', Id ''system-cpu-load-sparkline'']
                        [el ''div'' [Cls ''loader''] [lit ''Loading ...'']]]]],
                 el ''tr'' [Cls ''tr-noborder'']
                  [el ''td'' [Cls ''info-sparkline-text'']
                    [str (formatCount (last_val (systemCpuLoad s))),
                     lit ''%'']]]]],
           el ''div'' [Cls ''col-xs-6'']
            [el ''table'' [Cls ''table'']
              [el ''tbody'' []
                [el ''tr'' []
                  [el ''td'' [Cls ''info-title''] [lit ''Heap Utilization''],
                   el ''td'' [Attr ''rowSpan'' ''2'']
                    [el ''div'' [Cls ''query-stats-sparkline-container'']
                      [el ''span'' [Cls ''sparkline'', Id ''heap-percent-used-sparkline'']
                        [el ''div'' [Cls ''loader''] [lit ''Loading ...'']]]]],
                 el ''tr'' [Cls ''tr-noborder'']
                  [el ''td'' [Cls ''info-sparkline-text'']
                    [str (formatCount (last_val (heapPercentUsed s))),
                     lit ''%'']],
                 el ''tr'' []
                  [el ''td'' [Cls ''info-title''] [lit ''Non-Heap Memory Used''],
                   el ''td'' [Attr ''rowSpan'' ''2'']
                    [el ''div'' [Cls ''query-stats-sparkline-container'']
                      [el ''span'' [Cls ''sparkline'', Id ''nonheap-used-sparkline'']
                        [el ''div'' [Cls ''loader''] [lit ''Loading ...'']]]]],
                 el ''tr'' [Cls ''tr-noborder'']
                  [el ''td'' [Cls ''info-sparkline-text'']
                    [str (formatDataSize (last_val (nonHeapUsed s)))]]]]]]]]"

definition WorkerStatus_render :: "worker_status \<Rightarrow> (unit, unit) html" where
  "WorkerStatus_render s =
    (case serverInfo s of
       None \<Rightarrow>
         (if \<not> initialized s then
            el ''div'' [Cls ''loader''] [lit ''Loading...'']
          else
            el ''div'' [Cls ''row error-message'']
              [el ''div'' [Cls ''col-xs-12'']
                [el ''h4'' [] [lit ''Node information could not be loaded'']]])
     | Some i \<Rightarrow>
         el ''div'' []
           [el ''div'' [Cls ''row'']
             [el ''div'' [Cls ''col-xs-12'']
               [el ''h3'' [] [lit ''Overview''],
                el ''hr'' [Cls ''h3-hr''] [],
                el ''div'' [Cls ''row''] [WorkerStatus_identity i, WorkerStatus_addresses i],
                WorkerStatus_utilization s]],
            el ''div'' [Cls ''row'']
             [el ''div'' [Cls ''col-xs-12'']
               [el ''h3'' [] [lit ''Memory''],
                el ''hr'' [Cls ''h3-hr''] [],
                el ''div'' [Cls ''row'']
                 [el ''div'' [Cls ''col-xs-6'']
                   [renderPoolBar ''Memory Usage'' (pool i),
                    renderPoolQueries (pool i)]]]]])"

section \<open>Facts\<close>

definition WorkerStatus_responses :: "(worker_status page \<Rightarrow> worker_status page throws) set" where
  "WorkerStatus_responses = insert WorkerStatus_fail (range WorkerStatus_success)"

text \<open>No handler sets \<open>ended\<close>, and the histories hold numbers only.\<close>

definition wf_status :: "worker_status \<Rightarrow> bool" where
  "wf_status s \<longleftrightarrow> \<not> ended s
     \<and> list_all (\<lambda>h. length h \<le> MAX_HISTORY + 1 \<and> (\<forall>x \<in> set h. \<exists>n. x = Num n))
         [processCpuLoad s, systemCpuLoad s, heapPercentUsed s, nonHeapUsed s]"

lemma numbers_addToHistory:
  "\<forall>x \<in> set h. \<exists>n. x = Num n \<Longrightarrow> \<forall>x \<in> set (addToHistory (Num n) h). \<exists>n. x = Num n"
  by (rule plain.add_invariant) auto

lemma numbers_last_val: "\<forall>x \<in> set h. \<exists>n. x = Num n \<Longrightarrow> last_val h \<noteq> Null"
  by (cases h rule: rev_cases) auto

lemma wf_status_responses:
  "r \<in> WorkerStatus_responses \<Longrightarrow> wf_status (this_state w) \<Longrightarrow> r w = Some w' \<Longrightarrow> wf_status (this_state w')"
  using plain.add_length numbers_addToHistory
  by (auto simp: WorkerStatus_responses_def WorkerStatus_success_def WorkerStatus_fail_def
      WorkerStatus_resetTimer_def wf_status_def loop_simps)

interpretation ws: poller WorkerStatus_refreshLoop WorkerStatus_responses "{}" "\<lambda>s. \<not> ended s" wf_status
proof
  fix r and w :: "worker_status page" assume r: "r \<in> WorkerStatus_responses" and "wf_status (this_state w)"
  then have "\<And>w'. r w = Some w' \<Longrightarrow> wf_status (this_state w')" using wf_status_responses by blast
  with r show "\<exists>w'. r w = Some w' \<and> inflight w' = inflight w \<and> wf_status (this_state w')
      \<and> slot w' = (if \<not> ended (this_state w') then setTimeout (clearTimeout (slot w)) else clearTimeout (slot w))"
    by (auto simp: WorkerStatus_responses_def WorkerStatus_success_def WorkerStatus_fail_def
        WorkerStatus_resetTimer_def loop_simps)
qed (simp_all add: WorkerStatus_refreshLoop_def loop_simps)

lemma pool_bar_renders [dom_simps]: "renders (renderPoolBar name pl)"
  by (cases pl) (simp_all add: renderPoolBar_def dom_simps formatter_throws split_beta)

lemma pool_query_renders: "renders (renderPoolQuery q r v t)"
  using formatDataSize_throws by (auto simp: renderPoolQuery_def dom_simps)

lemma pool_queries_render [dom_simps]: "renders (renderPoolQueries pl)"
proof -
  have "list_all renders (map (\<lambda>(key, reserved, revocable). renderPoolQuery key reserved revocable t) qs)" for t qs
    by (induction qs) (auto simp: pool_query_renders)
  then show ?thesis by (cases pl) (simp_all add: renderPoolQueries_def dom_simps)
qed

lemma pool_ids [dom_simps]: "html_ids (renderPoolBar name pl) = []" "html_ids (renderPoolQueries pl) = []"
proof -
  show "html_ids (renderPoolBar name pl) = []"
    by (cases pl) (simp_all add: renderPoolBar_def html_el dom_simps formatter_throws split_beta)
  have q: "html_ids (renderPoolQuery k r v t) = []" for k r v t
    using formatDataSize_throws [of "Num r"] formatDataSize_throws [of "Num v"]
    by (auto simp: renderPoolQuery_def html_el dom_simps)
  have "list_all renders (map (\<lambda>(key, reserved, revocable). renderPoolQuery key reserved revocable t) qs)
      \<and> concat (map (html_ids \<circ> (\<lambda>(key, reserved, revocable). renderPoolQuery key reserved revocable t)) qs) = []" for t qs
    by (induction qs) (auto simp: pool_query_renders q)
  then show "html_ids (renderPoolQueries pl) = []"
    by (cases pl) (simp_all add: renderPoolQueries_def html_el html_frag dom_simps)
qed

lemma identity_html [dom_simps]:
  "renders (WorkerStatus_identity i)" "renders (WorkerStatus_addresses i)"
  "html_ids (WorkerStatus_identity i) = [''node-id'', ''node-heap-available'', ''node-processors'']"
  "html_ids (WorkerStatus_addresses i) = [''external-address'', ''internal-address'']"
  by (simp_all add: WorkerStatus_identity_def WorkerStatus_addresses_def html_el dom_simps formatter_throws)

lemma utilization_html:
  assumes "wf_status s"
  shows "renders (WorkerStatus_utilization s)"
    and "html_ids (WorkerStatus_utilization s) = [''process-cpu-load-sparkline'', ''system-cpu-load-sparkline'',
      ''heap-percent-used-sparkline'', ''nonheap-used-sparkline'']"
  using assms numbers_last_val
  by (simp_all add: WorkerStatus_utilization_def html_el dom_simps formatter_throws wf_status_def)

lemma wf_status_init: "wf_status WorkerStatus_init"
  by (simp add: wf_status_def WorkerStatus_init_def)

text \<open>What \<open>renderPoolQueries\<close> collects.\<close>

definition reservation :: "(string, jsnum) omap \<Rightarrow> string \<Rightarrow> jsnum" where
  "reservation m q = (case map_of m q of Some n \<Rightarrow> n | None \<Rightarrow> Fin 0)"

lemma map_of_fold_reserved:
  assumes "distinct (map fst rs)"
  shows "map_of (fold (\<lambda>(q, n). AList.update q (n, Fin 0)) rs m) q
    = (case map_of rs q of Some n \<Rightarrow> Some (n, Fin 0) | None \<Rightarrow> map_of m q)"
  using assms
proof (induction rs arbitrary: m)
  case (Cons p rs)
  obtain k n where p: "p = (k, n)" by (cases p)
  with Cons.prems have "map_of rs k = None" by (simp add: map_of_eq_None_iff)
  with Cons p show ?case by (auto simp: update_conv split: option.splits)
qed simp

lemma map_of_fold_revocable:
  assumes "distinct (map fst rs)"
  shows "map_of (fold (\<lambda>(q, n) m. case map_of m q of Some (r, _) \<Rightarrow> AList.update q (r, n) m
           | None \<Rightarrow> AList.update q (Fin 0, n) m) rs m) q
    = (case map_of rs q of
         Some n \<Rightarrow> Some (case map_of m q of Some (r, _) \<Rightarrow> r | None \<Rightarrow> Fin 0, n)
       | None \<Rightarrow> map_of m q)"
  using assms
proof (induction rs arbitrary: m)
  case (Cons p rs)
  obtain k n where p: "p = (k, n)" by (cases p)
  with Cons.prems have "map_of rs k = None" by (simp add: map_of_eq_None_iff)
  with Cons p show ?case by (auto simp: update_conv split: option.splits)
qed simp

section \<open>Properties\<close>

text \<open>C27. The page of a node renders in every reachable state, its four sparklines are drawn on placeholders
  that are rendered exactly once as soon as the node is known, and it refreshes for ever, one refresh at a time.\<close>

theorem WorkerStatus_page:
  assumes "reachable WorkerStatus_refreshLoop WorkerStatus_responses {} WorkerStatus_init w"
  shows "renders (WorkerStatus_render (this_state w)) \<and> activity w = 1
    \<and> (serverInfo (this_state w) \<noteq> None \<longrightarrow>
        (\<forall>t \<in> set (spark_targets (WorkerStatus_componentDidUpdate (this_state w))).
           count_list (map ((@) ''#'') (html_ids (WorkerStatus_render (this_state w)))) t = 1))"
proof -
  have inv: "wf_status (this_state w)" "activity w = 1"
    using ws.one_loop_reachable [OF assms wf_status_init]
    by (auto simp: one_loop_def wf_status_def WorkerStatus_init_def split: if_splits)
  note u = utilization_html [OF inv(1)]
  show ?thesis
    using inv(2) u
    by (cases "serverInfo (this_state w)")
      (simp_all add: WorkerStatus_render_def html_el dom_simps WorkerStatus_componentDidUpdate_def)
qed

definition sample_info :: server_info where
  "sample_info = \<lparr>nodeId = ''n1'', heapAvailable = Fin 1000, heapUsed = Fin 500, info_nonHeapUsed = Fin 10,
     info_processCpuLoad = Fin 0, info_systemCpuLoad = Fin 0, processors = Fin 8, uptime = ''1.00d'',
     externalAddress = ''a'', internalAddress = ''b'', pool = None\<rparr>"

theorem WorkerStatus_page_witness:
  "activity (run (WorkerStatus_success sample_info)
     ((WorkerStatus_refreshLoop (mounted WorkerStatus_init))\<lparr>inflight := 0\<rparr>)) = 1"
proof -
  have "reachable WorkerStatus_refreshLoop WorkerStatus_responses {} WorkerStatus_init
      (run (WorkerStatus_success sample_info) ((WorkerStatus_refreshLoop (mounted WorkerStatus_init))\<lparr>inflight := 0\<rparr>))"
    by (rule reachable_first_response)
      (simp_all add: WorkerStatus_responses_def WorkerStatus_refreshLoop_def loop_simps)
  then show ?thesis using WorkerStatus_page by blast
qed

text \<open>The queries listed under the pool are exactly those with a reservation or a
  revocable reservation, each with its two amounts, a missing one being 0.\<close>

theorem pool_queries_reservations:
  assumes "distinct (map fst (queryMemoryReservations p))"
    and "distinct (map fst (queryMemoryRevocableReservations p))"
  shows "map_of (pool_queries p) q =
    (if q \<in> fst ` set (queryMemoryReservations p) \<or> q \<in> fst ` set (queryMemoryRevocableReservations p)
     then Some (reservation (queryMemoryReservations p) q, reservation (queryMemoryRevocableReservations p) q)
     else None)"
  using map_of_eq_None_iff [of "queryMemoryReservations p" q] map_of_eq_None_iff [of "queryMemoryRevocableReservations p" q]
  unfolding pool_queries_def Let_def map_of_fold_revocable [OF assms(2)] map_of_fold_reserved [OF assms(1)]
  by (auto simp: reservation_def split: option.splits)

theorem pool_queries_reservations_witness:
  "map_of (pool_queries \<lparr>maxBytes = Fin 100, reservedBytes = Fin 0, reservedRevocableBytes = Fin 0,
     queryMemoryReservations = [(''q1'', Fin 5)], queryMemoryRevocableReservations = [(''q2'', Fin 7)]\<rparr>) ''q2''
   = Some (Fin 0, Fin 7)"
  using pool_queries_reservations [of "\<lparr>maxBytes = Fin 100, reservedBytes = Fin 0, reservedRevocableBytes = Fin 0,
     queryMemoryReservations = [(''q1'', Fin 5)], queryMemoryRevocableReservations = [(''q2'', Fin 7)]\<rparr>" "''q2''"]
  by (simp add: reservation_def)

text \<open>Because a bar that is not empty is at least 15 percent wide, the free bar can get a
  negative width although the pool is not full: here 95 of 100 bytes are reserved and 1 is revocable.\<close>

theorem pool_free_negative:
  "pool_percentages \<lparr>maxBytes = Fin 100, reservedBytes = Fin 95, reservedRevocableBytes = Fin 1,
     queryMemoryReservations = [], queryMemoryRevocableReservations = []\<rparr>
   = (Fin 95, Fin 15, Fin (-10))"
proof -
  have n: "number 9500 = Fin 9500" "number 95 = Fin 95" "number 100 = Fin 100" "number 110 = Fin 110"
    "number (-10) = Fin (-10)"
    using number_int [of 9500] number_int [of 95] number_int [of 100] number_int [of 110] number_int [of "-10"]
    by simp_all
  have "\<lfloor>191 / 2 :: rat\<rfloor> = 95" by (simp add: floor_eq_iff)
  then show ?thesis by (simp add: pool_percentages_def bar_percentage_def jsnum_times_Fin n)
qed

end
