(* ===== verification/WorkerThreadList.thy ===== *)
theory WorkerThreadList
  imports VDom Polling Format
begin

text \<open>
  \<open>components/WorkerThreadList.jsx\<close>: snapshots of a node's threads, grouped by the name of their pool. The
  object \<open>result\<close> of \<open>processThreads\<close> is an association list (group names are not array indices); its entry
  \<open>All Threads\<close> is the very array the loop runs over, so the model keeps that array apart. The loop need not end: it is a partial
  function into \<open>option\<close>, with \<open>None\<close> for a loop that never returns, and the value inside is again \<open>None\<close> when an exception
  is thrown.
\<close>

section \<open>Regular expressions\<close>

datatype re = Eps | Nul | Sym "char \<Rightarrow> bool" | Cat re re | Alt re re | Star re

fun nullable :: "re \<Rightarrow> bool" where
  "nullable Eps = True"
| "nullable Nul = False"
| "nullable (Sym p) = False"
| "nullable (Cat r s) = (nullable r \<and> nullable s)"
| "nullable (Alt r s) = (nullable r \<or> nullable s)"
| "nullable (Star r) = True"

fun deriv_re :: "char \<Rightarrow> re \<Rightarrow> re" where
  "deriv_re c Eps = Nul"
| "deriv_re c Nul = Nul"
| "deriv_re c (Sym p) = (if p c then Eps else Nul)"
| "deriv_re c (Cat r s) =
     (if nullable r then Alt (Cat (deriv_re c r) s) (deriv_re c s) else Cat (deriv_re c r) s)"
| "deriv_re c (Alt r s) = Alt (deriv_re c r) (deriv_re c s)"
| "deriv_re c (Star r) = Cat (deriv_re c r) (Star r)"

definition re_test :: "re \<Rightarrow> string \<Rightarrow> bool" where
  "re_test r s = nullable (fold deriv_re s (Cat (Star (Sym (\<lambda>_. True))) (Cat r (Star (Sym (\<lambda>_. True))))))"

definition chr_re :: "char \<Rightarrow> re" where
  "chr_re c = Sym (\<lambda>x. x = c)"

definition line_terminator :: "char \<Rightarrow> bool" where
  "line_terminator c \<longleftrightarrow> code c = 10 \<or> code c = 13"

text \<open>\<open>([0-9])*_([0-9])*_([0-9])*_.*?\.([0-9])*\.([0-9])*-([0-9])*-([0-9])*\<close>\<close>

definition QUERY_THREAD_REGEX :: re where
  "QUERY_THREAD_REGEX =
     (let digits = Star (Sym is_digit); any = Star (Sym (\<lambda>c. \<not> line_terminator c))
      in foldr Cat [digits, chr_re (CHR ''_''), digits, chr_re (CHR ''_''), digits, chr_re (CHR ''_''), any,
           chr_re (CHR ''.''), digits, chr_re (CHR ''.''), digits, chr_re (CHR ''-''), digits,
           chr_re (CHR ''-''), digits] Eps)"

text \<open>\<open>(.*?)-[0-9]+\<close>: the match ends the group at the first dash before a digit and begins it after the last line
  terminator before that.\<close>

fun dash_digit :: "string \<Rightarrow> nat option" where
  "dash_digit (a # b # s) =
     (if a = CHR ''-'' \<and> is_digit b then Some 0 else map_option Suc (dash_digit (b # s)))"
| "dash_digit _ = None"

definition threadGroup :: "string \<Rightarrow> string" where
  "threadGroup name =
     (case dash_digit name of
        Some i \<Rightarrow> rev (takeWhile (\<lambda>c. \<not> line_terminator c) (rev (take i name)))
      | None \<Rightarrow> name)"

section \<open>State\<close>

record stack_line =
  className :: string
  method_name :: string
  file_name :: string
  line_number :: jsnum

record thread_info =
  thread_id :: jsnum
  thread_name :: string
  thread_state :: string
  lockOwnerId :: val
  stackTrace :: "stack_line list"

type_synonym groups = "(string, thread_info list) omap"

definition ALL_THREADS :: string where
  "ALL_THREADS = ''All Threads''"

definition QUERY_THREADS :: string where
  "QUERY_THREADS = ''Running Queries''"

definition ALL_THREAD_STATE :: string where
  "ALL_THREAD_STATE = ''ALL''"

definition THREAD_STATES :: "string list" where
  "THREAD_STATES = [ALL_THREAD_STATE, ''RUNNABLE'', ''BLOCKED'', ''WAITING'', ''TIMED_WAITING'', ''NEW'', ''TERMINATED'']"

record thread_list =
  initialized :: bool
  threads :: "groups option"
  snapshotTime :: "string option"
  selectedGroup :: string
  selectedThreadState :: string

definition WorkerThreadList_init :: thread_list where
  "WorkerThreadList_init = \<lparr>initialized = False, threads = None, snapshotTime = None,
     selectedGroup = ALL_THREADS, selectedThreadState = ALL_THREAD_STATE\<rparr>"

section \<open>Grouping the threads\<close>

text \<open>\<open>if (!result[k]) result[k] = []; result[k].push(thread)\<close>\<close>

definition push_thread :: "string \<Rightarrow> thread_info \<Rightarrow> groups \<Rightarrow> groups throws" where
  "push_thread k t result =
     (if k \<in> set prototype_names then throw
      else Some (case map_of result k of
                   None \<Rightarrow> AList.update k [t] result
                 | Some ts \<Rightarrow> AList.update k (ts @ [t]) result))"

definition is_query_thread :: "thread_info \<Rightarrow> bool" where
  "is_query_thread t = re_test QUERY_THREAD_REGEX (thread_name t)"

text \<open>The body of the loop for one thread, when its group is not the array itself.\<close>

definition add_thread :: "thread_info \<Rightarrow> groups \<Rightarrow> groups throws" where
  "add_thread t result =
     do { r1 \<leftarrow> (if is_query_thread t then push_thread QUERY_THREADS t result else Some result);
          if threadGroup (thread_name t) = ALL_THREADS then Some r1
          else push_thread (threadGroup (thread_name t)) t r1 }"

partial_function (option) processLoop :: "nat \<Rightarrow> thread_info list \<Rightarrow> groups \<Rightarrow> groups throws option" where
  "processLoop i ts result =
     (if i < length ts then
        (case add_thread (ts ! i) result of
           None \<Rightarrow> Some throw
         | Some r \<Rightarrow>
             processLoop (i + 1)
               (if threadGroup (thread_name (ts ! i)) = ALL_THREADS then ts @ [ts ! i] else ts) r)
      else Some (Some ((ALL_THREADS, ts) # result)))"

definition processThreads :: "thread_info list \<Rightarrow> groups throws option" where
  "processThreads ts = processLoop 0 ts []"

section \<open>Handlers\<close>

definition captureSnapshot_url :: "string \<Rightarrow> string" where
  "captureSnapshot_url search = ''/ui/api/worker/'' @ getFirstParameter search @ ''/thread''"

text \<open>The callbacks of \<open>captureSnapshot\<close>; \<open>time\<close> is what \<open>toTimeString\<close> shows of the time of the snapshot.\<close>

definition captureSnapshot_success :: "thread_info list \<Rightarrow> string \<Rightarrow> thread_list \<Rightarrow> thread_list throws option" where
  "captureSnapshot_success ts time s =
     map_option (map_option (\<lambda>gs. s\<lparr>threads := Some gs, snapshotTime := Some time, initialized := True\<rparr>))
       (processThreads ts)"

definition captureSnapshot_fail :: "thread_list \<Rightarrow> thread_list" where
  "captureSnapshot_fail s = s\<lparr>initialized := True\<rparr>"

definition WorkerThreadList_componentDidUpdate :: "effect list" where
  "WorkerThreadList_componentDidUpdate = [Clipboard ''.copy-button'']"

definition handleGroupClick :: "string \<Rightarrow> thread_list \<Rightarrow> thread_list" where
  "handleGroupClick g s = s\<lparr>selectedGroup := g\<rparr>"

definition handleThreadStateClick :: "string \<Rightarrow> thread_list \<Rightarrow> thread_list" where
  "handleThreadStateClick st s = s\<lparr>selectedThreadState := st\<rparr>"

text \<open>Together with the request \<open>captureSnapshot\<close> sends.\<close>

definition handleNewSnapshotClick :: "thread_list \<Rightarrow> thread_list" where
  "handleNewSnapshotClick s = s\<lparr>initialized := False\<rparr>"

text \<open>Reading a group that the snapshot does not have gives \<open>undefined\<close>, and calling \<open>filter\<close> on it throws.\<close>

definition filterThreads :: "groups \<Rightarrow> string \<Rightarrow> string \<Rightarrow> thread_info list throws" where
  "filterThreads gs g st =
     do { ts \<leftarrow> map_of gs g; Some (filter (\<lambda>t. thread_state t = st \<or> st = ALL_THREAD_STATE) ts) }"

section \<open>Rendering\<close>

datatype thread_action = GroupClick string | ThreadStateClick string | NewSnapshotClick

definition thread_count :: "groups \<Rightarrow> string \<Rightarrow> string \<Rightarrow> (unit, thread_action) html" where
  "thread_count gs g st = str (map_option (\<lambda>ts. show_nat (length ts)) (filterThreads gs g st))"

definition renderGroupListItem :: "thread_list \<Rightarrow> groups \<Rightarrow> string \<Rightarrow> (unit, thread_action) html" where
  "renderGroupListItem s gs g =
    el ''li'' []
      [el ''a'' [Attr ''href'' ''#'', Cls (if selectedGroup s = g then ''selected'' else []),
            On ''onClick'' (GroupClick g)]
        [lit g,
         lit '' ('',
         thread_count gs g (selectedThreadState s),
         lit '')'']]"

definition renderThreadStateListItem :: "thread_list \<Rightarrow> groups \<Rightarrow> string \<Rightarrow> (unit, thread_action) html" where
  "renderThreadStateListItem s gs st =
    el ''li'' []
      [el ''a'' [Attr ''href'' ''#'',
            Cls (if selectedThreadState s = st then ''selected'' else []),
            On ''onClick'' (ThreadStateClick st)]
        [lit st,
         lit '' ('',
         thread_count gs (selectedGroup s) st,
         lit '')'']]"

definition renderStackLine :: "stack_line \<Rightarrow> (unit, thread_action) html" where
  "renderStackLine l =
    el ''div'' []
      [lit (nbsp @ nbsp @ ''at ''),
       lit (className l),
       lit ''.'',
       lit (method_name l),
       lit ''('',
       el ''span'' [Cls ''font-light'']
        [lit (file_name l),
         lit '':'',
         shown (Num (line_number l))],
       lit '')'']"

definition renderThread :: "thread_info \<Rightarrow> (unit, thread_action) html" where
  "renderThread t =
    el ''div'' []
      [el ''span'' [Cls ''font-white'']
        [lit (thread_name t),
         lit '' '',
         lit (thread_state t),
         lit '' #'',
         shown (Num (thread_id t)),
         lit '' '',
         shown (lockOwnerId t)],
       el ''a'' [Cls ''copy-button'',
            Attr ''data-clipboard-target'' (''#stack-trace-'' @ numToString (thread_id t)),
            Attr ''data-toggle'' ''tooltip'', Attr ''data-placement'' ''right'',
            Attr ''title'' ''Copy to clipboard'']
        [el ''span'' [Cls ''glyphicon glyphicon-copy'', Attr ''alt'' ''Copy to clipboard''] []],
       el ''br'' [] [],
       el ''span'' [Cls ''stack-traces'', Id (''stack-trace-'' @ numToString (thread_id t))]
        [frag (map renderStackLine (stackTrace t))],
       el ''div'' [] [lit nbsp]]"

definition WorkerThreadList_toolbar :: "thread_list \<Rightarrow> groups \<Rightarrow> (unit, thread_action) html" where
  "WorkerThreadList_toolbar s gs =
    el ''div'' [Cls ''col-xs-9'']
      [el ''table'' [Cls ''header-inline-links'']
        [el ''tbody'' []
          [el ''tr'' []
            [el ''td'' []
              [el ''small'' [] [lit ''Snapshot at '', str (snapshotTime s)],
               lit (nbsp @ nbsp)],
             el ''td'' []
              [el ''button'' [Cls ''btn btn-info live-button'', On ''onClick'' NewSnapshotClick]
                [lit ''New Snapshot''],
               lit (nbsp @ nbsp @ '' '' @ nbsp @ nbsp)],
             el ''td'' []
              [el ''div'' [Cls ''input-group-btn text-right'']
                [el ''button'' [Attr ''type'' ''button'',
                      Cls ''btn btn-default dropdown-toggle pull-right text-right'',
                      Attr ''data-toggle'' ''dropdown'', Attr ''aria-haspopup'' ''true'',
                      Attr ''aria-expanded'' ''false'']
                  [el ''strong'' [] [lit ''Group:''],
                   lit '' '',
                   lit (selectedGroup s),
                   lit '' '',
                   el ''span'' [Cls ''caret''] []],
                 el ''ul'' [Cls ''dropdown-menu'']
                  [frag (map (renderGroupListItem s gs) (map fst gs))]]],
             el ''td'' []
              [el ''div'' [Cls ''input-group-btn text-right'']
                [el ''button'' [Attr ''type'' ''button'',
                      Cls ''btn btn-default dropdown-toggle pull-right text-right'',
                      Attr ''data-toggle'' ''dropdown'', Attr ''aria-haspopup'' ''true'',
                      Attr ''aria-expanded'' ''false'']
                  [el ''strong'' [] [lit ''State:''],
                   lit '' '',
                   lit (selectedThreadState s),
                   lit '' '',
                   el ''span'' [Cls ''caret''] []],
                 el ''ul'' [Cls ''dropdown-menu'']
                  [frag (map (renderThreadStateListItem s gs) THREAD_STATES)]]]]]]]"

definition displayedThreads :: "thread_list \<Rightarrow> thread_info list \<Rightarrow> (unit, thread_action) html" where
  "displayedThreads s filteredThreads =
    (if filteredThreads = [] \<and> selectedThreadState s = ALL_THREAD_STATE then
       el ''div'' [Cls ''row error-message'']
         [el ''div'' [Cls ''col-xs-12'']
           [el ''h4'' []
             [lit (''No threads in group '' @ apostrophe),
              lit (selectedGroup s),
              lit apostrophe]]]
     else if filteredThreads = [] \<and> selectedGroup s = ALL_THREADS then
       el ''div'' [Cls ''row error-message'']
         [el ''div'' [Cls ''col-xs-12'']
           [el ''h4'' [] [lit ''No threads with state '', lit (selectedThreadState s)]]]
     else if filteredThreads = [] then
       el ''div'' [Cls ''row error-message'']
         [el ''div'' [Cls ''col-xs-12'']
           [el ''h4'' []
             [lit (''No threads in group '' @ apostrophe),
              lit (selectedGroup s),
              lit (apostrophe @ '' with state ''),
              lit (selectedThreadState s)]]]
     else
       el ''pre'' [] [frag (map renderThread filteredThreads)])"

definition WorkerThreadList_display :: "thread_list \<Rightarrow> (unit, thread_action) html" where
  "WorkerThreadList_display s =
    (case threads s of
       None \<Rightarrow>
         (if \<not> initialized s then
            el ''div'' [Cls ''row error-message'']
              [el ''div'' [Cls ''col-xs-12'']
                [el ''button'' [Cls ''btn btn-info live-button'', On ''onClick'' NewSnapshotClick]
                  [lit ''Capture Snapshot'']]]
          else
            el ''div'' [Cls ''row error-message'']
              [el ''div'' [Cls ''col-xs-12'']
                [el ''h4'' [] [lit ''Thread snapshot could not be loaded'']]])
     | Some gs \<Rightarrow>
         do { ts \<leftarrow> filterThreads gs (selectedGroup s) (selectedThreadState s);
              el ''div'' [Id ''stack-traces''] [displayedThreads s ts] })"

definition WorkerThreadList_render :: "thread_list \<Rightarrow> (unit, thread_action) html" where
  "WorkerThreadList_render s =
    el ''div'' []
      [el ''div'' [Cls ''row'']
        [el ''div'' [Cls ''col-xs-3'']
          [el ''h3'' []
            [lit ''Thread Snapshot'',
             el ''a'' [Cls ''btn copy-button'',
                  Attr ''data-clipboard-target'' ''#stack-traces'',
                  Attr ''data-toggle'' ''tooltip'', Attr ''data-placement'' ''right'',
                  Attr ''title'' ''Copy to clipboard'']
              [el ''span'' [Cls ''glyphicon glyphicon-copy'', Attr ''alt'' ''Copy to clipboard''] []],
             lit nbsp]],
         (case threads s of None \<Rightarrow> blank | Some gs \<Rightarrow> WorkerThreadList_toolbar s gs)],
       el ''div'' [Cls ''row'']
        [el ''div'' [Cls ''col-xs-12''] [el ''hr'' [Cls ''h3-hr''] [], WorkerThreadList_display s]]]"

section \<open>Facts\<close>

text \<open>The loop without the aliasing: a pass over the threads.\<close>

fun add_threads :: "thread_info list \<Rightarrow> groups \<Rightarrow> groups throws" where
  "add_threads [] r = Some r"
| "add_threads (t # ts) r = do { r' \<leftarrow> add_thread t r; add_threads ts r' }"

definition ordinary :: "thread_info \<Rightarrow> bool" where
  "ordinary t \<longleftrightarrow> threadGroup (thread_name t) \<notin> insert ALL_THREADS (insert QUERY_THREADS (set prototype_names))"

lemma ordinary_group: "ordinary t \<Longrightarrow> threadGroup (thread_name t) \<noteq> ALL_THREADS"
  by (simp add: ordinary_def)

lemma processLoop_pass:
  assumes "\<forall>t \<in> set ts. threadGroup (thread_name t) \<noteq> ALL_THREADS"
  shows "processLoop i ts r = Some (map_option (\<lambda>r. (ALL_THREADS, ts) # r) (add_threads (drop i ts) r))"
proof (induction "length ts - i" arbitrary: i r)
  case 0
  then show ?case by (simp add: processLoop.simps)
next
  case (Suc n)
  then have i: "i < length ts" by simp
  then have d: "drop i ts = ts ! i # drop (i + 1) ts" by (simp add: Cons_nth_drop_Suc)
  have "threadGroup (thread_name (ts ! i)) \<noteq> ALL_THREADS" using assms i by simp
  with Suc i d show ?case by (subst processLoop.simps) (simp split: option.split)
qed

text \<open>What a result holds under a key; a key is present only with a thread.\<close>

definition held :: "groups \<Rightarrow> string \<Rightarrow> thread_info list" where
  "held r k = (case map_of r k of None \<Rightarrow> [] | Some ts \<Rightarrow> ts)"

lemma held_Nil: "held [] k = []"
  by (simp add: held_def)

definition no_empty :: "groups \<Rightarrow> bool" where
  "no_empty r \<longleftrightarrow> (\<forall>k. map_of r k \<noteq> Some [])"

lemma push_thread_held:
  assumes "k \<notin> set prototype_names" and "no_empty r"
  shows "\<exists>r'. push_thread k t r = Some r' \<and> no_empty r'
    \<and> (\<forall>k'. held r' k' = held r k' @ (if k' = k then [t] else []))"
  using assms by (auto simp: push_thread_def held_def no_empty_def update_conv split: option.splits)

lemma QUERY_THREADS_ordinary: "QUERY_THREADS \<notin> set prototype_names"
  by (simp add: QUERY_THREADS_def prototype_names_def)

lemma add_thread_held:
  assumes "ordinary t" and "no_empty r"
  shows "\<exists>r'. add_thread t r = Some r' \<and> no_empty r'
    \<and> (\<forall>k. held r' k = held r k @ (if k = QUERY_THREADS \<and> is_query_thread t then [t] else [])
                          @ (if k = threadGroup (thread_name t) then [t] else []))"
proof -
  obtain r1 where r1: "(if is_query_thread t then push_thread QUERY_THREADS t r else Some r) = Some r1" "no_empty r1"
    "\<forall>k. held r1 k = held r k @ (if k = QUERY_THREADS \<and> is_query_thread t then [t] else [])"
    using push_thread_held [OF QUERY_THREADS_ordinary assms(2), of t] assms(2) by (cases "is_query_thread t") auto
  have "threadGroup (thread_name t) \<notin> set prototype_names" using assms(1) by (simp add: ordinary_def)
  from push_thread_held [OF this r1(2), of t] obtain r2 where
    "push_thread (threadGroup (thread_name t)) t r1 = Some r2" "no_empty r2"
    "\<forall>k. held r2 k = held r1 k @ (if k = threadGroup (thread_name t) then [t] else [])" by blast
  with r1 ordinary_group [OF assms(1)] show ?thesis by (simp add: add_thread_def)
qed

lemma add_threads_held:
  assumes "\<forall>t \<in> set ts. ordinary t" and "no_empty r"
  shows "\<exists>r'. add_threads ts r = Some r' \<and> no_empty r'
    \<and> (\<forall>k. held r' k = held r k @ concat (map (\<lambda>t. (if k = QUERY_THREADS \<and> is_query_thread t then [t] else [])
                          @ (if k = threadGroup (thread_name t) then [t] else [])) ts))"
  using assms
proof (induction ts arbitrary: r)
  case (Cons t ts)
  then obtain r1 where r1: "add_thread t r = Some r1" "no_empty r1"
    "\<forall>k. held r1 k = held r k @ (if k = QUERY_THREADS \<and> is_query_thread t then [t] else [])
                          @ (if k = threadGroup (thread_name t) then [t] else [])"
    using add_thread_held [of t r] by auto
  with Cons.IH [OF _ r1(2)] Cons.prems show ?case by auto
qed simp

lemma held_group:
  assumes "\<forall>t \<in> set ts. ordinary t"
  shows "concat (map (\<lambda>t. (if k = QUERY_THREADS \<and> is_query_thread t then [t] else [])
                          @ (if k = threadGroup (thread_name t) then [t] else [])) ts)
    = filter (\<lambda>t. if k = QUERY_THREADS then is_query_thread t else threadGroup (thread_name t) = k) ts"
  using assms by (induction ts) (auto simp: ordinary_def)

lemma held_map_of: "no_empty r \<Longrightarrow> map_of r k = (if held r k = [] then None else Some (held r k))"
  by (auto simp: held_def no_empty_def split: option.splits)

text \<open>A thread whose group is the array itself keeps the loop going.\<close>

lemma processLoop_runs_on:
  assumes "processLoop i ts r = Some res" and "\<forall>t \<in> set ts. threadGroup (thread_name t) \<notin> set prototype_names"
  shows "\<forall>j \<ge> i. j < length ts \<longrightarrow> threadGroup (thread_name (ts ! j)) \<noteq> ALL_THREADS"
  using assms
proof (induction i ts r res rule: processLoop.raw_induct [rotated 1, consumes 1, case_names step])
  case (step processLoop i ts r res)
  note 1 = step
  show ?case
  proof (cases "i < length ts")
    case True
    let ?t = "ts ! i"
    have "threadGroup (thread_name ?t) \<notin> set prototype_names" using 1(3) True by simp
    then have "\<exists>r'. add_thread ?t r = Some r'"
      by (auto simp: add_thread_def push_thread_def QUERY_THREADS_ordinary)
    then obtain r' where r': "add_thread ?t r = Some r'" ..
    let ?ts = "if threadGroup (thread_name ?t) = ALL_THREADS then ts @ [?t] else ts"
    have "processLoop (i + 1) ?ts r' = Some res" using 1(2) True r' by simp
    moreover have "\<forall>t \<in> set ?ts. threadGroup (thread_name t) \<notin> set prototype_names"
      using 1(3) \<open>threadGroup (thread_name ?t) \<notin> set prototype_names\<close> by (auto split: if_splits)
    ultimately have next_ok: "\<forall>j \<ge> i + 1. j < length ?ts \<longrightarrow> threadGroup (thread_name (?ts ! j)) \<noteq> ALL_THREADS"
      using 1(1) by blast
    have here: "threadGroup (thread_name ?t) \<noteq> ALL_THREADS"
      using next_ok [rule_format, of "length ts"] True by (auto simp: nth_append)
    show ?thesis
    proof (intro allI impI)
      fix j assume j: "i \<le> j" "j < length ts"
      show "threadGroup (thread_name (ts ! j)) \<noteq> ALL_THREADS"
        using next_ok [rule_format, of j] here j by (cases "j = i") simp_all
    qed
  qed auto
qed

lemma thread_count_renders [dom_simps]: "renders (thread_count gs g st) \<longleftrightarrow> g \<in> fst ` set gs"
proof -
  have "filterThreads gs g st = throw \<longleftrightarrow> g \<notin> fst ` set gs"
    by (simp add: filterThreads_def bind_eq_None_conv map_of_eq_None_iff)
  then show ?thesis by (simp add: thread_count_def dom_simps del: not_None_eq)
qed

lemma renderThread_renders: "renders (renderThread t)"
proof -
  have "list_all renders (map renderStackLine ls)" for ls
    by (induction ls) (simp_all add: renderStackLine_def dom_simps)
  then show ?thesis by (simp add: renderThread_def dom_simps)
qed

lemma displayedThreads_renders [dom_simps]: "renders (displayedThreads s ts)"
proof -
  have "list_all renders (map renderThread ts)" by (induction ts) (simp_all add: renderThread_renders)
  then show ?thesis by (simp add: displayedThreads_def dom_simps)
qed

lemma group_items_render:
  "list_all renders (map (renderGroupListItem s gs) ks) \<longleftrightarrow> set ks \<subseteq> fst ` set gs"
  by (induction ks) (simp_all add: renderGroupListItem_def dom_simps)

lemma state_items_render:
  "ks \<noteq> [] \<Longrightarrow> list_all renders (map (renderThreadStateListItem s gs) ks) \<longleftrightarrow> selectedGroup s \<in> fst ` set gs"
  by (induction ks rule: list_nonempty_induct) (simp_all add: renderThreadStateListItem_def dom_simps)

lemma toolbar_renders:
  "renders (WorkerThreadList_toolbar s gs) \<longleftrightarrow> snapshotTime s \<noteq> None \<and> selectedGroup s \<in> fst ` set gs"
proof -
  have "list_all renders (map (renderGroupListItem s gs) (map fst gs))" by (subst group_items_render) simp
  moreover have "list_all renders (map (renderThreadStateListItem s gs) THREAD_STATES) \<longleftrightarrow> selectedGroup s \<in> fst ` set gs"
    by (rule state_items_render) (simp add: THREAD_STATES_def)
  ultimately show ?thesis by (simp add: WorkerThreadList_toolbar_def dom_simps)
qed

lemma display_renders:
  "renders (WorkerThreadList_display s) \<longleftrightarrow> (\<forall>gs. threads s = Some gs \<longrightarrow> selectedGroup s \<in> fst ` set gs)"
proof (cases "threads s")
  case (Some gs)
  then show ?thesis
    by (cases "map_of gs (selectedGroup s)")
      (auto simp: WorkerThreadList_display_def dom_simps filterThreads_def map_of_eq_None_iff renders_def [of None]
        dest: map_of_SomeD intro: rev_image_eqI)
qed (simp add: WorkerThreadList_display_def dom_simps)

section \<open>Properties\<close>

text \<open>The page of a node's threads renders exactly when the selected group is one of
  the snapshot's: a new snapshot without that group makes the page throw.\<close>

theorem WorkerThreadList_renders:
  assumes "threads s \<noteq> None \<longrightarrow> snapshotTime s \<noteq> None"
  shows "renders (WorkerThreadList_render s) \<longleftrightarrow> (\<forall>gs. threads s = Some gs \<longrightarrow> selectedGroup s \<in> fst ` set gs)"
  using assms
  by (cases "threads s") (auto simp: WorkerThreadList_render_def dom_simps display_renders toolbar_renders)

definition stale_selection :: thread_list where
  "stale_selection = WorkerThreadList_init\<lparr>threads := Some [(ALL_THREADS, [])], snapshotTime := Some [],
     selectedGroup := QUERY_THREADS\<rparr>"

theorem WorkerThreadList_renders_witness: "\<not> renders (WorkerThreadList_render stale_selection)"
  using WorkerThreadList_renders [of stale_selection]
  by (simp add: stale_selection_def ALL_THREADS_def QUERY_THREADS_def)

text \<open>C17. For threads whose pools have ordinary names, grouping returns, and the result has all
  threads under \<open>All Threads\<close>, the threads of queries under \<open>Running Queries\<close>, and under every other name
  the threads of that pool, each in the order of the snapshot, and no empty group.\<close>

theorem processThreads_groups:
  assumes "\<forall>t \<in> set ts. ordinary t"
  shows "\<exists>gs. processThreads ts = Some (Some gs) \<and> map_of gs ALL_THREADS = Some ts
    \<and> (\<forall>k. k \<noteq> ALL_THREADS \<longrightarrow> map_of gs k =
         (let members = filter (\<lambda>t. if k = QUERY_THREADS then is_query_thread t
                                   else threadGroup (thread_name t) = k) ts
          in if members = [] then None else Some members))"
proof -
  obtain r where r: "add_threads ts [] = Some r" "no_empty r"
    "\<forall>k. held r k = held [] k @ concat (map (\<lambda>t. (if k = QUERY_THREADS \<and> is_query_thread t then [t] else [])
                          @ (if k = threadGroup (thread_name t) then [t] else [])) ts)"
    using add_threads_held [OF assms, of "[]"] by (auto simp: no_empty_def)
  have "processThreads ts = Some (Some ((ALL_THREADS, ts) # r))"
    using processLoop_pass [of ts 0 "[]"] assms ordinary_group r(1) by (simp add: processThreads_def)
  moreover have "held r k = filter (\<lambda>t. if k = QUERY_THREADS then is_query_thread t
      else threadGroup (thread_name t) = k) ts" for k
    using r(3) held_group [OF assms, of k] by (simp add: held_Nil)
  ultimately show ?thesis using held_map_of [OF r(2)] by (simp add: Let_def)
qed

definition sample_thread :: "string \<Rightarrow> thread_info" where
  "sample_thread name = \<lparr>thread_id = Fin 1, thread_name = name, thread_state = ''RUNNABLE'', lockOwnerId = Null, stackTrace = []\<rparr>"

lemma sample_ordinary: "\<forall>t \<in> set [sample_thread ''http-worker-1'', sample_thread ''main'']. ordinary t"
  by (simp add: ordinary_def sample_thread_def) code_simp

theorem processThreads_groups_witness:
  "\<exists>gs. processThreads [sample_thread ''http-worker-1'', sample_thread ''main''] = Some (Some gs)
     \<and> map_of gs ALL_THREADS = Some [sample_thread ''http-worker-1'', sample_thread ''main'']"
  using processThreads_groups [OF sample_ordinary] by blast

text \<open>C40. A thread whose pool is called \<open>All Threads\<close> is pushed onto the array the loop runs over,
  and the loop never returns.\<close>

theorem processThreads_diverges:
  assumes "t \<in> set ts" and "threadGroup (thread_name t) = ALL_THREADS"
    and "\<forall>t \<in> set ts. threadGroup (thread_name t) \<notin> set prototype_names"
  shows "processThreads ts = None"
proof (rule ccontr)
  assume "processThreads ts \<noteq> None"
  then obtain res where "processLoop 0 ts [] = Some res" by (auto simp: processThreads_def)
  from processLoop_runs_on [OF this assms(3)] show False using assms(1,2) by (auto simp: in_set_conv_nth)
qed

theorem processThreads_diverges_witness: "processThreads [sample_thread ''All Threads-1''] = None"
proof (rule processThreads_diverges)
  have g: "threadGroup ''All Threads-1'' = ALL_THREADS" by code_simp
  then show "threadGroup (thread_name (sample_thread ''All Threads-1'')) = ALL_THREADS" by (simp add: sample_thread_def)
  show "\<forall>t \<in> set [sample_thread ''All Threads-1'']. threadGroup (thread_name t) \<notin> set prototype_names"
    by (simp add: sample_thread_def g) (simp add: ALL_THREADS_def prototype_names_def)
qed simp

end
