(* ===== verification/TaskList.thy ===== *)
theory TaskList
  imports VDom Format DateTime QueryDisplay
begin

text \<open>
  The component \<open>TaskList\<close> of \<open>components/QueryDetail.jsx\<close>: the table of the tasks of a stage. The table itself is that of the library
  \<open>reactable\<close>; the model holds the columns and the comparison it sorts by. \<open>now\<close> is the clock, and \<open>url\<close> the browser's \<open>URL\<close>.
\<close>

section \<open>Tasks\<close>

record task_stats =
  elapsedTime :: string
  createTime :: string
  ts_fullyBlocked :: bool
  rawInputPositions :: jsnum
  rawInputDataSize :: string
  queuedDrivers :: jsnum
  ts_runningDrivers :: jsnum
  blockedDrivers :: jsnum
  completedDrivers :: jsnum
  totalScheduledTime :: string
  totalCpuTime :: string
  userMemoryReservation :: string
  peakUserMemoryReservation :: string

record task =
  taskId :: string
  nodeId :: string
  self :: string
  taskState :: string
  taskStats :: task_stats
  totalBufferedBytes :: jsnum
  estimatedMemory :: string

section \<open>Ids\<close>

definition removeQueryId :: "string \<Rightarrow> string" where
  "removeQueryId i = (let pos = indexOf i ''.'' in if pos \<noteq> -1 then substring_from i (pos + 1) else i)"

text \<open>The loop over the parts; the case of a missing part of the second id cannot occur after the comparison of the lengths.\<close>

fun compare_parts :: "string list \<Rightarrow> string list \<Rightarrow> jsnum" where
  "compare_parts [] bs = Fin 0"
| "compare_parts (a # as) (b # bs) =
     (let anum = parseInt a; bnum = parseInt b
      in if \<not> strict_eq anum bnum then (if anum > bnum then Fin 1 else Fin (-1)) else compare_parts as bs)"
| "compare_parts (a # as) [] = Fin (-1)"

definition compareTaskId :: "string \<Rightarrow> string \<Rightarrow> jsnum" where
  "compareTaskId taskA taskB =
     (let taskIdArrA = split ''.'' (removeQueryId taskA); taskIdArrB = split ''.'' (removeQueryId taskB)
      in if length taskIdArrA > length taskIdArrB then Fin 1 else compare_parts taskIdArrA taskIdArrB)"

section \<open>Hosts\<close>

text \<open>The loop over the tasks, with the object from host names to ports.\<close>

fun showPortNumbers_loop :: "url_parser \<Rightarrow> task list \<Rightarrow> (string, string) omap \<Rightarrow> bool throws" where
  "showPortNumbers_loop url [] hostToPortNumber = Some False"
| "showPortNumbers_loop url (task # tasks) hostToPortNumber =
     do { hostname \<leftarrow> getHostname url (self task);
          port \<leftarrow> getPort url (self task);
          if hostname \<in> set prototype_names \<or> has_key hostToPortNumber hostname \<and> map_of hostToPortNumber hostname \<noteq> Some port
          then Some True
          else showPortNumbers_loop url tasks (AList.update hostname port hostToPortNumber) }"

definition showPortNumbers :: "url_parser \<Rightarrow> task list \<Rightarrow> bool throws" where
  "showPortNumbers url tasks = showPortNumbers_loop url tasks []"

definition formatState :: "string \<Rightarrow> bool \<Rightarrow> string" where
  "formatState st blocked = (if blocked \<and> st = ''RUNNING'' then ''BLOCKED'' else st)"

section \<open>Rendering\<close>

definition taskElapsed :: "jsnum \<Rightarrow> task \<Rightarrow> val" where
  "taskElapsed now task =
     (let elapsed = val_of (parseDuration (elapsedTime (taskStats task)))
      in if is_num elapsed 0 then Num (now - dateParse (createTime (taskStats task))) else elapsed)"

definition TaskList_row :: "url_parser \<Rightarrow> jsnum \<Rightarrow> bool \<Rightarrow> bool \<Rightarrow> task \<Rightarrow> ('c, 'a) html" where
  "TaskList_row url now showPorts taskRetriesEnabled task =
    (let stats = taskStats task; elapsed = taskElapsed now task in
     do { hostname \<leftarrow> getHostname url (self task);
          el ''Tr'' []
            [el ''Td'' [Attr ''column'' ''id'', Attr ''value'' (taskId task)]
              [el ''a'' [Attr ''href'' (''/ui/api/worker/'' @ nodeId task @ ''/task/'' @ taskId task @ ''?pretty'')]
                [lit (getTaskIdSuffix (taskId task))]],
             el ''Td'' [Attr ''column'' ''host'', Attr ''value'' hostname]
              [el ''a'' [Attr ''href'' (''worker.html?'' @ nodeId task), Cls ''font-light'',
                    Attr ''target'' ''_blank'']
                [str (if showPorts then getHostAndPort url (self task) else getHostname url (self task))]],
             el ''Td'' [Attr ''column'' ''state'',
                  Attr ''value'' (formatState (taskState task) (ts_fullyBlocked stats))]
              [lit (formatState (taskState task) (ts_fullyBlocked stats))],
             el ''Td'' [Attr ''column'' ''rows'', NumAttr ''value'' (rawInputPositions stats)]
              [str (formatCount (Num (rawInputPositions stats)))],
             el ''Td'' [Attr ''column'' ''rowsSec'',
                  NumAttr ''value'' (computeRate (Num (rawInputPositions stats)) elapsed)]
              [str (formatCount (Num (computeRate (Num (rawInputPositions stats)) elapsed)))],
             el ''Td'' [Attr ''column'' ''bytes'',
                  val_attr ''value'' (val_of (parseDataSize (rawInputDataSize stats)))]
              [str (formatDataSizeBytes (val_of (parseDataSize (rawInputDataSize stats))))],
             el ''Td'' [Attr ''column'' ''bytesSec'',
                  NumAttr ''value'' (computeRate (val_of (parseDataSize (rawInputDataSize stats))) elapsed)]
              [str (formatDataSizeBytes (Num (computeRate (val_of (parseDataSize (rawInputDataSize stats))) elapsed)))],
             el ''Td'' [Attr ''column'' ''splitsPending'', NumAttr ''value'' (queuedDrivers stats)]
              [shown (Num (queuedDrivers stats))],
             el ''Td'' [Attr ''column'' ''splitsRunning'',
                  NumAttr ''value'' (ts_runningDrivers stats)]
              [shown (Num (ts_runningDrivers stats))],
             el ''Td'' [Attr ''column'' ''splitsBlocked'',
                  NumAttr ''value'' (blockedDrivers stats)]
              [shown (Num (blockedDrivers stats))],
             el ''Td'' [Attr ''column'' ''splitsDone'', NumAttr ''value'' (completedDrivers stats)]
              [shown (Num (completedDrivers stats))],
             el ''Td'' [Attr ''column'' ''elapsedTime'',
                  val_attr ''value'' (val_of (parseDuration (elapsedTime stats)))]
              [lit (elapsedTime stats)],
             el ''Td'' [Attr ''column'' ''cpuTime'',
                  val_attr ''value'' (val_of (parseDuration (totalCpuTime stats)))]
              [lit (totalCpuTime stats)],
             el ''Td'' [Attr ''column'' ''bufferedBytes'',
                  NumAttr ''value'' (totalBufferedBytes task)]
              [str (formatDataSizeBytes (Num (totalBufferedBytes task)))],
             el ''Td'' [Attr ''column'' ''memory'',
                  val_attr ''value'' (val_of (parseDataSize (userMemoryReservation stats)))]
              [str (parseAndFormatDataSize (userMemoryReservation stats))],
             el ''Td'' [Attr ''column'' ''peakMemory'',
                  val_attr ''value'' (val_of (parseDataSize (peakUserMemoryReservation stats)))]
              [str (parseAndFormatDataSize (peakUserMemoryReservation stats))],
             (if taskRetriesEnabled then el ''Td'' [Attr ''column'' ''estimatedMemory'',
                   val_attr ''value'' (val_of (parseDataSize (estimatedMemory task)))]
               [str (parseAndFormatDataSize (estimatedMemory task))] else blank)] })"

text \<open>The columns the table sorts by, with the comparison of the one that has its own.\<close>

definition TaskList_sortable :: "(string \<times> (string \<Rightarrow> string \<Rightarrow> jsnum) option) list" where
  "TaskList_sortable =
     (''id'', Some compareTaskId)
     # map (\<lambda>c. (c, None)) [''host'', ''state'', ''splitsPending'', ''splitsRunning'', ''splitsBlocked'', ''splitsDone'', ''rows'',
         ''rowsSec'', ''bytes'', ''bytesSec'', ''elapsedTime'', ''cpuTime'', ''bufferedBytes'', ''memory'', ''peakMemory'',
         ''estimatedMemory'']"

definition TaskList_render :: "url_parser \<Rightarrow> jsnum \<Rightarrow> task list \<Rightarrow> bool \<Rightarrow> ('c, 'a) html" where
  "TaskList_render url now tasks taskRetriesEnabled =
    (if tasks = [] then
      el ''div'' [Cls ''row error-message'']
        [el ''div'' [Cls ''col-xs-12''] [el ''h4'' [] [lit ''No threads in the selected group'']]]
     else
       do { showPorts \<leftarrow> showPortNumbers url tasks;
            let renderedTasks = frag (map (TaskList_row url now showPorts taskRetriesEnabled) tasks);
            el ''Table'' [Id ''tasks'', Cls ''table table-striped sortable'',
                  Attr ''sortable'' (join '' '' (map fst TaskList_sortable)),
                  Attr ''defaultSort'' ''id asc'']
              [el ''Thead'' []
                [el ''Th'' [Attr ''column'' ''id''] [lit ''ID''],
                 el ''Th'' [Attr ''column'' ''host''] [lit ''Host''],
                 el ''Th'' [Attr ''column'' ''state''] [lit ''State''],
                 el ''Th'' [Attr ''column'' ''splitsPending'']
                  [el ''span'' [Cls ''glyphicon glyphicon-pause'', Style GLYPHICON_HIGHLIGHT,
                        Attr ''data-toggle'' ''tooltip'', Attr ''data-placement'' ''top'',
                        Attr ''title'' ''Pending splits''] []],
                 el ''Th'' [Attr ''column'' ''splitsRunning'']
                  [el ''span'' [Cls ''glyphicon glyphicon-play'', Style GLYPHICON_HIGHLIGHT,
                        Attr ''data-toggle'' ''tooltip'', Attr ''data-placement'' ''top'',
                        Attr ''title'' ''Running splits''] []],
                 el ''Th'' [Attr ''column'' ''splitsBlocked'']
                  [el ''span'' [Cls ''glyphicon glyphicon-bookmark'', Style GLYPHICON_HIGHLIGHT,
                        Attr ''data-toggle'' ''tooltip'', Attr ''data-placement'' ''top'',
                        Attr ''title'' ''Blocked splits''] []],
                 el ''Th'' [Attr ''column'' ''splitsDone'']
                  [el ''span'' [Cls ''glyphicon glyphicon-ok'', Style GLYPHICON_HIGHLIGHT,
                        Attr ''data-toggle'' ''tooltip'', Attr ''data-placement'' ''top'',
                        Attr ''title'' ''Completed splits''] []],
                 el ''Th'' [Attr ''column'' ''rows''] [lit ''Rows''],
                 el ''Th'' [Attr ''column'' ''rowsSec''] [lit ''Rows/s''],
                 el ''Th'' [Attr ''column'' ''bytes''] [lit ''Bytes''],
                 el ''Th'' [Attr ''column'' ''bytesSec''] [lit ''Bytes/s''],
                 el ''Th'' [Attr ''column'' ''elapsedTime''] [lit ''Elapsed''],
                 el ''Th'' [Attr ''column'' ''cpuTime''] [lit ''CPU Time''],
                 el ''Th'' [Attr ''column'' ''memory''] [lit ''Mem''],
                 el ''Th'' [Attr ''column'' ''peakMemory''] [lit ''Peak Mem''],
                 (if taskRetriesEnabled then el ''Th'' [Attr ''column'' ''estimatedMemory''] [lit ''Est Mem''] else blank)],
               renderedTasks] })"

section \<open>Facts\<close>

text \<open>The host and port of a task whose address can be parsed.\<close>

definition host_of :: "url_parser \<Rightarrow> task \<Rightarrow> string" where
  "host_of url t = the (getHostname url (self t))"

definition port_of :: "url_parser \<Rightarrow> task \<Rightarrow> string" where
  "port_of url t = the (getPort url (self t))"

lemma url_parts:
  assumes "url (self t) \<noteq> None"
  shows "getHostname url (self t) = Some (host_of url t)" "getPort url (self t) = Some (port_of url t)"
    "getHostAndPort url (self t) \<noteq> throw"
  using assms by (auto simp: host_of_def port_of_def getHostname_def getPort_def getHostAndPort_def)

definition plain_host :: "url_parser \<Rightarrow> task \<Rightarrow> bool" where
  "plain_host url t \<longleftrightarrow> url (self t) \<noteq> None \<and> host_of url t \<notin> set prototype_names"

definition port_conflict :: "(string \<times> string) set \<Rightarrow> bool" where
  "port_conflict ps \<longleftrightarrow> (\<exists>h p p'. (h, p) \<in> ps \<and> (h, p') \<in> ps \<and> p \<noteq> p')"

lemma set_update_consistent:
  assumes "wf_omap m" and "\<forall>w. map_of m k = Some w \<longrightarrow> w = v"
  shows "set (AList.update k v m) = insert (k, v) (set m)"
  using assms by (induction m) (auto simp: wf_omap_def)

lemma showPortNumbers_loop_result:
  assumes "\<forall>t \<in> set tasks. plain_host url t" and "wf_omap m" and "\<not> port_conflict (set m)"
  shows "showPortNumbers_loop url tasks m = Some (port_conflict (set m \<union> (\<lambda>t. (host_of url t, port_of url t)) ` set tasks))"
  using assms
proof (induction tasks arbitrary: m)
  case (Cons t ts)
  let ?h = "host_of url t" and ?p = "port_of url t"
  have t: "getHostname url (self t) = Some ?h" "getPort url (self t) = Some ?p" "?h \<notin> set prototype_names"
    using Cons.prems by (auto simp: plain_host_def intro: url_parts)
  show ?case
  proof (cases "has_key m ?h \<and> map_of m ?h \<noteq> Some ?p")
    case True
    then obtain w where "(?h, w) \<in> set m" "w \<noteq> ?p" by (auto simp: has_key_def dest: map_of_SomeD)
    then have "port_conflict (set m \<union> (\<lambda>t. (host_of url t, port_of url t)) ` set (t # ts))"
      unfolding port_conflict_def by (intro exI [of _ ?h] exI [of _ w] exI [of _ ?p]) simp
    with True t show ?thesis by simp
  next
    case False
    then have same: "\<forall>w. map_of m ?h = Some w \<longrightarrow> w = ?p" by (auto simp: has_key_def)
    have set: "set (AList.update ?h ?p m) = insert (?h, ?p) (set m)"
      using Cons.prems(2) same by (rule set_update_consistent)
    have "w = ?p" if "(?h, w) \<in> set m" for w
      using that same Cons.prems(2) by (simp add: wf_omap_def)
    then have "\<not> port_conflict (set (AList.update ?h ?p m))"
      using Cons.prems(3) unfolding set port_conflict_def by blast
    then have "showPortNumbers_loop url ts (AList.update ?h ?p m) = Some (port_conflict (set (AList.update ?h ?p m)
        \<union> (\<lambda>t. (host_of url t, port_of url t)) ` set ts))"
      using Cons.prems by (intro Cons.IH) (auto intro: om.invar_put)
    then have "showPortNumbers_loop url ts (AList.update ?h ?p m)
        = Some (port_conflict (set m \<union> (\<lambda>t. (host_of url t, port_of url t)) ` set (t # ts)))"
      unfolding set by simp
    moreover have "showPortNumbers_loop url (t # ts) m = showPortNumbers_loop url ts (AList.update ?h ?p m)"
      using False t by auto
    ultimately show ?thesis by (simp only:)
  qed
qed simp

lemma split_ids:
  assumes "CHR ''.'' \<notin> set q" and "xs \<noteq> []"
  shows "split ''.'' (removeQueryId (q @ ''.'' @ join ''.'' (map show_nat xs))) = map show_nat xs"
proof -
  have "removeQueryId (q @ ''.'' @ s) = s" for s
  proof -
    have "indexOf (q @ ''.'' @ s) ''.'' = int (length q)"
      using assms(1) by (simp add: indexOf_def find_sub_single takeWhile_append_sep)
    then show ?thesis using substring_from_nat [of "q @ ''.'' @ s" "Suc (length q)"] by (simp add: removeQueryId_def add.commute)
  qed
  moreover have "split ''.'' (join ''.'' (map show_nat xs)) = map show_nat xs"
    using assms(2) by (intro split_join) (auto simp: show_nat_no_char char_class_defs)
  ultimately show ?thesis by simp
qed

lemma compare_numbers:
  assumes "length xs = length ys" and "\<forall>n \<in> set xs \<union> set ys. n \<le> 2 ^ 53"
  shows "compare_parts (map show_nat xs) (map show_nat ys) =
    (if xs = ys then Fin 0 else if (xs, ys) \<in> lex less_than then Fin (-1) else Fin 1)"
  using assms
proof (induction xs ys rule: list_induct2)
  case (Cons x xs y ys)
  have "parseInt (show_nat n) = Fin (of_nat n)" if "n \<le> 2 ^ 53" for n
    using parseInt_show_nat [OF that, of "[]"] by simp
  with Cons show ?case by (auto simp: strict_eq_def Let_def)
qed simp

section \<open>Properties\<close>

text \<open>C22. The task ids of a table, which have the same query id and the same number of parts, each a number of at most \<open>2 ^ 53\<close>, are ordered by their numbers, part by
  part: the comparison is 0 for equal ids only, and otherwise the sign of the lexicographic order.\<close>

theorem compareTaskId_lexicographic:
  assumes "CHR ''.'' \<notin> set q" and "xs \<noteq> []" and "length xs = length ys" and "\<forall>n \<in> set xs \<union> set ys. n \<le> 2 ^ 53"
  shows "compareTaskId (q @ ''.'' @ join ''.'' (map show_nat xs)) (q @ ''.'' @ join ''.'' (map show_nat ys)) =
    (if xs = ys then Fin 0 else if (xs, ys) \<in> lex less_than then Fin (-1) else Fin 1)"
proof -
  have "ys \<noteq> []" using assms(2,3) by auto
  then show ?thesis
    using assms by (simp add: compareTaskId_def Let_def split_ids [simplified] compare_numbers)
qed

theorem compareTaskId_lexicographic_witness:
  "compareTaskId ''q1.2.10'' ''q1.10.2'' = Fin (-1)"
proof -
  have s: "show_nat 2 = ''2''" "show_nat 10 = ''10''" by code_simp+
  show ?thesis
    using compareTaskId_lexicographic [of "''q1''" "[2, 10]" "[10, 2]"] by (simp add: s)
qed

text \<open>With ids of different lengths the comparison is not antisymmetric.\<close>

lemma compareTaskId_lengths: "compareTaskId ''q1.1'' ''q1.1.0'' = Fin 0 \<and> compareTaskId ''q1.1.0'' ''q1.1'' = Fin 1"
  by code_simp

text \<open>Port numbers are shown exactly when two tasks run on the same host under different ports.\<close>

theorem showPortNumbers_iff:
  assumes "\<forall>t \<in> set tasks. url (self t) \<noteq> None \<and> host_of url t \<notin> set prototype_names"
  shows "showPortNumbers url tasks =
    Some (\<exists>a \<in> set tasks. \<exists>b \<in> set tasks. host_of url a = host_of url b \<and> port_of url a \<noteq> port_of url b)"
  using showPortNumbers_loop_result [of tasks url "[]"] assms
  by (auto simp: showPortNumbers_def plain_host_def port_conflict_def wf_omap_def)

definition sample_task :: "string \<Rightarrow> task" where
  "sample_task uri = \<lparr>taskId = ''q1.0.0'', nodeId = ''n1'', self = uri, taskState = ''RUNNING'',
     taskStats = \<lparr>elapsedTime = ''1.00s'', createTime = ''2020-01-01T00:00:00.000Z'', ts_fullyBlocked = False, rawInputPositions = Fin 1,
       rawInputDataSize = ''1B'', queuedDrivers = Fin 0, ts_runningDrivers = Fin 1, blockedDrivers = Fin 0, completedDrivers = Fin 0,
       totalScheduledTime = ''1.00s'', totalCpuTime = ''1.00s'', userMemoryReservation = ''0B'', peakUserMemoryReservation = ''0B''\<rparr>,
     totalBufferedBytes = Fin 0, estimatedMemory = ''0B''\<rparr>"

theorem showPortNumbers_iff_witness:
  "showPortNumbers (\<lambda>u. Some (''h'', u)) [sample_task ''8080'', sample_task ''8081''] = Some True"
proof -
  let ?url = "\<lambda>u. Some (''h'', u)"
  have "host_of ?url (sample_task u) = ''h''" "port_of ?url (sample_task u) = u" for u
    by (simp_all add: host_of_def port_of_def getHostname_def getPort_def sample_task_def)
  then show ?thesis
    using showPortNumbers_iff [of "[sample_task ''8080'', sample_task ''8081'']" ?url] by (simp add: prototype_names_def)
qed

lemma TaskList_row_renders:
  assumes "url (self t) \<noteq> None"
  shows "renders (TaskList_row url now showPorts retries t) \<longleftrightarrow> parseDataSize (rawInputDataSize (taskStats t)) \<noteq> None"
  using url_parts [of url t] assms parseAndFormatDataSize_total
  by (simp add: TaskList_row_def Let_def dom_simps formatter_throws val_of_def split: option.splits)

end
