(* ===== verification/Histogram.thy ===== *)
theory Histogram
  imports JsNumber
begin

text \<open>
  \<open>StageSummary.renderHistogram\<close> of \<open>components/QueryDetail.jsx\<close>: the distribution of a time over the tasks of a stage. The number of
  buckets is the square root of the number of tasks, which need not be an integer, and the bucket of a value is found by a
  division of doubles; the main result is that no value falls outside of the buckets.
\<close>

section \<open>Square roots\<close>

fun isqrt :: "nat \<Rightarrow> nat" where
  "isqrt n = (if n = 0 then 0 else let r = 2 * isqrt (n div 4) in if (r + 1) * (r + 1) \<le> n then r + 1 else r)"

declare isqrt.simps [simp del]

text \<open>\<open>Math.sqrt\<close> of a natural number, correctly rounded. An irrational root lies strictly between two neighbours on
  the grid of multiples of \<open>2 ^ -60\<close>, which contains every point where rounding changes; any number between them rounds the same way.\<close>

definition mathSqrt :: "nat \<Rightarrow> jsnum" where
  "mathSqrt n =
     (if isqrt n * isqrt n = n then number (of_nat (isqrt n))
      else number ((2 * of_nat (isqrt (n * 4 ^ 60)) + 1) / 2 ^ 61))"

section \<open>The histogram\<close>

definition HISTOGRAM_WIDTH :: jsnum where
  "HISTOGRAM_WIDTH = Fin 175"

definition numBuckets :: "val list \<Rightarrow> jsnum" where
  "numBuckets inputData = mathMin HISTOGRAM_WIDTH (mathSqrt (length inputData))"

definition dataMin :: "val list \<Rightarrow> jsnum" where
  "dataMin inputData = fold (\<lambda>v m. mathMin m (toNumber v)) inputData Infinity"

definition dataMax :: "val list \<Rightarrow> jsnum" where
  "dataMax inputData = fold (\<lambda>v m. mathMax m (toNumber v)) inputData NegInfinity"

definition bucketSize :: "val list \<Rightarrow> jsnum" where
  "bucketSize inputData = (dataMax inputData - dataMin inputData) / numBuckets inputData"

text \<open>How often a loop \<open>for (let i = 0; i < bound; i++)\<close> runs, for a bound that is not infinite.\<close>

definition loop_count :: "jsnum \<Rightarrow> nat" where
  "loop_count bound = (case bound of Fin b \<Rightarrow> nat \<lceil>b\<rceil> | _ \<Rightarrow> 0)"

text \<open>\<open>histogramData[bucket] = histogramData[bucket] + 1\<close>: behind the end the array grows, with holes that are \<open>undefined\<close>, and a
  bucket that is not an index adds a property the array does not show.\<close>

definition bump :: "jsnum \<Rightarrow> val list \<Rightarrow> val list" where
  "bump bucket histogramData =
     (case bucket of
        Fin b \<Rightarrow>
          if b < 0 then histogramData
          else let i = nat \<lfloor>b\<rfloor>
               in if i < length histogramData
                  then histogramData[i := Num (toNumber (histogramData ! i) + Fin 1)]
                  else histogramData @ replicate (i - length histogramData) Undefined @ [Num NaN]
      | _ \<Rightarrow> histogramData)"

definition bucket_of :: "val list \<Rightarrow> val \<Rightarrow> jsnum" where
  "bucket_of inputData dataPoint = mathFloor ((toNumber dataPoint - dataMin inputData) / bucketSize inputData)"

definition histogramData :: "val list \<Rightarrow> val list" where
  "histogramData inputData =
     (if strict_eq (bucketSize inputData) (Fin 0) then [Num (Fin (of_nat (length inputData)))]
      else fold (\<lambda>v. bump (bucket_of inputData v)) inputData
             (replicate (loop_count (numBuckets inputData + Fin 1)) (Num (Fin 0))))"

definition histogram_tooltips :: "(val \<Rightarrow> string throws) \<Rightarrow> val list \<Rightarrow> (nat \<times> string) list throws" where
  "histogram_tooltips numberFormatter inputData =
     mapM (\<lambda>i. do { from_text \<leftarrow> numberFormatter (Num (dataMin inputData + Fin (of_nat i) * bucketSize inputData));
                     to_text \<leftarrow> numberFormatter (Num (dataMin inputData + Fin (of_nat (i + 1)) * bucketSize inputData));
                     Some (i, from_text @ ''-'' @ to_text) })
       [0..<length (histogramData inputData)]"

section \<open>Facts on square roots\<close>

lemma isqrt_bounds: "isqrt n * isqrt n \<le> n \<and> n < (isqrt n + 1) * (isqrt n + 1)"
proof (induction n rule: isqrt.induct)
  case (1 n)
  show ?case
  proof (cases "n = 0")
    case True
    then show ?thesis by (simp add: isqrt.simps [of 0])
  next
    case False
    define m where "m = isqrt (n div 4)"
    have IH: "m * m \<le> n div 4" "n div 4 < (m + 1) * (m + 1)" using 1 [OF False] by (auto simp: m_def)
    have "4 * (m * m) \<le> n" "n < 4 * ((m + 1) * (m + 1))" using IH by linarith+
    then have "2 * m * (2 * m) \<le> n" "n < (2 * m + 2) * (2 * m + 2)" by (simp_all add: algebra_simps)
    then show ?thesis
      by (subst (1 2 3 4) isqrt.simps) (simp add: False Let_def m_def [symmetric])
  qed
qed

lemma isqrt_pos: "0 < n \<Longrightarrow> 1 \<le> isqrt n"
  using isqrt_bounds [of n] by (cases "isqrt n") auto

lemma isqrt_mono_sq: "r * r \<le> n \<Longrightarrow> r \<le> isqrt n"
proof (rule ccontr)
  assume "r * r \<le> n" and "\<not> r \<le> isqrt n"
  then have "(isqrt n + 1) * (isqrt n + 1) \<le> r * r" by (intro mult_le_mono) simp_all
  with isqrt_bounds [of n] \<open>r * r \<le> n\<close> show False by linarith
qed

lemma mathSqrt_ge_1:
  assumes "0 < n"
  shows "Fin 1 \<le> mathSqrt n"
proof -
  have "(2 ^ 60) * (2 ^ 60) \<le> n * 4 ^ 60" using assms by simp
  then have "2 ^ 60 \<le> isqrt (n * 4 ^ 60)" by (rule isqrt_mono_sq)
  then have "(of_nat (2 ^ 60) :: rat) \<le> of_nat (isqrt (n * 4 ^ 60))" by (simp only: of_nat_le_iff)
  then have "1 \<le> (2 * of_nat (isqrt (n * 4 ^ 60)) + 1) / (2 ^ 61 :: rat)" by (simp add: field_simps)
  moreover have "(1 :: rat) \<le> of_nat (isqrt n)" using isqrt_pos [OF assms] by simp
  ultimately show ?thesis
    using number_ge_int [of 1] by (simp add: mathSqrt_def)
qed

lemma numBuckets_range:
  assumes "inputData \<noteq> []"
  obtains k where "numBuckets inputData = Fin k" "1 \<le> k" "k \<le> 175"
proof -
  have "Fin 1 \<le> mathSqrt (length inputData)" using assms by (intro mathSqrt_ge_1) simp
  then have "\<exists>k. numBuckets inputData = Fin k \<and> 1 \<le> k \<and> k \<le> 175"
    by (cases "mathSqrt (length inputData)") (auto simp: numBuckets_def HISTOGRAM_WIDTH_def less_eq_jsnum_def)
  then show thesis using that by blast
qed

section \<open>The rounding errors\<close>

lemma round_half_even_ge: "x - 1/2 \<le> of_int (round_half_even x)"
  unfolding round_half_even_def Let_def by (auto; linarith)

lemma round_binary64_below:
  assumes "2 powi (-1022) \<le> x"
  shows "x - x / 2 ^ 53 \<le> round_binary64 x"
proof -
  have x: "0 < x" using assms powi_pos2 [of "-1022"] by linarith
  then have "-1022 \<le> exponent2 x" using assms exponent2_ge_iff by blast
  then have q: "quantum x = exponent2 x - 52" by (simp add: quantum_def)
  let ?u = "(2::rat) powi quantum x"
  have u: "0 < ?u" by (rule powi_pos2)
  have "?u = 2 powi exponent2 x / 2 ^ 52" by (simp add: q powi_diff2)
  also have "\<dots> \<le> x / 2 ^ 52" using exponent2_bounds(1) [OF x] by (simp add: divide_right_mono)
  finally have "?u / 2 \<le> x / 2 ^ 53" by simp
  moreover have "(x / ?u - 1/2) * ?u \<le> of_int (round_half_even (x / ?u)) * ?u"
    using round_half_even_ge u by (intro mult_right_mono) simp_all
  then have "x - ?u / 2 \<le> round_binary64 x" using u x by (simp add: round_binary64_pos left_diff_distrib)
  ultimately show ?thesis by linarith
qed

lemma quarter_double: "\<bar>m\<bar> \<le> 2 ^ 53 \<Longrightarrow> round_binary64 (of_int m / 4) = of_int m / 4"
  using is_double_scaled [of m "-2"] by (simp add: is_double_def power_int_def field_simps)

text \<open>The quotient that gives the bucket: it stays below the number of buckets set up.\<close>

lemma bucket_below:
  assumes k: "1 \<le> k" "k \<le> 175" and a: "0 \<le> a" "a \<le> d" and d: "2 powi (-1000) \<le> d"
  shows "0 \<le> round_binary64 (a / round_binary64 (d / k))"
    and "\<lfloor>round_binary64 (a / round_binary64 (d / k))\<rfloor> < \<lceil>round_binary64 (k + 1)\<rceil>"
proof -
  let ?b = "round_binary64 (d / k)"
  define e :: rat where "e = 1 / 2 ^ 53"
  have d0: "0 < d" using d powi_pos2 [of "-1000"] by linarith
  have "(2::rat) powi (-1022) \<le> 2 powi (-1000) / 256"
    using powi_diff2 [of "-1000" 8] powi_mono2 [of "-1022" "-1008"] by simp
  also have "\<dots> \<le> d / k" using d k by (intro frac_le) simp_all
  finally have "d / k - (d / k) * e \<le> ?b" using round_binary64_below [of "d / k"] by (simp add: e_def)
  then have b: "(d / k) * (1 - e) \<le> ?b" by (simp only: right_diff_distrib mult_1_right)
  have e1: "0 < 1 - e" "e \<le> 1/2" by (simp_all add: e_def)
  have b0: "0 < (d / k) * (1 - e)" using d0 k e1 by simp
  with b have "0 < ?b" by linarith
  then show "0 \<le> round_binary64 (a / ?b)" using a by (intro round_binary64_nonneg) simp
  have "a / ?b \<le> d / ((d / k) * (1 - e))" using a b b0 d0 by (intro frac_le) simp_all
  also have "\<dots> = k / (1 - e)" using d0 by simp
  also have "\<dots> \<le> k + 1/8"
  proof -
    have "k * e \<le> 175 * e" using k by (intro mult_right_mono) (simp_all add: e_def)
    then have "k * e \<le> 1/16" by (simp add: e_def)
    moreover have "k \<le> (k + 1/8) * (1 - e)" using calculation e1 by (simp add: algebra_simps)
    ultimately show ?thesis using e1 by (simp add: pos_divide_le_eq)
  qed
  finally have q: "a / ?b \<le> k + 1/8" .
  define m where "m = \<lfloor>k\<rfloor>"
  have m: "of_int m \<le> k" "k < of_int m + 1" "1 \<le> m" "m \<le> 175"
    using k by (auto simp: m_def floor_le_iff) linarith+
  show "\<lfloor>round_binary64 (a / ?b)\<rfloor> < \<lceil>round_binary64 (k + 1)\<rceil>"
  proof (cases "k \<le> of_int m + 1/4")
    case True
    then have "a / ?b \<le> of_int (4 * m + 2) / 4" using q by simp
    then have "round_binary64 (a / ?b) \<le> of_int (4 * m + 2) / 4"
      using round_binary64_mono [of "a / ?b" "of_int (4 * m + 2) / 4"] quarter_double [of "4 * m + 2"] m by simp
    then have "\<lfloor>round_binary64 (a / ?b)\<rfloor> \<le> m" by (simp add: floor_le_iff)
    moreover have "of_int (m + 1) \<le> round_binary64 (k + 1)" using m by (intro ieee.rnd_ge_int) simp_all
    then have "m < \<lceil>round_binary64 (k + 1)\<rceil>" by (simp add: less_ceiling_iff)
    ultimately show ?thesis by linarith
  next
    case False
    have "a / ?b \<le> of_int (4 * m + 5) / 4" using q m by simp
    then have "round_binary64 (a / ?b) \<le> of_int (4 * m + 5) / 4"
      using round_binary64_mono [of "a / ?b" "of_int (4 * m + 5) / 4"] quarter_double [of "4 * m + 5"] m by simp
    then have "\<lfloor>round_binary64 (a / ?b)\<rfloor> \<le> m + 1" by (simp add: floor_le_iff)
    moreover have "of_int (4 * m + 5) / 4 \<le> round_binary64 (k + 1)"
      using round_binary64_mono [of "of_int (4 * m + 5) / 4" "k + 1"] quarter_double [of "4 * m + 5"] m False by simp
    then have "m + 1 < \<lceil>round_binary64 (k + 1)\<rceil>" by (simp add: less_ceiling_iff)
    ultimately show ?thesis by linarith
  qed
qed

section \<open>Counting\<close>

abbreviation time_vals :: "rat list \<Rightarrow> val list" where
  "time_vals ds \<equiv> map (\<lambda>d. Num (Fin d)) ds"

abbreviation counts :: "nat list \<Rightarrow> val list" where
  "counts ns \<equiv> map (\<lambda>n. Num (Fin (of_nat n))) ns"

lemma fold_mathMin:
  "fold (\<lambda>v m. mathMin m (toNumber v)) (time_vals ds) (Fin x) = Fin (Min (insert x (set ds)))"
proof (induction ds arbitrary: x)
  case (Cons d ds)
  have "fold (\<lambda>v m. mathMin m (toNumber v)) (time_vals (d # ds)) (Fin x) = fold (\<lambda>v m. mathMin m (toNumber v)) (time_vals ds) (Fin (min x d))"
    by (auto simp: min_def)
  also have "\<dots> = Fin (Min (insert (min x d) (set ds)))" by (rule Cons)
  also have "Min (insert (min x d) (set ds)) = Min (insert x (set (d # ds)))"
    by (cases "ds = []") (auto simp: min.assoc min.commute min.left_commute)
  finally show ?case .
qed simp

lemma dataMin_times: "ds \<noteq> [] \<Longrightarrow> dataMin (time_vals ds) = Fin (Min (set ds))"
  using fold_mathMin [of "tl ds" "hd ds"] by (cases ds) (simp_all add: dataMin_def del: Min_insert Max_insert)

lemma fold_mathMax:
  "fold (\<lambda>v m. mathMax m (toNumber v)) (time_vals ds) (Fin x) = Fin (Max (insert x (set ds)))"
proof (induction ds arbitrary: x)
  case (Cons d ds)
  have "fold (\<lambda>v m. mathMax m (toNumber v)) (time_vals (d # ds)) (Fin x) = fold (\<lambda>v m. mathMax m (toNumber v)) (time_vals ds) (Fin (max x d))"
    by (auto simp: max_def)
  also have "\<dots> = Fin (Max (insert (max x d) (set ds)))" by (rule Cons)
  also have "Max (insert (max x d) (set ds)) = Max (insert x (set (d # ds)))"
    by (cases "ds = []") (auto simp: max.assoc max.commute max.left_commute)
  finally show ?case .
qed simp

lemma dataMax_times: "ds \<noteq> [] \<Longrightarrow> dataMax (time_vals ds) = Fin (Max (set ds))"
  using fold_mathMax [of "tl ds" "hd ds"] by (cases ds) (simp_all add: dataMax_def del: Min_insert Max_insert)

text \<open>Counting into an array of natural numbers.\<close>

lemma sum_list_update_Suc: "i < length ns \<Longrightarrow> sum_list (ns[i := ns ! i + 1]) = sum_list ns + (1 :: nat)"
  by (induction ns arbitrary: i) (auto split: nat.splits)

lemma bump_counts:
  assumes "i < length ns" and "sum_list ns < 2 ^ 53"
  shows "bump (Fin (of_nat i)) (counts ns) = counts (ns[i := ns ! i + 1])"
proof -
  have "ns ! i \<le> sum_list ns" using assms(1) by (simp add: elem_le_sum_list)
  then have "number (of_nat (ns ! i + 1)) = Fin (of_nat (ns ! i + 1))" using assms(2) by (intro number_nat) simp
  then show ?thesis using assms(1) by (simp add: bump_def map_update add.commute)
qed

lemma fold_bump_counts:
  assumes "\<forall>d \<in> set ds. \<exists>i < length ns. f d = Fin (of_nat i)" and "sum_list ns + length ds \<le> 2 ^ 53"
  shows "\<exists>ms. fold (\<lambda>d. bump (f d)) ds (counts ns) = counts ms \<and> length ms = length ns
    \<and> sum_list ms = sum_list ns + length ds"
  using assms
proof (induction ds arbitrary: ns)
  case (Cons d ds)
  then obtain i where i: "i < length ns" "f d = Fin (of_nat i)" by auto
  have "\<exists>ms. fold (\<lambda>d. bump (f d)) ds (counts (ns[i := ns ! i + 1])) = counts ms
      \<and> length ms = length (ns[i := ns ! i + 1]) \<and> sum_list ms = sum_list (ns[i := ns ! i + 1]) + length ds"
    by (rule Cons.IH) (use Cons.prems i sum_list_update_Suc [OF i(1)] in auto)
  moreover have "bump (f d) (counts ns) = counts (ns[i := ns ! i + 1])"
    unfolding i(2) using i(1) Cons.prems(2) by (intro bump_counts) simp_all
  ultimately show ?case using sum_list_update_Suc [OF i(1)] by simp
qed auto

lemma number_small:
  assumes "0 \<le> x" and "x \<le> 2 ^ 53"
  shows "number x = Fin (round_binary64 x)" and "0 \<le> round_binary64 x" and "round_binary64 x \<le> 2 ^ 53"
proof -
  show 0: "0 \<le> round_binary64 x" using assms(1) by (rule round_binary64_nonneg)
  show 53: "round_binary64 x \<le> 2 ^ 53" using ieee.rnd_le_int [of x "2 ^ 53"] assms(2) by simp
  have "round_binary64 x < 2 ^ 1024" using big_bound [of "round_binary64 x"] 0 53 by simp
  with 0 show "number x = Fin (round_binary64 x)" by (intro number_finite) (auto intro: less_le_trans [of _ 0])
qed

lemma double_900: "round_binary64 (2 powi (-900)) = 2 powi (-900)"
  using is_double_scaled [of 1 "-900"] by (simp add: is_double_def)

text \<open>The bucket of a time, when not all times are equal.\<close>

lemma bucket_of_index:
  assumes ds: "ds \<noteq> []" "\<forall>d \<in> set ds. 0 \<le> d \<and> d \<le> 2 ^ 53" and gap: "2 powi (-900) \<le> Max (set ds) - Min (set ds)"
    and d: "d \<in> set ds"
  shows "bucketSize (time_vals ds) \<noteq> Fin 0"
    and "\<exists>i < loop_count (numBuckets (time_vals ds) + Fin 1). bucket_of (time_vals ds) (Num (Fin d)) = Fin (of_nat i)"
proof -
  let ?m = "Min (set ds)" and ?M = "Max (set ds)"
  obtain k where k: "numBuckets (time_vals ds) = Fin k" "1 \<le> k" "k \<le> 175"
    using numBuckets_range [of "time_vals ds"] ds(1) by auto
  have m: "?m \<le> d" "d \<le> ?M" "0 \<le> ?m" "?M \<le> 2 ^ 53" using ds d by (auto simp: Min_in Max_in)
  define D where "D = round_binary64 (?M - ?m)"
  define a where "a = round_binary64 (d - ?m)"
  have D: "number (?M - ?m) = Fin D" "D \<le> 2 ^ 53" using number_small [of "?M - ?m"] m by (simp_all add: D_def)
  have a: "number (d - ?m) = Fin a" "0 \<le> a" using number_small [of "d - ?m"] m by (simp_all add: a_def)
  have aD: "a \<le> D" using m by (auto simp: a_def D_def intro: round_binary64_mono)
  have "2 powi (-900) \<le> D" using round_binary64_mono [OF gap] unfolding double_900 D_def .
  moreover have "(2 :: rat) powi (-1000) \<le> 2 powi (-900)" by (rule powi_mono2) simp
  ultimately have D1000: "2 powi (-1000) \<le> D" by linarith
  define b where "b = round_binary64 (D / k)"
  note below = bucket_below [OF k(2,3) a(2) aD D1000, folded b_def]
  have D0: "0 < D" using D1000 powi_pos2 [of "-1000"] by linarith
  have "D / k \<le> D / 1" using k D0 by (intro divide_left_mono) simp_all
  then have Dk: "number (D / k) = Fin b" using number_small [of "D / k"] D(2) D0 k(2) by (simp add: b_def)
  have "\<lfloor>round_binary64 (D / b)\<rfloor> < \<lceil>round_binary64 (k + 1)\<rceil>"
    using bucket_below [OF k(2,3) less_imp_le [OF D0] order.refl D1000] by (simp add: b_def)
  have "2 powi (-1008) \<le> D / k"
  proof -
    have "(2::rat) powi (-1008) = 2 powi (-1000) / 256" using powi_diff2 [of "-1000" 8] by simp
    also have "\<dots> \<le> D / k" using D1000 k by (intro frac_le) simp_all
    finally show ?thesis .
  qed
  then have "2 powi (-1008) \<le> b"
    using round_binary64_mono [of "2 powi (-1008)" "D / k"] is_double_scaled [of 1 "-1008"]
    by (simp add: b_def is_double_def)
  then have b0: "0 < b" using powi_pos2 [of "-1008"] by linarith
  have size: "bucketSize (time_vals ds) = Fin b"
    using ds(1) k D Dk by (simp add: bucketSize_def dataMin_times dataMax_times jsnum_minus_Fin)
  with b0 show "bucketSize (time_vals ds) \<noteq> Fin 0" by simp
  let ?x = "round_binary64 (a / b)"
  have "round_binary64 (k + 1) \<le> 176" using ieee.rnd_le_int [of "k + 1" 176] k by simp
  then have "\<lceil>round_binary64 (k + 1)\<rceil> \<le> 176" by (simp add: ceiling_le_iff)
  with below(2) have "\<lfloor>?x\<rfloor> < 176" by linarith
  then have "?x < 2 ^ 53" by (simp add: floor_less_iff)
  then have "number (a / b) = Fin ?x"
    using below(1) big_bound [of ?x] by (intro number_finite) (auto intro: less_le_trans [of _ 0])
  then have "bucket_of (time_vals ds) (Num (Fin d)) = Fin (of_nat (nat \<lfloor>?x\<rfloor>))"
    using ds(1) size a(1) b0 below(1) by (simp add: bucket_of_def dataMin_times jsnum_minus_Fin)
  moreover have "numBuckets (time_vals ds) + Fin 1 = Fin (round_binary64 (k + 1))"
    using k number_small [of "k + 1"] by simp
  then have "nat \<lfloor>?x\<rfloor> < loop_count (numBuckets (time_vals ds) + Fin 1)"
    using below ieee.rnd_ge_1 [of "k + 1"] k(2) by (simp add: loop_count_def)
  ultimately show "\<exists>i < loop_count (numBuckets (time_vals ds) + Fin 1). bucket_of (time_vals ds) (Num (Fin d)) = Fin (of_nat i)" by blast
qed

section \<open>Properties\<close>

text \<open>C18. The histogram of the times of the tasks (at most \<open>2 ^ 53\<close> ms each, different times at least \<open>2 ^ -900\<close> ms apart): whatever the
  rounding of the bucket size and of the quotients, each task is counted in one bucket of the array, so that the
  counts are natural numbers and add up to the number of tasks.\<close>

theorem histogram_counts_all:
  assumes "ds \<noteq> []" and "\<forall>d \<in> set ds. 0 \<le> d \<and> d \<le> 2 ^ 53" and "length ds \<le> 2 ^ 53"
    and "\<forall>x \<in> set ds. \<forall>y \<in> set ds. x < y \<longrightarrow> 2 powi (-900) \<le> y - x"
  shows "\<exists>ns. histogramData (map (\<lambda>d. Num (Fin d)) ds) = map (\<lambda>n. Num (Fin (of_nat n))) ns \<and> sum_list ns = length ds"
proof (cases "Min (set ds) = Max (set ds)")
  case True
  obtain k where "numBuckets (time_vals ds) = Fin k" "1 \<le> k" using numBuckets_range [of "time_vals ds"] assms(1) by auto
  then have "bucketSize (time_vals ds) = Fin 0"
    using True assms(1) by (simp add: bucketSize_def dataMin_times dataMax_times jsnum_minus_Fin)
  then have "histogramData (time_vals ds) = counts [length ds]" by (simp add: histogramData_def strict_eq_def)
  then show ?thesis by (intro exI [of _ "[length ds]"]) simp
next
  case False
  have "Min (set ds) \<in> set ds" "Max (set ds) \<in> set ds" using assms(1) by simp_all
  moreover from this have "Min (set ds) < Max (set ds)" using False by (simp add: less_le)
  ultimately have gap: "2 powi (-900) \<le> Max (set ds) - Min (set ds)" using assms(4) by blast
  let ?n = "loop_count (numBuckets (time_vals ds) + Fin 1)"
  have "\<exists>ms. fold (\<lambda>d. bump (bucket_of (time_vals ds) (Num (Fin d)))) ds (counts (replicate ?n 0)) = counts ms
      \<and> length ms = length (replicate ?n (0 :: nat)) \<and> sum_list ms = sum_list (replicate ?n 0) + length ds"
    using bucket_of_index(2) [OF assms(1,2) gap] assms(3) by (intro fold_bump_counts) (simp_all add: sum_list_replicate)
  then obtain ms where "fold (\<lambda>d. bump (bucket_of (time_vals ds) (Num (Fin d)))) ds (counts (replicate ?n 0)) = counts ms"
      "sum_list ms = length ds" by (auto simp: sum_list_replicate)
  moreover have "\<not> strict_eq (bucketSize (time_vals ds)) (Fin 0)"
    using bucket_of_index(1) [OF assms(1,2) gap \<open>Min (set ds) \<in> set ds\<close>] by (simp add: strict_eq_def)
  ultimately show ?thesis by (intro exI [of _ ms]) (simp add: histogramData_def fold_map comp_def)
qed

theorem histogram_counts_all_witness:
  "histogramData [Num (Fin 1), Num (Fin 2), Num (Fin 4), Num (Fin 5)] = [Num (Fin 2), Num (Fin 1), Num (Fin 1)]
   \<and> (\<exists>ns. histogramData (map (\<lambda>d. Num (Fin d)) [1, 2, 4, 5]) = map (\<lambda>n. Num (Fin (of_nat n))) ns \<and> sum_list ns = 4)"
proof
  show "histogramData [Num (Fin 1), Num (Fin 2), Num (Fin 4), Num (Fin 5)] = [Num (Fin 2), Num (Fin 1), Num (Fin 1)]"
    by code_simp
  have "(2 :: rat) powi (-900) \<le> 2 powi 0" by (rule powi_mono2) simp
  then have "\<exists>ns. histogramData (map (\<lambda>d. Num (Fin d)) [1, 2, 4, 5]) = map (\<lambda>n. Num (Fin (of_nat n))) ns \<and> sum_list ns = length [1, 2, 4, 5 :: rat]"
    by (intro histogram_counts_all) simp_all
  moreover have "length [1, 2, 4, 5 :: rat] = 4" by simp
  ultimately show "\<exists>ns. histogramData (map (\<lambda>d. Num (Fin d)) [1, 2, 4, 5]) = map (\<lambda>n. Num (Fin (of_nat n))) ns \<and> sum_list ns = 4"
    by (simp only:)
qed

end
