(* ===== verification/StageSummary.thy ===== *)
theory StageSummary
  imports TaskList Histogram JsSort StageTree
begin

text \<open>
  The components \<open>StageSummary\<close> and \<open>StageList\<close> of \<open>components/QueryDetail.jsx\<close>: the list of the stages of a query, each with its
  statistics, histograms of the times of its tasks and, when expanded, bar charts and the table of the tasks.
\<close>

section \<open>State\<close>

datatype task_filter = TF_ALL | TF_PLANNED | TF_RUNNING | TF_FINISHED | TF_FAILED

definition TASK_FILTER :: "task_filter \<Rightarrow> string \<Rightarrow> bool" where
  "TASK_FILTER f st =
     (case f of
        TF_ALL \<Rightarrow> True
      | TF_PLANNED \<Rightarrow> st = ''PLANNED''
      | TF_RUNNING \<Rightarrow> st = ''RUNNING''
      | TF_FINISHED \<Rightarrow> st = ''FINISHED''
      | TF_FAILED \<Rightarrow> st = ''FAILED'' \<or> st = ''ABORTED'' \<or> st = ''CANCELED'')"

record summary_stats = stage_stats_base +
  ss_totalScheduledTime :: string
  ss_totalBlockedTime :: string
  ss_totalCpuTime :: string
  failedScheduledTime :: string
  failedCpuTime :: string
  cumulativeUserMemory :: jsnum
  ss_userMemoryReservation :: string
  ss_peakUserMemoryReservation :: string
  failedCumulativeUserMemory :: jsnum

record stage_info = "summary_stats stage_base" +
  stageId :: string
  has_plan :: bool
  tasks :: "task list"

record stage_summary =
  expanded :: bool
  lastRender :: "jsnum option"
  taskFilter :: task_filter

definition StageSummary_init :: stage_summary where
  "StageSummary_init = \<lparr>expanded = False, lastRender = None, taskFilter = TF_ALL\<rparr>"

definition getExpandedIcon :: "stage_summary \<Rightarrow> string" where
  "getExpandedIcon s = (if expanded s then ''glyphicon-chevron-up'' else ''glyphicon-chevron-down'')"

definition getExpandedStyle :: "stage_summary \<Rightarrow> (string \<times> string) list" where
  "getExpandedStyle s = (if expanded s then [] else [(''display'', ''none'')])"

definition toggleExpanded :: "stage_summary \<Rightarrow> stage_summary" where
  "toggleExpanded s = s\<lparr>expanded := \<not> expanded s\<rparr>"

definition handleTaskFilterClick :: "task_filter \<Rightarrow> stage_summary \<Rightarrow> stage_summary" where
  "handleTaskFilterClick f s = s\<lparr>taskFilter := f\<rparr>"

section \<open>Charts\<close>

definition BAR_CHART_WIDTH :: jsnum where
  "BAR_CHART_WIDTH = Fin 800"

definition BAR_CHART_PROPERTIES :: "(string \<times> string) list" where
  "BAR_CHART_PROPERTIES =
     [(''type'', ''bar''), (''barSpacing'', ''0''), (''height'', ''80px''), (''barColor'', ''#747F96''),
      (''zeroColor'', ''#8997B3''), (''chartRangeMin'', ''0''), (''tooltipClassname'', ''sparkline-tooltip''),
      (''tooltipFormat'', ''Task {{offset:offset}} - {{value}}''), (''disableHiddenCheck'', ''true'')]"

definition HISTOGRAM_PROPERTIES :: "(string \<times> string) list" where
  "HISTOGRAM_PROPERTIES =
     [(''type'', ''bar''), (''barSpacing'', ''0''), (''height'', ''80px''), (''barColor'', ''#747F96''),
      (''zeroColor'', ''#747F96''), (''zeroAxis'', ''true''), (''chartRangeMin'', ''0''),
      (''tooltipClassname'', ''sparkline-tooltip''), (''tooltipFormat'', ''{{offset:offset}} -- {{value}} tasks''),
      (''disableHiddenCheck'', ''true'')]"

record stage_chart =
  chart_target :: string
  chart_values :: "val list"
  chart_properties :: "(string \<times> string) list"
  barWidth :: jsnum
  tooltipOffsets :: "(nat \<times> string) list"
  numberFormatter :: "(val \<Rightarrow> string throws) option"

definition renderHistogram :: "string \<Rightarrow> val list \<Rightarrow> (val \<Rightarrow> string throws) \<Rightarrow> stage_chart throws" where
  "renderHistogram histogramId inputData formatter =
     do { tooltips \<leftarrow> histogram_tooltips formatter inputData;
          Some \<lparr>chart_target = histogramId, chart_values = histogramData inputData, chart_properties = HISTOGRAM_PROPERTIES,
            barWidth = HISTOGRAM_WIDTH / Fin (of_nat (length (histogramData inputData))), tooltipOffsets = tooltips,
            numberFormatter = None\<rparr> }"

text \<open>The tasks are sorted in place by their numbers: the stage keeps that order, and what is drawn are the values in it.\<close>

definition sortedTasks :: "stage_info \<Rightarrow> task list" where
  "sortedTasks stage =
     js_sort (\<lambda>taskA taskB. getTaskNumber (taskId taskA) - getTaskNumber (taskId taskB)) (tasks stage)"

definition scheduledTimes :: "stage_info \<Rightarrow> val list" where
  "scheduledTimes stage = map (\<lambda>t. val_of (parseDuration (totalScheduledTime (taskStats t)))) (sortedTasks stage)"

definition cpuTimes :: "stage_info \<Rightarrow> val list" where
  "cpuTimes stage = map (\<lambda>t. val_of (parseDuration (totalCpuTime (taskStats t)))) (sortedTasks stage)"

definition stage_text :: "stage_info \<Rightarrow> string" where
  "stage_text stage = numToString (getStageNumber (stageId stage))"

definition task_bars :: "stage_info \<Rightarrow> string \<Rightarrow> val list \<Rightarrow> stage_chart" where
  "task_bars stage target values =
     (let numTasks = length (tasks stage)
      in \<lparr>chart_target = target, chart_values = values, chart_properties = BAR_CHART_PROPERTIES,
          barWidth = BAR_CHART_WIDTH / Fin (of_nat numTasks),
          tooltipOffsets = map (\<lambda>i. (i, stage_text stage @ ''.'' @ show_nat i)) [0..<numTasks],
          numberFormatter = Some formatDuration\<rparr>)"

text \<open>An update draws unless one has drawn less than a second ago; \<open>now\<close> is the clock.\<close>

definition StageSummary_draws :: "jsnum \<Rightarrow> stage_summary \<Rightarrow> bool" where
  "StageSummary_draws now s \<longleftrightarrow> (case lastRender s of None \<Rightarrow> True | Some t \<Rightarrow> now - t \<ge> Fin 1000)"

definition StageSummary_componentDidUpdate ::
  "jsnum \<Rightarrow> stage_info \<Rightarrow> stage_summary \<Rightarrow> (stage_info \<times> stage_summary \<times> stage_chart list) throws" where
  "StageSummary_componentDidUpdate now stage s =
     (if StageSummary_draws now s
      then do { h1 \<leftarrow> renderHistogram (''#scheduled-time-histogram-'' @ stage_text stage) (scheduledTimes stage) formatDuration;
                h2 \<leftarrow> renderHistogram (''#cpu-time-histogram-'' @ stage_text stage) (cpuTimes stage) formatDuration;
                Some (stage\<lparr>tasks := sortedTasks stage\<rparr>, s\<lparr>lastRender := Some now\<rparr>,
                      [h1, h2]
                      @ (if expanded s
                         then [task_bars stage (''#scheduled-time-bar-chart-'' @ stage_text stage) (scheduledTimes stage),
                               task_bars stage (''#cpu-time-bar-chart-'' @ stage_text stage) (cpuTimes stage)]
                         else [])) }
      else Some (stage\<lparr>tasks := sortedTasks stage\<rparr>, s, []))"

section \<open>Rendering\<close>

datatype summary_action = ToggleExpanded | TaskFilterClick task_filter

type_synonym summary_html = "(task list \<times> bool, summary_action) html"

definition renderTaskList :: "bool \<Rightarrow> stage_info \<Rightarrow> stage_summary \<Rightarrow> summary_html" where
  "renderTaskList taskRetriesEnabled stage s =
     (let shown_tasks = (if expanded s then tasks stage else [])
      in component (filter (\<lambda>t. TASK_FILTER (taskFilter s) (taskState t)) shown_tasks, taskRetriesEnabled))"

definition renderTaskFilterListItem :: "stage_summary \<Rightarrow> task_filter \<Rightarrow> string \<Rightarrow> summary_html" where
  "renderTaskFilterListItem s f filterText =
    el ''li'' []
      [el ''a'' [Attr ''href'' ''#'', Cls (if taskFilter s = f then ''selected'' else []),
            On ''onClick'' (TaskFilterClick f)]
        [lit filterText]]"

definition renderTaskFilter :: "stage_summary \<Rightarrow> summary_html" where
  "renderTaskFilter s =
    el ''div'' [Cls ''row'']
      [el ''div'' [Cls ''col-xs-6''] [el ''h3'' [] [lit ''Tasks'']],
       el ''div'' [Cls ''col-xs-6'']
        [el ''table'' [Cls ''header-inline-links'']
          [el ''tbody'' []
            [el ''tr'' []
              [el ''td'' []
                [el ''div'' [Cls ''input-group-btn text-right'']
                  [el ''button'' [Attr ''type'' ''button'',
                        Cls ''btn btn-default dropdown-toggle pull-right text-right'',
                        Attr ''data-toggle'' ''dropdown'', Attr ''aria-haspopup'' ''true'',
                        Attr ''aria-expanded'' ''false'']
                    [lit ''Show '',
                     el ''span'' [Cls ''caret''] []],
                   el ''ul'' [Cls ''dropdown-menu'']
                    [renderTaskFilterListItem s TF_ALL ''All'',
                     renderTaskFilterListItem s TF_PLANNED ''Planned'',
                     renderTaskFilterListItem s TF_RUNNING ''Running'',
                     renderTaskFilterListItem s TF_FINISHED ''Finished'',
                     renderTaskFilterListItem s TF_FAILED ''Aborted/Canceled/Failed'']]]]]]]]"

definition StageSummary_time :: "stage_info \<Rightarrow> summary_html" where
  "StageSummary_time stage =
    (let stats = stageStats stage in
    el ''table'' [Cls ''stage-table stage-table-time'']
      [el ''thead'' []
        [el ''tr'' []
          [el ''th'' [Cls ''stage-table-stat-title stage-table-stat-header''] [lit ''Time''],
           el ''th'' [] []]],
       el ''tbody'' []
        [el ''tr'' []
          [el ''td'' [Cls ''stage-table-stat-title''] [lit ''Scheduled''],
           el ''td'' [Cls ''stage-table-stat-text''] [lit (ss_totalScheduledTime stats)]],
         el ''tr'' []
          [el ''td'' [Cls ''stage-table-stat-title''] [lit ''Blocked''],
           el ''td'' [Cls ''stage-table-stat-text''] [lit (ss_totalBlockedTime stats)]],
         el ''tr'' []
          [el ''td'' [Cls ''stage-table-stat-title''] [lit ''CPU''],
           el ''td'' [Cls ''stage-table-stat-text''] [lit (ss_totalCpuTime stats)]],
         el ''tr'' []
          [el ''td'' [Cls ''stage-table-stat-title''] [lit ''Failed''],
           el ''td'' [Cls ''stage-table-stat-text''] [lit (failedScheduledTime stats)]],
         el ''tr'' []
          [el ''td'' [Cls ''stage-table-stat-title''] [lit ''CPU Failed''],
           el ''td'' [Cls ''stage-table-stat-text''] [lit (failedCpuTime stats)]]]])"

definition StageSummary_memory :: "stage_info \<Rightarrow> summary_html" where
  "StageSummary_memory stage =
    (let stats = stageStats stage; totalBuffered = foldl (+) (Fin 0) (map totalBufferedBytes (tasks stage)) in
    el ''table'' [Cls ''stage-table stage-table-memory'']
      [el ''thead'' []
        [el ''tr'' []
          [el ''th'' [Cls ''stage-table-stat-title stage-table-stat-header''] [lit ''Memory''],
           el ''th'' [] []]],
       el ''tbody'' []
        [el ''tr'' []
          [el ''td'' [Cls ''stage-table-stat-title''] [lit ''Cumulative''],
           el ''td'' [Cls ''stage-table-stat-text'']
            [str (formatDataSizeBytes (Num (cumulativeUserMemory stats / Fin 1000)))]],
         el ''tr'' []
          [el ''td'' [Cls ''stage-table-stat-title''] [lit ''Current''],
           el ''td'' [Cls ''stage-table-stat-text'']
            [str (parseAndFormatDataSize (ss_userMemoryReservation stats))]],
         el ''tr'' []
          [el ''td'' [Cls ''stage-table-stat-title''] [lit ''Buffers''],
           el ''td'' [Cls ''stage-table-stat-text''] [str (formatDataSize (Num totalBuffered))]],
         el ''tr'' []
          [el ''td'' [Cls ''stage-table-stat-title''] [lit ''Peak''],
           el ''td'' [Cls ''stage-table-stat-text'']
            [str (parseAndFormatDataSize (ss_peakUserMemoryReservation stats))]],
         el ''tr'' []
          [el ''td'' [Cls ''stage-table-stat-title''] [lit ''Failed''],
           el ''td'' [Cls ''stage-table-stat-text'']
            [str (formatDataSizeBytes (Num (failedCumulativeUserMemory stats / Fin 1000)))]]]])"

definition count_tasks :: "(task \<Rightarrow> bool) \<Rightarrow> stage_info \<Rightarrow> string" where
  "count_tasks p stage = show_nat (length (filter p (tasks stage)))"

definition StageSummary_tasks :: "stage_info \<Rightarrow> summary_html" where
  "StageSummary_tasks stage =
    el ''table'' [Cls ''stage-table stage-table-tasks'']
      [el ''thead'' []
        [el ''tr'' []
          [el ''th'' [Cls ''stage-table-stat-title stage-table-stat-header''] [lit ''Tasks''],
           el ''th'' [] []]],
       el ''tbody'' []
        [el ''tr'' []
          [el ''td'' [Cls ''stage-table-stat-title''] [lit ''Pending''],
           el ''td'' [Cls ''stage-table-stat-text'']
            [lit (count_tasks (\<lambda>t. taskState t = ''PLANNED'') stage)]],
         el ''tr'' []
          [el ''td'' [Cls ''stage-table-stat-title''] [lit ''Running''],
           el ''td'' [Cls ''stage-table-stat-text'']
            [lit (count_tasks (\<lambda>t. taskState t = ''RUNNING'') stage)]],
         el ''tr'' []
          [el ''td'' [Cls ''stage-table-stat-title''] [lit ''Blocked''],
           el ''td'' [Cls ''stage-table-stat-text'']
            [lit (count_tasks (\<lambda>t. ts_fullyBlocked (taskStats t)) stage)]],
         el ''tr'' []
          [el ''td'' [Cls ''stage-table-stat-title''] [lit ''Failed''],
           el ''td'' [Cls ''stage-table-stat-text'']
            [lit (count_tasks (\<lambda>t. taskState t = ''FAILED'') stage)]],
         el ''tr'' []
          [el ''td'' [Cls ''stage-table-stat-title''] [lit ''Total''],
           el ''td'' [Cls ''stage-table-stat-text''] [lit (show_nat (length (tasks stage)))]]]]"

definition StageSummary_histograms :: "stage_info \<Rightarrow> summary_html list" where
  "StageSummary_histograms stage =
     [el ''td'' [] [
        el ''table'' [Cls ''stage-table histogram-table'']
          [el ''thead'' []
            [el ''tr'' []
              [el ''th'' [Cls ''stage-table-stat-title stage-table-chart-header'']
                [lit ''Scheduled Time Skew'']]],
           el ''tbody'' []
            [el ''tr'' []
              [el ''td'' [Cls ''histogram-container'']
                [el ''span'' [Cls ''histogram'',
                      Id (''scheduled-time-histogram-'' @ stage_text stage)]
                  [el ''div'' [Cls ''loader''] []]]]]]],
      el ''td'' [] [
        el ''table'' [Cls ''stage-table histogram-table'']
          [el ''thead'' []
            [el ''tr'' []
              [el ''th'' [Cls ''stage-table-stat-title stage-table-chart-header'']
                [lit ''CPU Time Skew'']]],
           el ''tbody'' []
            [el ''tr'' []
              [el ''td'' [Cls ''histogram-container'']
                [el ''span'' [Cls ''histogram'', Id (''cpu-time-histogram-'' @ stage_text stage)]
                  [el ''div'' [Cls ''loader''] []]]]]]]]"

definition StageSummary_row :: "stage_info \<Rightarrow> stage_summary \<Rightarrow> summary_html" where
  "StageSummary_row stage s =
     el ''tr'' []
       ([el ''td'' [] [StageSummary_time stage], el ''td'' [] [StageSummary_memory stage], el ''td'' [] [StageSummary_tasks stage]]
        @ StageSummary_histograms stage
        @ [
            el ''td'' [Cls ''expand-charts-container'']
              [el ''a'' [On ''onClick'' ToggleExpanded, Cls ''expand-charts-button'']
                [el ''span'' [Cls (''glyphicon '' @ getExpandedIcon s), Style GLYPHICON_HIGHLIGHT,
                      Attr ''data-toggle'' ''tooltip'', Attr ''data-placement'' ''top'',
                      Attr ''title'' ''More''] []]]])"

definition StageSummary_scheduledChart :: "stage_info \<Rightarrow> stage_summary \<Rightarrow> summary_html" where
  "StageSummary_scheduledChart stage s =
      el ''tr'' [Style (getExpandedStyle s)]
        [el ''td'' [Attr ''colSpan'' ''6'']
          [el ''table'' [Cls ''expanded-chart'']
            [el ''tbody'' []
              [el ''tr'' []
                [el ''td'' [Cls ''stage-table-stat-title expanded-chart-title'']
                  [lit ''Task Scheduled Time''],
                 el ''td'' [Cls ''bar-chart-container'']
                  [el ''span'' [Cls ''bar-chart'',
                        Id (''scheduled-time-bar-chart-'' @ stage_text stage)]
                    [el ''div'' [Cls ''loader''] []]]]]]]]"

definition StageSummary_cpuChart :: "stage_info \<Rightarrow> stage_summary \<Rightarrow> summary_html" where
  "StageSummary_cpuChart stage s =
      el ''tr'' [Style (getExpandedStyle s)]
        [el ''td'' [Attr ''colSpan'' ''6'']
          [el ''table'' [Cls ''expanded-chart'']
            [el ''tbody'' []
              [el ''tr'' []
                [el ''td'' [Cls ''stage-table-stat-title expanded-chart-title'']
                  [lit ''Task CPU Time''],
                 el ''td'' [Cls ''bar-chart-container'']
                  [el ''span'' [Cls ''bar-chart'', Id (''cpu-time-bar-chart-'' @ stage_text stage)]
                    [el ''div'' [Cls ''loader''] []]]]]]]]"

definition StageSummary_render :: "stage_info option \<Rightarrow> bool \<Rightarrow> stage_summary \<Rightarrow> summary_html" where
  "StageSummary_render stage_or_none taskRetriesEnabled s =
    (case stage_or_none of
       None \<Rightarrow> el ''tr'' [] [el ''td'' [] [lit ''Information about this stage is unavailable.'']]
     | Some stage \<Rightarrow>
         if \<not> has_plan stage then el ''tr'' [] [el ''td'' [] [lit ''Information about this stage is unavailable.'']]
         else
           el ''tr'' []
             [el ''td'' [Cls ''stage-id'']
               [el ''div'' [Cls ''stage-state-color'',
                     Style [(''borderLeftColor'', getStageStateColor stage)]]
                 [lit (stage_text stage)]],
              el ''td'' []
               [el ''table'' [Cls ''table single-stage-table'']
                 [el ''tbody'' []
                   [StageSummary_row stage s,
                    StageSummary_scheduledChart stage s,
                    StageSummary_cpuChart stage s,
                    el ''tr'' [Style (getExpandedStyle s)]
                     [el ''td'' [Attr ''colSpan'' ''6''] [renderTaskFilter s]],
                    el ''tr'' [Style (getExpandedStyle s)]
                     [el ''td'' [Attr ''colSpan'' ''6'']
                       [renderTaskList taskRetriesEnabled stage s]]]]]])"

section \<open>The list of stages\<close>

text \<open>\<open>[].concat.apply(stage, arrays)\<close> puts the stage before the elements of the arrays.\<close>

fun getStages :: "stage_info stage_tree option \<Rightarrow> stage_info list" where
  "getStages None = []"
| "getStages (Some (Stage stage subs)) = stage # concat (map (\<lambda>t. getStages (Some t)) subs)"

definition StageList_render :: "stage_info stage_tree option \<Rightarrow> bool \<Rightarrow> (stage_info \<times> bool, 'a) html" where
  "StageList_render outputStage taskRetriesEnabled =
    (let stages = getStages outputStage in
     if stages = [] then
      el ''div'' [Cls ''row'']
        [el ''div'' [Cls ''col-xs-12''] [lit ''No stage information available.'']]
     else
       (let renderedStages = frag (map (\<lambda>stage. component (stage, taskRetriesEnabled)) stages) in
        el ''div'' [Cls ''row'']
          [el ''div'' [Cls ''col-xs-12'']
            [el ''table'' [Cls ''table'', Id ''stage-list''] [el ''tbody'' [] [renderedStages]]]]))"

section \<open>Facts\<close>

lemma getStages_preorder: "getStages (Some t) = preorder t"
  by (induction t) (simp cong: map_cong)

lemma formatDuration_Num: "\<exists>s. formatDuration (Num x) = Some s"
  using formatter_throws(2) [of "Num x"] by auto

lemma renderHistogram_total:
  "\<exists>c. renderHistogram h ds formatDuration = Some c \<and> chart_target c = h \<and> chart_values c = histogramData ds"
proof -
  have "histogram_tooltips formatDuration ds \<noteq> throw"
    using formatDuration_Num by (auto simp: histogram_tooltips_def mapM_eq_None_iff bind_eq_None_conv)
  then show ?thesis by (auto simp: renderHistogram_def)
qed

lemma summary_parts_render [dom_simps]:
  "renders (StageSummary_time stage)" "renders (StageSummary_memory stage)" "renders (StageSummary_tasks stage)"
  "list_all renders (StageSummary_histograms stage)" "renders (StageSummary_row stage s)"
  "renders (StageSummary_scheduledChart stage s)" "renders (StageSummary_cpuChart stage s)"
  "renders (renderTaskFilterListItem s f txt')" "renders (renderTaskFilter s)" "renders (renderTaskList r stage s)"
  using parseAndFormatDataSize_total
  by (simp_all add: StageSummary_time_def StageSummary_memory_def StageSummary_tasks_def StageSummary_histograms_def StageSummary_row_def
      StageSummary_scheduledChart_def StageSummary_cpuChart_def renderTaskFilterListItem_def renderTaskFilter_def renderTaskList_def
      dom_simps formatter_throws Let_def)

lemma StageSummary_renders: "renders (StageSummary_render st r s)"
  by (simp add: StageSummary_render_def dom_simps split: option.splits)

lemma summary_part_ids:
  "html_ids (StageSummary_time stage) = []" "html_ids (StageSummary_memory stage) = []" "html_ids (StageSummary_tasks stage) = []"
  "concat (map html_ids (StageSummary_histograms stage)) =
     [''scheduled-time-histogram-'' @ stage_text stage, ''cpu-time-histogram-'' @ stage_text stage]"
  "html_ids (StageSummary_scheduledChart stage s) = [''scheduled-time-bar-chart-'' @ stage_text stage]"
  "html_ids (StageSummary_cpuChart stage s) = [''cpu-time-bar-chart-'' @ stage_text stage]"
  "html_ids (renderTaskFilterListItem s f txt') = []" "html_ids (renderTaskFilter s) = []" "html_ids (renderTaskList r stage s) = []"
  using parseAndFormatDataSize_total
  by (simp_all add: StageSummary_time_def StageSummary_memory_def StageSummary_tasks_def StageSummary_histograms_def
      StageSummary_scheduledChart_def StageSummary_cpuChart_def renderTaskFilterListItem_def renderTaskFilter_def renderTaskList_def
      html_el dom_simps formatter_throws Let_def)

lemma summary_row_ids:
  "html_ids (StageSummary_row stage s) = [''scheduled-time-histogram-'' @ stage_text stage, ''cpu-time-histogram-'' @ stage_text stage]"
  by (simp add: StageSummary_row_def html_el dom_simps summary_part_ids)

lemma StageSummary_ids:
  "has_plan stage \<Longrightarrow> html_ids (StageSummary_render (Some stage) r s) =
     [''scheduled-time-histogram-'' @ stage_text stage, ''cpu-time-histogram-'' @ stage_text stage,
      ''scheduled-time-bar-chart-'' @ stage_text stage, ''cpu-time-bar-chart-'' @ stage_text stage]"
  by (simp add: StageSummary_render_def html_el dom_simps summary_part_ids summary_row_ids)

section \<open>Properties\<close>

text \<open>C14. An update of a stage with a plan never throws, whatever the times of its tasks. Every chart it draws has its place in what the stage
  renders, exactly once, and the two histograms are those of the tasks' times; after a drawing nothing is drawn again for a second.\<close>

theorem StageSummary_charts_placed:
  assumes "has_plan stage" and "\<not> now' - now \<ge> Fin 1000"
  shows "\<exists>s' cs. StageSummary_componentDidUpdate now stage s = Some (stage\<lparr>tasks := sortedTasks stage\<rparr>, s', cs)
    \<and> (\<forall>c \<in> set cs. count_list (map ((@) ''#'') (html_ids (StageSummary_render (Some stage) r s))) (chart_target c) = 1)
    \<and> (cs \<noteq> [] \<longrightarrow> map chart_values (take 2 cs) = [histogramData (scheduledTimes stage), histogramData (cpuTimes stage)]
        \<and> StageSummary_componentDidUpdate now' stage s' = Some (stage\<lparr>tasks := sortedTasks stage\<rparr>, s', []))"
proof -
  obtain h1 where h1: "renderHistogram (''#scheduled-time-histogram-'' @ stage_text stage) (scheduledTimes stage) formatDuration = Some h1"
      "chart_target h1 = ''#scheduled-time-histogram-'' @ stage_text stage" "chart_values h1 = histogramData (scheduledTimes stage)"
    using renderHistogram_total by blast
  obtain h2 where h2: "renderHistogram (''#cpu-time-histogram-'' @ stage_text stage) (cpuTimes stage) formatDuration = Some h2"
      "chart_target h2 = ''#cpu-time-histogram-'' @ stage_text stage" "chart_values h2 = histogramData (cpuTimes stage)"
    using renderHistogram_total by blast
  define places where "places = map ((@) ''#'') (html_ids (StageSummary_render (Some stage) r s))"
  have placed: "count_list places (''#scheduled-time-histogram-'' @ stage_text stage) = 1"
      "count_list places (''#cpu-time-histogram-'' @ stage_text stage) = 1"
      "count_list places (''#scheduled-time-bar-chart-'' @ stage_text stage) = 1"
      "count_list places (''#cpu-time-bar-chart-'' @ stage_text stage) = 1"
    using assms(1) by (simp_all add: places_def StageSummary_ids)
  show ?thesis
  proof (cases "StageSummary_draws now s")
    case True
    define bars where "bars = (if expanded s
      then [task_bars stage (''#scheduled-time-bar-chart-'' @ stage_text stage) (scheduledTimes stage),
            task_bars stage (''#cpu-time-bar-chart-'' @ stage_text stage) (cpuTimes stage)] else [])"
    have bars: "\<forall>c \<in> set bars. count_list places (chart_target c) = 1"
      using placed by (cases "expanded s") (simp_all add: bars_def task_bars_def Let_def)
    have draws: "StageSummary_componentDidUpdate now stage s = Some (stage\<lparr>tasks := sortedTasks stage\<rparr>, s\<lparr>lastRender := Some now\<rparr>, h1 # h2 # bars)"
      using True h1(1) h2(1) by (simp add: StageSummary_componentDidUpdate_def bars_def)
    have still: "StageSummary_componentDidUpdate now' stage (s\<lparr>lastRender := Some now\<rparr>) = Some (stage\<lparr>tasks := sortedTasks stage\<rparr>, s\<lparr>lastRender := Some now\<rparr>, [])"
      using assms(2) by (simp add: StageSummary_componentDidUpdate_def StageSummary_draws_def)
    have "\<forall>c \<in> set (h1 # h2 # bars). count_list places (chart_target c) = 1"
      using bars placed h1(2) h2(2) by simp
    with draws still h1(3) h2(3) show ?thesis
      unfolding places_def by (intro exI [of _ "s\<lparr>lastRender := Some now\<rparr>"] exI [of _ "h1 # h2 # bars"] conjI impI) simp_all
  qed (simp add: StageSummary_componentDidUpdate_def)
qed

definition sample_stage_info :: stage_info where
  "sample_stage_info = \<lparr>stageState = ''RUNNING'',
     stageStats = \<lparr>stageFullyBlocked = False, ss_totalScheduledTime = ''1.00s'', ss_totalBlockedTime = ''0.00ns'', ss_totalCpuTime = ''1.00s'',
       failedScheduledTime = ''0.00ns'', failedCpuTime = ''0.00ns'', cumulativeUserMemory = Fin 0, ss_userMemoryReservation = ''0B'',
       ss_peakUserMemoryReservation = ''0B'', failedCumulativeUserMemory = Fin 0\<rparr>,
     stageId = ''q1.0'', has_plan = True, tasks = [sample_task ''http://h:8080'']\<rparr>"

theorem StageSummary_charts_placed_witness:
  "\<exists>s' cs. StageSummary_componentDidUpdate (Fin 5000) sample_stage_info StageSummary_init =
       Some (sample_stage_info\<lparr>tasks := sortedTasks sample_stage_info\<rparr>, s', cs) \<and> length cs = 2
     \<and> StageSummary_componentDidUpdate (Fin 5500) sample_stage_info s' =
       Some (sample_stage_info\<lparr>tasks := sortedTasks sample_stage_info\<rparr>, s', [])"
proof -
  have d: "\<not> Fin 5500 - Fin 5000 \<ge> Fin 1000" by code_simp
  have "has_plan sample_stage_info" by (simp add: sample_stage_info_def)
  from StageSummary_charts_placed [OF this d, of StageSummary_init False]
  obtain s' cs where c: "StageSummary_componentDidUpdate (Fin 5000) sample_stage_info StageSummary_init =
       Some (sample_stage_info\<lparr>tasks := sortedTasks sample_stage_info\<rparr>, s', cs)"
      "cs \<noteq> [] \<longrightarrow> StageSummary_componentDidUpdate (Fin 5500) sample_stage_info s' =
       Some (sample_stage_info\<lparr>tasks := sortedTasks sample_stage_info\<rparr>, s', [])" by blast
  then have "length cs = 2"
    by (auto simp: StageSummary_componentDidUpdate_def StageSummary_draws_def StageSummary_init_def split: bind_splits)
  with c show ?thesis by (intro exI [of _ s'] exI [of _ cs]) auto
qed

text \<open>The list of stages shows every stage of the tree once, each before the stages it reads from.\<close>

theorem StageList_shows_all:
  "html_components (StageList_render (Some t) taskRetriesEnabled) = map (\<lambda>stage. (stage, taskRetriesEnabled)) (preorder t)"
  by (simp add: StageList_render_def getStages_preorder Let_def html_el html_frag dom_simps list_all_iff comp_def del: getStages.simps)

end
