(* ===== verification/StackTrace.thy ===== *)
theory StackTrace
  imports JsString Prelude
begin

text \<open>
  The stack traces of \<open>components/QueryDetail.jsx\<close>: a failure is printed with the failures it suppresses and its cause, and the
  frames a failure shares with the one it belongs to are elided, as Java prints them. A field of a failure may
  be missing, \<open>null\<close> or present.
\<close>

datatype 'a field = Missing | IsNull | Is 'a

datatype failure =
  Failure (failure_type: string) (failure_message: "string field") (failure_stack: "string list field")
    (failure_suppressed: "failure list field") (failure_cause: "failure field")

definition failureInfoToString :: "failure \<Rightarrow> string" where
  "failureInfoToString t =
     (case failure_message t of
        IsNull \<Rightarrow> failure_type t
      | Missing \<Rightarrow> failure_type t @ '': undefined''
      | Is message \<Rightarrow> failure_type t @ '': '' @ message)"

text \<open>The \<open>while\<close> loop from the end of both stacks.\<close>

fun shared_from_end :: "string list \<Rightarrow> string list \<Rightarrow> nat" where
  "shared_from_end (x # xs) (y # ys) = (if x = y then Suc (shared_from_end xs ys) else 0)"
| "shared_from_end _ _ = 0"

definition countSharedStackFrames :: "string list \<Rightarrow> string list \<Rightarrow> nat" where
  "countSharedStackFrames stack parentStack = shared_from_end (rev stack) (rev parentStack)"

definition tab :: string where
  "tab = [char_of (9 :: nat)]"

definition eol :: string where
  "eol = [char_of (10 :: nat)]"

text \<open>The lines for the stack of a failure; reading the length of a parent's stack that is missing throws.\<close>

definition stack_lines :: "string list field \<Rightarrow> string list field \<Rightarrow> string \<Rightarrow> string throws" where
  "stack_lines stack_field parentStack linePrefix =
     (case stack_field of
        Is stack \<Rightarrow>
          do { sharedStackFrames \<leftarrow> (case parentStack of
                 IsNull \<Rightarrow> Some 0 | Missing \<Rightarrow> throw | Is parent \<Rightarrow> Some (countSharedStackFrames stack parent));
               Some (concat (map (\<lambda>frame. linePrefix @ tab @ ''at '' @ frame @ eol) (take (length stack - sharedStackFrames) stack))
                     @ (if sharedStackFrames \<noteq> 0
                        then linePrefix @ tab @ ''... '' @ show_nat sharedStackFrames @ '' more'' @ eol else [])) }
      | _ \<Rightarrow> Some [])"

fun formatStackTraceHelper :: "failure \<Rightarrow> string list field \<Rightarrow> string \<Rightarrow> string \<Rightarrow> string throws" where
  "formatStackTraceHelper (Failure t message stack suppressed cause) parentStack label linePrefix =
     do { lines \<leftarrow> stack_lines stack parentStack linePrefix;
          inner \<leftarrow> (case suppressed of
                     Is infos \<Rightarrow> map_option concat (mapM (\<lambda>info. formatStackTraceHelper info stack ''Suppressed: '' (linePrefix @ tab)) infos)
                   | _ \<Rightarrow> Some []);
          outer \<leftarrow> (case cause of Is info \<Rightarrow> formatStackTraceHelper info stack ''Caused by: '' linePrefix | _ \<Rightarrow> Some []);
          Some (linePrefix @ label @ failureInfoToString (Failure t message stack suppressed cause) @ eol @ lines @ inner @ outer) }"

definition formatStackTrace :: "failure \<Rightarrow> string throws" where
  "formatStackTrace info = formatStackTraceHelper info (Is []) [] []"

section \<open>Facts\<close>

lemma shared_from_end_le: "shared_from_end xs ys \<le> length xs" "shared_from_end xs ys \<le> length ys"
  by (induction xs ys rule: shared_from_end.induct) auto

lemma shared_from_end_take: "take (shared_from_end xs ys) xs = take (shared_from_end xs ys) ys"
  by (induction xs ys rule: shared_from_end.induct) auto

lemma shared_from_end_max: "n \<le> length xs \<Longrightarrow> n \<le> length ys \<Longrightarrow> take n xs = take n ys \<Longrightarrow> n \<le> shared_from_end xs ys"
proof (induction xs ys arbitrary: n rule: shared_from_end.induct)
  case (1 x xs y ys)
  then show ?case by (cases n) auto
qed auto

text \<open>The shared frames are the longest common end of the two stacks.\<close>

lemma shared_frames_suffix:
  "last_n (countSharedStackFrames s p) s = last_n (countSharedStackFrames s p) p"
proof -
  have "rev (take (countSharedStackFrames s p) (rev s)) = rev (take (countSharedStackFrames s p) (rev p))"
    by (simp add: countSharedStackFrames_def shared_from_end_take)
  then show ?thesis by (simp add: last_n_def take_rev)
qed

lemma shared_frames_longest:
  assumes "n \<le> length s" and "n \<le> length p" and "last_n n s = last_n n p"
  shows "n \<le> countSharedStackFrames s p"
proof -
  have "take n (rev s) = take n (rev p)" using assms(3) by (simp add: last_n_def take_rev)
  with assms(1,2) show ?thesis by (simp add: countSharedStackFrames_def shared_from_end_max)
qed

text \<open>C33. The frames printed for a failure and the elided ones together are its stack: what is elided is exactly the longest end
  it has in common with the stack of the failure it belongs to, so that nothing is lost by printing only the rest.\<close>

theorem stack_trace_elision:
  "stack = take (length stack - countSharedStackFrames stack parent) stack @ last_n (countSharedStackFrames stack parent) parent
   \<and> (\<forall>n. n \<le> length stack \<and> n \<le> length parent \<and> last_n n stack = last_n n parent \<longrightarrow> n \<le> countSharedStackFrames stack parent)"
proof
  have "stack = take (length stack - countSharedStackFrames stack parent) stack @ last_n (countSharedStackFrames stack parent) stack"
    by (simp add: last_n_def)
  then show "stack = take (length stack - countSharedStackFrames stack parent) stack @ last_n (countSharedStackFrames stack parent) parent"
    by (simp only: shared_frames_suffix)
qed (use shared_frames_longest in blast)

theorem stack_trace_elision_witness:
  "[''c'', ''a'', ''b''] = take 1 [''c'', ''a'', ''b''] @ last_n 2 [''d'', ''a'', ''b'']"
  using stack_trace_elision [of "[''c'', ''a'', ''b'']" "[''d'', ''a'', ''b'']"]
  by (simp add: countSharedStackFrames_def eval_nat_numeral)

text \<open>Failures that have a stack and belong to one whose stack is missing.\<close>

fun orphaned :: "failure \<Rightarrow> string list field \<Rightarrow> bool" where
  "orphaned (Failure t message stack suppressed cause) parentStack \<longleftrightarrow>
     (case stack of Is frames \<Rightarrow> parentStack = Missing | _ \<Rightarrow> False)
     \<or> (case suppressed of Is infos \<Rightarrow> list_ex (\<lambda>info. orphaned info stack) infos | _ \<Rightarrow> False)
     \<or> (case cause of Is info \<Rightarrow> orphaned info stack | _ \<Rightarrow> False)"

lemma stack_lines_throws:
  "stack_lines stack parent linePrefix = throw \<longleftrightarrow> (case stack of Is frames \<Rightarrow> parent = Missing | _ \<Rightarrow> False)"
  by (auto simp: stack_lines_def split: field.splits)

lemma formatStackTraceHelper_throws:
  "formatStackTraceHelper info parent label linePrefix = throw \<longleftrightarrow> orphaned info parent"
proof (induction info arbitrary: parent label linePrefix)
  case (Failure t message stack suppressed cause)
  have "(case suppressed of
      Is infos \<Rightarrow> map_option concat (mapM (\<lambda>info. formatStackTraceHelper info stack ''Suppressed: '' (linePrefix @ tab)) infos)
    | _ \<Rightarrow> Some []) = throw \<longleftrightarrow> (case suppressed of Is infos \<Rightarrow> list_ex (\<lambda>info. orphaned info stack) infos | _ \<Rightarrow> False)"
    using Failure(1) by (cases suppressed) (auto simp: mapM_eq_None_iff list_ex_iff)
  moreover have "(case cause of Is info \<Rightarrow> formatStackTraceHelper info stack ''Caused by: '' linePrefix | _ \<Rightarrow> Some []) = throw
    \<longleftrightarrow> (case cause of Is info \<Rightarrow> orphaned info stack | _ \<Rightarrow> False)"
    using Failure(2) by (cases cause) auto
  ultimately show ?case
    using stack_lines_throws [of stack parent linePrefix] by (simp add: bind_eq_None_conv)
qed

text \<open>Printing a failure throws exactly when somewhere in it a failure with a stack belongs to one whose stack is missing.\<close>

theorem formatStackTrace_throws: "formatStackTrace info = throw \<longleftrightarrow> orphaned info (Is [])"
  by (simp add: formatStackTrace_def formatStackTraceHelper_throws)

end
