(* ===== verification/QueryDetailView.thy ===== *)
theory QueryDetailView
  imports StageSummary StackTrace QueryHeader
begin

text \<open>
  What the component \<open>QueryDetail\<close> of \<open>components/QueryDetail.jsx\<close> renders: the page about one query. The record
  \<open>detail_page\<close> holds what belongs to the browser: the address, the path, the \<open>URL\<close> parser and the local time zone. Fields of the
  server's answer that may be absent are optional; \<open>field\<close> tells absent from \<open>null\<close> where the code does.
\<close>

section \<open>Queries\<close>

record detail_stats = query_stats +
  qs_createTime :: string
  qs_endTime :: "string option"
  qs_elapsedTime :: string
  qs_queuedTime :: string
  qs_analysisTime :: string
  qs_planningTime :: string
  qs_executionTime :: string
  qs_totalCpuTime :: string
  qs_failedCpuTime :: string
  qs_totalScheduledTime :: string
  qs_failedScheduledTime :: string
  qs_processedInputPositions :: jsnum
  qs_failedProcessedInputPositions :: jsnum
  qs_processedInputDataSize :: string
  qs_failedProcessedInputDataSize :: string
  qs_physicalInputPositions :: jsnum
  qs_failedPhysicalInputPositions :: jsnum
  qs_physicalInputDataSize :: string
  qs_failedPhysicalInputDataSize :: string
  qs_physicalInputReadTime :: string
  qs_failedPhysicalInputReadTime :: string
  qs_internalNetworkInputPositions :: jsnum
  qs_failedInternalNetworkInputPositions :: jsnum
  qs_internalNetworkInputDataSize :: string
  qs_failedInternalNetworkInputDataSize :: string
  qs_peakUserMemoryReservation :: string
  qs_peakRevocableMemoryReservation :: string
  qs_peakTotalMemoryReservation :: string
  qs_cumulativeUserMemory :: jsnum
  qs_failedCumulativeUserMemory :: jsnum
  qs_outputPositions :: jsnum
  qs_failedOutputPositions :: jsnum
  qs_outputDataSize :: string
  qs_failedOutputDataSize :: string
  qs_writtenPositions :: jsnum
  qs_logicalWrittenDataSize :: string
  qs_physicalWrittenDataSize :: string
  qs_failedPhysicalWrittenDataSize :: string
  qs_spilledDataSize :: string
  qs_totalMemoryReservation :: string

record session_info =
  se_user :: string
  se_principal :: "string option"
  se_source :: "string option"
  se_catalog :: "string option"
  se_schema :: "string option"
  timeZone :: string
  se_remoteUserAddress :: "string option"
  clientTags :: "string list"
  systemProperties :: "(string, string) omap"
  catalogProperties :: "(string, (string, string) omap) omap"
  resourceEstimates :: "(string, string) omap"

record warning =
  warningCode_name :: string
  warning_message :: string

record detail_query = "detail_stats query" +
  session :: session_info
  resourceGroupId :: "string list option"
  retryPolicy :: string
  query_text :: string
  preparedQuery :: "string option"
  warnings :: "warning list"
  failureInfo :: "failure option"
  outputStage :: "stage_info stage_tree field"
  finalQueryInfo :: bool

section \<open>State\<close>

text \<open>The constructor sets \<open>lastSnapshotStages\<close>, the refresh loop and the rendering use \<open>lastSnapshotStage\<close>, which is first missing.
  \<open>renderingEnded\<close> is \<open>undefined\<close> (\<open>None\<close>) after an update, since nothing sets \<open>this.state.ended\<close>. The component's
  \<open>taskFilter\<close> is never used. The ghost fields are the sparklines last drawn and whether React has removed the page.\<close>

record query_detail =
  qd_query :: "detail_query option"
  lastSnapshotStages :: "stage_info stage_tree field"
  lastSnapshotStage :: "stage_info stage_tree field"
  lastSnapshotTasks :: "stage_info stage_tree field"
  lastScheduledTime :: val
  lastCpuTime :: val
  lastRowInput :: val
  lastByteInput :: val
  lastPhysicalInput :: val
  lastPhysicalTime :: val
  scheduledTimeRate :: "val list"
  cpuTimeRate :: "val list"
  rowInputRate :: "val list"
  byteInputRate :: "val list"
  physicalInputRate :: "val list"
  reservedMemory :: "val list"
  initialized :: bool
  queryEnded :: bool
  renderingEnded :: "bool option"
  lastRefresh :: "jsnum option"
  qd_lastRender :: "jsnum option"
  stageRefresh :: bool
  taskRefresh :: bool
  sparklines :: "effect list"
  unmounted :: bool

definition QueryDetail_init :: query_detail where
  "QueryDetail_init = \<lparr>qd_query = None, lastSnapshotStages = IsNull, lastSnapshotStage = Missing, lastSnapshotTasks = IsNull,
     lastScheduledTime = Num (Fin 0), lastCpuTime = Num (Fin 0), lastRowInput = Num (Fin 0), lastByteInput = Num (Fin 0),
     lastPhysicalInput = Num (Fin 0), lastPhysicalTime = Num (Fin 0),
     scheduledTimeRate = [], cpuTimeRate = [], rowInputRate = [], byteInputRate = [], physicalInputRate = [], reservedMemory = [],
     initialized = False, queryEnded = False, renderingEnded = Some False, lastRefresh = None, qd_lastRender = None,
     stageRefresh = True, taskRefresh = True, sparklines = [], unmounted = False\<rparr>"

record detail_page =
  search :: string
  pathname :: string
  url :: url_parser
  tz :: "int \<Rightarrow> int"

section \<open>Parts of the page\<close>

datatype detail_part =
    HeaderPart detail_query
  | StageListPart "stage_info stage_tree option" bool

datatype detail_action = StageRefreshClick

type_synonym detail_html = "(detail_part, detail_action) html"

definition optional :: "string option \<Rightarrow> ('c, 'a) html" where
  "optional v = (case v of Some t \<Rightarrow> lit t | None \<Rightarrow> blank)"

definition renderStageRefreshButton :: "query_detail \<Rightarrow> detail_html" where
  "renderStageRefreshButton s =
    (if stageRefresh s then
      el ''button'' [Cls ''btn btn-info live-button'', On ''onClick'' StageRefreshClick]
        [lit ''Auto-Refresh: On'']
     else
      el ''button'' [Cls ''btn btn-info live-button'', On ''onClick'' StageRefreshClick]
        [lit ''Auto-Refresh: Off''])"

text \<open>A component with a missing property gets \<open>undefined\<close>.\<close>

definition field_option :: "'a field \<Rightarrow> 'a option" where
  "field_option f = (case f of Is x \<Rightarrow> Some x | _ \<Rightarrow> None)"

definition renderStages :: "bool \<Rightarrow> query_detail \<Rightarrow> detail_html" where
  "renderStages taskRetriesEnabled s =
    (if lastSnapshotStage s = IsNull then blank else
      el ''div'' []
        [el ''div'' [Cls ''row'']
          [el ''div'' [Cls ''col-xs-9''] [el ''h3'' [] [lit ''Stages'']],
           el ''div'' [Cls ''col-xs-3'']
            [el ''table'' [Cls ''header-inline-links'']
              [el ''tbody'' [] [el ''tr'' [] [el ''td'' [] [renderStageRefreshButton s]]]]]],
         el ''div'' [Cls ''row'']
          [el ''div'' [Cls ''col-xs-12'']
            [component (StageListPart (field_option (lastSnapshotStage s)) taskRetriesEnabled)]]])"

definition renderPreparedQuery :: "detail_query \<Rightarrow> detail_html" where
  "renderPreparedQuery query =
    (case preparedQuery query of
       None \<Rightarrow> blank
     | Some prepared \<Rightarrow>
         el ''div'' [Cls ''col-xs-12'']
           [el ''h3'' []
             [lit ''Prepared Query'',
              el ''a'' [Cls ''btn copy-button'',
                   Attr ''data-clipboard-target'' ''#prepared-query-text'',
                   Attr ''data-toggle'' ''tooltip'', Attr ''data-placement'' ''right'',
                   Attr ''title'' ''Copy to clipboard'']
               [el ''span'' [Cls ''glyphicon glyphicon-copy'', Attr ''aria-hidden'' ''true'',
                     Attr ''alt'' ''Copy to clipboard''] []]],
            el ''pre'' [Id ''prepared-query'']
             [el ''code'' [Cls ''lang-sql'', Id ''prepared-query-text''] [lit prepared]]])"

definition property_line :: "string \<Rightarrow> string \<Rightarrow> detail_html" where
  "property_line name v =
    el ''span'' [] [lit ''- '', lit (name @ ''='' @ v), lit '' '', el ''br'' [] []]"

definition renderSessionProperties :: "detail_query \<Rightarrow> detail_html list" where
  "renderSessionProperties query =
     map (\<lambda>(p, v). property_line p v) (systemProperties (session query))
     @ concat (map (\<lambda>(catalog, ps). map (\<lambda>(p, v). property_line (catalog @ ''.'' @ p) v) ps) (catalogProperties (session query)))"

text \<open>Every upper-case letter of the name is found once, and each one in turn replaces the first occurrence of that letter.\<close>

definition snakeCased :: "string \<Rightarrow> string" where
  "snakeCased resource =
     foldl (\<lambda>r c. replace_first r [c] (''_'' @ toLowerCase [c])) resource (filter is_upper resource)"

definition renderResourceEstimates :: "detail_query \<Rightarrow> detail_html list" where
  "renderResourceEstimates query = map (\<lambda>(resource, v). property_line (snakeCased resource) v) (resourceEstimates (session query))"

definition renderWarningInfo :: "detail_query \<Rightarrow> detail_html" where
  "renderWarningInfo query =
    (if length (warnings query) > 0 then
      el ''div'' [Cls ''row'']
        [el ''div'' [Cls ''col-xs-12'']
          [el ''h3'' [] [lit ''Warnings''],
           el ''hr'' [Cls ''h3-hr''] [],
           el ''table'' [Cls ''table'', Id ''warnings-table'']
            [frag (map (\<lambda>w. el ''tr'' [] [el ''td'' [] [lit (warningCode_name w)], el ''td'' [] [lit (warning_message w)]]) (warnings query))]]]
     else blank)"

definition renderFailureInfo :: "detail_query \<Rightarrow> detail_html" where
  "renderFailureInfo query =
    (case failureInfo query of
       None \<Rightarrow> lit []
     | Some info \<Rightarrow>
         do { errorCode' \<leftarrow> errorCode query;
              el ''div'' [Cls ''row'']
                [el ''div'' [Cls ''col-xs-12'']
                  [el ''h3'' [] [lit ''Error Information''],
                   el ''hr'' [Cls ''h3-hr''] [],
                   el ''table'' [Cls ''table'']
                    [el ''tbody'' []
                      [el ''tr'' []
                        [el ''td'' [Cls ''info-title''] [lit ''Error Type''],
                         el ''td'' [Cls ''info-text''] [optional (errorType query)]],
                       el ''tr'' []
                        [el ''td'' [Cls ''info-title''] [lit ''Error Code''],
                         el ''td'' [Cls ''info-text'']
                          [lit (ec_name errorCode' @ '' ('' @ numToString (ec_code errorCode') @ '')'')]],
                       el ''tr'' []
                        [el ''td'' [Cls ''info-title'']
                          [lit ''Stack Trace'',
                           el ''a'' [Cls ''btn copy-button'',
                                Attr ''data-clipboard-target'' ''#stack-trace'',
                                Attr ''data-toggle'' ''tooltip'',
                                Attr ''data-placement'' ''right'',
                                Attr ''title'' ''Copy to clipboard'']
                            [el ''span'' [Cls ''glyphicon glyphicon-copy'',
                                  Attr ''aria-hidden'' ''true'',
                                  Attr ''alt'' ''Copy to clipboard''] []]],
                         el ''td'' [Cls ''info-text'']
                          [el ''pre'' [Id ''stack-trace''] [str (formatStackTrace info)]]]]]]] })"

section \<open>The tables\<close>

definition QueryDetail_session :: "detail_query \<Rightarrow> detail_html" where
  "QueryDetail_session query =
    el ''div'' [Cls ''col-xs-6'']
      [el ''h3'' [] [lit ''Session''],
       el ''hr'' [Cls ''h3-hr''] [],
       el ''table'' [Cls ''table'']
        [el ''tbody'' []
          [el ''tr'' []
            [el ''td'' [Cls ''info-title''] [lit ''User''],
             el ''td'' [Cls ''info-text wrap-text'']
              [el ''span'' [Id ''query-user''] [lit (se_user (session query))],
               lit (nbsp @ nbsp),
               el ''a'' [Attr ''href'' ''#'', Cls ''copy-button'',
                    Attr ''data-clipboard-target'' ''#query-user'',
                    Attr ''data-toggle'' ''tooltip'', Attr ''data-placement'' ''right'',
                    Attr ''title'' ''Copy to clipboard'']
                [el ''span'' [Cls ''glyphicon glyphicon-copy'', Attr ''aria-hidden'' ''true'',
                      Attr ''alt'' ''Copy to clipboard''] []]]],
           el ''tr'' []
            [el ''td'' [Cls ''info-title''] [lit ''Principal''],
             el ''td'' [Cls ''info-text wrap-text''] [optional (se_principal (session query))]],
           el ''tr'' []
            [el ''td'' [Cls ''info-title''] [lit ''Source''],
             el ''td'' [Cls ''info-text wrap-text''] [optional (se_source (session query))]],
           el ''tr'' []
            [el ''td'' [Cls ''info-title''] [lit ''Catalog''],
             el ''td'' [Cls ''info-text''] [optional (se_catalog (session query))]],
           el ''tr'' []
            [el ''td'' [Cls ''info-title''] [lit ''Schema''],
             el ''td'' [Cls ''info-text''] [optional (se_schema (session query))]],
           el ''tr'' []
            [el ''td'' [Cls ''info-title''] [lit ''Time zone''],
             el ''td'' [Cls ''info-text''] [lit (timeZone (session query))]],
           el ''tr'' []
            [el ''td'' [Cls ''info-title''] [lit ''Client Address''],
             el ''td'' [Cls ''info-text''] [optional (se_remoteUserAddress (session query))]],
           el ''tr'' []
            [el ''td'' [Cls ''info-title''] [lit ''Client Tags''],
             el ''td'' [Cls ''info-text''] [lit (join '', '' (clientTags (session query)))]],
           el ''tr'' []
            [el ''td'' [Cls ''info-title''] [lit ''Session Properties''],
             el ''td'' [Cls ''info-text wrap-text''] [frag (renderSessionProperties query)]],
           el ''tr'' []
            [el ''td'' [Cls ''info-title''] [lit ''Resource Estimates''],
             el ''td'' [Cls ''info-text wrap-text''] [frag (renderResourceEstimates query)]]]]]"

definition QueryDetail_execution :: "detail_page \<Rightarrow> detail_query \<Rightarrow> detail_html" where
  "QueryDetail_execution env query =
    (let stats = queryStats query in
    el ''div'' [Cls ''col-xs-6'']
      [el ''h3'' [] [lit ''Execution''],
       el ''hr'' [Cls ''h3-hr''] [],
       el ''table'' [Cls ''table'']
        [el ''tbody'' []
          [el ''tr'' []
            [el ''td'' [Cls ''info-title''] [lit ''Resource Group''],
             el ''td'' [Cls ''info-text wrap-text'']
              [lit (case resourceGroupId query of Some r \<Rightarrow> join ''.'' r | None \<Rightarrow> ''n/a'')]],
           el ''tr'' []
            [el ''td'' [Cls ''info-title''] [lit ''Submission Time''],
             el ''td'' [Cls ''info-text'']
              [lit (shortDateTime (tz env) (dateParse (qs_createTime stats)))]],
           el ''tr'' []
            [el ''td'' [Cls ''info-title''] [lit ''Completion Time''],
             el ''td'' [Cls ''info-text'']
              [lit (case qs_endTime stats of Some t \<Rightarrow> if t = [] then [] else shortDateTime (tz env) (dateParse t) | None \<Rightarrow> [])]],
           el ''tr'' []
            [el ''td'' [Cls ''info-title''] [lit ''Elapsed Time''],
             el ''td'' [Cls ''info-text''] [lit (qs_elapsedTime stats)]],
           el ''tr'' []
            [el ''td'' [Cls ''info-title''] [lit ''Queued Time''],
             el ''td'' [Cls ''info-text''] [lit (qs_queuedTime stats)]],
           el ''tr'' []
            [el ''td'' [Cls ''info-title''] [lit ''Analysis Time''],
             el ''td'' [Cls ''info-text''] [lit (qs_analysisTime stats)]],
           el ''tr'' []
            [el ''td'' [Cls ''info-title''] [lit ''Planning Time''],
             el ''td'' [Cls ''info-text''] [lit (qs_planningTime stats)]],
           el ''tr'' []
            [el ''td'' [Cls ''info-title''] [lit ''Execution Time''],
             el ''td'' [Cls ''info-text''] [lit (qs_executionTime stats)]]]]])"

definition QueryDetail_inputRows :: "bool \<Rightarrow> detail_query \<Rightarrow> detail_html list" where
  "QueryDetail_inputRows taskRetriesEnabled query =
    (let stats = queryStats query in
     [
        el ''tr'' []
          [el ''td'' [Cls ''info-title''] [lit ''CPU Time''],
           el ''td'' [Cls ''info-text''] [lit (qs_totalCpuTime stats)],
           (if taskRetriesEnabled then el ''td'' [Cls ''info-failed''] [lit (qs_failedCpuTime stats)] else blank)],
        el ''tr'' []
          [el ''td'' [Cls ''info-title''] [lit ''Scheduled Time''],
           el ''td'' [Cls ''info-text''] [lit (qs_totalScheduledTime stats)],
           (if taskRetriesEnabled then el ''td'' [Cls ''info-failed''] [lit (qs_failedScheduledTime stats)] else blank)],
        el ''tr'' []
          [el ''td'' [Cls ''info-title''] [lit ''Input Rows''],
           el ''td'' [Cls ''info-text'']
            [str (formatCount (Num (qs_processedInputPositions stats)))],
           (if taskRetriesEnabled then el ''td'' [Cls ''info-failed''] [shown (Num (qs_failedProcessedInputPositions stats))] else blank)],
        el ''tr'' []
          [el ''td'' [Cls ''info-title''] [lit ''Input Data''],
           el ''td'' [Cls ''info-text'']
            [str (parseAndFormatDataSize (qs_processedInputDataSize stats))],
           (if taskRetriesEnabled then el ''td'' [Cls ''info-failed''] [lit (qs_failedProcessedInputDataSize stats)] else blank)],
        el ''tr'' []
          [el ''td'' [Cls ''info-title''] [lit ''Physical Input Rows''],
           el ''td'' [Cls ''info-text'']
            [str (formatCount (Num (qs_physicalInputPositions stats)))],
           (if taskRetriesEnabled then el ''td'' [Cls ''info-failed'']
             [str (formatCount (Num (qs_failedPhysicalInputPositions stats)))] else blank)],
        el ''tr'' []
          [el ''td'' [Cls ''info-title''] [lit ''Physical Input Data''],
           el ''td'' [Cls ''info-text'']
            [str (parseAndFormatDataSize (qs_physicalInputDataSize stats))],
           (if taskRetriesEnabled then el ''td'' [Cls ''info-failed'']
             [str (parseAndFormatDataSize (qs_failedPhysicalInputDataSize stats))] else blank)],
        el ''tr'' []
          [el ''td'' [Cls ''info-title''] [lit ''Physical Input Read Time''],
           el ''td'' [Cls ''info-text''] [lit (qs_physicalInputReadTime stats)],
           (if taskRetriesEnabled then el ''td'' [Cls ''info-failed''] [lit (qs_failedPhysicalInputReadTime stats)] else blank)],
        el ''tr'' []
          [el ''td'' [Cls ''info-title''] [lit ''Internal Network Rows''],
           el ''td'' [Cls ''info-text'']
            [str (formatCount (Num (qs_internalNetworkInputPositions stats)))],
           (if taskRetriesEnabled then el ''td'' [Cls ''info-failed'']
             [str (formatCount (Num (qs_failedInternalNetworkInputPositions stats)))] else blank)],
        el ''tr'' []
          [el ''td'' [Cls ''info-title''] [lit ''Internal Network Data''],
           el ''td'' [Cls ''info-text'']
            [str (parseAndFormatDataSize (qs_internalNetworkInputDataSize stats))],
           (if taskRetriesEnabled then el ''td'' [Cls ''info-failed'']
             [str (parseAndFormatDataSize (qs_failedInternalNetworkInputDataSize stats))] else blank)]])"

definition QueryDetail_outputRows :: "bool \<Rightarrow> detail_query \<Rightarrow> detail_html list" where
  "QueryDetail_outputRows taskRetriesEnabled query =
    (let stats = queryStats query in
     [
        el ''tr'' []
          [el ''td'' [Cls ''info-title''] [lit ''Peak User Memory''],
           el ''td'' [Cls ''info-text'']
            [str (parseAndFormatDataSize (qs_peakUserMemoryReservation stats))]],
(if toNumber (val_of (parseDataSize (qs_peakRevocableMemoryReservation stats))) > Fin 0 then
          el ''tr'' []
            [el ''td'' [Cls ''info-title''] [lit ''Peak Revocable Memory''],
             el ''td'' [Cls ''info-text'']
              [str (parseAndFormatDataSize (qs_peakRevocableMemoryReservation stats))]]
       else blank),
        el ''tr'' []
          [el ''td'' [Cls ''info-title''] [lit ''Peak Total Memory''],
           el ''td'' [Cls ''info-text'']
            [str (parseAndFormatDataSize (qs_peakTotalMemoryReservation stats))]],
        el ''tr'' []
          [el ''td'' [Cls ''info-title''] [lit ''Cumulative User Memory''],
           el ''td'' [Cls ''info-text'']
            [str (map_option (\<lambda>t. t @ ''*seconds'') (formatDataSize (Num (qs_cumulativeUserMemory stats / Fin 1000))))],
           (if taskRetriesEnabled then el ''td'' [Cls ''info-failed'']
             [str (map_option (\<lambda>t. t @ ''*seconds'') (formatDataSize (Num (qs_failedCumulativeUserMemory stats / Fin 1000))))] else blank)],
        el ''tr'' []
          [el ''td'' [Cls ''info-title''] [lit ''Output Rows''],
           el ''td'' [Cls ''info-text''] [str (formatCount (Num (qs_outputPositions stats)))],
           (if taskRetriesEnabled then el ''td'' [Cls ''info-failed'']
             [str (formatCount (Num (qs_failedOutputPositions stats)))] else blank)],
        el ''tr'' []
          [el ''td'' [Cls ''info-title''] [lit ''Output Data''],
           el ''td'' [Cls ''info-text''] [str (parseAndFormatDataSize (qs_outputDataSize stats))],
           (if taskRetriesEnabled then el ''td'' [Cls ''info-failed'']
             [str (parseAndFormatDataSize (qs_failedOutputDataSize stats))] else blank)],
        el ''tr'' []
          [el ''td'' [Cls ''info-title''] [lit ''Written Rows''],
           el ''td'' [Cls ''info-text''] [str (formatCount (Num (qs_writtenPositions stats)))]],
        el ''tr'' []
          [el ''td'' [Cls ''info-title''] [lit ''Logical Written Data''],
           el ''td'' [Cls ''info-text'']
            [str (parseAndFormatDataSize (qs_logicalWrittenDataSize stats))]],
        el ''tr'' []
          [el ''td'' [Cls ''info-title''] [lit ''Physical Written Data''],
           el ''td'' [Cls ''info-text'']
            [str (parseAndFormatDataSize (qs_physicalWrittenDataSize stats))],
           (if taskRetriesEnabled then el ''td'' [Cls ''info-failed'']
             [str (parseAndFormatDataSize (qs_failedPhysicalWrittenDataSize stats))] else blank)],
(if toNumber (val_of (parseDataSize (qs_spilledDataSize stats))) > Fin 0 then
          el ''tr'' []
            [el ''td'' [Cls ''info-title''] [lit ''Spilled Data''],
             el ''td'' [Cls ''info-text'']
              [str (parseAndFormatDataSize (qs_spilledDataSize stats))]]
       else blank)])"

definition QueryDetail_resources :: "bool \<Rightarrow> detail_query \<Rightarrow> detail_html" where
  "QueryDetail_resources taskRetriesEnabled query =
    el ''div'' [Cls ''col-xs-6'']
      [el ''h3'' [] [lit ''Resource Utilization Summary''],
       el ''hr'' [Cls ''h3-hr''] [],
       el ''table'' [Cls ''table'']
        [el ''tbody'' [] (QueryDetail_inputRows taskRetriesEnabled query @ QueryDetail_outputRows taskRetriesEnabled query)]]"

definition QueryDetail_timeline :: "query_detail \<Rightarrow> detail_html" where
  "QueryDetail_timeline s =
    el ''div'' [Cls ''col-xs-6'']
      [el ''h3'' [] [lit ''Timeline''],
       el ''hr'' [Cls ''h3-hr''] [],
       el ''table'' [Cls ''table'']
        [el ''tbody'' []
          [el ''tr'' []
            [el ''td'' [Cls ''info-title''] [lit ''Parallelism''],
             el ''td'' [Attr ''rowSpan'' ''2'']
              [el ''div'' [Cls ''query-stats-sparkline-container'']
                [el ''span'' [Cls ''sparkline'', Id ''cpu-time-rate-sparkline'']
                  [el ''div'' [Cls ''loader''] [lit ''Loading ...'']]]]],
           el ''tr'' [Cls ''tr-noborder'']
            [el ''td'' [Cls ''info-sparkline-text'']
              [str (formatCount (last_val (cpuTimeRate s)))]],
           el ''tr'' []
            [el ''td'' [Cls ''info-title''] [lit ''Scheduled Time/s''],
             el ''td'' [Attr ''rowSpan'' ''2'']
              [el ''div'' [Cls ''query-stats-sparkline-container'']
                [el ''span'' [Cls ''sparkline'', Id ''scheduled-time-rate-sparkline'']
                  [el ''div'' [Cls ''loader''] [lit ''Loading ...'']]]]],
           el ''tr'' [Cls ''tr-noborder'']
            [el ''td'' [Cls ''info-sparkline-text'']
              [str (formatCount (last_val (scheduledTimeRate s)))]],
           el ''tr'' []
            [el ''td'' [Cls ''info-title''] [lit ''Input Rows/s''],
             el ''td'' [Attr ''rowSpan'' ''2'']
              [el ''div'' [Cls ''query-stats-sparkline-container'']
                [el ''span'' [Cls ''sparkline'', Id ''row-input-rate-sparkline'']
                  [el ''div'' [Cls ''loader''] [lit ''Loading ...'']]]]],
           el ''tr'' [Cls ''tr-noborder'']
            [el ''td'' [Cls ''info-sparkline-text'']
              [str (formatCount (last_val (rowInputRate s)))]],
           el ''tr'' []
            [el ''td'' [Cls ''info-title''] [lit ''Input Bytes/s''],
             el ''td'' [Attr ''rowSpan'' ''2'']
              [el ''div'' [Cls ''query-stats-sparkline-container'']
                [el ''span'' [Cls ''sparkline'', Id ''byte-input-rate-sparkline'']
                  [el ''div'' [Cls ''loader''] [lit ''Loading ...'']]]]],
           el ''tr'' [Cls ''tr-noborder'']
            [el ''td'' [Cls ''info-sparkline-text'']
              [str (formatDataSize (last_val (byteInputRate s)))]],
           el ''tr'' []
            [el ''td'' [Cls ''info-title''] [lit ''Physical Input Bytes/s''],
             el ''td'' [Attr ''rowSpan'' ''2'']
              [el ''div'' [Cls ''query-stats-sparkline-container'']
                [el ''span'' [Cls ''sparkline'', Id ''physical-input-rate-sparkline'']
                  [el ''div'' [Cls ''loader''] [lit ''Loading ...'']]]]],
           el ''tr'' [Cls ''tr-noborder'']
            [el ''td'' [Cls ''info-sparkline-text'']
              [str (formatDataSize (last_val (physicalInputRate s)))]],
           el ''tr'' []
            [el ''td'' [Cls ''info-title''] [lit ''Memory Utilization''],
             el ''td'' [Attr ''rowSpan'' ''2'']
              [el ''div'' [Cls ''query-stats-sparkline-container'']
                [el ''span'' [Cls ''sparkline'', Id ''reserved-memory-sparkline'']
                  [el ''div'' [Cls ''loader''] [lit ''Loading ...'']]]]],
           el ''tr'' [Cls ''tr-noborder'']
            [el ''td'' [Cls ''info-sparkline-text'']
              [str (formatDataSize (last_val (reservedMemory s)))]]]]]"

definition QueryDetail_queryText :: "detail_query \<Rightarrow> detail_html" where
  "QueryDetail_queryText query =
    el ''div'' [Cls ''row'']
      [el ''div'' [Cls ''col-xs-12'']
        [el ''h3'' []
          [lit ''Query'',
           el ''a'' [Cls ''btn copy-button'', Attr ''data-clipboard-target'' ''#query-text'',
                Attr ''data-toggle'' ''tooltip'', Attr ''data-placement'' ''right'',
                Attr ''title'' ''Copy to clipboard'']
            [el ''span'' [Cls ''glyphicon glyphicon-copy'', Attr ''aria-hidden'' ''true'',
                  Attr ''alt'' ''Copy to clipboard''] []]],
         el ''pre'' [Id ''query'']
          [el ''code'' [Cls ''lang-sql'', Id ''query-text''] [lit (query_text query)]]],
       renderPreparedQuery query]"

definition QueryDetail_body :: "detail_page \<Rightarrow> detail_query \<Rightarrow> query_detail \<Rightarrow> detail_html" where
  "QueryDetail_body env query s =
    (let taskRetriesEnabled = (retryPolicy query = ''TASK'') in
    el ''div'' []
      [component (HeaderPart query),
       el ''div'' [Cls ''row''] [QueryDetail_session query, QueryDetail_execution env query],
       el ''div'' [Cls ''row'']
        [el ''div'' [Cls ''col-xs-12'']
          [el ''div'' [Cls ''row'']
            [QueryDetail_resources taskRetriesEnabled query,
             QueryDetail_timeline s]]],
       renderWarningInfo query,
       renderFailureInfo query,
       QueryDetail_queryText query,
       renderStages taskRetriesEnabled s])"

definition QueryDetail_render :: "detail_page \<Rightarrow> query_detail \<Rightarrow> detail_html" where
  "QueryDetail_render env s =
    (case qd_query s of
       Some query \<Rightarrow> if initialized s then QueryDetail_body env query s else
         el ''div'' [Cls ''row error-message'']
           [el ''div'' [Cls ''col-xs-12'']
             [el ''h4'' [] [el ''div'' [Cls ''loader''] [lit ''Loading...'']]]]
     | None \<Rightarrow>
         el ''div'' [Cls ''row error-message'']
           [el ''div'' [Cls ''col-xs-12'']
             [el ''h4'' []
               [(if initialized s then lit ''Query not found'' else el ''div'' [Cls ''loader''] [lit ''Loading...''])]]])"

end
