(* ===== verification/QueryDetail.thy ===== *)
theory QueryDetail
  imports QueryDetailView History Polling
begin

text \<open>
  The updates of the component \<open>QueryDetail\<close> of \<open>components/QueryDetail.jsx\<close>: the refresh loop, the rates behind the sparklines, the
  button that freezes the list of stages, and what an update of the page does to the components it shows. Outside of React's own events
  \<open>setState\<close> renders at once, so each \<open>setState\<close> of a callback is an update of its own; one callback reads one clock value \<open>now\<close>.
  The states of the \<open>StageSummary\<close> components below the page are the parameter \<open>summaries\<close>: any state each of them may be in.
\<close>

section \<open>Updates\<close>

definition SMALL_SPARKLINE_PROPERTIES :: "(string \<times> string) list" where
  "SMALL_SPARKLINE_PROPERTIES = [(''width'', ''100%''), (''height'', ''57px''), (''fillColor'', ''#3F4552''),
     (''lineColor'', ''#747F96''), (''spotColor'', ''#1EDCFF''), (''tooltipClassname'', ''sparkline-tooltip''),
     (''disableHiddenCheck'', ''true'')]"

definition QueryDetail_sparklines :: "query_detail \<Rightarrow> effect list" where
  "QueryDetail_sparklines s =
     [Sparkline ''#scheduled-time-rate-sparkline'' (scheduledTimeRate s) SMALL_SPARKLINE_PROPERTIES (RangeAndFormatter (Fin 0) precisionRound),
      Sparkline ''#cpu-time-rate-sparkline'' (cpuTimeRate s) SMALL_SPARKLINE_PROPERTIES (RangeAndFormatter (Fin 0) precisionRound),
      Sparkline ''#row-input-rate-sparkline'' (rowInputRate s) SMALL_SPARKLINE_PROPERTIES (NumberFormatter formatCount),
      Sparkline ''#byte-input-rate-sparkline'' (byteInputRate s) SMALL_SPARKLINE_PROPERTIES (NumberFormatter formatDataSize),
      Sparkline ''#reserved-memory-sparkline'' (reservedMemory s) SMALL_SPARKLINE_PROPERTIES (NumberFormatter formatDataSize),
      Sparkline ''#physical-input-rate-sparkline'' (physicalInputRate s) SMALL_SPARKLINE_PROPERTIES (NumberFormatter formatDataSize)]"

text \<open>The third condition of the code, \<open>this.state.ended && !this.state.renderingEnded\<close>, never holds: \<open>ended\<close> is not a field of the state.\<close>

definition QueryDetail_draws :: "jsnum \<Rightarrow> query_detail \<Rightarrow> bool" where
  "QueryDetail_draws now s \<longleftrightarrow> (case qd_lastRender s of None \<Rightarrow> True | Some t \<Rightarrow> now - t \<ge> Fin 1000)"

text \<open>The elements whose text is highlighted, once, and the calls every update makes.\<close>

definition QueryDetail_highlights :: "query_detail \<Rightarrow> string list" where
  "QueryDetail_highlights s = (if qd_lastRender s = None then [''#query'', ''#prepared-query''] else [])"

definition QueryDetail_componentDidUpdate :: "jsnum \<Rightarrow> query_detail \<Rightarrow> query_detail \<times> string list \<times> effect list" where
  "QueryDetail_componentDidUpdate now s =
     (let calls = [Tooltips, Clipboard ''.copy-button'']
      in if QueryDetail_draws now s
         then (s\<lparr>renderingEnded := None, qd_lastRender := Some now\<rparr>, QueryDetail_highlights s, QueryDetail_sparklines s @ calls)
         else (s, [], calls))"

text \<open>The components below the page: the header, the list of stages, the stages, and the tables of their tasks.\<close>

definition stage_ok :: "detail_page \<Rightarrow> jsnum \<Rightarrow> (string \<Rightarrow> stage_summary) \<Rightarrow> stage_info \<times> bool \<Rightarrow> bool" where
  "stage_ok env now summaries p =
     (case p of (stage, taskRetriesEnabled) \<Rightarrow>
        let rendered = StageSummary_render (Some stage) taskRetriesEnabled (summaries (stageId stage))
        in renders rendered
           \<and> list_all (\<lambda>(ts, retries). renders (TaskList_render (url env) now ts retries :: (unit, unit) html)) (html_components rendered)
           \<and> StageSummary_componentDidUpdate now stage (summaries (stageId stage)) \<noteq> throw)"

definition detail_part_ok :: "detail_page \<Rightarrow> jsnum \<Rightarrow> (string \<Rightarrow> stage_summary) \<Rightarrow> detail_part \<Rightarrow> bool" where
  "detail_part_ok env now summaries part =
     (case part of
        HeaderPart query \<Rightarrow> renders (QueryHeader_render (pathname env) query)
      | StageListPart shown_stage retries \<Rightarrow>
          (let rendered = (StageList_render shown_stage retries :: (stage_info \<times> bool, unit) html)
           in renders rendered \<and> list_all (stage_ok env now summaries) (html_components rendered)))"

text \<open>An update: when rendering throws, React removes the page; otherwise \<open>componentDidUpdate\<close> runs. Its own \<open>setState\<close> makes one more
  update, with the same rendering, that draws nothing.\<close>

definition QueryDetail_commit :: "detail_page \<Rightarrow> jsnum \<Rightarrow> (string \<Rightarrow> stage_summary) \<Rightarrow> query_detail \<Rightarrow> query_detail" where
  "QueryDetail_commit env now summaries s =
     (let rendered = QueryDetail_render env s
      in if renders rendered \<and> list_all (detail_part_ok env now summaries) (html_components rendered)
         then (let (s', highlighted, calls) = QueryDetail_componentDidUpdate now s
               in if spark_targets calls \<noteq> [] then s'\<lparr>sparklines := calls\<rparr> else s')
         else s\<lparr>unmounted := True\<rparr>)"

definition QueryDetail_setState ::
  "detail_page \<Rightarrow> jsnum \<Rightarrow> (string \<Rightarrow> stage_summary) \<Rightarrow> (query_detail \<Rightarrow> query_detail) \<Rightarrow> query_detail page \<Rightarrow> query_detail page" where
  "QueryDetail_setState env now summaries f w =
     setState (\<lambda>s. if unmounted s then s else QueryDetail_commit env now summaries (f s)) w"

section \<open>The refresh loop\<close>

definition QueryDetail_continues :: "query_detail \<Rightarrow> bool" where
  "QueryDetail_continues s \<longleftrightarrow> qd_query s = None \<or> \<not> queryEnded s"

definition QueryDetail_resetTimer :: "query_detail page \<Rightarrow> query_detail page" where
  "QueryDetail_resetTimer w = reset_timer QueryDetail_continues w"

definition QueryDetail_url :: "detail_page \<Rightarrow> string" where
  "QueryDetail_url env = ''/ui/api/query/'' @ getFirstParameter (search env)"

definition QueryDetail_refreshLoop :: "query_detail page \<Rightarrow> query_detail page" where
  "QueryDetail_refreshLoop w = send_request (clear_timer w)"

definition QueryDetail_componentDidMount :: "query_detail page" where
  "QueryDetail_componentDidMount = QueryDetail_refreshLoop (mounted QueryDetail_init)"

text \<open>The first \<open>setState\<close> of the callback.\<close>

definition QueryDetail_received :: "jsnum \<Rightarrow> detail_query \<Rightarrow> query_detail \<Rightarrow> query_detail" where
  "QueryDetail_received now query s =
     (let stats = queryStats query
      in s\<lparr>qd_query := Some query,
           lastSnapshotStage := (if stageRefresh s then outputStage query else lastSnapshotStage s),
           lastSnapshotTasks := (if taskRefresh s then outputStage query else lastSnapshotTasks s),
           lastPhysicalTime := val_of (parseDuration (qs_physicalInputReadTime stats)),
           lastScheduledTime := val_of (parseDuration (qs_totalScheduledTime stats)),
           lastCpuTime := val_of (parseDuration (qs_totalCpuTime stats)),
           lastRowInput := Num (qs_processedInputPositions stats),
           lastByteInput := val_of (parseDataSize (qs_processedInputDataSize stats)),
           lastPhysicalInput := val_of (parseDataSize (qs_physicalInputDataSize stats)),
           initialized := True,
           queryEnded := finalQueryInfo query,
           lastRefresh := Some now\<rparr>)"

text \<open>The second one: the rates since the last refresh, from the state \<open>old\<close> before the first.\<close>

definition elapsedSecs :: "jsnum \<Rightarrow> detail_query \<Rightarrow> query_detail \<Rightarrow> jsnum" where
  "elapsedSecs now query old =
     (let refreshed = (case lastRefresh old of Some t \<Rightarrow> t
          | None \<Rightarrow> now - toNumber (val_of (parseDuration (qs_elapsedTime (queryStats query)))))
      in (now - refreshed) / Fin 1000)"

definition QueryDetail_measured :: "jsnum \<Rightarrow> detail_query \<Rightarrow> query_detail \<Rightarrow> query_detail \<Rightarrow> query_detail" where
  "QueryDetail_measured now query old s =
     (let stats = queryStats query;
          elapsed = elapsedSecs now query old;
          duration = (\<lambda>t. toNumber (val_of (parseDuration t)));
          size = (\<lambda>t. toNumber (val_of (parseDataSize t)));
          currentScheduledTimeRate = (duration (qs_totalScheduledTime stats) - toNumber (lastScheduledTime old)) / (elapsed * Fin 1000);
          currentCpuTimeRate = (duration (qs_totalCpuTime stats) - toNumber (lastCpuTime old)) / (elapsed * Fin 1000);
          currentPhysicalReadTime = (duration (qs_physicalInputReadTime stats) - toNumber (lastPhysicalTime old)) / Fin 1000;
          currentRowInputRate = (qs_processedInputPositions stats - toNumber (lastRowInput old)) / elapsed;
          currentByteInputRate = (size (qs_processedInputDataSize stats) - toNumber (lastByteInput old)) / elapsed;
          currentPhysicalInputRate =
            (if currentPhysicalReadTime > Fin 0
             then (size (qs_physicalInputDataSize stats) - toNumber (lastPhysicalInput old)) / currentPhysicalReadTime else Fin 0)
      in s\<lparr>scheduledTimeRate := addToHistory (Num currentScheduledTimeRate) (scheduledTimeRate s),
           cpuTimeRate := addToHistory (Num currentCpuTimeRate) (cpuTimeRate s),
           rowInputRate := addToHistory (Num currentRowInputRate) (rowInputRate s),
           byteInputRate := addToHistory (Num currentByteInputRate) (byteInputRate s),
           reservedMemory := addToHistory (val_of (parseDataSize (qs_totalMemoryReservation stats))) (reservedMemory s),
           physicalInputRate := addToHistory (Num currentPhysicalInputRate) (physicalInputRate s)\<rparr>)"

text \<open>Whether the callback goes on to the rates.\<close>

definition QueryDetail_measures :: "jsnum \<Rightarrow> detail_query \<Rightarrow> query_detail \<Rightarrow> bool" where
  "QueryDetail_measures now query old \<longleftrightarrow>
     \<not> (queryEnded old \<or> (lastRefresh old = None \<and> state query = ''RUNNING'')) \<and> elapsedSecs now query old \<ge> Fin 0"

text \<open>A \<open>setState\<close> that removes the page throws: the rest of the callback, with its \<open>resetTimer\<close>, is not run. On a page that was
  removed before, \<open>setState\<close> does nothing.\<close>

definition then_unless_removed :: "query_detail page \<Rightarrow> query_detail page \<Rightarrow> (query_detail page \<Rightarrow> query_detail page) \<Rightarrow> query_detail page" where
  "then_unless_removed w w' rest = (if unmounted (this_state w') \<and> \<not> unmounted (this_state w) then w' else rest w')"

definition QueryDetail_success ::
  "detail_page \<Rightarrow> jsnum \<Rightarrow> (string \<Rightarrow> stage_summary) \<Rightarrow> detail_query \<Rightarrow> query_detail page \<Rightarrow> query_detail page throws" where
  "QueryDetail_success env now summaries query w =
     (let old = this_state w;
          w1 = QueryDetail_setState env now summaries (QueryDetail_received now query) w
      in Some (then_unless_removed w w1 (\<lambda>w1.
           if QueryDetail_measures now query old
           then (let w2 = QueryDetail_setState env now summaries (QueryDetail_measured now query old) w1
                 in then_unless_removed w1 w2 QueryDetail_resetTimer)
           else QueryDetail_resetTimer w1)))"

definition QueryDetail_fail ::
  "detail_page \<Rightarrow> jsnum \<Rightarrow> (string \<Rightarrow> stage_summary) \<Rightarrow> query_detail page \<Rightarrow> query_detail page throws" where
  "QueryDetail_fail env now summaries w =
     (let w1 = QueryDetail_setState env now summaries (\<lambda>s. s\<lparr>initialized := True\<rparr>) w
      in Some (then_unless_removed w w1 QueryDetail_resetTimer))"

text \<open>The handler of the button; without a query it reads a property of \<open>null\<close>.\<close>

definition handleStageRefreshClick ::
  "detail_page \<Rightarrow> jsnum \<Rightarrow> (string \<Rightarrow> stage_summary) \<Rightarrow> query_detail page \<Rightarrow> query_detail page throws" where
  "handleStageRefreshClick env now summaries w =
     (if stageRefresh (this_state w)
      then do { query \<leftarrow> qd_query (this_state w);
                Some (QueryDetail_setState env now summaries
                  (\<lambda>s. s\<lparr>stageRefresh := False, lastSnapshotStages := outputStage query\<rparr>) w) }
      else Some (QueryDetail_setState env now summaries (\<lambda>s. s\<lparr>stageRefresh := True\<rparr>) w))"

text \<open>The user can click the button where the page shows it.\<close>

definition QueryDetail_click ::
  "detail_page \<Rightarrow> jsnum \<Rightarrow> (string \<Rightarrow> stage_summary) \<Rightarrow> query_detail page \<Rightarrow> query_detail page throws" where
  "QueryDetail_click env now summaries w =
     (if StageRefreshClick \<in> set (html_handlers (QueryDetail_render env (this_state w)))
      then handleStageRefreshClick env now summaries w else Some w)"

end
