(* ===== verification/QueryPage.thy ===== *)
theory QueryPage
  imports QueryDetail
begin

text \<open>
  The page \<open>query.html\<close> as React runs it: the component \<open>QueryDetail\<close> together with the \<open>StageSummary\<close> components its list of stages holds. The
  list has the id of the query as its key and every stage its own id: a component whose key is rendered again keeps its state and is updated, a
  component with a new key is mounted in its initial state, one whose key is gone is lost. Where \<open>QueryDetail\<close> is
  given the states of the stages, here they are part of the page. The order the stages sort their tasks into is not carried over to the state of the page.
\<close>

section \<open>State\<close>

record query_page =
  page_detail :: query_detail
  list_key :: "string option"
  stage_states :: "(string \<times> stage_summary) list"

definition QueryPage_init :: query_page where
  "QueryPage_init = \<lparr>page_detail = QueryDetail_init, list_key = None, stage_states = []\<rparr>"

text \<open>The list of stages the page renders: its key, the stages, and whether tasks are retried.\<close>

definition shown_list :: "query_detail \<Rightarrow> (string \<times> stage_info list \<times> bool) option" where
  "shown_list d =
     (case qd_query d of
        Some query \<Rightarrow>
          if initialized d \<and> lastSnapshotStage d \<noteq> IsNull
          then Some (queryId query, getStages (field_option (lastSnapshotStage d)), retryPolicy query = ''TASK'') else None
      | None \<Rightarrow> None)"

definition shown_key :: "query_detail \<Rightarrow> string option" where
  "shown_key d = map_option fst (shown_list d)"

definition shown_stages :: "query_detail \<Rightarrow> stage_info list" where
  "shown_stages d = (case shown_list d of Some (key, stages, retries) \<Rightarrow> stages | None \<Rightarrow> [])"

section \<open>Reconciliation\<close>

definition state_of :: "(string \<times> stage_summary) list \<Rightarrow> string \<Rightarrow> stage_summary" where
  "state_of states i = (case map_of states i of Some st \<Rightarrow> st | None \<Rightarrow> StageSummary_init)"

text \<open>The states that survive an update of the page: all of them unless the list has a new key.\<close>

definition kept_states :: "query_detail \<Rightarrow> query_page \<Rightarrow> (string \<times> stage_summary) list" where
  "kept_states d p = (if shown_key d = list_key p then stage_states p else [])"

definition update_stage :: "jsnum \<Rightarrow> stage_info \<Rightarrow> stage_summary \<Rightarrow> stage_summary \<times> stage_chart list" where
  "update_stage now stage st =
     (case StageSummary_componentDidUpdate now stage st of
        Some (stage', st', charts) \<Rightarrow> (st', charts)
      | None \<Rightarrow> (st, []))"

definition reconcile :: "jsnum \<Rightarrow> stage_info list \<Rightarrow> (string \<times> stage_summary) list \<Rightarrow> (string \<times> stage_summary) list" where
  "reconcile now stages states =
     map (\<lambda>stage. (stageId stage,
       case map_of states (stageId stage) of Some st \<Rightarrow> fst (update_stage now stage st) | None \<Rightarrow> StageSummary_init)) stages"

definition charts_drawn :: "jsnum \<Rightarrow> stage_info list \<Rightarrow> (string \<times> stage_summary) list \<Rightarrow> stage_chart list" where
  "charts_drawn now stages states =
     concat (map (\<lambda>stage.
       case map_of states (stageId stage) of Some st \<Rightarrow> snd (update_stage now stage st) | None \<Rightarrow> []) stages)"

section \<open>Updates\<close>

definition removed :: "query_detail \<Rightarrow> query_page \<Rightarrow> query_page" where
  "removed d p = p\<lparr>page_detail := d\<lparr>unmounted := True\<rparr>, list_key := None, stage_states := []\<rparr>"

text \<open>An update of the whole page to the state \<open>d\<close> of \<open>QueryDetail\<close>. When its \<open>componentDidUpdate\<close> draws, it sets the state once more, which updates the stages
  a second time, those mounted by the first update included.\<close>

definition QueryPage_commit :: "detail_page \<Rightarrow> jsnum \<Rightarrow> query_detail \<Rightarrow> query_page \<Rightarrow> query_page" where
  "QueryPage_commit env now d p =
     (let states = kept_states d p; d' = QueryDetail_commit env now (state_of states) d
      in if unmounted d' then removed d p
         else (let updated = reconcile now (shown_stages d) states
               in p\<lparr>page_detail := d', list_key := shown_key d,
                    stage_states := (if QueryDetail_draws now d then reconcile now (shown_stages d') updated else updated)\<rparr>))"

definition QueryPage_setState ::
  "detail_page \<Rightarrow> jsnum \<Rightarrow> (query_detail \<Rightarrow> query_detail) \<Rightarrow> query_page page \<Rightarrow> query_page page" where
  "QueryPage_setState env now f w =
     setState (\<lambda>p. if unmounted (page_detail p) then p else QueryPage_commit env now (f (page_detail p)) p) w"

definition QueryPage_resetTimer :: "query_page page \<Rightarrow> query_page page" where
  "QueryPage_resetTimer w = reset_timer (\<lambda>p. QueryDetail_continues (page_detail p)) w"

definition QueryPage_refreshLoop :: "query_page page \<Rightarrow> query_page page" where
  "QueryPage_refreshLoop w = send_request (clear_timer w)"

definition unless_removed :: "query_page page \<Rightarrow> query_page page \<Rightarrow> (query_page page \<Rightarrow> query_page page) \<Rightarrow> query_page page" where
  "unless_removed w w' rest =
     (if unmounted (page_detail (this_state w')) \<and> \<not> unmounted (page_detail (this_state w)) then w' else rest w')"

definition QueryPage_success :: "detail_page \<Rightarrow> jsnum \<Rightarrow> detail_query \<Rightarrow> query_page page \<Rightarrow> query_page page throws" where
  "QueryPage_success env now query w =
     (let old = page_detail (this_state w);
          w1 = QueryPage_setState env now (QueryDetail_received now query) w
      in Some (unless_removed w w1 (\<lambda>w1.
           if QueryDetail_measures now query old
           then (let w2 = QueryPage_setState env now (QueryDetail_measured now query old) w1
                 in unless_removed w1 w2 QueryPage_resetTimer)
           else QueryPage_resetTimer w1)))"

definition QueryPage_fail :: "detail_page \<Rightarrow> jsnum \<Rightarrow> query_page page \<Rightarrow> query_page page throws" where
  "QueryPage_fail env now w =
     (let w1 = QueryPage_setState env now (\<lambda>d. d\<lparr>initialized := True\<rparr>) w
      in Some (unless_removed w w1 QueryPage_resetTimer))"

section \<open>Clicks\<close>

definition QueryPage_click :: "detail_page \<Rightarrow> jsnum \<Rightarrow> query_page page \<Rightarrow> query_page page throws" where
  "QueryPage_click env now w =
     (let d = page_detail (this_state w)
      in if StageRefreshClick \<in> set (html_handlers (QueryDetail_render env d))
         then if stageRefresh d
              then do { query \<leftarrow> qd_query d;
                        Some (QueryPage_setState env now
                          (\<lambda>d. d\<lparr>stageRefresh := False, lastSnapshotStages := outputStage query\<rparr>) w) }
              else Some (QueryPage_setState env now (\<lambda>d. d\<lparr>stageRefresh := True\<rparr>) w)
         else Some w)"

text \<open>The handlers of a stage, and a click on one that the stage shows: it updates only that stage.\<close>

fun summary_handler :: "summary_action \<Rightarrow> stage_summary \<Rightarrow> stage_summary" where
  "summary_handler ToggleExpanded st = toggleExpanded st"
| "summary_handler (TaskFilterClick f) st = handleTaskFilterClick f st"

definition QueryPage_stageClick ::
  "detail_page \<Rightarrow> jsnum \<Rightarrow> string \<Rightarrow> summary_action \<Rightarrow> query_page page \<Rightarrow> query_page page throws" where
  "QueryPage_stageClick env now i action w =
     (let p = this_state w
      in case (shown_list (page_detail p), map_of (stage_states p) i) of
           (Some (key, stages, retries), Some st) \<Rightarrow>
             (case find (\<lambda>stage. stageId stage = i) stages of
                Some stage \<Rightarrow>
                  if action \<in> set (html_handlers (StageSummary_render (Some stage) retries st)) \<and> \<not> unmounted (page_detail p)
                  then (let st' = summary_handler action st
                        in Some (setState (\<lambda>p.
                             if stage_ok env now (\<lambda>_. st') (stage, retries)
                             then p\<lparr>stage_states := AList.update i (fst (update_stage now stage st')) (stage_states p)\<rparr>
                             else removed (page_detail p) p) w))
                  else Some w
              | None \<Rightarrow> Some w)
         | _ \<Rightarrow> Some w)"

end
