(* ===== verification/QueryDetailSpec.thy ===== *)
theory QueryDetailSpec
  imports QueryDetail
begin

text \<open>
  What the page about a query shows: when it renders, which components and elements it contains, how the histories grow, and that it refreshes
  until the final information about the query has arrived.
\<close>

section \<open>What the parts contain\<close>

lemma optional_reads [dom_simps]:
  "renders (optional v)" "html_ids (optional v) = []" "html_handlers (optional v) = []" "html_components (optional v) = []"
  by (simp_all add: optional_def dom_simps split: option.splits)

lemma property_line_reads [dom_simps]:
  "renders (property_line n v)" "html_ids (property_line n v) = []" "html_components (property_line n v) = []"
  by (simp_all add: property_line_def dom_simps html_el)

lemma property_lists_read [dom_simps]:
  "list_all renders (renderSessionProperties q)" "concat (map html_ids (renderSessionProperties q)) = []"
  "concat (map html_components (renderSessionProperties q)) = []"
  "list_all renders (renderResourceEstimates q)" "concat (map html_ids (renderResourceEstimates q)) = []"
  "concat (map html_components (renderResourceEstimates q)) = []"
  by (auto simp: renderSessionProperties_def renderResourceEstimates_def dom_simps list_all_iff)

lemma session_reads [dom_simps]:
  "renders (QueryDetail_session q)" "html_ids (QueryDetail_session q) = [''query-user'']" "html_components (QueryDetail_session q) = []"
  by (simp_all add: QueryDetail_session_def dom_simps html_el html_frag)

lemma execution_reads [dom_simps]:
  "renders (QueryDetail_execution env q)" "html_ids (QueryDetail_execution env q) = []" "html_components (QueryDetail_execution env q) = []"
  by (simp_all add: QueryDetail_execution_def dom_simps html_el Let_def)

lemma resource_rows_read [dom_simps]:
  "list_all renders (QueryDetail_inputRows r q)" "concat (map html_ids (QueryDetail_inputRows r q)) = []"
  "concat (map html_components (QueryDetail_inputRows r q)) = []"
  "list_all renders (QueryDetail_outputRows r q)" "concat (map html_ids (QueryDetail_outputRows r q)) = []"
  "concat (map html_components (QueryDetail_outputRows r q)) = []"
  using parseAndFormatDataSize_total
  by (simp_all add: QueryDetail_inputRows_def QueryDetail_outputRows_def dom_simps html_el Let_def formatter_throws)

lemma resources_reads [dom_simps]:
  "renders (QueryDetail_resources r q)" "html_ids (QueryDetail_resources r q) = []" "html_components (QueryDetail_resources r q) = []"
  by (simp_all add: QueryDetail_resources_def dom_simps html_el)

text \<open>The latest rates and sizes: what the timeline formats next to the sparklines.\<close>

definition latest :: "query_detail \<Rightarrow> val list" where
  "latest s = map last_val [cpuTimeRate s, scheduledTimeRate s, rowInputRate s, byteInputRate s, physicalInputRate s, reservedMemory s]"

definition sparkline_ids :: "string list" where
  "sparkline_ids = [''cpu-time-rate-sparkline'', ''scheduled-time-rate-sparkline'', ''row-input-rate-sparkline'', ''byte-input-rate-sparkline'',
     ''physical-input-rate-sparkline'', ''reserved-memory-sparkline'']"

lemma timeline_reads:
  "renders (QueryDetail_timeline s) \<longleftrightarrow> Null \<notin> set (latest s)"
  "Null \<notin> set (latest s) \<Longrightarrow> html_ids (QueryDetail_timeline s) = sparkline_ids"
  "Null \<notin> set (latest s) \<Longrightarrow> html_components (QueryDetail_timeline s) = []"
  by (auto simp: QueryDetail_timeline_def dom_simps html_el latest_def formatter_throws sparkline_ids_def)

lemma warnings_reads [dom_simps]:
  "renders (renderWarningInfo q)" "html_ids (renderWarningInfo q) = (if warnings q = [] then [] else [''warnings-table''])"
  "html_components (renderWarningInfo q) = []"
  by (auto simp: renderWarningInfo_def dom_simps html_el html_frag list_all_iff)

definition explained :: "detail_query \<Rightarrow> bool" where
  "explained q \<longleftrightarrow> (case failureInfo q of None \<Rightarrow> True | Some info \<Rightarrow> errorCode q \<noteq> None \<and> \<not> orphaned info (Is []))"

lemma formatStackTrace_orphaned: "formatStackTrace info = throw \<longleftrightarrow> orphaned info (Is [])"
  by (simp add: formatStackTrace_def formatStackTraceHelper_throws)

lemma failure_reads:
  "renders (renderFailureInfo q) \<longleftrightarrow> explained q"
  "explained q \<Longrightarrow> html_ids (renderFailureInfo q) = (if failureInfo q = None then [] else [''stack-trace''])"
  "explained q \<Longrightarrow> html_components (renderFailureInfo q) = []"
  by (auto simp: renderFailureInfo_def explained_def dom_simps html_el formatStackTrace_orphaned split: option.splits)

lemma queryText_reads [dom_simps]:
  "renders (QueryDetail_queryText q)"
  "html_ids (QueryDetail_queryText q) = [''query'', ''query-text''] @ (if preparedQuery q = None then [] else [''prepared-query'', ''prepared-query-text''])"
  "html_components (QueryDetail_queryText q) = []"
  by (simp_all add: QueryDetail_queryText_def renderPreparedQuery_def dom_simps html_el split: option.splits)

lemma stages_reads [dom_simps]:
  "renders (renderStages r s)" "html_ids (renderStages r s) = []"
  "html_components (renderStages r s) =
     (if lastSnapshotStage s = IsNull then [] else [StageListPart (field_option (lastSnapshotStage s)) r])"
  "html_handlers (renderStages r s) = (if lastSnapshotStage s = IsNull then [] else [StageRefreshClick])"
  by (simp_all add: renderStages_def renderStageRefreshButton_def dom_simps html_el)

section \<open>The page\<close>

definition detail_ids :: "detail_query \<Rightarrow> string list" where
  "detail_ids q = ''query-user'' # sparkline_ids @ (if warnings q = [] then [] else [''warnings-table''])
     @ (if failureInfo q = None then [] else [''stack-trace'']) @ [''query'', ''query-text'']
     @ (if preparedQuery q = None then [] else [''prepared-query'', ''prepared-query-text''])"

lemma body_renders: "renders (QueryDetail_body env q s) \<longleftrightarrow> Null \<notin> set (latest s) \<and> explained q"
  by (auto simp: QueryDetail_body_def Let_def dom_simps timeline_reads failure_reads)

lemma body_contains:
  assumes "Null \<notin> set (latest s)" and "explained q"
  shows "html_ids (QueryDetail_body env q s) = detail_ids q"
    and "html_components (QueryDetail_body env q s) =
      HeaderPart q # (if lastSnapshotStage s = IsNull then []
        else [StageListPart (field_option (lastSnapshotStage s)) (retryPolicy q = ''TASK'')])"
  using assms
  by (simp_all add: QueryDetail_body_def Let_def dom_simps html_el timeline_reads failure_reads detail_ids_def)

section \<open>The components below the page\<close>

definition task_ok :: "detail_page \<Rightarrow> task \<Rightarrow> bool" where
  "task_ok env t \<longleftrightarrow> url env (self t) \<noteq> None \<and> parseDataSize (rawInputDataSize (taskStats t)) \<noteq> None"

definition tree_ok :: "detail_page \<Rightarrow> stage_info stage_tree \<Rightarrow> bool" where
  "tree_ok env t \<longleftrightarrow> list_all (\<lambda>stage. list_all (task_ok env) (tasks stage)) (preorder t)"

lemma showPortNumbers_total:
  "list_all (task_ok env) ts \<Longrightarrow> showPortNumbers_loop (url env) ts m \<noteq> throw"
  by (induction ts arbitrary: m) (auto simp: task_ok_def url_parts)

lemma task_row_renders: "task_ok env t \<Longrightarrow> renders (TaskList_row (url env) now p r t)"
  by (simp add: task_ok_def TaskList_row_renders del: not_None_eq)

lemma TaskList_renders: "list_all (task_ok env) ts \<Longrightarrow> renders (TaskList_render (url env) now ts r)"
  using showPortNumbers_total [of env ts "[]"]
  by (simp add: TaskList_render_def showPortNumbers_def dom_simps Let_def list_all_iff task_row_renders)

lemma StageSummary_update_total: "StageSummary_componentDidUpdate now stage s \<noteq> throw"
proof -
  obtain h1 where "renderHistogram (''#scheduled-time-histogram-'' @ stage_text stage) (scheduledTimes stage) formatDuration = Some h1"
    using renderHistogram_total by blast
  moreover obtain h2 where "renderHistogram (''#cpu-time-histogram-'' @ stage_text stage) (cpuTimes stage) formatDuration = Some h2"
    using renderHistogram_total by blast
  ultimately show ?thesis by (simp add: StageSummary_componentDidUpdate_def)
qed

lemma summary_components:
  "set (html_components (StageSummary_render (Some stage) r s))
     \<subseteq> {(filter (\<lambda>t. TASK_FILTER (taskFilter s) (taskState t)) (if expanded s then tasks stage else []), r)}"
  by (simp add: StageSummary_render_def StageSummary_row_def StageSummary_time_def StageSummary_memory_def StageSummary_tasks_def
      StageSummary_histograms_def StageSummary_scheduledChart_def StageSummary_cpuChart_def renderTaskFilter_def
      renderTaskFilterListItem_def renderTaskList_def html_el dom_simps Let_def parseAndFormatDataSize_total formatter_throws)

lemma stage_ok_tasks:
  assumes "list_all (task_ok env) (tasks stage)"
  shows "stage_ok env now summaries (stage, r)"
proof -
  let ?s = "summaries (stageId stage)"
  let ?ts = "filter (\<lambda>t. TASK_FILTER (taskFilter ?s) (taskState t)) (if expanded ?s then tasks stage else [])"
  have "renders (TaskList_render (url env) now ?ts r :: (unit, unit) html)"
    using assms by (intro TaskList_renders) (auto simp: list_all_iff)
  then have "list_all (\<lambda>(ts, retries). renders (TaskList_render (url env) now ts retries :: (unit, unit) html))
      (html_components (StageSummary_render (Some stage) r ?s))"
    using summary_components [of stage r ?s] by (auto simp: list_all_iff)
  then show ?thesis by (simp add: stage_ok_def Let_def StageSummary_renders StageSummary_update_total)
qed

lemma StageList_reads:
  "renders (StageList_render t r :: (stage_info \<times> bool, 'a) html)"
  "html_components (StageList_render t r :: (stage_info \<times> bool, 'a) html) = map (\<lambda>stage. (stage, r)) (getStages t)"
  by (simp_all add: StageList_render_def Let_def html_el html_frag dom_simps list_all_iff comp_def)

lemma part_ok_iff:
  "detail_part_ok env now summaries (HeaderPart q) \<longleftrightarrow> displayable q"
  "(\<forall>t. f = Some t \<longrightarrow> tree_ok env t) \<Longrightarrow> detail_part_ok env now summaries (StageListPart f r)"
  by (simp add: detail_part_ok_def QueryHeader_render_def dom_simps)
    (cases f; auto simp: detail_part_ok_def Let_def StageList_reads getStages_preorder tree_ok_def list_all_iff
      simp del: getStages.simps(2) intro!: stage_ok_tasks)

section \<open>Updates\<close>

text \<open>Queries the page can show, and states in which it shows one.\<close>

definition shows_query :: "detail_page \<Rightarrow> detail_query \<Rightarrow> bool" where
  "shows_query env q \<longleftrightarrow> displayable q \<and> explained q \<and> parseDataSize (qs_totalMemoryReservation (queryStats q)) \<noteq> None
     \<and> (\<forall>t. outputStage q = Is t \<longrightarrow> tree_ok env t)"

definition detail_ok :: "detail_page \<Rightarrow> query_detail \<Rightarrow> bool" where
  "detail_ok env s \<longleftrightarrow> \<not> unmounted s \<and> Null \<notin> set (latest s) \<and> (\<forall>q. qd_query s = Some q \<longrightarrow> displayable q \<and> explained q)
     \<and> (\<forall>t. lastSnapshotStage s = Is t \<longrightarrow> tree_ok env t)"

lemma detail_ok_renders:
  assumes "detail_ok env s"
  shows "renders (QueryDetail_render env s) \<and> list_all (detail_part_ok env now summaries) (html_components (QueryDetail_render env s))"
proof (cases "qd_query s")
  case None
  then show ?thesis by (simp add: QueryDetail_render_def dom_simps html_el)
next
  case (Some q)
  with assms have q: "Null \<notin> set (latest s)" "explained q" "displayable q" by (auto simp: detail_ok_def)
  have "detail_part_ok env now summaries (StageListPart (field_option (lastSnapshotStage s)) r)" for r
    using assms by (intro part_ok_iff) (auto simp: detail_ok_def field_option_def split: field.splits)
  with q Some show ?thesis
    by (simp add: QueryDetail_render_def body_renders body_contains part_ok_iff) (simp add: dom_simps html_el)
qed

definition drawn :: "jsnum \<Rightarrow> query_detail \<Rightarrow> query_detail" where
  "drawn now s = (if QueryDetail_draws now s
     then s\<lparr>renderingEnded := None, qd_lastRender := Some now,
            sparklines := QueryDetail_sparklines s @ [Tooltips, Clipboard ''.copy-button'']\<rparr> else s)"

lemma detail_ok_commit: "detail_ok env s \<Longrightarrow> QueryDetail_commit env now summaries s = drawn now s"
  using detail_ok_renders [of env s now summaries]
  by (simp add: QueryDetail_commit_def Let_def QueryDetail_componentDidUpdate_def drawn_def QueryDetail_sparklines_def)

lemma drawn_keeps [simp]:
  "detail_ok env (drawn now s) = detail_ok env s" "QueryDetail_continues (drawn now s) = QueryDetail_continues s"
  "unmounted (drawn now s) = unmounted s" "qd_query (drawn now s) = qd_query s" "queryEnded (drawn now s) = queryEnded s"
  "lastSnapshotStage (drawn now s) = lastSnapshotStage s" "stageRefresh (drawn now s) = stageRefresh s"
  "latest (drawn now s) = latest s" "initialized (drawn now s) = initialized s"
  by (simp_all add: drawn_def detail_ok_def QueryDetail_continues_def latest_def)

lemma detail_ok_initialized [simp]: "detail_ok env (s\<lparr>initialized := True\<rparr>) = detail_ok env s"
  by (simp add: detail_ok_def latest_def)

text \<open>After an update the clock has to advance by a second before the next one draws.\<close>

lemma no_time_passed: "\<not> now - now \<ge> Fin 1000"
  by (cases now) (simp_all add: minus_jsnum_def)

lemma drawn_once: "drawn now (f (drawn now s)) = f (drawn now s)" if "qd_lastRender (f (drawn now s)) = qd_lastRender (drawn now s)"
  using that no_time_passed [of now] by (auto simp: drawn_def QueryDetail_draws_def split: option.splits if_splits)

lemma received_ok: "detail_ok env s \<Longrightarrow> shows_query env q \<Longrightarrow> detail_ok env (QueryDetail_received now q s)"
  by (simp add: detail_ok_def shows_query_def QueryDetail_received_def Let_def latest_def)

lemma measured_latest:
  "set (latest (QueryDetail_measured now q old s)) \<subseteq> range Num \<union> {val_of (parseDataSize (qs_totalMemoryReservation (queryStats q)))}"
  by (simp add: latest_def QueryDetail_measured_def Let_def plain.add_last_val)

lemma measured_keeps:
  "unmounted (QueryDetail_measured now q old s) = unmounted s" "qd_query (QueryDetail_measured now q old s) = qd_query s"
  "lastSnapshotStage (QueryDetail_measured now q old s) = lastSnapshotStage s"
  "queryEnded (QueryDetail_measured now q old s) = queryEnded s" "qd_lastRender (QueryDetail_measured now q old s) = qd_lastRender s"
  by (simp_all add: QueryDetail_measured_def Let_def)

lemma measured_ok: "detail_ok env s \<Longrightarrow> shows_query env q \<Longrightarrow> detail_ok env (QueryDetail_measured now q old s)"
  using measured_latest [of now q old s] by (auto simp: detail_ok_def shows_query_def measured_keeps val_of_def split: option.splits)

text \<open>The state after a response, on a page that can show it.\<close>

definition refreshed :: "jsnum \<Rightarrow> detail_query \<Rightarrow> query_detail \<Rightarrow> query_detail" where
  "refreshed now q s =
     (let s' = drawn now (QueryDetail_received now q s)
      in if QueryDetail_measures now q s then QueryDetail_measured now q s s' else s')"

lemma refreshed_ok: "detail_ok env s \<Longrightarrow> shows_query env q \<Longrightarrow> detail_ok env (refreshed now q s)"
  by (simp add: refreshed_def Let_def received_ok measured_ok)

lemma refreshed_fields:
  "qd_query (refreshed now q s) = Some q" "initialized (refreshed now q s)" "queryEnded (refreshed now q s) = finalQueryInfo q"
  "stageRefresh (refreshed now q s) = stageRefresh s"
  "lastSnapshotStage (refreshed now q s) = (if stageRefresh s then outputStage q else lastSnapshotStage s)"
  by (simp_all add: refreshed_def Let_def QueryDetail_measured_def QueryDetail_received_def)

lemma refreshed_sparklines:
  "QueryDetail_draws now s \<Longrightarrow>
     sparklines (refreshed now q s) = QueryDetail_sparklines s @ [Tooltips, Clipboard ''.copy-button'']"
  by (simp add: refreshed_def Let_def drawn_def QueryDetail_received_def QueryDetail_draws_def QueryDetail_measured_def QueryDetail_sparklines_def)

lemma QueryDetail_setState_simps [loop_simps]:
  "this_state (QueryDetail_setState env now below f w) =
     (if unmounted (this_state w) then this_state w else QueryDetail_commit env now below (f (this_state w)))"
  "slot (QueryDetail_setState env now below f w) = slot w" "inflight (QueryDetail_setState env now below f w) = inflight w"
  by (simp_all add: QueryDetail_setState_def loop_simps)

lemma setState_ok:
  assumes "detail_ok env (this_state w)" and "detail_ok env (f (this_state w))"
  shows "this_state (QueryDetail_setState env now below f w) = drawn now (f (this_state w))"
  using assms by (simp add: loop_simps detail_ok_commit) (simp add: detail_ok_def)

lemma then_unless_removed_ok [simp]:
  "detail_ok env (this_state w') \<Longrightarrow> then_unless_removed w w' rest = rest w'"
  by (simp add: then_unless_removed_def detail_ok_def)

definition settled :: "query_detail page \<Rightarrow> query_detail \<Rightarrow> query_detail page \<Rightarrow> bool" where
  "settled w s w' \<longleftrightarrow> this_state w' = s \<and> inflight w' = inflight w
     \<and> slot w' = (if QueryDetail_continues s then setTimeout (clearTimeout (slot w)) else clearTimeout (slot w))"

lemma resetTimer_settled:
  "slot w' = slot w \<Longrightarrow> inflight w' = inflight w \<Longrightarrow> settled w (this_state w') (QueryDetail_resetTimer w')"
  by (simp add: settled_def QueryDetail_resetTimer_def loop_simps)

lemma success_settles:
  assumes "detail_ok env (this_state w)" and "shows_query env q"
  shows "\<exists>w'. QueryDetail_success env now below q w = Some w' \<and> settled w (refreshed now q (this_state w)) w'"
proof -
  let ?s = "this_state w"
  let ?w1 = "QueryDetail_setState env now below (QueryDetail_received now q) w"
  let ?w2 = "QueryDetail_setState env now below (QueryDetail_measured now q ?s) ?w1"
  have s1: "this_state ?w1 = drawn now (QueryDetail_received now q ?s)" and ok1: "detail_ok env (this_state ?w1)"
    using assms by (simp_all add: setState_ok received_ok)
  then have ok2: "detail_ok env (QueryDetail_measured now q ?s (this_state ?w1))" using assms(2) by (simp add: measured_ok)
  have s2: "this_state ?w2 = QueryDetail_measured now q ?s (this_state ?w1)"
    unfolding setState_ok [where f = "QueryDetail_measured now q ?s", OF ok1 ok2] s1
    by (rule drawn_once) (simp add: measured_keeps)
  show ?thesis
  proof (cases "QueryDetail_measures now q ?s")
    case True
    then have "QueryDetail_success env now below q w = Some (QueryDetail_resetTimer ?w2)"
      using ok1 ok2 s2 by (simp add: QueryDetail_success_def Let_def)
    moreover have "refreshed now q ?s = this_state ?w2" using True s1 s2 by (simp add: refreshed_def Let_def)
    ultimately show ?thesis using resetTimer_settled [of ?w2 w] by (simp add: loop_simps)
  next
    case False
    then have "QueryDetail_success env now below q w = Some (QueryDetail_resetTimer ?w1)"
      using ok1 by (simp add: QueryDetail_success_def Let_def)
    moreover have "refreshed now q ?s = this_state ?w1" using False s1 by (simp add: refreshed_def Let_def)
    ultimately show ?thesis using resetTimer_settled [of ?w1 w] by (simp add: loop_simps)
  qed
qed

lemma fail_settles:
  assumes "detail_ok env (this_state w)"
  shows "\<exists>w'. QueryDetail_fail env now below w = Some w' \<and> settled w (drawn now ((this_state w)\<lparr>initialized := True\<rparr>)) w'"
proof -
  let ?w1 = "QueryDetail_setState env now below (\<lambda>s. s\<lparr>initialized := True\<rparr>) w"
  from assms have "this_state ?w1 = drawn now ((this_state w)\<lparr>initialized := True\<rparr>)" "detail_ok env (this_state ?w1)"
    by (simp_all add: setState_ok)
  then show ?thesis
    using resetTimer_settled [of ?w1 w] by (simp add: QueryDetail_fail_def Let_def loop_simps)
qed

lemma click_handled:
  assumes "detail_ok env (this_state w)"
  shows "\<exists>w'. QueryDetail_click env now below w = Some w' \<and> inflight w' = inflight w \<and> slot w' = slot w \<and> detail_ok env (this_state w')
    \<and> QueryDetail_continues (this_state w') = QueryDetail_continues (this_state w)"
proof (cases "StageRefreshClick \<in> set (html_handlers (QueryDetail_render env (this_state w)))")
  case True
  then obtain q where q: "qd_query (this_state w) = Some q"
    by (cases "qd_query (this_state w)") (auto simp: QueryDetail_render_def html_el dom_simps split: if_splits)
  have "detail_ok env ((this_state w)\<lparr>stageRefresh := b, lastSnapshotStages := v\<rparr>)"
      "detail_ok env ((this_state w)\<lparr>stageRefresh := b\<rparr>)" for b v
    using assms by (simp_all add: detail_ok_def latest_def)
  with True q assms show ?thesis
    by (simp add: QueryDetail_click_def handleStageRefreshClick_def setState_ok QueryDetail_continues_def)
      (simp add: loop_simps)
qed (use assms in \<open>simp add: QueryDetail_click_def\<close>)

definition QueryDetail_responses :: "detail_page \<Rightarrow> (query_detail page \<Rightarrow> query_detail page throws) set" where
  "QueryDetail_responses env = {QueryDetail_fail env now below | now below. True}
     \<union> {QueryDetail_success env now below q | now below q. shows_query env q}"

definition QueryDetail_clicks :: "detail_page \<Rightarrow> (query_detail page \<Rightarrow> query_detail page throws) set" where
  "QueryDetail_clicks env = {QueryDetail_click env now below | now below. True}"

interpretation qd: poller QueryDetail_refreshLoop "QueryDetail_responses env" "QueryDetail_clicks env"
  QueryDetail_continues "detail_ok env" for env
proof unfold_locales
  fix w :: "query_detail page"
  show "slot (QueryDetail_refreshLoop w) = clearTimeout (slot w) \<and> inflight (QueryDetail_refreshLoop w) = inflight w + 1
    \<and> QueryDetail_continues (this_state (QueryDetail_refreshLoop w)) = QueryDetail_continues (this_state w)
    \<and> (detail_ok env (this_state w) \<longrightarrow> detail_ok env (this_state (QueryDetail_refreshLoop w)))"
    by (simp add: QueryDetail_refreshLoop_def loop_simps)
next
  fix r and w :: "query_detail page"
  assume r: "r \<in> QueryDetail_responses env" and w: "detail_ok env (this_state w)"
  have "\<exists>s w'. r w = Some w' \<and> detail_ok env s \<and> settled w s w'"
  proof -
    from r consider now below where "r = QueryDetail_fail env now below"
      | now below q where "r = QueryDetail_success env now below q" "shows_query env q"
      by (auto simp: QueryDetail_responses_def)
    then show ?thesis
    proof cases
      case (1 now below)
      have "detail_ok env (drawn now ((this_state w)\<lparr>initialized := True\<rparr>))" using w by simp
      then show ?thesis using fail_settles [OF w, of now below] unfolding 1 by blast
    next
      case (2 now below q)
      then show ?thesis using success_settles [OF w] refreshed_ok [OF w] by blast
    qed
  qed
  then show "\<exists>w'. r w = Some w' \<and> inflight w' = inflight w \<and> detail_ok env (this_state w')
    \<and> slot w' = (if QueryDetail_continues (this_state w') then setTimeout (clearTimeout (slot w)) else clearTimeout (slot w))"
    by (auto simp: settled_def)
next
  fix e and w :: "query_detail page"
  assume "e \<in> QueryDetail_clicks env" and "detail_ok env (this_state w)"
  then show "\<exists>w'. e w = Some w' \<and> inflight w' = inflight w \<and> slot w' = slot w \<and> detail_ok env (this_state w')
    \<and> QueryDetail_continues (this_state w') = QueryDetail_continues (this_state w)"
    using click_handled by (auto simp: QueryDetail_clicks_def)
qed

section \<open>Histories\<close>

definition histories :: "query_detail \<Rightarrow> val list list" where
  "histories s = [scheduledTimeRate s, cpuTimeRate s, rowInputRate s, byteInputRate s, physicalInputRate s, reservedMemory s]"

lemma histories_keep:
  "histories (drawn now s) = histories s" "histories (QueryDetail_received now q s) = histories s"
  "histories (s\<lparr>initialized := b\<rparr>) = histories s" "histories (s\<lparr>stageRefresh := b\<rparr>) = histories s"
  "histories (s\<lparr>stageRefresh := b, lastSnapshotStages := v\<rparr>) = histories s"
  by (simp_all add: histories_def drawn_def QueryDetail_received_def Let_def)

text \<open>An invariant of the histories: only a measurement changes them.\<close>

lemma clicks_keep_histories:
  assumes "e \<in> QueryDetail_clicks env" and "detail_ok env (this_state w)" and "e w = Some w'"
  shows "detail_ok env (this_state w') \<and> histories (this_state w') = histories (this_state w)"
proof -
  obtain now below where e: "e = QueryDetail_click env now below" using assms(1) by (auto simp: QueryDetail_clicks_def)
  have "detail_ok env ((this_state w)\<lparr>stageRefresh := b, lastSnapshotStages := v\<rparr>)"
      "detail_ok env ((this_state w)\<lparr>stageRefresh := b\<rparr>)" for b v
    using assms(2) by (simp_all add: detail_ok_def latest_def)
  then have "histories (this_state w') = histories (this_state w)"
    using assms(2,3)
    by (auto simp: e QueryDetail_click_def handleStageRefreshClick_def setState_ok histories_keep bind_eq_Some_conv split: if_splits)
  moreover have "detail_ok env (this_state w')" using click_handled [OF assms(2), of now below] assms(3) e by auto
  ultimately show ?thesis by simp
qed

lemma histories_invariant:
  assumes reach: "reachable QueryDetail_refreshLoop (QueryDetail_responses env) (QueryDetail_clicks env) QueryDetail_init w"
    and init: "P (histories QueryDetail_init)"
    and measured: "\<And>now q old s. shows_query env q \<Longrightarrow> P (histories s) \<Longrightarrow> P (histories (QueryDetail_measured now q old s))"
  shows "P (histories (this_state w))"
proof -
  have refreshed: "P (histories (refreshed now q s))" if "shows_query env q" "P (histories s)" for now q s
    using that measured [of q "drawn now (QueryDetail_received now q s)" now s] by (simp add: refreshed_def Let_def histories_keep)
  have responses: "detail_ok env (this_state w') \<and> P (histories (this_state w'))"
    if "r \<in> QueryDetail_responses env" and ok: "detail_ok env (this_state w)" and "P (histories (this_state w))" and "r w = Some w'" for r w w'
  proof -
    from that(1) consider now below where "r = QueryDetail_fail env now below"
      | now below q where "r = QueryDetail_success env now below q" "shows_query env q" by (auto simp: QueryDetail_responses_def)
    then show ?thesis
    proof cases
      case (1 now below)
      then have "this_state w' = drawn now ((this_state w)\<lparr>initialized := True\<rparr>)"
        using fail_settles [OF ok, of now below] that(4) by (auto simp: settled_def)
      with that(2,3) show ?thesis by (simp add: histories_keep)
    next
      case (2 now below q)
      then have "this_state w' = refreshed now q (this_state w)"
        using success_settles [OF ok, of q now below] that(4) by (auto simp: settled_def)
      with that(2,3) 2(2) show ?thesis by (simp add: refreshed_ok refreshed)
    qed
  qed
  have "detail_ok env (this_state w) \<and> P (histories (this_state w))"
  proof (rule reachable_invariant [OF reach, where P = "\<lambda>s. detail_ok env s \<and> P (histories s)"])
    show "detail_ok env QueryDetail_init \<and> P (histories QueryDetail_init)"
      using init by (simp add: detail_ok_def QueryDetail_init_def latest_def)
  qed (auto simp: QueryDetail_refreshLoop_def loop_simps dest: responses clicks_keep_histories)
  then show ?thesis ..
qed

section \<open>Properties of the page\<close>

text \<open>C2. In every page reached while the server answers with queries the page can show, also when the user clicks the
  refresh button at any moment and whatever state the stages below are in, the page is never removed, it renders with all its components, and exactly one refresh is
  under way until the final information about the query has arrived, none afterwards.\<close>

theorem QueryDetail_refreshes:
  assumes "reachable QueryDetail_refreshLoop (QueryDetail_responses env) (QueryDetail_clicks env) QueryDetail_init w"
  shows "activity w = (if qd_query (this_state w) \<noteq> None \<and> queryEnded (this_state w) then 0 else 1)
    \<and> \<not> unmounted (this_state w) \<and> renders (QueryDetail_render env (this_state w))
    \<and> list_all (detail_part_ok env now summaries) (html_components (QueryDetail_render env (this_state w)))"
proof -
  have "detail_ok env QueryDetail_init" "QueryDetail_continues QueryDetail_init"
    by (simp_all add: detail_ok_def QueryDetail_init_def QueryDetail_continues_def latest_def)
  then have "one_loop QueryDetail_continues w" and ok: "detail_ok env (this_state w)"
    using qd.one_loop_reachable [OF assms] by blast+
  then have "activity w = (if qd_query (this_state w) \<noteq> None \<and> queryEnded (this_state w) then 0 else 1)"
    by (simp add: one_loop_def QueryDetail_continues_def)
  with ok detail_ok_renders [OF ok] show ?thesis by (simp add: detail_ok_def)
qed

definition sample_detail_query :: "string \<Rightarrow> detail_query" where
  "sample_detail_query st = \<lparr>queryId = ''q1'', state = st, scheduled = True, memoryPool = None, errorType = None, errorCode = None,
     queryStats = \<lparr>totalDrivers = Fin 1, runningDrivers = Fin 1, fullyBlocked = False, blockedReasons = [], progressPercentage = Undefined,
       qs_createTime = ''2020-01-01T00:00:00.000Z'', qs_endTime = None, qs_elapsedTime = ''1.00s'', qs_queuedTime = ''1.00s'',
       qs_analysisTime = ''1.00s'', qs_planningTime = ''1.00s'', qs_executionTime = ''1.00s'', qs_totalCpuTime = ''1.00s'',
       qs_failedCpuTime = ''1.00s'', qs_totalScheduledTime = ''1.00s'', qs_failedScheduledTime = ''1.00s'',
       qs_processedInputPositions = Fin 0, qs_failedProcessedInputPositions = Fin 0, qs_processedInputDataSize = ''0B'',
       qs_failedProcessedInputDataSize = ''0B'', qs_physicalInputPositions = Fin 0, qs_failedPhysicalInputPositions = Fin 0,
       qs_physicalInputDataSize = ''0B'', qs_failedPhysicalInputDataSize = ''0B'', qs_physicalInputReadTime = ''1.00s'',
       qs_failedPhysicalInputReadTime = ''1.00s'', qs_internalNetworkInputPositions = Fin 0,
       qs_failedInternalNetworkInputPositions = Fin 0, qs_internalNetworkInputDataSize = ''0B'',
       qs_failedInternalNetworkInputDataSize = ''0B'', qs_peakUserMemoryReservation = ''0B'',
       qs_peakRevocableMemoryReservation = ''0B'', qs_peakTotalMemoryReservation = ''0B'', qs_cumulativeUserMemory = Fin 0,
       qs_failedCumulativeUserMemory = Fin 0, qs_outputPositions = Fin 0, qs_failedOutputPositions = Fin 0,
       qs_outputDataSize = ''0B'', qs_failedOutputDataSize = ''0B'', qs_writtenPositions = Fin 0,
       qs_logicalWrittenDataSize = ''0B'', qs_physicalWrittenDataSize = ''0B'', qs_failedPhysicalWrittenDataSize = ''0B'',
       qs_spilledDataSize = ''0B'', qs_totalMemoryReservation = ''0B''\<rparr>,
     session = \<lparr>se_user = ''u'', se_principal = None, se_source = None, se_catalog = None, se_schema = None, timeZone = ''UTC'',
       se_remoteUserAddress = None, clientTags = [], systemProperties = [], catalogProperties = [],
       resourceEstimates = [(''executionTime'', ''1.00h'')]\<rparr>,
     resourceGroupId = None, retryPolicy = ''NONE'', query_text = ''SELECT 1'', preparedQuery = None, warnings = [], failureInfo = None,
     outputStage = Is (Stage sample_stage_info []), finalQueryInfo = (st = ''FINISHED'')\<rparr>"

definition sample_detail_page :: detail_page where
  "sample_detail_page = \<lparr>search = ''?q1'', pathname = ''/ui/query.html'', url = (\<lambda>u. Some (''h'', ''8080'')), tz = (\<lambda>t. 0)\<rparr>"

lemma sample_sizes: "parseDataSize ''1B'' \<noteq> None" "parseDataSize ''0B'' \<noteq> None"
  by code_simp+

lemma sample_shows_query: "shows_query sample_detail_page (sample_detail_query st)"
  using sample_sizes
  by (simp add: shows_query_def sample_detail_query_def displayable_def explained_def tree_ok_def task_ok_def sample_stage_info_def sample_task_def
      sample_detail_page_def)

theorem QueryDetail_refreshes_witness:
  "activity (run (QueryDetail_success sample_detail_page (Fin 5000) (\<lambda>i. StageSummary_init) (sample_detail_query ''RUNNING''))
     ((QueryDetail_refreshLoop (mounted QueryDetail_init))\<lparr>inflight := 0\<rparr>)) = 1"
proof -
  let ?q = "sample_detail_query ''RUNNING''" and ?env = sample_detail_page
  let ?r = "QueryDetail_success ?env (Fin 5000) (\<lambda>i. StageSummary_init) ?q"
  let ?w = "(QueryDetail_refreshLoop (mounted QueryDetail_init))\<lparr>inflight := 0\<rparr>"
  have "?r \<in> QueryDetail_responses ?env" unfolding QueryDetail_responses_def using sample_shows_query by blast
  then have r: "reachable QueryDetail_refreshLoop (QueryDetail_responses ?env) (QueryDetail_clicks ?env) QueryDetail_init (run ?r ?w)"
    by (rule reachable_first_response) (simp add: QueryDetail_refreshLoop_def loop_simps)
  have "detail_ok ?env (this_state ?w)"
    by (simp add: QueryDetail_refreshLoop_def QueryDetail_init_def loop_simps detail_ok_def latest_def)
  from success_settles [OF this sample_shows_query, of "Fin 5000" "\<lambda>i. StageSummary_init" "''RUNNING''"]
  have "queryEnded (this_state (run ?r ?w)) = finalQueryInfo ?q"
    by (auto simp: run_def settled_def refreshed_fields)
  with QueryDetail_refreshes [OF r] show ?thesis by (simp add: sample_detail_query_def)
qed

text \<open>C10. What the page shows after a response: the header of the new query, and the stages of the new query when the automatic
  refresh is on, those shown before when it is off, however many responses have arrived since.\<close>

theorem QueryDetail_stages_frozen:
  assumes "detail_ok env (this_state w)" and "shows_query env q"
  shows "\<exists>w'. QueryDetail_success env now summaries q w = Some w'
    \<and> html_components (QueryDetail_render env (this_state w')) = HeaderPart q
        # (let snapshot = (if stageRefresh (this_state w) then outputStage q else lastSnapshotStage (this_state w))
           in if snapshot = IsNull then [] else [StageListPart (field_option snapshot) (retryPolicy q = ''TASK'')])
    \<and> stageRefresh (this_state w') = stageRefresh (this_state w)"
proof -
  let ?s = "this_state w" and ?s' = "refreshed now q (this_state w)"
  obtain w' where w': "QueryDetail_success env now summaries q w = Some w'" "this_state w' = ?s'"
    using success_settles [OF assms] by (auto simp: settled_def)
  have "detail_ok env ?s'" using assms by (rule refreshed_ok)
  then have ok: "Null \<notin> set (latest ?s')" "explained q" using assms(2) by (simp_all add: detail_ok_def shows_query_def)
  show ?thesis using w' by (simp add: QueryDetail_render_def refreshed_fields body_contains [OF ok] Let_def)
qed

theorem QueryDetail_stages_frozen_witness:
  "\<exists>w'. QueryDetail_success sample_detail_page (Fin 5000) (\<lambda>i. StageSummary_init) (sample_detail_query ''RUNNING'')
      (mounted (QueryDetail_init\<lparr>stageRefresh := False\<rparr>)) = Some w'
    \<and> html_components (QueryDetail_render sample_detail_page (this_state w'))
      = [HeaderPart (sample_detail_query ''RUNNING''), StageListPart None False]"
proof -
  let ?w = "mounted (QueryDetail_init\<lparr>stageRefresh := False\<rparr>)"
  have "detail_ok sample_detail_page (this_state ?w)" by (simp add: loop_simps QueryDetail_init_def detail_ok_def latest_def)
  from QueryDetail_stages_frozen [OF this sample_shows_query, of "Fin 5000" "\<lambda>i. StageSummary_init" "''RUNNING''"] show ?thesis
    by (auto simp: loop_simps QueryDetail_init_def field_option_def) (simp add: sample_detail_query_def)
qed

text \<open>C34. The six histories of the page always have the same length, so that the values at one place of the sparklines belong to the same measurement. (The responses are
  failed requests and queries the page can show.)\<close>

theorem QueryDetail_histories_aligned:
  assumes "reachable QueryDetail_refreshLoop (QueryDetail_responses env) (QueryDetail_clicks env) QueryDetail_init w"
  shows "\<exists>n. \<forall>h \<in> {scheduledTimeRate (this_state w), cpuTimeRate (this_state w), rowInputRate (this_state w),
    byteInputRate (this_state w), physicalInputRate (this_state w), reservedMemory (this_state w)}. length h = n"
proof -
  let ?P = "\<lambda>hs :: val list list. \<exists>n. \<forall>h \<in> set hs. length h = n"
  have "?P (histories (this_state w))"
    using assms
  proof (rule histories_invariant)
    show "?P (histories QueryDetail_init)" by (auto simp: histories_def QueryDetail_init_def)
    fix now q old s
    assume "?P (histories s)"
    then obtain n where "\<forall>h \<in> set (histories s). length h = n" by auto
    then have "\<forall>h \<in> set (histories (QueryDetail_measured now q old s)). length h = min (MAX_HISTORY + 1) (Suc n)"
      by (simp add: histories_def QueryDetail_measured_def Let_def plain.add_length_min)
    then show "?P (histories (QueryDetail_measured now q old s))" by blast
  qed
  then show ?thesis by (simp add: histories_def)
qed

text \<open>A page opened on a query that has finished, after the response.\<close>

definition finished_page :: "query_detail page" where
  "finished_page = run (QueryDetail_success sample_detail_page (Fin 5000) (\<lambda>i. StageSummary_init) (sample_detail_query ''FINISHED''))
     ((QueryDetail_refreshLoop (mounted QueryDetail_init))\<lparr>inflight := 0\<rparr>)"

lemma finished_page_reachable:
  "reachable QueryDetail_refreshLoop (QueryDetail_responses sample_detail_page) (QueryDetail_clicks sample_detail_page) QueryDetail_init finished_page"
  unfolding finished_page_def
proof (rule reachable_first_response)
  show "QueryDetail_success sample_detail_page (Fin 5000) (\<lambda>i. StageSummary_init) (sample_detail_query ''FINISHED'') \<in> QueryDetail_responses sample_detail_page"
    unfolding QueryDetail_responses_def using sample_shows_query by blast
qed (simp add: QueryDetail_refreshLoop_def loop_simps)

lemma first_measurement:
  assumes "shows_query env q" and "state q \<noteq> ''RUNNING''" and "elapsedSecs now q QueryDetail_init \<ge> Fin 0"
  shows "\<exists>w'. QueryDetail_success env now summaries q ((QueryDetail_refreshLoop (mounted QueryDetail_init))\<lparr>inflight := 0\<rparr>) = Some w'
    \<and> settled ((QueryDetail_refreshLoop (mounted QueryDetail_init))\<lparr>inflight := 0\<rparr>) (refreshed now q QueryDetail_init) w'
    \<and> list_all (\<lambda>h. length h = 1) (histories (this_state w'))"
proof -
  let ?w = "(QueryDetail_refreshLoop (mounted QueryDetail_init))\<lparr>inflight := 0\<rparr>"
  have s: "this_state ?w = QueryDetail_init" by (simp add: QueryDetail_refreshLoop_def loop_simps)
  have "detail_ok env (this_state ?w)" unfolding s by (simp add: detail_ok_def QueryDetail_init_def latest_def)
  from success_settles [OF this assms(1), of now summaries]
  obtain w' where w': "QueryDetail_success env now summaries q ?w = Some w'" "settled ?w (refreshed now q QueryDetail_init) w'"
    unfolding s by blast
  have "QueryDetail_measures now q QueryDetail_init"
    using assms(2,3) by (simp add: QueryDetail_measures_def) (simp add: QueryDetail_init_def)
  then have "refreshed now q QueryDetail_init
      = QueryDetail_measured now q QueryDetail_init (drawn now (QueryDetail_received now q QueryDetail_init))"
    by (simp add: refreshed_def)
  then have "list_all (\<lambda>h. length h = 1) (histories (refreshed now q QueryDetail_init))"
    by (simp add: histories_def QueryDetail_measured_def Let_def plain.add_length_min drawn_def QueryDetail_received_def MAX_HISTORY_def)
      (simp add: QueryDetail_init_def)
  with w' show ?thesis by (auto simp: settled_def)
qed

lemma sample_elapsed: "elapsedSecs (Fin 5000) (sample_detail_query ''FINISHED'') QueryDetail_init \<ge> Fin 0"
  by code_simp

lemma finished_page_measured: "list_all (\<lambda>h. length h = 1) (histories (this_state finished_page))"
  using first_measurement [OF sample_shows_query _ sample_elapsed, of "\<lambda>i. StageSummary_init"]
  by (auto simp: finished_page_def run_def sample_detail_query_def)

theorem QueryDetail_histories_aligned_witness:
  "length (cpuTimeRate (this_state finished_page)) = length (reservedMemory (this_state finished_page)) \<and> reservedMemory (this_state finished_page) \<noteq> []"
  using QueryDetail_histories_aligned [OF finished_page_reachable] finished_page_measured by (auto simp: histories_def)

text \<open>C38. A page opened on a query that has already finished, one the page can show and with an elapsed time that is not negative, computes one measurement for each of the six histories, but its sparklines are drawn before that, with no
  values at all; and no request or timer is left that would draw them again.\<close>

theorem QueryDetail_finished_draws_empty:
  assumes "shows_query env q" and "finalQueryInfo q" and "state q \<noteq> ''RUNNING''" and "elapsedSecs now q QueryDetail_init \<ge> Fin 0"
  shows "\<exists>w'. QueryDetail_success env now summaries q ((QueryDetail_refreshLoop (mounted QueryDetail_init))\<lparr>inflight := 0\<rparr>) = Some w'
    \<and> list_all (\<lambda>h. length h = 1) [scheduledTimeRate (this_state w'), cpuTimeRate (this_state w'), rowInputRate (this_state w'),
        byteInputRate (this_state w'), physicalInputRate (this_state w'), reservedMemory (this_state w')]
    \<and> activity w' = 0
    \<and> sparklines (this_state w') = QueryDetail_sparklines QueryDetail_init @ [Tooltips, Clipboard ''.copy-button'']"
proof -
  let ?w = "(QueryDetail_refreshLoop (mounted QueryDetail_init))\<lparr>inflight := 0\<rparr>"
  obtain w' where w': "QueryDetail_success env now summaries q ?w = Some w'" "settled ?w (refreshed now q QueryDetail_init) w'"
      "list_all (\<lambda>h. length h = 1) (histories (this_state w'))"
    using first_measurement [OF assms(1,3,4)] by blast
  moreover have "QueryDetail_draws now QueryDetail_init" by (simp add: QueryDetail_draws_def QueryDetail_init_def)
  moreover have "activity w' = 0"
    using w'(2) assms(2)
    by (simp add: settled_def QueryDetail_continues_def refreshed_fields activity_def QueryDetail_refreshLoop_def loop_simps)
  ultimately show ?thesis using refreshed_sparklines [of now QueryDetail_init q] by (auto simp: settled_def histories_def)
qed

theorem QueryDetail_finished_draws_empty_witness:
  "\<exists>w'. QueryDetail_success sample_detail_page (Fin 5000) (\<lambda>i. StageSummary_init) (sample_detail_query ''FINISHED'')
      ((QueryDetail_refreshLoop (mounted QueryDetail_init))\<lparr>inflight := 0\<rparr>) = Some w'
    \<and> length (scheduledTimeRate (this_state w')) = 1 \<and> activity w' = 0"
  using QueryDetail_finished_draws_empty [OF sample_shows_query _ _ sample_elapsed, of "\<lambda>i. StageSummary_init"]
  by (auto simp: sample_detail_query_def)





section \<open>Resource estimates\<close>

definition snake :: "string \<Rightarrow> string" where
  "snake s = concat (map (\<lambda>c. if is_upper c then [CHR ''_'', lower_char c] else [c]) s)"

lemma lower_not_upper: "\<not> is_upper (lower_char c)"
  by (simp add: lower_char_def is_upper_def code_def)

lemma snake_no_upper: "is_upper c \<Longrightarrow> c \<notin> set (snake s)"
  using lower_not_upper by (auto simp: snake_def is_upper_def code_def split: if_splits)

lemma snake_loop:
  "foldl (\<lambda>r c. replace_first r [c] (''_'' @ toLowerCase [c])) (snake done_part @ rest) (filter is_upper rest) = snake (done_part @ rest)"
proof (induction rest arbitrary: done_part)
  case (Cons c rest)
  show ?case
  proof (cases "is_upper c")
    case True
    then have "replace_first (snake done_part @ c # rest) [c] (''_'' @ toLowerCase [c]) = snake (done_part @ [c]) @ rest"
      using snake_no_upper [of c done_part] by (simp add: replace_first_single) (simp add: snake_def toLowerCase_def)
    with True Cons.IH [of "done_part @ [c]"] show ?thesis by simp
  next
    case False
    with Cons.IH [of "done_part @ [c]"] show ?thesis by (simp add: snake_def)
  qed
qed (simp add: snake_def)

text \<open>The names of resource estimates are turned from camel case to snake case: the loop of single replacements puts an underscore and the lower-case
  letter for every upper-case letter, also when a letter occurs several times.\<close>

theorem snakeCased_replaces_all:
  "snakeCased resource = concat (map (\<lambda>c. if is_upper c then [CHR ''_'', lower_char c] else [c]) resource)"
  using snake_loop [of "[]" resource] by (simp add: snakeCased_def snake_def)

end
