(* ===== verification/Refinement.thy ===== *)
theory Refinement
  imports Polling
begin

text \<open>
  Refinement of a page by a more detailed one: both are run by the browser of \<open>Polling\<close>, and a function \<open>h\<close> forgets the details.
  The interface \<open>page_refinement\<close> asks that every callback of the detailed page does to the abstract one what one of its own callbacks does, or, for an event the
  abstract page knows nothing of, nothing at all; every reachable detailed page is then a reachable abstract one.
\<close>

definition abs_page :: "('s \<Rightarrow> 't) \<Rightarrow> 's page \<Rightarrow> 't page" where
  "abs_page h w = \<lparr>this_state = h (this_state w), slot = slot w, inflight = inflight w\<rparr>"

lemma abs_page_simps [loop_simps]:
  "this_state (abs_page h w) = h (this_state w)" "slot (abs_page h w) = slot w" "inflight (abs_page h w) = inflight w"
  "abs_page h (w\<lparr>slot := t\<rparr>) = (abs_page h w)\<lparr>slot := t\<rparr>" "abs_page h (w\<lparr>inflight := n\<rparr>) = (abs_page h w)\<lparr>inflight := n\<rparr>"
  "abs_page h (mounted s) = mounted (h s)"
  by (simp_all add: abs_page_def mounted_def)

lemma abs_page_eqI:
  "h (this_state w) = this_state v \<Longrightarrow> slot w = slot v \<Longrightarrow> inflight w = inflight v \<Longrightarrow> abs_page h w = v"
  by (cases v) (simp add: abs_page_def)

locale page_refinement =
  fixes h :: "'s \<Rightarrow> 't"
    and loop :: "'s page \<Rightarrow> 's page"
    and responses :: "('s page \<Rightarrow> 's page throws) set"
    and events :: "('s page \<Rightarrow> 's page throws) set"
    and loop' :: "'t page \<Rightarrow> 't page"
    and responses' :: "('t page \<Rightarrow> 't page throws) set"
    and events' :: "('t page \<Rightarrow> 't page throws) set"
    and inv :: "'s \<Rightarrow> bool"
  assumes loop_refines: "abs_page h (loop w) = loop' (abs_page h w)"
    and loop_inv: "inv (this_state w) \<Longrightarrow> inv (this_state (loop w))"
    and response_refines: "r \<in> responses \<Longrightarrow> inv (this_state w) \<Longrightarrow>
      inv (this_state (run r w)) \<and> (\<exists>r' \<in> responses'. abs_page h (run r w) = run r' (abs_page h w))"
    and event_refines: "e \<in> events \<Longrightarrow> inv (this_state w) \<Longrightarrow>
      inv (this_state (run e w))
      \<and> (abs_page h (run e w) = abs_page h w \<or> (\<exists>e' \<in> events'. abs_page h (run e w) = run e' (abs_page h w)))"
begin

lemma step_refines:
  assumes "browser_step loop responses events w w'" and "inv (this_state w)"
  shows "inv (this_state w') \<and> (abs_page h w' = abs_page h w \<or> browser_step loop' responses' events' (abs_page h w) (abs_page h w'))"
  using assms(1)
proof (cases rule: browser_step.cases)
  case (fire i)
  then show ?thesis
    using assms(2) browser_step.fire [of i "abs_page h w" loop' responses' events'] by (simp add: loop_refines loop_inv loop_simps)
next
  case (respond r)
  with response_refines [of r "w\<lparr>inflight := inflight w - 1\<rparr>"] assms(2)
  obtain r' where "r' \<in> responses'" "inv (this_state w')" "abs_page h w' = run r' (abs_page h (w\<lparr>inflight := inflight w - 1\<rparr>))" by auto
  then show ?thesis
    using browser_step.respond [of "abs_page h w" r' responses' loop' events'] respond(2) by (simp add: loop_simps)
next
  case (user e)
  with event_refines [of e w] assms(2) show ?thesis by (auto intro: browser_step.user)
qed

theorem reachable_refines:
  assumes "reachable loop responses events s w" and "inv s"
  shows "reachable loop' responses' events' (h s) (abs_page h w) \<and> inv (this_state w)"
  using assms
proof (induction rule: reachable.induct)
  case mount
  then show ?case
    using loop_inv [of "mounted s"] reachable.mount [of loop' responses' events' "h s"] by (simp add: loop_refines loop_simps)
next
  case (step w w')
  then show ?case using step_refines [OF step.hyps(2)] by (auto intro: reachable.step)
qed

end

section \<open>Components side by side\<close>

text \<open>A page with two components that do not share any state: each step is a step of one of them.\<close>

inductive either :: "('a \<Rightarrow> 'a \<Rightarrow> bool) \<Rightarrow> ('b \<Rightarrow> 'b \<Rightarrow> bool) \<Rightarrow> 'a \<times> 'b \<Rightarrow> 'a \<times> 'b \<Rightarrow> bool" for f g where
  first: "f a a' \<Longrightarrow> either f g (a, b) (a', b)"
| second: "g b b' \<Longrightarrow> either f g (a, b) (a, b')"

inductive_cases eitherE: "either f g (a, b) q"

lemma either_steps: "(either f g)\<^sup>*\<^sup>* (a, b) (a', b') \<Longrightarrow> f\<^sup>*\<^sup>* a a' \<and> g\<^sup>*\<^sup>* b b'"
proof (induction "(a', b')" arbitrary: a' b' rule: rtranclp_induct)
  case (step y)
  obtain c d where y: "y = (c, d)" by fastforce
  from step.hyps(2) show ?case
    unfolding y by (rule eitherE) (use step.hyps(3) [OF y] in \<open>auto intro: rtranclp.rtrancl_into_rtrancl\<close>)
qed simp

lemma reachable_steps:
  "(browser_step loop responses events)\<^sup>*\<^sup>* (loop (mounted s)) w \<Longrightarrow> reachable loop responses events s w"
  by (induction rule: rtranclp_induct) (auto intro: reachable.intros)

end
