(* ===== verification/QueryPageSpec.thy ===== *)
theory QueryPageSpec
  imports QueryPage QueryDetailSpec Refinement
begin

text \<open>
  The page \<open>query.html\<close> with its stages refines the component \<open>QueryDetail\<close> alone, so that what is proved of the latter holds of the page; the stages
  keep what the user chose as long as they are listed; and every chart has its own place in the document.
\<close>

section \<open>What an update keeps\<close>

definition choice :: "stage_summary \<Rightarrow> bool \<times> task_filter" where
  "choice st = (expanded st, taskFilter st)"

lemma update_stage_choice [simp]: "choice (fst (update_stage now stage st)) = choice st"
proof -
  obtain stage' st' charts where u: "StageSummary_componentDidUpdate now stage st = Some (stage', st', charts)"
    using StageSummary_update_total [of now stage st] by auto
  then have "expanded st' = expanded st \<and> taskFilter st' = taskFilter st"
    by (auto simp: StageSummary_componentDidUpdate_def split: if_splits bind_splits)
  with u show ?thesis by (simp add: update_stage_def choice_def)
qed

definition choices :: "(string \<times> stage_summary) list \<Rightarrow> (string \<times> bool \<times> task_filter) list" where
  "choices states = map (\<lambda>(i, st). (i, choice st)) states"

lemma reconcile_choices:
  "choices (reconcile now stages states) = map (\<lambda>stage. (stageId stage, choice (state_of states (stageId stage)))) stages"
  by (simp add: choices_def reconcile_def state_of_def split: option.splits)

lemma map_of_choices: "map_of (choices states) i = map_option choice (map_of states i)"
  by (induction states) (auto simp: choices_def)

lemma state_of_reconcile:
  assumes "i \<in> stageId ` set stages"
  shows "choice (state_of (reconcile now stages states) i) = choice (state_of states i)"
proof -
  have "map_of (choices (reconcile now stages states)) i = Some (choice (state_of states i))"
    unfolding reconcile_choices using assms by (induction stages) auto
  then show ?thesis by (auto simp: map_of_choices state_of_def split: option.splits)
qed

lemma reconcile_twice:
  "choices (reconcile now' stages (reconcile now stages states)) = choices (reconcile now stages states)"
  unfolding reconcile_choices by (simp add: state_of_reconcile)

lemma reconcile_keys [simp]: "map fst (reconcile now stages states) = map stageId stages"
  by (simp add: reconcile_def)

section \<open>Updates of the page\<close>

text \<open>The stages held are those rendered.\<close>

definition in_sync :: "query_page \<Rightarrow> bool" where
  "in_sync p \<longleftrightarrow> list_key p = shown_key (page_detail p) \<and> map fst (stage_states p) = map stageId (shown_stages (page_detail p))"

definition page_ok :: "detail_page \<Rightarrow> query_page \<Rightarrow> bool" where
  "page_ok env p \<longleftrightarrow> detail_ok env (page_detail p) \<and> in_sync p"

lemma shown_drawn [simp]: "shown_list (drawn now d) = shown_list d" "shown_key (drawn now d) = shown_key d" "shown_stages (drawn now d) = shown_stages d"
proof -
  show "shown_list (drawn now d) = shown_list d" by (cases "qd_query d") (simp_all add: shown_list_def)
  then show "shown_key (drawn now d) = shown_key d" "shown_stages (drawn now d) = shown_stages d"
    by (simp_all add: shown_key_def shown_stages_def)
qed

lemma commit_ok:
  assumes "detail_ok env d"
  shows "page_detail (QueryPage_commit env now d p) = drawn now d" "list_key (QueryPage_commit env now d p) = shown_key d"
    "page_ok env (QueryPage_commit env now d p)"
    "choices (stage_states (QueryPage_commit env now d p)) =
       map (\<lambda>stage. (stageId stage, choice (state_of (kept_states d p) (stageId stage)))) (shown_stages d)"
proof -
  have "\<not> unmounted (drawn now d)" using assms by (simp add: detail_ok_def)
  then have c: "QueryPage_commit env now d p = p\<lparr>page_detail := drawn now d, list_key := shown_key d,
      stage_states := (if QueryDetail_draws now d
        then reconcile now (shown_stages d) (reconcile now (shown_stages d) (kept_states d p))
        else reconcile now (shown_stages d) (kept_states d p))\<rparr>"
    by (simp add: QueryPage_commit_def Let_def detail_ok_commit [OF assms])
  show "page_detail (QueryPage_commit env now d p) = drawn now d" "list_key (QueryPage_commit env now d p) = shown_key d"
    by (simp_all add: c)
  show "page_ok env (QueryPage_commit env now d p)" using assms by (simp add: c page_ok_def in_sync_def)
  show "choices (stage_states (QueryPage_commit env now d p)) =
      map (\<lambda>stage. (stageId stage, choice (state_of (kept_states d p) (stageId stage)))) (shown_stages d)"
    by (simp add: c reconcile_twice) (simp add: reconcile_choices)
qed

lemma QueryPage_setState_simps [loop_simps]:
  "this_state (QueryPage_setState env now f w) =
     (if unmounted (page_detail (this_state w)) then this_state w
      else QueryPage_commit env now (f (page_detail (this_state w))) (this_state w))"
  "slot (QueryPage_setState env now f w) = slot w" "inflight (QueryPage_setState env now f w) = inflight w"
  by (simp_all add: QueryPage_setState_def loop_simps)

lemma page_setState:
  assumes "page_ok env (this_state w)" and "detail_ok env (f (page_detail (this_state w)))"
  shows "this_state (QueryPage_setState env now f w) = QueryPage_commit env now (f (page_detail (this_state w))) (this_state w)"
    "page_ok env (this_state (QueryPage_setState env now f w))"
    "abs_page page_detail (QueryPage_setState env now f w) = QueryDetail_setState env now below f (abs_page page_detail w)"
proof -
  from assms have ok: "detail_ok env (page_detail (this_state w))" by (simp add: page_ok_def)
  then show c: "this_state (QueryPage_setState env now f w) = QueryPage_commit env now (f (page_detail (this_state w))) (this_state w)"
    by (simp add: loop_simps detail_ok_def)
  show "page_ok env (this_state (QueryPage_setState env now f w))" using assms(2) by (simp add: c commit_ok)
  show "abs_page page_detail (QueryPage_setState env now f w) = QueryDetail_setState env now below f (abs_page page_detail w)"
    using ok assms(2) by (intro abs_page_eqI) (simp_all add: c commit_ok setState_ok abs_page_simps QueryPage_setState_simps(2,3) QueryDetail_setState_simps(2,3))
qed

lemma unless_removed_ok [simp]: "page_ok env (this_state w') \<Longrightarrow> unless_removed w w' rest = rest w'"
  by (simp add: unless_removed_def page_ok_def detail_ok_def)

lemma page_ok_detail: "page_ok env (this_state w) \<Longrightarrow> detail_ok env (this_state (abs_page page_detail w))"
  by (simp add: page_ok_def loop_simps)

lemma resetTimer_page [simp]:
  "this_state (QueryPage_resetTimer w) = this_state w"
  "abs_page page_detail (QueryPage_resetTimer w) = QueryDetail_resetTimer (abs_page page_detail w)"
  by (simp add: QueryPage_resetTimer_def loop_simps)
    (simp add: QueryPage_resetTimer_def QueryDetail_resetTimer_def reset_timer_def clear_timer_def start_timer_def Let_def loop_simps)

text \<open>Every callback of the page does to \<open>QueryDetail\<close> what the callback of the component alone does.\<close>

lemma success_refines:
  assumes "page_ok env (this_state w)" and "shows_query env q"
  shows "\<exists>w'. QueryPage_success env now q w = Some w' \<and> page_ok env (this_state w')
    \<and> QueryDetail_success env now below q (abs_page page_detail w) = Some (abs_page page_detail w')"
proof -
  let ?d = "page_detail (this_state w)" and ?h = "abs_page page_detail"
  let ?w1 = "QueryPage_setState env now (QueryDetail_received now q) w"
  let ?w2 = "QueryPage_setState env now (QueryDetail_measured now q ?d) ?w1"
  have "detail_ok env (QueryDetail_received now q ?d)" using assms by (simp add: received_ok page_ok_def)
  note s1 = page_setState(2) [where f = "QueryDetail_received now q" and now = now, OF assms(1) this]
    page_setState(3) [where f = "QueryDetail_received now q" and now = now and below = below, OF assms(1) this]
  then have "detail_ok env (QueryDetail_measured now q ?d (page_detail (this_state ?w1)))"
    using assms(2) by (simp add: measured_ok page_ok_def)
  note s2 = page_setState(2) [where f = "QueryDetail_measured now q ?d" and now = now, OF s1(1) this]
    page_setState(3) [where f = "QueryDetail_measured now q ?d" and now = now and below = below, OF s1(1) this]
  note removed = unless_removed_ok [OF s1(1)] unless_removed_ok [OF s2(1)] then_unless_removed_ok [OF page_ok_detail [OF s1(1)]]
    then_unless_removed_ok [OF page_ok_detail [OF s2(1)]]
  show ?thesis
    using s1 s2 removed
    by (simp add: QueryPage_success_def QueryDetail_success_def Let_def abs_page_simps(1))
qed

lemma fail_refines:
  assumes "page_ok env (this_state w)"
  shows "\<exists>w'. QueryPage_fail env now w = Some w' \<and> page_ok env (this_state w')
    \<and> QueryDetail_fail env now below (abs_page page_detail w) = Some (abs_page page_detail w')"
proof -
  have "detail_ok env ((page_detail (this_state w))\<lparr>initialized := True\<rparr>)" using assms by (simp add: page_ok_def)
  note s1 = page_setState(2) [where f = "\<lambda>d. d\<lparr>initialized := True\<rparr>" and now = now, OF assms this]
    page_setState(3) [where f = "\<lambda>d. d\<lparr>initialized := True\<rparr>" and now = now and below = below, OF assms this]
  show ?thesis using s1 page_ok_detail [OF s1(1)] by (simp add: QueryPage_fail_def QueryDetail_fail_def Let_def)
qed

lemma click_keeps_ok: "detail_ok env d \<Longrightarrow> detail_ok env (d\<lparr>stageRefresh := b\<rparr>)"
    "detail_ok env d \<Longrightarrow> detail_ok env (d\<lparr>stageRefresh := b, lastSnapshotStages := v\<rparr>)"
  by (simp_all add: detail_ok_def latest_def)

lemma click_refines:
  assumes "page_ok env (this_state w)"
  shows "\<exists>w'. QueryPage_click env now w = Some w' \<and> page_ok env (this_state w')
    \<and> QueryDetail_click env now below (abs_page page_detail w) = Some (abs_page page_detail w')"
proof -
  let ?d = "page_detail (this_state w)"
  from assms have ok: "detail_ok env ?d" by (simp add: page_ok_def)
  note s = page_setState(2) [where f = "\<lambda>d. d\<lparr>stageRefresh := _\<rparr>" and now = now, OF assms click_keeps_ok(1) [OF ok]]
    page_setState(3) [where f = "\<lambda>d. d\<lparr>stageRefresh := _\<rparr>" and now = now and below = below, OF assms click_keeps_ok(1) [OF ok]]
    page_setState(2) [where f = "\<lambda>d. d\<lparr>stageRefresh := _, lastSnapshotStages := _\<rparr>" and now = now, OF assms click_keeps_ok(2) [OF ok]]
    page_setState(3) [where f = "\<lambda>d. d\<lparr>stageRefresh := _, lastSnapshotStages := _\<rparr>" and now = now and below = below, OF assms click_keeps_ok(2) [OF ok]]
  obtain w' where "QueryDetail_click env now below (abs_page page_detail w) = Some w'" 
    using click_handled [OF page_ok_detail [OF assms]] by blast
  then show ?thesis using s assms
    by (auto simp: QueryPage_click_def QueryDetail_click_def handleStageRefreshClick_def Let_def abs_page_simps(1) bind_eq_Some_conv split: if_splits)
qed

lemma shown_list_shown: "shown_list d = Some (k, stages, r) \<Longrightarrow> shown_stages d = stages"
  by (simp add: shown_stages_def)

lemma shown_stages_ok:
  assumes "detail_ok env d" and "stage \<in> set (shown_stages d)"
  shows "list_all (task_ok env) (tasks stage)"
proof -
  from assms(2) obtain t where "lastSnapshotStage d = Is t" "stage \<in> set (preorder t)"
    by (auto simp: shown_stages_def shown_list_def getStages_preorder field_option_def split: option.splits if_splits field.splits)
  with assms(1) show ?thesis by (auto simp: detail_ok_def tree_ok_def list_all_iff)
qed

text \<open>A click on a stage changes the state of that stage and nothing else of the page.\<close>

definition stage_clicked :: "jsnum \<Rightarrow> string \<Rightarrow> summary_action \<Rightarrow> stage_info \<Rightarrow> query_page \<Rightarrow> query_page" where
  "stage_clicked now i action stage p =
     p\<lparr>stage_states := AList.update i (fst (update_stage now stage (summary_handler action (state_of (stage_states p) i)))) (stage_states p)\<rparr>"

lemma update_keys: "i \<in> fst ` set xs \<Longrightarrow> map fst (AList.update i v xs) = map fst xs"
  by (induction xs) auto

lemma stage_clicked_ok:
  assumes "page_ok env p" and "i \<in> fst ` set (stage_states p)"
  shows "page_ok env (stage_clicked now i action stage p)" "page_detail (stage_clicked now i action stage p) = page_detail p"
  using assms by (simp_all add: page_ok_def in_sync_def stage_clicked_def update_keys)

lemma stageClick_cases:
  assumes "page_ok env (this_state w)"
  obtains "QueryPage_stageClick env now i action w = Some w"
  | stage where "stage \<in> set (shown_stages (page_detail (this_state w)))" "stageId stage = i" "i \<in> fst ` set (stage_states (this_state w))"
      "QueryPage_stageClick env now i action w = Some (setState (stage_clicked now i action stage) w)"
proof (cases "QueryPage_stageClick env now i action w = Some w")
  case False
  then obtain k stages r st stage where s: "shown_list (page_detail (this_state w)) = Some (k, stages, r)"
      "map_of (stage_states (this_state w)) i = Some st" "find (\<lambda>stage. stageId stage = i) stages = Some stage"
      "action \<in> set (html_handlers (StageSummary_render (Some stage) r st))" "\<not> unmounted (page_detail (this_state w))"
    by (auto simp: QueryPage_stageClick_def Let_def split: option.splits if_splits)
  then have stage: "stage \<in> set (shown_stages (page_detail (this_state w)))" "stageId stage = i"
    by (auto simp: shown_list_shown find_Some_iff)
  have "stage_ok env now (\<lambda>_. summary_handler action st) (stage, r)"
    using assms stage by (intro stage_ok_tasks) (auto simp: page_ok_def dest: shown_stages_ok)
  with s have "QueryPage_stageClick env now i action w = Some (setState (stage_clicked now i action stage) w)"
    by (simp add: QueryPage_stageClick_def Let_def stage_clicked_def state_of_def setState_def)
  moreover have "i \<in> fst ` set (stage_states (this_state w))" using s(2) by (force dest: map_of_SomeD)
  ultimately show thesis using stage that(2) by blast
qed (rule that(1))

lemma stageClick_refines:
  assumes "page_ok env (this_state w)"
  shows "\<exists>w'. QueryPage_stageClick env now i action w = Some w' \<and> page_ok env (this_state w') \<and> abs_page page_detail w' = abs_page page_detail w"
proof (cases rule: stageClick_cases [OF assms, of now i action])
  case (2 stage)
  then show ?thesis using stage_clicked_ok [OF assms 2(3)] by (auto simp: setState_def loop_simps intro!: abs_page_eqI)
qed (use assms in simp)

section \<open>Refinement\<close>

text \<open>The responses considered: requests that fail, and queries the page can show. A query it cannot show makes React remove the page.\<close>

definition QueryPage_responses :: "detail_page \<Rightarrow> (query_page page \<Rightarrow> query_page page throws) set" where
  "QueryPage_responses env = {QueryPage_fail env now | now. True} \<union> {QueryPage_success env now q | now q. shows_query env q}"

definition QueryPage_clicks :: "detail_page \<Rightarrow> (query_page page \<Rightarrow> query_page page throws) set" where
  "QueryPage_clicks env = {QueryPage_click env now | now. True} \<union> {QueryPage_stageClick env now i action | now i action. True}"

interpretation qp: page_refinement page_detail QueryPage_refreshLoop "QueryPage_responses env" "QueryPage_clicks env"
  QueryDetail_refreshLoop "QueryDetail_responses env" "QueryDetail_clicks env" "page_ok env" for env
proof unfold_locales
  fix w :: "query_page page"
  show "abs_page page_detail (QueryPage_refreshLoop w) = QueryDetail_refreshLoop (abs_page page_detail w)"
    by (simp add: QueryPage_refreshLoop_def QueryDetail_refreshLoop_def send_request_def clear_timer_def loop_simps)
  show "page_ok env (this_state w) \<Longrightarrow> page_ok env (this_state (QueryPage_refreshLoop w))"
    by (simp add: QueryPage_refreshLoop_def loop_simps)
next
  fix r and w :: "query_page page"
  assume "r \<in> QueryPage_responses env" and ok: "page_ok env (this_state w)"
  then consider now where "r = QueryPage_fail env now" | now q where "r = QueryPage_success env now q" "shows_query env q"
    by (auto simp: QueryPage_responses_def)
  then show "page_ok env (this_state (run r w)) \<and> (\<exists>r' \<in> QueryDetail_responses env. abs_page page_detail (run r w) = run r' (abs_page page_detail w))"
  proof cases
    case (1 now)
    with fail_refines [OF ok, of now "\<lambda>_. StageSummary_init"] show ?thesis
      by (auto simp: run_def QueryDetail_responses_def intro!: bexI [of _ "QueryDetail_fail env now (\<lambda>_. StageSummary_init)"])
  next
    case (2 now q)
    with success_refines [OF ok 2(2), of now "\<lambda>_. StageSummary_init"] show ?thesis
      by (auto simp: run_def QueryDetail_responses_def intro!: bexI [of _ "QueryDetail_success env now (\<lambda>_. StageSummary_init) q"])
  qed
next
  fix e and w :: "query_page page"
  assume "e \<in> QueryPage_clicks env" and ok: "page_ok env (this_state w)"
  then consider now where "e = QueryPage_click env now" | now i action where "e = QueryPage_stageClick env now i action"
    by (auto simp: QueryPage_clicks_def)
  then show "page_ok env (this_state (run e w)) \<and> (abs_page page_detail (run e w) = abs_page page_detail w
      \<or> (\<exists>e' \<in> QueryDetail_clicks env. abs_page page_detail (run e w) = run e' (abs_page page_detail w)))"
  proof cases
    case (1 now)
    with click_refines [OF ok, of now "\<lambda>_. StageSummary_init"] show ?thesis
      by (intro conjI disjI2 bexI [of _ "QueryDetail_click env now (\<lambda>_. StageSummary_init)"]) (auto simp: run_def QueryDetail_clicks_def)
  next
    case (2 now i action)
    with stageClick_refines [OF ok, of now i action] show ?thesis by (auto simp: run_def)
  qed
qed

lemma QueryPage_init_ok: "page_ok env QueryPage_init" "page_detail QueryPage_init = QueryDetail_init"
  by (simp_all add: page_ok_def in_sync_def QueryPage_init_def)
    (simp add: detail_ok_def QueryDetail_init_def latest_def shown_key_def shown_list_def shown_stages_def)

lemma reachable_page_ok:
  assumes "reachable QueryPage_refreshLoop (QueryPage_responses env) (QueryPage_clicks env) QueryPage_init w"
  shows "page_ok env (this_state w)"
  using qp.reachable_refines [OF assms QueryPage_init_ok(1)] by simp

text \<open>C3. The page with its stages refines the component \<open>QueryDetail\<close>. While requests fail or the server answers with queries the page can show (a failure has its error code and a
  printable trace, the memory of the query and the input of its tasks are sizes that can be read, the addresses of the tasks are URLs), and wherever the user clicks, on the refresh
  button or on any stage, every reachable page is a reachable page of \<open>QueryDetail\<close> alone, and the stages it holds are those it renders, under the key of the query shown.\<close>

theorem QueryPage_refines:
  assumes "reachable QueryPage_refreshLoop (QueryPage_responses env) (QueryPage_clicks env) QueryPage_init w"
  shows "reachable QueryDetail_refreshLoop (QueryDetail_responses env) (QueryDetail_clicks env) QueryDetail_init (abs_page page_detail w)
    \<and> list_key (this_state w) = shown_key (page_detail (this_state w))
    \<and> map fst (stage_states (this_state w)) = map stageId (shown_stages (page_detail (this_state w)))"
  using qp.reachable_refines [OF assms QueryPage_init_ok(1)] by (simp add: QueryPage_init_ok(2) page_ok_def in_sync_def)

section \<open>What the user chose\<close>

lemma choice_of_choices: "choice (state_of states i) = (case map_of (choices states) i of Some c \<Rightarrow> c | None \<Rightarrow> choice StageSummary_init)"
  by (simp add: map_of_choices state_of_def split: option.splits)

lemma map_of_stages: "i \<in> stageId ` set stages \<Longrightarrow> map_of (map (\<lambda>stage. (stageId stage, f (stageId stage))) stages) i = Some (f i)"
  by (induction stages) auto

lemma commit_choice:
  assumes "detail_ok env d" and "i \<in> stageId ` set (shown_stages d)"
  shows "choice (state_of (stage_states (QueryPage_commit env now d p)) i)
    = choice (if shown_key d = list_key p then state_of (stage_states p) i else StageSummary_init)"
proof -
  have "choice (state_of (stage_states (QueryPage_commit env now d p)) i) = choice (state_of (kept_states d p) i)"
    unfolding choice_of_choices [of "stage_states (QueryPage_commit env now d p)"] commit_ok(4) [OF assms(1)]
    by (simp add: map_of_stages [OF assms(2), where f = "\<lambda>i. choice (state_of (kept_states d p) i)"])
  then show ?thesis by (simp add: kept_states_def) (simp add: state_of_def)
qed

lemma shown_measured: "shown_list (QueryDetail_measured now q old d) = shown_list d"
  by (cases "qd_query d") (simp_all add: shown_list_def QueryDetail_measured_def Let_def)

lemma shown_cong: "shown_list d = shown_list d' \<Longrightarrow> shown_key d = shown_key d' \<and> shown_stages d = shown_stages d'"
  by (simp add: shown_key_def shown_stages_def)

text \<open>What a callback does to the choices for a stage that is listed after it: they are kept under the same key, and initial under a new one.\<close>

definition keeps_choice :: "string \<Rightarrow> query_page \<Rightarrow> query_page \<Rightarrow> bool" where
  "keeps_choice i p p' \<longleftrightarrow> (i \<in> stageId ` set (shown_stages (page_detail p'))
     \<longrightarrow> choice (state_of (stage_states p') i) = choice (if shown_key (page_detail p') = list_key p then state_of (stage_states p) i else StageSummary_init))"

lemma keeps_choice_same: "page_ok env p \<Longrightarrow> keeps_choice i p p"
  by (simp add: keeps_choice_def page_ok_def in_sync_def)

lemma setState_keeps_choice:
  assumes "page_ok env (this_state w)" and "detail_ok env (f (page_detail (this_state w)))"
  shows "keeps_choice i (this_state w) (this_state (QueryPage_setState env now f w))"
  using commit_choice [OF assms(2)] unfolding keeps_choice_def page_setState(1) [where f = f, OF assms] by (simp add: commit_ok assms(2))

lemma success_keeps_choice:
  assumes "page_ok env (this_state w)" and "shows_query env q" and "QueryPage_success env now q w = Some w'"
  shows "keeps_choice i (this_state w) (this_state w')"
proof -
  let ?d = "page_detail (this_state w)"
  let ?w1 = "QueryPage_setState env now (QueryDetail_received now q) w"
  let ?w2 = "QueryPage_setState env now (QueryDetail_measured now q ?d) ?w1"
  have d1: "detail_ok env (QueryDetail_received now q ?d)" using assms by (simp add: received_ok page_ok_def)
  have ok1: "page_ok env (this_state ?w1)" by (rule page_setState(2)) (rule assms d1)+
  have keep1: "keeps_choice i (this_state w) (this_state ?w1)" by (rule setState_keeps_choice) (rule assms d1)+
  from ok1 assms(2) have d2: "detail_ok env (QueryDetail_measured now q ?d (page_detail (this_state ?w1)))" by (simp add: measured_ok page_ok_def)
  have ok2: "page_ok env (this_state ?w2)" by (rule page_setState(2)) (rule ok1 d2)+
  have keep2: "keeps_choice i (this_state ?w1) (this_state ?w2)" by (rule setState_keeps_choice) (rule ok1 d2)+
  have "page_detail (this_state ?w2) = drawn now (QueryDetail_measured now q ?d (page_detail (this_state ?w1)))"
    unfolding page_setState(1) [where f = "QueryDetail_measured now q ?d", OF ok1 d2] by (rule commit_ok(1)) (rule d2)
  then have "shown_list (page_detail (this_state ?w2)) = shown_list (page_detail (this_state ?w1))" by (simp add: shown_measured)
  with keep1 keep2 ok1 have "keeps_choice i (this_state w) (this_state ?w2)"
    by (auto simp: keeps_choice_def page_ok_def in_sync_def dest!: shown_cong)
  with keep1 assms(3) show ?thesis
    by (auto simp: QueryPage_success_def Let_def unless_removed_ok [OF ok1] unless_removed_ok [OF ok2] split: if_splits)
qed

lemma stage_clicked_choice:
  "choice (state_of (stage_states (stage_clicked now j action stage p)) i) =
     (if i = j then choice (summary_handler action (state_of (stage_states p) i)) else choice (state_of (stage_states p) i))"
  by (simp add: stage_clicked_def state_of_def update_conv' split: option.splits)

lemma respond_keeps_choice:
  assumes "page_ok env (this_state w)" and "r \<in> QueryPage_responses env"
  shows "keeps_choice i (this_state w) (this_state (run r w))"
  using assms(2) unfolding QueryPage_responses_def
proof (elim UnE CollectE exE conjE)
  fix now
  assume r: "r = QueryPage_fail env now"
  have ok: "detail_ok env ((page_detail (this_state w))\<lparr>initialized := True\<rparr>)" using assms(1) by (simp add: page_ok_def)
  note set = setState_keeps_choice [where f = "\<lambda>d. d\<lparr>initialized := True\<rparr>", OF assms(1) ok]
    page_setState(2) [where f = "\<lambda>d. d\<lparr>initialized := True\<rparr>", OF assms(1) ok]
  show ?thesis using set(1) [of i now] by (simp add: r run_def QueryPage_fail_def Let_def unless_removed_ok [OF set(2)])
next
  fix now q
  assume "r = QueryPage_success env now q" "shows_query env q"
  then show ?thesis using success_refines [OF assms(1), of q now] success_keeps_choice [OF assms(1), of q now] by (force simp: run_def)
qed

lemma click_keeps_choice:
  assumes "page_ok env (this_state w)"
  shows "keeps_choice i (this_state w) (this_state (run (QueryPage_click env now) w))"
proof -
  have ok: "detail_ok env (page_detail (this_state w))" using assms by (simp add: page_ok_def)
  note set = setState_keeps_choice [where f = "\<lambda>d. d\<lparr>stageRefresh := _\<rparr>", OF assms click_keeps_ok(1) [OF ok]]
    setState_keeps_choice [where f = "\<lambda>d. d\<lparr>stageRefresh := _, lastSnapshotStages := _\<rparr>", OF assms click_keeps_ok(2) [OF ok]]
  have "keeps_choice i (this_state w) (this_state w)" using assms by (rule keeps_choice_same)
  with set show ?thesis by (auto simp: run_def QueryPage_click_def Let_def split: option.splits bind_splits)
qed

lemma stageClick_keeps_choice:
  assumes "page_ok env (this_state w)" and "j \<noteq> i"
  shows "keeps_choice i (this_state w) (this_state (run (QueryPage_stageClick env now j action) w))"
proof (cases rule: stageClick_cases [OF assms(1), of now j action])
  case 1
  then show ?thesis using keeps_choice_same [OF assms(1)] by (simp add: run_def)
next
  case (2 stage)
  have "page_detail (stage_clicked now j action stage (this_state w)) = page_detail (this_state w)" by (simp add: stage_clicked_def)
  with 2(4) assms show ?thesis by (simp add: run_def keeps_choice_def setState_def stage_clicked_choice page_ok_def in_sync_def)
qed

text \<open>C5. What the user chose for a stage, whether it is expanded and which tasks are listed, survives a failed request, a response with a query the page can show (as in the
  previous property) and every click elsewhere, as long as the stage is listed under the same key. A stage listed for the first time, be it new in the list or
  because the list itself is new or has a new key, is in its initial state.\<close>

theorem QueryPage_choices_survive:
  assumes "reachable QueryPage_refreshLoop (QueryPage_responses env) (QueryPage_clicks env) QueryPage_init w"
    and "browser_step QueryPage_refreshLoop (QueryPage_responses env)
      ({QueryPage_click env now | now. True} \<union> {QueryPage_stageClick env now j action | now j action. j \<noteq> i}) w w'"
    and "i \<in> stageId ` set (shown_stages (page_detail (this_state w')))"
  shows "choice (state_of (stage_states (this_state w')) i) =
    (if shown_key (page_detail (this_state w')) = shown_key (page_detail (this_state w)) \<and> i \<in> stageId ` set (shown_stages (page_detail (this_state w)))
     then choice (state_of (stage_states (this_state w)) i) else (False, TF_ALL))"
proof -
  have ok: "page_ok env (this_state w)" using assms(1) by (rule reachable_page_ok)
  have "keeps_choice i (this_state w) (this_state w')"
    using assms(2)
  proof (cases rule: browser_step.cases)
    case (fire t)
    then show ?thesis using keeps_choice_same [OF ok] by (simp add: QueryPage_refreshLoop_def loop_simps)
  next
    case (respond r)
    then show ?thesis using respond_keeps_choice [of env "w\<lparr>inflight := inflight w - 1\<rparr>" r i] ok by simp
  next
    case (user e)
    then show ?thesis using click_keeps_choice [OF ok] stageClick_keeps_choice [OF ok] by auto
  qed
  moreover have keys: "list_key (this_state w) = shown_key (page_detail (this_state w))"
      "fst ` set (stage_states (this_state w)) = stageId ` set (shown_stages (page_detail (this_state w)))"
    using ok unfolding page_ok_def in_sync_def by (metis, metis set_map)
  moreover have "i \<notin> fst ` set (stage_states (this_state w)) \<Longrightarrow> state_of (stage_states (this_state w)) i = StageSummary_init"
    by (simp add: state_of_def map_of_eq_None_iff [THEN iffD2])
  moreover have "choice StageSummary_init = (False, TF_ALL)" by (simp add: choice_def StageSummary_init_def)
  ultimately show ?thesis using assms(3) by (auto simp: keeps_choice_def)
qed

lemma summary_handlers:
  assumes "has_plan stage"
  shows "action \<in> set (html_handlers (StageSummary_render (Some stage) r s))"
proof -
  have "html_handlers (StageSummary_render (Some stage) r s) =
      [ToggleExpanded, TaskFilterClick TF_ALL, TaskFilterClick TF_PLANNED, TaskFilterClick TF_RUNNING, TaskFilterClick TF_FINISHED, TaskFilterClick TF_FAILED]"
    using assms parseAndFormatDataSize_total
    by (simp add: StageSummary_render_def StageSummary_row_def StageSummary_time_def StageSummary_memory_def StageSummary_tasks_def StageSummary_histograms_def
      StageSummary_scheduledChart_def StageSummary_cpuChart_def renderTaskFilterListItem_def renderTaskFilter_def renderTaskList_def
      html_el dom_simps formatter_throws Let_def)
  then show ?thesis
  proof (cases action)
    case (TaskFilterClick f)
    then show ?thesis using \<open>html_handlers _ = _\<close> by (cases f) simp_all
  qed simp
qed

lemma stageClick_applies:
  assumes ok: "page_ok env (this_state w)" and stage: "stage \<in> set (shown_stages (page_detail (this_state w)))" and "has_plan stage"
    and "distinct (map stageId (shown_stages (page_detail (this_state w))))"
  shows "QueryPage_stageClick env now (stageId stage) action w = Some (setState (stage_clicked now (stageId stage) action stage) w)"
proof -
  let ?p = "this_state w" and ?i = "stageId stage"
  from stage obtain k stages r where l: "shown_list (page_detail ?p) = Some (k, stages, r)"
    by (cases "shown_list (page_detail ?p)") (auto simp: shown_stages_def)
  then have stages: "shown_stages (page_detail ?p) = stages" by (simp add: shown_stages_def)
  then have found: "find (\<lambda>stage. stageId stage = ?i) stages = Some stage"
    using assms(2,4) unfolding stages by (induction stages) (auto simp: image_iff)
  have "?i \<in> fst ` set (stage_states ?p)"
    using ok stage unfolding page_ok_def in_sync_def by (metis image_eqI set_map)
  then obtain st where st: "map_of (stage_states ?p) ?i = Some st" by (cases "map_of (stage_states ?p) ?i") (auto simp: map_of_eq_None_iff)
  have "stage_ok env now (\<lambda>_. summary_handler action st) (stage, r)"
    using ok stage by (intro stage_ok_tasks) (auto simp: page_ok_def dest: shown_stages_ok)
  moreover have "\<not> unmounted (page_detail ?p)" using ok by (simp add: page_ok_def detail_ok_def)
  ultimately show ?thesis
    using summary_handlers [OF assms(3)] found st l by (simp add: QueryPage_stageClick_def Let_def stage_clicked_def state_of_def setState_def)
qed

text \<open>C20. On every stage listed with a plan a click is handled, on the expand button and on each filter: the stage is toggled or filtered as the handler says, every
  other stage and the rest of the page stay as they were.\<close>

theorem QueryPage_stage_click:
  assumes "reachable QueryPage_refreshLoop (QueryPage_responses env) (QueryPage_clicks env) QueryPage_init w"
    and "stage \<in> set (shown_stages (page_detail (this_state w)))" and "has_plan stage"
    and "distinct (map stageId (shown_stages (page_detail (this_state w))))"
  shows "\<exists>w'. QueryPage_stageClick env now (stageId stage) action w = Some w'
    \<and> abs_page page_detail w' = abs_page page_detail w
    \<and> (\<forall>i. choice (state_of (stage_states (this_state w')) i) =
        (let st = state_of (stage_states (this_state w)) i in choice (if i = stageId stage then summary_handler action st else st)))"
proof -
  have ok: "page_ok env (this_state w)" using assms(1) by (rule reachable_page_ok)
  show ?thesis
    using stageClick_applies [OF ok assms(2-4)] stageClick_refines [OF ok, of now "stageId stage" action]
    by (simp add: setState_def stage_clicked_choice Let_def)
qed

section \<open>A page\<close>

text \<open>A page on which the first response has arrived, and the same page after a click on its stage.\<close>

definition first_page :: "string \<Rightarrow> query_page page" where
  "first_page st = run (QueryPage_success sample_detail_page (Fin 5000) (sample_detail_query st))
     ((QueryPage_refreshLoop (mounted QueryPage_init))\<lparr>inflight := 0\<rparr>)"

definition running_page :: "query_page page" where
  "running_page = first_page ''RUNNING''"

definition expanded_page :: "query_page page" where
  "expanded_page = run (QueryPage_stageClick sample_detail_page (Fin 5500) ''q1.0'' ToggleExpanded) running_page"

lemma first_page_reachable:
  "reachable QueryPage_refreshLoop (QueryPage_responses sample_detail_page) (QueryPage_clicks sample_detail_page) QueryPage_init (first_page st)"
  unfolding first_page_def
proof (rule reachable_first_response)
  show "QueryPage_success sample_detail_page (Fin 5000) (sample_detail_query st) \<in> QueryPage_responses sample_detail_page"
    unfolding QueryPage_responses_def using sample_shows_query by blast
qed (simp add: QueryPage_refreshLoop_def loop_simps)

lemmas running_page_reachable = first_page_reachable [of "''RUNNING''", folded running_page_def]

lemma first_page_detail: "page_detail (this_state (first_page st)) = refreshed (Fin 5000) (sample_detail_query st) QueryDetail_init"
proof -
  let ?w = "(QueryPage_refreshLoop (mounted QueryPage_init))\<lparr>inflight := 0\<rparr>" and ?env = sample_detail_page
  let ?q = "sample_detail_query st" and ?none = "\<lambda>i. StageSummary_init"
  have s: "this_state ?w = QueryPage_init" by (simp add: QueryPage_refreshLoop_def loop_simps)
  have ok: "page_ok ?env (this_state ?w)" unfolding s by (rule QueryPage_init_ok)
  from success_refines [OF ok sample_shows_query, of "Fin 5000" st ?none]
    success_settles [OF page_ok_detail [OF ok] sample_shows_query, of "Fin 5000" ?none st]
  have "page_detail (this_state (first_page st)) = refreshed (Fin 5000) ?q (page_detail (this_state ?w))"
    by (auto simp: first_page_def run_def settled_def abs_page_simps)
  then show ?thesis by (simp add: s QueryPage_init_ok)
qed

lemma running_page_shows: "shown_list (page_detail (this_state running_page)) = Some (''q1'', [sample_stage_info], False)"
proof -
  let ?q = "sample_detail_query ''RUNNING''"
  have "outputStage ?q = Is (Stage sample_stage_info [])" "queryId ?q = ''q1''" "retryPolicy ?q = ''NONE''" by (simp_all add: sample_detail_query_def)
  moreover have "stageRefresh QueryDetail_init" by (simp add: QueryDetail_init_def)
  ultimately show ?thesis unfolding running_page_def first_page_detail shown_list_def by (simp add: refreshed_fields field_option_def)
qed

lemma running_page_stages:
  "shown_stages (page_detail (this_state running_page)) = [sample_stage_info]" "shown_key (page_detail (this_state running_page)) = Some ''q1''"
  "stageId sample_stage_info = ''q1.0''" "has_plan sample_stage_info"
  by (simp_all add: shown_stages_def shown_key_def running_page_shows sample_stage_info_def)

theorem QueryPage_refines_witness:
  "reachable QueryDetail_refreshLoop (QueryDetail_responses sample_detail_page) (QueryDetail_clicks sample_detail_page) QueryDetail_init
     (abs_page page_detail running_page)
   \<and> list_key (this_state running_page) = Some ''q1'' \<and> map fst (stage_states (this_state running_page)) = [''q1.0'']"
  using QueryPage_refines [OF running_page_reachable] by (simp add: running_page_stages)

theorem QueryPage_stage_click_witness:
  "\<exists>w'. QueryPage_stageClick sample_detail_page (Fin 5500) ''q1.0'' (TaskFilterClick TF_FAILED) running_page = Some w'
    \<and> taskFilter (state_of (stage_states (this_state w')) ''q1.0'') = TF_FAILED"
  using QueryPage_stage_click [OF running_page_reachable, of sample_stage_info "Fin 5500" "TaskFilterClick TF_FAILED"]
  by (auto simp: running_page_stages choice_def handleTaskFilterClick_def Let_def dest!: spec [of _ "''q1.0''"])

text \<open>The page with its stage expanded, and the same after a click on the refresh button.\<close>

lemma expanded_page_reachable:
  "reachable QueryPage_refreshLoop (QueryPage_responses sample_detail_page) (QueryPage_clicks sample_detail_page) QueryPage_init expanded_page"
  unfolding expanded_page_def
  by (rule reachable.step [OF running_page_reachable], rule browser_step.user) (auto simp: QueryPage_clicks_def)

lemma expanded_page_shows:
  "page_detail (this_state expanded_page) = page_detail (this_state running_page)"
  "expanded (state_of (stage_states (this_state expanded_page)) ''q1.0'') \<longleftrightarrow> \<not> expanded (state_of (stage_states (this_state running_page)) ''q1.0'')"
proof -
  have "distinct (map stageId (shown_stages (page_detail (this_state running_page))))" by (simp add: running_page_stages)
  from stageClick_applies [OF reachable_page_ok [OF running_page_reachable] _ _ this, of sample_stage_info "Fin 5500" ToggleExpanded]
  have e: "expanded_page = setState (stage_clicked (Fin 5500) ''q1.0'' ToggleExpanded sample_stage_info) running_page"
    by (simp add: running_page_stages expanded_page_def run_def)
  show "page_detail (this_state expanded_page) = page_detail (this_state running_page)" by (simp add: e setState_def stage_clicked_def)
  have "choice (state_of (stage_states (this_state expanded_page)) ''q1.0'')
      = choice (toggleExpanded (state_of (stage_states (this_state running_page)) ''q1.0''))"
    by (simp add: e setState_def stage_clicked_choice)
  then show "expanded (state_of (stage_states (this_state expanded_page)) ''q1.0'') \<longleftrightarrow> \<not> expanded (state_of (stage_states (this_state running_page)) ''q1.0'')"
    by (simp add: choice_def toggleExpanded_def)
qed

lemma click_shows:
  assumes "page_ok env (this_state w)"
  shows "shown_list (page_detail (this_state (run (QueryPage_click env now) w))) = shown_list (page_detail (this_state w))"
proof -
  let ?d = "page_detail (this_state w)"
  have ok: "detail_ok env ?d" using assms by (simp add: page_ok_def)
  note set = page_setState(1) [where f = "\<lambda>d. d\<lparr>stageRefresh := _\<rparr>", OF assms click_keeps_ok(1) [OF ok]] commit_ok(1) [OF click_keeps_ok(1) [OF ok]]
    page_setState(1) [where f = "\<lambda>d. d\<lparr>stageRefresh := _, lastSnapshotStages := _\<rparr>", OF assms click_keeps_ok(2) [OF ok]]
    commit_ok(1) [OF click_keeps_ok(2) [OF ok]]
  have "shown_list (?d\<lparr>stageRefresh := b\<rparr>) = shown_list ?d" "shown_list (?d\<lparr>stageRefresh := b, lastSnapshotStages := v\<rparr>) = shown_list ?d" for b v
    by (cases "qd_query ?d"; simp add: shown_list_def)+
  then show ?thesis by (simp add: run_def QueryPage_click_def Let_def set split: option.splits bind_splits)
qed

theorem QueryPage_choices_survive_witness:
  "expanded (state_of (stage_states (this_state (run (QueryPage_click sample_detail_page (Fin 6000)) expanded_page))) ''q1.0'')
   \<longleftrightarrow> \<not> expanded (state_of (stage_states (this_state running_page)) ''q1.0'')"
proof -
  let ?env = sample_detail_page and ?w = expanded_page
  let ?w' = "run (QueryPage_click ?env (Fin 6000)) ?w"
  let ?e = "{QueryPage_click ?env now | now. True} \<union> {QueryPage_stageClick ?env now j action | now j action. j \<noteq> ''q1.0''}"
  have step: "browser_step QueryPage_refreshLoop (QueryPage_responses ?env) ?e ?w ?w'" by (rule browser_step.user) auto
  have "shown_list (page_detail (this_state ?w')) = shown_list (page_detail (this_state running_page))"
    using click_shows [OF reachable_page_ok [OF expanded_page_reachable]] by (simp add: expanded_page_shows)
  then have listed: "shown_stages (page_detail (this_state ?w')) = [sample_stage_info]" "shown_key (page_detail (this_state ?w')) = Some ''q1''"
    using shown_cong running_page_stages by metis+
  from QueryPage_choices_survive [OF expanded_page_reachable step]
  have "choice (state_of (stage_states (this_state ?w')) ''q1.0'') = choice (state_of (stage_states (this_state ?w)) ''q1.0'')"
    by (simp add: listed running_page_stages expanded_page_shows)
  then show ?thesis by (simp add: choice_def expanded_page_shows)
qed

end
