(* ===== verification/Pages.thy ===== *)
theory Pages
  imports PageTitle ClusterHUD QueryListView WorkerStatus WorkerThreadList QueryPageSpec
begin

text \<open>
  The pages of the UI: the entry points (\<open>index.jsx\<close>, \<open>query.jsx\<close>, ...), which mount the components in the elements of the HTML files,
  and the documents that result. An id that two elements of a document share would make a selector draw a chart in the wrong place.
\<close>

section \<open>Entry points\<close>

text \<open>The components the entry points mount, with their properties.\<close>

datatype mounted_component =
    Mount_PageTitle string
  | Mount_ClusterHUD
  | Mount_QueryList
  | Mount_QueryDetail
  | Mount_LivePlan string bool
  | Mount_StageDetail
  | Mount_WorkerStatus
  | Mount_WorkerThreadList
  | Mount_WorkerList

type_synonym entry_point = "(mounted_component \<times> string) list"

definition index_jsx :: entry_point where
  "index_jsx = [(Mount_PageTitle ''Cluster Overview'', ''title''), (Mount_ClusterHUD, ''cluster-hud''), (Mount_QueryList, ''query-list'')]"

definition query_jsx :: entry_point where
  "query_jsx = [(Mount_PageTitle ''Query Details'', ''title''), (Mount_QueryDetail, ''query-detail'')]"

definition plan_jsx :: "string \<Rightarrow> entry_point" where
  "plan_jsx address =
     [(Mount_PageTitle ''Query Details'', ''title''), (Mount_LivePlan (getFirstParameter address) False, ''live-plan-container'')]"

definition embedded_plan_jsx :: "string \<Rightarrow> entry_point" where
  "embedded_plan_jsx address = [(Mount_LivePlan (getFirstParameter address) True, ''live-plan-container'')]"

definition stage_jsx :: entry_point where
  "stage_jsx = [(Mount_PageTitle ''Query Details'', ''title''), (Mount_StageDetail, ''stage-performance-header'')]"

definition timeline_jsx :: entry_point where
  "timeline_jsx = [(Mount_PageTitle ''Query Details'', ''title'')]"

definition worker_jsx :: entry_point where
  "worker_jsx = [(Mount_PageTitle ''Worker Status'', ''title''), (Mount_WorkerStatus, ''worker-status''), (Mount_WorkerThreadList, ''worker-threads'')]"

definition workers_jsx :: entry_point where
  "workers_jsx = [(Mount_PageTitle ''Worker List'', ''title''), (Mount_WorkerList, ''worker-list'')]"

text \<open>The ids of the HTML files, in the order of the document.\<close>

definition index_html :: "string list" where
  "index_html = [''title'', ''cluster-hud'', ''query-list-container'', ''query-list-title'', ''query-list'']"

definition query_html :: "string list" where
  "query_html = [''title'', ''query-detail'']"

definition plan_html :: "string list" where
  "plan_html = [''title'', ''live-plan-container'']"

definition embedded_plan_html :: "string list" where
  "embedded_plan_html = [''live-plan-container'']"

definition stage_html :: "string list" where
  "stage_html = [''title'', ''stage-performance-header'', ''operator-canvas'', ''operator-detail-modal'', ''operator-detail'']"

definition timeline_html :: "string list" where
  "timeline_html = [''title'', ''queryId'', ''legend'', ''timeline'']"

definition worker_html :: "string list" where
  "worker_html = [''title'', ''worker-status'', ''worker-threads'']"

definition workers_html :: "string list" where
  "workers_html = [''title'', ''worker-list'']"

text \<open>\<open>ReactDOM.render\<close> throws without a container, and the renderings after it are not run.\<close>

fun render_all :: "string list \<Rightarrow> entry_point \<Rightarrow> (mounted_component \<times> string) list \<times> bool" where
  "render_all html [] = ([], True)"
| "render_all html ((c, container) # rest) =
     (if container \<in> set html then (let (mounts, finished) = render_all html rest in ((c, container) # mounts, finished)) else ([], False))"

definition site :: "string \<Rightarrow> (string list \<times> entry_point) list" where
  "site address = [(index_html, index_jsx), (query_html, query_jsx), (plan_html, plan_jsx address),
     (embedded_plan_html, embedded_plan_jsx address), (stage_html, stage_jsx), (timeline_html, timeline_jsx),
     (worker_html, worker_jsx), (workers_html, workers_jsx)]"

lemmas entry_points = index_jsx_def query_jsx_def plan_jsx_def embedded_plan_jsx_def stage_jsx_def timeline_jsx_def worker_jsx_def workers_jsx_def

lemmas html_files = index_html_def query_html_def plan_html_def embedded_plan_html_def stage_html_def timeline_html_def worker_html_def workers_html_def

lemma render_all_finishes: "render_all html entry = (entry, True) \<longleftrightarrow> snd ` set entry \<subseteq> set html"
  by (induction html entry rule: render_all.induct) (auto split: prod.splits, force)

text \<open>Every entry point finds the container of each of its components in its HTML file, once, so that it mounts them all and none in the place of another.\<close>

theorem entry_points_mount:
  "\<forall>(html, entry) \<in> set (site address).
     render_all html entry = (entry, True) \<and> (\<forall>(c, container) \<in> set entry. count_list html container = 1) \<and> distinct (map snd entry)"
  unfolding render_all_finishes site_def by (simp add: html_files entry_points)

theorem entry_points_mount_witness:
  "render_all index_html index_jsx = (index_jsx, True)"
  using entry_points_mount [of "''?q1''"] by (simp add: site_def)

section \<open>The parts of a document\<close>

lemma title_ids:
  "html_ids (PageTitle_render title t) = (if info t = None then []
     else [''navbar'', ''version-number'', ''environment'', ''status-indicator'', ''uptime'', ''logout'', ''no-connection-modal''])"
proof -
  have "renders (PageTitle_renderStatusLight t)" "html_ids (PageTitle_renderStatusLight t) = [''status-indicator'']"
    by (simp_all add: PageTitle_renderStatusLight_def html_el dom_simps)
  then show ?thesis by (simp add: PageTitle_render_def html_el dom_simps split: option.splits)
qed

text \<open>A tree without ids, whether it renders or not.\<close>

lemma no_ids:
  "attr_ids as = [] \<Longrightarrow> list_all (\<lambda>c. html_ids c = []) cs \<Longrightarrow> html_ids (el tag as cs) = []"
  "list_all (\<lambda>c. html_ids c = []) cs \<Longrightarrow> html_ids (frag cs) = []"
  "(\<And>x. t = Some x \<Longrightarrow> html_ids (f x) = []) \<Longrightarrow> html_ids (Option.bind t f) = []"
proof -
  have gone: "html_ids (el tag as cs) = [] \<and> html_ids (frag cs) = []" if "\<not> list_all renders cs"
    using that by (simp add: those_renders html_ids_def el_def frag_def)
  show "attr_ids as = [] \<Longrightarrow> list_all (\<lambda>c. html_ids c = []) cs \<Longrightarrow> html_ids (el tag as cs) = []"
    by (cases "list_all renders cs") (auto simp: html_el list_all_iff gone)
  show "list_all (\<lambda>c. html_ids c = []) cs \<Longrightarrow> html_ids (frag cs) = []"
    by (cases "list_all renders cs") (auto simp: html_frag list_all_iff gone)
  show "(\<And>x. t = Some x \<Longrightarrow> html_ids (f x) = []) \<Longrightarrow> html_ids (Option.bind t f) = []"
    by (cases t) (simp_all add: html_ids_def)
qed

lemma item_ids: "html_ids (QueryListItem_render zone q) = []"
proof -
  have "html_ids (QueryListItem_failedTasks q) = []" "html_ids (QueryListItem_user q) = []" "html_ids (optional_text s :: (unit, unit) html) = []" for s
    by (simp_all add: QueryListItem_failedTasks_def QueryListItem_user_def optional_text_def no_ids dom_simps split: option.splits)
  then have "html_ids (QueryListItem_header zone q) = []"
    by (simp add: QueryListItem_header_def QueryListItem_splitDetails_def QueryListItem_timingDetails_def QueryListItem_memoryDetails_def no_ids dom_simps)
  then show ?thesis by (simp add: QueryListItem_render_def no_ids dom_simps)
qed

lemma list_item_ids [dom_simps]:
  "html_ids (renderMaxQueriesListItem s n l) = []" "html_ids (renderReorderListItem s n l) = []"
  "html_ids (renderSortListItem s t l) = []" "html_ids (renderFilterButton s f l) = []" "html_ids (renderErrorTypeListItem s e l) = []"
  by (simp_all add: renderMaxQueriesListItem_def renderReorderListItem_def renderSortListItem_def
      renderFilterButton_def renderErrorTypeListItem_def Let_def html_el dom_simps)

lemma list_ids: "html_ids (QueryList_render s) = [''error-type-dropdown'']"
proof -
  have "html_ids (QueryList_body s) = []"
    by (auto simp: QueryList_body_def QueryList_label_def DisplayedQueriesList_render_def html_el html_frag dom_simps)
  then show ?thesis by (simp add: QueryList_render_def QueryList_toolbar_def html_el dom_simps)
qed

lemma header_ids:
  assumes "displayable q"
  shows "html_ids (QueryHeader_render p q) = [''query-id'']"
proof -
  have "html_ids (QueryHeader_renderTab p q path name) = []" for path name
    by (simp add: QueryHeader_renderTab_def dom_simps no_ids)
  moreover have "html_ids (QueryHeader_renderProgressBar q) = []"
    by (simp add: QueryHeader_renderProgressBar_def no_ids dom_simps)
  ultimately show ?thesis using assms by (simp add: QueryHeader_render_def html_el dom_simps)
qed

lemma hud_ids:
  assumes "wf_hud h"
  shows "html_ids (ClusterHUD_render h) = concat (map html_ids (ClusterHUD_row1 h)) @ concat (map html_ids (ClusterHUD_row2 h)) @ concat (map html_ids (ClusterHUD_row3 h))"
  using assms by (simp add: ClusterHUD_render_def html_el dom_simps ClusterHUD_rows_render)

lemma task_table_ids:
  assumes "list_all (task_ok env) ts"
  shows "html_ids (TaskList_render (url env) now ts r :: ('c, 'a) html) = (if ts = [] then [] else [''tasks''])"
proof (cases "ts = []")
  case False
  from assms obtain showPorts where p: "showPortNumbers (url env) ts = Some showPorts"
    using showPortNumbers_total [of env ts "[]"] by (auto simp: showPortNumbers_def)
  have row: "html_ids (TaskList_row (url env) now showPorts r t) = []" for t
    by (simp add: TaskList_row_def Let_def no_ids dom_simps)
  let ?rows = "frag (map (TaskList_row (url env) now showPorts r) ts) :: ('c, 'a) html"
  have "renders ?rows" "html_ids ?rows = []"
    using assms by (simp_all add: renders_frag list_all_iff task_row_renders no_ids row)
  then show ?thesis using False p by (simp add: TaskList_render_def Let_def html_el renders_el html_leaf renders_leaf)
qed (simp add: TaskList_render_def html_el dom_simps)

section \<open>The overview\<close>

text \<open>The ids of the document \<open>index.html\<close> with its three components.\<close>

definition index_document :: "(int \<Rightarrow> int) \<Rightarrow> page_title \<Rightarrow> cluster_hud \<Rightarrow> query_list \<Rightarrow> string list" where
  "index_document zone t h l =
     index_html @ html_ids (PageTitle_render ''Cluster Overview'' t) @ html_ids (ClusterHUD_render h) @ html_ids (QueryList_render l)
     @ concat (map (\<lambda>q. html_ids (QueryListItem_render zone q)) (html_components (QueryList_render l)))"

text \<open>Opening the page mounts the three components; from then on each of them reacts to its own timers, responses and events, in any order.\<close>

definition index_open :: "int \<Rightarrow> int \<Rightarrow> int \<Rightarrow> page_title page \<times> cluster_hud page \<times> query_list page" where
  "index_open t now now' = (PageTitle_componentDidMount t, ClusterHUD_componentDidMount, QueryList_componentDidMount now now')"

definition index_step ::
  "(int \<Rightarrow> int) \<Rightarrow> page_title page \<times> cluster_hud page \<times> query_list page \<Rightarrow> page_title page \<times> cluster_hud page \<times> query_list page \<Rightarrow> bool" where
  "index_step zone =
     either (browser_step PageTitle_refreshLoop PageTitle_responses {})
       (either (browser_step ClusterHUD_refreshLoop ClusterHUD_responses {})
          (browser_step QueryList_refreshLoop (QueryList_responses zone) (QueryList_events zone)))"

lemma index_parts:
  assumes "(index_step zone)\<^sup>*\<^sup>* (index_open t now now') (title, hud, list)"
  shows "reachable PageTitle_refreshLoop PageTitle_responses {} (PageTitle_init t) title"
    and "reachable ClusterHUD_refreshLoop ClusterHUD_responses {} ClusterHUD_init hud"
    and "reachable QueryList_refreshLoop (QueryList_responses zone) (QueryList_events zone) (QueryList_init now now') list"
  using assms unfolding index_step_def index_open_def PageTitle_componentDidMount_def ClusterHUD_componentDidMount_def QueryList_componentDidMount_def
  by (auto dest!: either_steps intro: reachable_steps)

text \<open>C9. The cluster overview, its title, its statistics and its list of queries running side by side, from the moment it is opened and in whatever order
  their timers, responses and events come: each component has exactly one refresh under way, no two elements of the document share an
  id, and every sparkline of the statistics has its place exactly once in the whole document.\<close>

theorem index_page_runs:
  assumes "(index_step zone)\<^sup>*\<^sup>* (index_open t now now') (title, hud, list)"
  shows "activity title = 1 \<and> activity hud = 1 \<and> activity list = 1
    \<and> distinct (index_document zone (this_state title) (this_state hud) (this_state list))
    \<and> (\<forall>target \<in> set (spark_targets (ClusterHUD_sparklines (this_state hud))).
        count_list (map ((@) ''#'') (index_document zone (this_state title) (this_state hud) (this_state list))) target = 1)"
proof -
  note parts = index_parts [OF assms]
  have loops: "activity title = 1" "activity hud = 1" "activity list = 1"
    using pt.one_loop_reachable [OF parts(1)] hud.one_loop_reachable [OF parts(2)] ql.one_loop_reachable [OF parts(3) good_init]
    by (simp_all add: one_loop_def)
  have wf: "wf_hud (this_state hud)" using parts(2) by (rule wf_hud_reachable)
  have "concat (map (\<lambda>q. html_ids (QueryListItem_render zone q)) qs) = []" for qs by (induction qs) (simp_all add: item_ids)
  then have "index_document zone (this_state title) (this_state hud) (this_state list) =
      [''title'', ''cluster-hud'', ''query-list-container'', ''query-list-title'', ''query-list'']
      @ (if info (this_state title) = None then []
         else [''navbar'', ''version-number'', ''environment'', ''status-indicator'', ''uptime'', ''logout'', ''no-connection-modal''])
      @ [''running-queries-sparkline'', ''active-workers-sparkline'', ''row-input-rate-sparkline'',
         ''queued-queries-sparkline'', ''running-drivers-sparkline'', ''byte-input-rate-sparkline'',
         ''blocked-queries-sparkline'', ''reserved-memory-sparkline'', ''cpu-time-rate-sparkline'', ''error-type-dropdown'']"
    by (simp add: index_document_def index_html_def title_ids hud_ids [OF wf] ClusterHUD_row_ids [OF wf] list_ids)
  with loops show ?thesis by (simp add: ClusterHUD_sparklines_def)
qed

theorem index_page_runs_witness:
  "let hud = run ClusterHUD_fail (ClusterHUD_componentDidMount\<lparr>inflight := 0\<rparr>)
   in activity hud = 1 \<and> distinct (index_document (\<lambda>_. 0) (this_state (PageTitle_componentDidMount 0)) (this_state hud)
        (this_state (QueryList_componentDidMount 0 0)))"
proof -
  let ?hud = "run ClusterHUD_fail (ClusterHUD_componentDidMount\<lparr>inflight := 0\<rparr>)"
  let ?title = "PageTitle_componentDidMount 0" and ?list = "QueryList_componentDidMount 0 0"
  have one: "inflight ClusterHUD_componentDidMount = 1" by (simp add: ClusterHUD_componentDidMount_def ClusterHUD_refreshLoop_def loop_simps)
  then have "browser_step ClusterHUD_refreshLoop ClusterHUD_responses {} ClusterHUD_componentDidMount ?hud"
    using browser_step.respond [of ClusterHUD_componentDidMount ClusterHUD_fail ClusterHUD_responses ClusterHUD_refreshLoop "{}"]
    by (simp add: ClusterHUD_responses_def)
  then have "(index_step (\<lambda>_. 0))\<^sup>*\<^sup>* (index_open 0 0 0) (?title, ?hud, ?list)"
    unfolding index_step_def index_open_def by (intro r_into_rtranclp either.intros)
  from index_page_runs [OF this] show ?thesis by (simp add: Let_def)
qed

section \<open>The query page\<close>

text \<open>The ids of the document \<open>query.html\<close>: those of the stages of the list and of the tables of their tasks included.\<close>

definition stage_ids :: "detail_page \<Rightarrow> jsnum \<Rightarrow> (string \<times> stage_summary) list \<Rightarrow> stage_info \<times> bool \<Rightarrow> string list" where
  "stage_ids env now states p =
     (case p of (stage, retries) \<Rightarrow>
        let rendered = StageSummary_render (Some stage) retries (state_of states (stageId stage))
        in html_ids rendered
           @ concat (map (\<lambda>(ts, r). html_ids (TaskList_render (url env) now ts r :: (unit, unit) html)) (html_components rendered)))"

definition part_ids :: "detail_page \<Rightarrow> jsnum \<Rightarrow> (string \<times> stage_summary) list \<Rightarrow> detail_part \<Rightarrow> string list" where
  "part_ids env now states part =
     (case part of
        HeaderPart query \<Rightarrow> html_ids (QueryHeader_render (pathname env) query)
      | StageListPart shown_stage retries \<Rightarrow>
          (let rendered = (StageList_render shown_stage retries :: (stage_info \<times> bool, unit) html)
           in html_ids rendered @ concat (map (stage_ids env now states) (html_components rendered))))"

definition query_document :: "detail_page \<Rightarrow> jsnum \<Rightarrow> page_title \<Rightarrow> query_page \<Rightarrow> string list" where
  "query_document env now t p =
     (let rendered = QueryDetail_render env (page_detail p)
      in query_html @ html_ids (PageTitle_render ''Query Details'' t) @ html_ids rendered
         @ concat (map (part_ids env now (stage_states p)) (html_components rendered)))"

definition chart_ids :: "string \<Rightarrow> string list" where
  "chart_ids n = [''scheduled-time-histogram-'' @ n, ''cpu-time-histogram-'' @ n, ''scheduled-time-bar-chart-'' @ n, ''cpu-time-bar-chart-'' @ n]"

lemma chart_ids_distinct [simp]:
  "distinct (chart_ids n)" "''tasks'' \<notin> set (chart_ids n)" "x \<in> set (chart_ids n) \<Longrightarrow> x \<in> set (chart_ids m) \<longleftrightarrow> n = m"
  by (auto simp: chart_ids_def)

text \<open>The stages whose table of tasks is shown.\<close>

definition lists_tasks :: "(string \<times> stage_summary) list \<Rightarrow> stage_info \<Rightarrow> bool" where
  "lists_tasks states stage \<longleftrightarrow> has_plan stage \<and> expanded (state_of states (stageId stage))
     \<and> (\<exists>t \<in> set (tasks stage). TASK_FILTER (taskFilter (state_of states (stageId stage))) (taskState t))"

lemma StageSummary_components:
  "html_components (StageSummary_render (Some stage) r s) =
     (if has_plan stage then [(filter (\<lambda>t. TASK_FILTER (taskFilter s) (taskState t)) (if expanded s then tasks stage else []), r)] else [])"
  by (simp add: StageSummary_render_def StageSummary_row_def StageSummary_time_def StageSummary_memory_def StageSummary_tasks_def
      StageSummary_histograms_def StageSummary_scheduledChart_def StageSummary_cpuChart_def renderTaskFilter_def
      renderTaskFilterListItem_def renderTaskList_def html_el dom_simps Let_def parseAndFormatDataSize_total formatter_throws)

lemma stage_ids_eq:
  assumes "list_all (task_ok env) (tasks stage)"
  shows "stage_ids env now states (stage, r) =
    (if has_plan stage then chart_ids (stage_text stage) @ (if lists_tasks states stage then [''tasks''] else []) else [])"
proof -
  let ?s = "state_of states (stageId stage)"
  let ?ts = "filter (\<lambda>t. TASK_FILTER (taskFilter ?s) (taskState t)) (if expanded ?s then tasks stage else [])"
  have "html_ids (TaskList_render (url env) now ?ts r :: (unit, unit) html) = (if ?ts = [] then [] else [''tasks''])"
    using assms by (intro task_table_ids) (auto simp: list_all_iff)
  moreover have "?ts \<noteq> [] \<longleftrightarrow> expanded ?s \<and> (\<exists>t \<in> set (tasks stage). TASK_FILTER (taskFilter ?s) (taskState t))"
    by (auto simp: filter_empty_conv)
  moreover have "\<not> has_plan stage \<Longrightarrow> html_ids (StageSummary_render (Some stage) r ?s) = []"
    by (simp add: StageSummary_render_def html_el dom_simps)
  ultimately show ?thesis
    by (auto simp: stage_ids_def Let_def StageSummary_components StageSummary_ids chart_ids_def lists_tasks_def filter_empty_conv)
qed

text \<open>The ids of a list of stages: those of the charts of each stage with a plan, and that of the table for each stage that lists its tasks.\<close>

definition listed_ids :: "(string \<times> stage_summary) list \<Rightarrow> stage_info list \<Rightarrow> string list" where
  "listed_ids states stages = concat (map (\<lambda>stage.
     if has_plan stage then chart_ids (stage_text stage) @ (if lists_tasks states stage then [''tasks''] else []) else []) stages)"

lemma set_listed_ids:
  "x \<in> set (listed_ids states stages) \<longleftrightarrow>
     (\<exists>stage \<in> set stages. has_plan stage \<and> x \<in> set (chart_ids (stage_text stage))) \<or> x = ''tasks'' \<and> filter (lists_tasks states) stages \<noteq> []"
  by (auto simp: listed_ids_def lists_tasks_def filter_empty_conv split: if_splits)

lemma distinct_listed_ids:
  "distinct (listed_ids states stages) \<longleftrightarrow>
     distinct (map stage_text (filter has_plan stages)) \<and> length (filter (lists_tasks states) stages) \<le> 1"
proof (induction stages)
  case Nil
  show ?case by (simp add: listed_ids_def)
next
  case (Cons stage stages)
  have split: "listed_ids states (stage # stages) =
      (if has_plan stage then chart_ids (stage_text stage) @ (if lists_tasks states stage then [''tasks''] else []) else []) @ listed_ids states stages"
    by (simp add: listed_ids_def)
  have charts: "set (chart_ids n) \<inter> set (listed_ids states stages) = {} \<longleftrightarrow> n \<notin> stage_text ` set (filter has_plan stages)" for n
    using chart_ids_def by (auto simp: set_listed_ids)
  have none: "lists_tasks states stage \<Longrightarrow> has_plan stage" by (simp add: lists_tasks_def)
  have "''tasks'' \<in> set (listed_ids states stages) \<longleftrightarrow> filter (lists_tasks states) stages \<noteq> []" by (auto simp: set_listed_ids)
  then show ?case
    using none charts [of "stage_text stage"] Cons.IH unfolding split
    by (auto simp: disjoint_iff le_Suc_eq)
qed

lemma count_listed_ids:
  assumes "x \<in> set (chart_ids n)"
  shows "count_list (listed_ids states stages) x = length (filter (\<lambda>stage. has_plan stage \<and> stage_text stage = n) stages)"
proof (induction stages)
  case (Cons stage stages)
  have "count_list (chart_ids m) x = (if m = n then 1 else 0)" for m
    using assms by (auto simp: chart_ids_def)
  moreover have "x \<noteq> ''tasks''" using assms by (auto simp: chart_ids_def)
  ultimately show ?case using Cons.IH by (simp add: listed_ids_def)
qed (simp add: listed_ids_def)

text \<open>The rest of the document.\<close>

definition frame_ids :: "page_title \<Rightarrow> query_detail \<Rightarrow> string list" where
  "frame_ids t d = query_html @ html_ids (PageTitle_render ''Query Details'' t)
     @ (case qd_query d of
          Some q \<Rightarrow> if initialized d then detail_ids q @ [''query-id''] else []
        | None \<Rightarrow> [])
     @ (if shown_stages d = [] then [] else [''stage-list''])"

lemma stage_list_ids:
  "html_ids (StageList_render f r :: (stage_info \<times> bool, unit) html) = (if getStages f = [] then [] else [''stage-list''])"
proof -
  have "list_all renders (map (\<lambda>stage. component (stage, r) :: (stage_info \<times> bool, unit) html) stages)
      \<and> concat (map html_ids (map (\<lambda>stage. component (stage, r) :: (stage_info \<times> bool, unit) html) stages)) = []" for stages
    by (induction stages) (simp_all add: dom_simps)
  then show ?thesis by (simp add: StageList_render_def Let_def html_el html_frag dom_simps)
qed

lemma query_document_eq:
  assumes "page_ok env p"
  shows "query_document env now t p = frame_ids t (page_detail p) @ listed_ids (stage_states p) (shown_stages (page_detail p))"
proof (cases "qd_query (page_detail p) \<noteq> None \<and> initialized (page_detail p)")
  case True
  let ?d = "page_detail p"
  from True obtain q where q: "qd_query ?d = Some q" and i: "initialized ?d" by auto
  from assms have ok: "detail_ok env ?d" by (simp add: page_ok_def)
  then have reads: "Null \<notin> set (latest ?d)" "explained q" "displayable q" using q by (auto simp: detail_ok_def)
  have listed: "concat (map (stage_ids env now (stage_states p)) (map (\<lambda>stage. (stage, r)) (shown_stages ?d))) = listed_ids (stage_states p) (shown_stages ?d)" for r
    unfolding listed_ids_def using shown_stages_ok [OF ok] by (simp add: stage_ids_eq comp_def cong: map_cong)
  have stages: "shown_stages ?d = (if lastSnapshotStage ?d = IsNull then [] else getStages (field_option (lastSnapshotStage ?d)))"
    using q i by (simp add: shown_stages_def shown_list_def)
  show ?thesis
    using q i listed [of "retryPolicy q = ''TASK''"]
    by (cases "lastSnapshotStage ?d = IsNull")
      (simp_all add: query_document_def frame_ids_def QueryDetail_render_def body_contains [OF reads(1,2)] part_ids_def header_ids [OF reads(3)] Let_def
        StageList_reads stage_list_ids stages listed_ids_def)
next
  case False
  then have "shown_stages (page_detail p) = []" by (auto simp: shown_stages_def shown_list_def split: option.splits)
  with False show ?thesis
    by (auto simp: query_document_def frame_ids_def QueryDetail_render_def listed_ids_def html_el dom_simps split: option.splits)
qed

text \<open>All the ids the frame may have; it has some of them, in this order.\<close>

definition all_frame_ids :: "string list" where
  "all_frame_ids = query_html
     @ [''navbar'', ''version-number'', ''environment'', ''status-indicator'', ''uptime'', ''logout'', ''no-connection-modal'']
     @ ''query-user'' # sparkline_ids @ [''warnings-table''] @ [''stack-trace''] @ [''query'', ''query-text'']
     @ [''prepared-query'', ''prepared-query-text''] @ [''query-id''] @ [''stage-list'']"

lemma subseq_if: "subseq (if b then [] else xs) xs"
  by simp

lemma frame_subseq: "subseq (frame_ids t d) all_frame_ids"
proof -
  have "subseq (detail_ids q @ [''query-id'']) (''query-user'' # sparkline_ids @ [''warnings-table''] @ [''stack-trace''] @ [''query'', ''query-text'']
     @ [''prepared-query'', ''prepared-query-text''] @ [''query-id''])" for q
    unfolding detail_ids_def append_assoc by (simp only: append_Cons [of "''query-user''"] append_assoc) (intro subseq_Cons2 list_emb_append_mono subseq_if subseq_order.refl)
  then have "subseq (case qd_query d of Some q \<Rightarrow> if initialized d then detail_ids q @ [''query-id''] else [] | None \<Rightarrow> [])
     (''query-user'' # sparkline_ids @ [''warnings-table''] @ [''stack-trace''] @ [''query'', ''query-text'']
     @ [''prepared-query'', ''prepared-query-text''] @ [''query-id''])" by (simp split: option.splits)
  from list_emb_append_mono [OF subseq_if list_emb_append_mono [OF this subseq_if]]
  have "subseq (html_ids (PageTitle_render ''Query Details'' t)
     @ (case qd_query d of Some q \<Rightarrow> if initialized d then detail_ids q @ [''query-id''] else [] | None \<Rightarrow> [])
     @ (if shown_stages d = [] then [] else [''stage-list'']))
     ([''navbar'', ''version-number'', ''environment'', ''status-indicator'', ''uptime'', ''logout'', ''no-connection-modal'']
     @ (''query-user'' # sparkline_ids @ [''warnings-table''] @ [''stack-trace''] @ [''query'', ''query-text'']
     @ [''prepared-query'', ''prepared-query-text''] @ [''query-id'']) @ [''stage-list''])"
    unfolding title_ids by blast
  then show ?thesis unfolding frame_ids_def all_frame_ids_def by (simp add: subseq_append')
qed

lemma frame_distinct: "distinct (frame_ids t d)" and frame_within: "set (frame_ids t d) \<subseteq> set all_frame_ids"
proof -
  obtain N where "frame_ids t d = nths all_frame_ids N" using frame_subseq subseq_conv_nths by blast
  moreover have "distinct all_frame_ids" by (simp add: all_frame_ids_def query_html_def sparkline_ids_def)
  ultimately show "distinct (frame_ids t d)" "set (frame_ids t d) \<subseteq> set all_frame_ids" by (simp_all add: distinct_nthsI set_nths_subset)
qed

lemma frame_apart: "''tasks'' \<notin> set (frame_ids t d)" "x \<in> set (chart_ids n) \<Longrightarrow> x \<notin> set (frame_ids t d)"
proof -
  have "''tasks'' \<notin> set all_frame_ids" by (simp add: all_frame_ids_def query_html_def sparkline_ids_def)
  then show "''tasks'' \<notin> set (frame_ids t d)" using frame_within by blast
  assume "x \<in> set (chart_ids n)"
  then have "x \<notin> set all_frame_ids" by (auto simp: chart_ids_def all_frame_ids_def query_html_def sparkline_ids_def)
  then show "x \<notin> set (frame_ids t d)" using frame_within by blast
qed

lemma update_targets:
  assumes "c \<in> set (snd (update_stage now stage st))"
  shows "\<exists>x \<in> set (chart_ids (stage_text stage)). chart_target c = ''#'' @ x"
proof -
  obtain h1 h2 where "renderHistogram (''#scheduled-time-histogram-'' @ stage_text stage) (scheduledTimes stage) formatDuration = Some h1"
      "chart_target h1 = ''#scheduled-time-histogram-'' @ stage_text stage"
      "renderHistogram (''#cpu-time-histogram-'' @ stage_text stage) (cpuTimes stage) formatDuration = Some h2"
      "chart_target h2 = ''#cpu-time-histogram-'' @ stage_text stage"
    using renderHistogram_total by metis
  with assms show ?thesis
    by (auto simp: update_stage_def StageSummary_componentDidUpdate_def chart_ids_def task_bars_def Let_def split: if_splits)
qed

lemma filter_key:
  "distinct (map f xs) \<Longrightarrow> x \<in> set xs \<Longrightarrow> filter (\<lambda>y. P y \<and> f y = f x) xs = (if P x then [x] else [])"
proof (induction xs)
  case (Cons y ys)
  show ?case
  proof (cases "x = y")
    case True
    then have "filter (\<lambda>z. P z \<and> f z = f x) ys = []" using Cons.prems(1) by (auto simp: filter_empty_conv image_iff)
    with True show ?thesis by simp
  next
    case False
    then have "x \<in> set ys" "f y \<noteq> f x" using Cons.prems by auto
    with Cons show ?thesis by simp
  qed
qed simp

text \<open>C8. In the page of a query, when requests failed or were answered with queries the page can show (a failure has its error code and a printable trace, the memory of the query and
  the input of its tasks are sizes that can be read, the addresses of the tasks are URLs), and wherever the user clicked, two elements share an id only when two stages have
  the same number or two stages list their tasks at the same time; and every chart a stage draws has its place exactly once in the document (none when
  the stage has no plan), whatever the other stages show, if the stages have different numbers.\<close>

theorem query_document_ids:
  assumes "reachable QueryPage_refreshLoop (QueryPage_responses env) (QueryPage_clicks env) QueryPage_init w"
  defines "p \<equiv> this_state w" and "stages \<equiv> shown_stages (page_detail (this_state w))"
  shows "(distinct (query_document env now t p) \<longleftrightarrow>
      distinct (map stage_text (filter has_plan stages)) \<and> length (filter (lists_tasks (stage_states p)) stages) \<le> 1)
    \<and> (distinct (map stage_text stages) \<longrightarrow>
        (\<forall>stage \<in> set stages. \<forall>c \<in> set (snd (update_stage now' stage (state_of (stage_states p) (stageId stage)))).
           count_list (map ((@) ''#'') (query_document env now t p)) (chart_target c) = (if has_plan stage then 1 else 0)))"
proof -
  have doc: "query_document env now t p = frame_ids t (page_detail p) @ listed_ids (stage_states p) stages"
    unfolding p_def stages_def using reachable_page_ok [OF assms(1)] by (rule query_document_eq)
  have apart: "set (frame_ids t (page_detail p)) \<inter> set (listed_ids (stage_states p) stages) = {}"
    using frame_apart by (fastforce simp: set_listed_ids)
  have "count_list (map ((@) ''#'') (query_document env now t p)) (chart_target c) = (if has_plan stage then 1 else 0)"
    if "distinct (map stage_text stages)" and "stage \<in> set stages" and c: "c \<in> set (snd (update_stage now' stage (state_of (stage_states p) (stageId stage))))"
    for stage c
  proof -
    obtain x where x: "x \<in> set (chart_ids (stage_text stage))" "chart_target c = ''#'' @ x" using update_targets [OF c] by blast
    have "inj ((@) ''#'')" by (rule injI) simp
    then have "count_list (map ((@) ''#'') (query_document env now t p)) (chart_target c) = count_list (query_document env now t p) x"
      unfolding x(2) by (rule count_list_map_conv)
    also have "\<dots> = length (filter (\<lambda>s'. has_plan s' \<and> stage_text s' = stage_text stage) stages)"
      using frame_apart(2) [OF x(1)] by (simp add: doc count_listed_ids [OF x(1)] count_list_0_iff)
    also have "filter (\<lambda>s'. has_plan s' \<and> stage_text s' = stage_text stage) stages = (if has_plan stage then [stage] else [])"
      using that(1,2) by (rule filter_key)
    also have "length (if has_plan stage then [stage] else []) = (if has_plan stage then 1 else 0)" by simp
    finally show ?thesis .
  qed
  moreover have "distinct (query_document env now t p) \<longleftrightarrow>
      distinct (map stage_text (filter has_plan stages)) \<and> length (filter (lists_tasks (stage_states p)) stages) \<le> 1"
    using apart by (simp add: doc frame_distinct distinct_listed_ids)
  ultimately show ?thesis by blast
qed

theorem query_document_ids_witness:
  "distinct (query_document sample_detail_page (Fin 6000) (PageTitle_init 0) (this_state running_page))"
  using query_document_ids [OF running_page_reachable, of "Fin 6000" "PageTitle_init 0" "Fin 6000"] by (simp add: running_page_stages)

section \<open>The page of a worker\<close>










section \<open>The login page\<close>

text \<open>The form of \<open>login.html\<close> and its script. The server replaces the value of \<open>hidePassword\<close>.\<close>

record login_form =
  redirectPath :: string
  password_required :: bool
  password_placeholder :: string
  password_readonly :: bool
  form_shown :: bool
  username :: string

definition login_html :: login_form where
  "login_html = \<lparr>redirectPath = [], password_required = True, password_placeholder = ''Password'', password_readonly = False,
     form_shown = False, username = []\<rparr>"

definition login_script :: "bool \<Rightarrow> string \<Rightarrow> login_form \<Rightarrow> login_form" where
  "login_script hidePassword address form =
     (let path = substring_from address 1;
          path' = (if indexOf path ''&'' \<noteq> -1 then substring path 0 (indexOf path ''&'') else path);
          form' = form\<lparr>redirectPath := path'\<rparr>;
          form'' = (if hidePassword
            then form'\<lparr>password_required := False, password_placeholder := ''Password not allowed'', password_readonly := True\<rparr> else form')
      in form''\<lparr>form_shown := True, username := []\<rparr>)"

text \<open>The page to return to is the first parameter of the address, as the other pages read it, and a password can be left out exactly when none is allowed.\<close>

lemma login_script_redirects:
  "redirectPath (login_script hide address login_html) = getFirstParameter address
   \<and> password_required (login_script hide address login_html) = (\<not> hide) \<and> form_shown (login_script hide address login_html)"
  by (simp add: login_script_def Let_def getFirstParameter_def login_html_def)

end
