(* ===== verification/GraphCalls.thy ===== *)
theory GraphCalls
  imports VDom
begin

text \<open>
  The part of \<open>utils.js\<close> about the \<open>dagre-d3\<close> graph library: a graph is modelled by the sequence of calls made on it,
  in which attributes are texts and a label may be the HTML of a React element. A selection of \<open>d3\<close> by the id
  of an element is modelled by whether the page has that element; calls on an empty selection do nothing.
\<close>

datatype graph_call =
    NewGraph "(string \<times> string) list"
  | SetGraph "(string \<times> string) list"
  | SetDefaultEdgeLabel "(string \<times> string) list"
  | SetNode string "(string \<times> string) list" "(unit, unit) vnode option"
  | SetParent string string
  | SetEdge string string "(string \<times> string) list"

definition initializeGraph :: "graph_call list" where
  "initializeGraph =
     [NewGraph [(''compound'', ''true'')], SetGraph [(''rankdir'', ''BT'')], SetDefaultEdgeLabel []]"

text \<open>\<open>initializeSvg\<close> selects the element and appends a \<open>g\<close> to it; the result says whether there is one.\<close>

definition initializeSvg :: "string list \<Rightarrow> string \<Rightarrow> bool" where
  "initializeSvg page_ids selector \<longleftrightarrow> selector \<in> set page_ids"

section \<open>Reading a graph\<close>

definition call_nodes :: "graph_call \<Rightarrow> string list" where
  "call_nodes c = (case c of SetNode n as l \<Rightarrow> [n] | _ \<Rightarrow> [])"

definition call_edges :: "graph_call \<Rightarrow> (string \<times> string) list" where
  "call_edges c = (case c of SetEdge a b as \<Rightarrow> [(a, b)] | _ \<Rightarrow> [])"

definition graph_nodes :: "graph_call list \<Rightarrow> string list" where
  "graph_nodes cs = concat (map call_nodes cs)"

definition graph_edges :: "graph_call list \<Rightarrow> (string \<times> string) list" where
  "graph_edges cs = concat (map call_edges cs)"

lemma graph_simps [simp]:
  "graph_nodes [] = []" "graph_edges [] = []"
  "graph_nodes (SetNode n as l # cs) = n # graph_nodes cs" "graph_edges (SetNode n as l # cs) = graph_edges cs"
  "graph_nodes (SetEdge a b as # cs) = graph_nodes cs" "graph_edges (SetEdge a b as # cs) = (a, b) # graph_edges cs"
  "graph_nodes (SetParent a b # cs) = graph_nodes cs" "graph_edges (SetParent a b # cs) = graph_edges cs"
  "graph_nodes (xs @ ys) = graph_nodes xs @ graph_nodes ys" "graph_edges (xs @ ys) = graph_edges xs @ graph_edges ys"
  by (simp_all add: graph_nodes_def graph_edges_def call_nodes_def call_edges_def)

lemma graph_initial [simp]: "graph_nodes initializeGraph = []" "graph_edges initializeGraph = []"
  by (simp_all add: initializeGraph_def graph_nodes_def graph_edges_def call_nodes_def call_edges_def)

lemma graph_concat:
  "graph_nodes (concat css) = concat (map graph_nodes css)" "graph_edges (concat css) = concat (map graph_edges css)"
  by (induction css) auto

lemma graph_map_SetEdge [simp]:
  "graph_nodes (map (\<lambda>x. SetEdge (f x) (g x) as) xs) = []"
  "graph_edges (map (\<lambda>x. SetEdge (f x) (g x) as) xs) = map (\<lambda>x. (f x, g x)) xs"
  by (induction xs) auto

text \<open>A graph in which both ends of every edge have been given a label.\<close>

definition connected_calls :: "graph_call list \<Rightarrow> bool" where
  "connected_calls cs \<longleftrightarrow>
     list_all (\<lambda>(a, b). a \<in> set (graph_nodes cs) \<and> b \<in> set (graph_nodes cs)) (graph_edges cs)"

end
