(* ===== verification/LivePlan.thy ===== *)
theory LivePlan
  imports StageTree GraphCalls QueryHeader QueryDisplay Format Polling
begin

text \<open>
  \<open>components/LivePlan.jsx\<close>: the live plan of a query. Each refresh flattens the tree of stages and, in each stage, the
  tree of plan nodes, and draws them into a graph. \<open>jsonRepresentation\<close> is what \<open>JSON.parse\<close> makes of the text, \<open>None\<close> when
  it is not JSON. The sizes of the laid out graph and of the page are arguments.
\<close>

section \<open>Stages and plan nodes\<close>

datatype json_node =
  JsonNode (json_id: string) (json_name: string) (json_descriptor: "(string \<times> string) list")
    (json_details: "string list") (json_children: "json_node list")

record plan_stats = stage_stats_base +
  totalCpuTime :: string
  bufferedDataSize :: string
  totalBlockedTime :: string
  userMemoryReservation :: string
  queuedDrivers :: jsnum
  stat_runningDrivers :: jsnum
  completedDrivers :: jsnum
  rawInputDataSize :: string
  rawInputPositions :: jsnum
  outputDataSize :: string
  outputPositions :: jsnum

record plan_fragment =
  plan_id :: string
  plan_root_id :: string
  plan_distribution :: string
  jsonRepresentation :: "json_node option"

text \<open>The server leaves out the plans of queries it has pruned.\<close>

record plan_stage = "plan_stats stage_base" +
  stageId :: string
  st_plan :: "plan_fragment option"

record plan_node =
  pn_id :: string
  pn_name :: string
  pn_descriptor :: "(string \<times> string) list"
  pn_details :: "string list"
  pn_sources :: "string list"

record stage_node = "plan_stats stage_base" +
  node_stageId :: string
  node_id :: string
  node_root :: string
  node_distribution :: string
  nodes :: "(string, plan_node) omap"

fun flattenNode :: "json_node \<Rightarrow> (string, plan_node) omap \<Rightarrow> (string, plan_node) omap" where
  "flattenNode (JsonNode i name descriptor details children) result =
     fold flattenNode children
       (AList.update i \<lparr>pn_id = i, pn_name = name, pn_descriptor = descriptor, pn_details = details,
          pn_sources = map json_id children\<rparr> result)"

definition stageNode :: "plan_stage \<Rightarrow> plan_fragment \<Rightarrow> json_node \<Rightarrow> stage_node" where
  "stageNode stageInfo plan json =
     \<lparr>stageState = stageState stageInfo, stageStats = stageStats stageInfo, node_stageId = stageId stageInfo,
      node_id = plan_id plan, node_root = plan_root_id plan,
      node_distribution = plan_distribution plan, nodes = flattenNode json []\<rparr>"

definition flattenStage :: "plan_stage stage_tree \<Rightarrow> (string, stage_node) omap \<Rightarrow> (string, stage_node) omap throws" where
  "flattenStage t result =
     fold_stages (\<lambda>stageInfo r.
       do { plan \<leftarrow> st_plan stageInfo;
            json \<leftarrow> jsonRepresentation plan;
            Some (AList.update (plan_id plan) (stageNode stageInfo plan json) r) }) t result"

record plan_query = "query_stats query" +
  outputStage :: "plan_stage stage_tree option"
  finalQueryInfo :: bool

definition getStages :: "plan_query \<Rightarrow> (string, stage_node) omap throws" where
  "getStages queryInfo = do { t \<leftarrow> outputStage queryInfo; flattenStage t [] }"

section \<open>Labels\<close>

definition StageStatistics_render :: "stage_node \<Rightarrow> (unit, unit) html" where
  "StageStatistics_render stage =
    (let stats = stageStats stage in
      do { input \<leftarrow> parseAndFormatDataSize (rawInputDataSize stats);
           rows \<leftarrow> formatRows (Num (rawInputPositions stats));
           el ''div'' []
             [el ''div'' []
               [el ''h3'' [Cls ''margin-top: 0''] [lit ''Stage '', lit (node_id stage)],
                lit (stageState stage),
                el ''hr'' [] [],
                lit ''CPU: '',
                lit (totalCpuTime stats),
                el ''br'' [] [],
                lit ''Buffered: '',
                str (parseAndFormatDataSize (bufferedDataSize stats)),
                el ''br'' [] [],
                (if stageFullyBlocked stats then el ''div'' [Style [(''color'', ''#ff0000'')]] [lit ''Blocked: '', lit (totalBlockedTime stats), lit '' ''] else el ''div'' [] [lit ''Blocked: '', lit (totalBlockedTime stats), lit '' '']),
                lit ''Memory: '',
                str (parseAndFormatDataSize (userMemoryReservation stats)),
                el ''br'' [] [],
                lit ''Splits: '',
                lit (''Q:'' @ numToString (queuedDrivers stats) @ '', R:'' @ numToString (stat_runningDrivers stats) @ '', F:'' @ numToString (completedDrivers stats)),
                el ''hr'' [] [],
                lit ''Input: '',
                lit (input @ '' / '' @ rows)]] })"

text \<open>\<open>/Distribution:\s+(\w+)/\<close>: the word of the leftmost match.\<close>

fun matchDistribution :: "string \<Rightarrow> string option" where
  "matchDistribution [] = None"
| "matchDistribution (c # s) =
     (let label = ''Distribution:'';
          rest = drop (length label) (c # s);
          word = takeWhile is_word_char (trimStart rest)
      in if take (length label) (c # s) = label \<and> leading_space rest > 0 \<and> word \<noteq> [] then Some word
         else matchDistribution s)"

definition PlanNode_render :: "plan_node \<Rightarrow> (unit, unit) html" where
  "PlanNode_render p =
    (let distribution = (case matchDistribution (join [char_of (10 :: nat)] (pn_details p)) of
                           Some w \<Rightarrow> '' ('' @ w @ '')'' | None \<Rightarrow> []);
         descriptor = ''('' @ join '', '' (map (\<lambda>(key, value). key @ '' = '' @ value) (pn_descriptor p)) @ '')'' in
      el ''div'' [Style [(''color'', ''#000'')], Attr ''data-toggle'' ''tooltip'',
            Attr ''data-placement'' ''bottom'', Attr ''data-container'' ''body'',
            Attr ''data-html'' ''true'',
            Attr ''title'' (''<h4>'' @ pn_name p @ ''</h4>'' @ descriptor)]
        [el ''strong'' [] [lit (pn_name p @ distribution)],
         el ''div'' []
          [(case truncateString (Some descriptor) 35 of Some d \<Rightarrow> lit d | None \<Rightarrow> blank)]])"

section \<open>Drawing\<close>

definition stage_root :: "string \<Rightarrow> string" where
  "stage_root i = ''stage-'' @ i @ ''-root''"

definition node_name :: "string \<Rightarrow> string" where
  "node_name i = ''node-'' @ i"

text \<open>The stages a node reads from, by the ids in its descriptor.\<close>

definition remoteSources :: "plan_node \<Rightarrow> string list" where
  "remoteSources node =
     (case map_of (pn_descriptor node) ''sourceFragmentIds'' of
        Some fragmentIds \<Rightarrow> if fragmentIds = [] then []
                   else split '', '' (replace_first (replace_first fragmentIds ''['' []) '']'' [])
      | None \<Rightarrow> [])"

definition updateD3Source :: "(string, stage_node) omap \<Rightarrow> string \<Rightarrow> string \<Rightarrow> graph_call list throws" where
  "updateD3Source allStages nodeId sourceId =
     (case map_of allStages sourceId of
        None \<Rightarrow> Some []
      | Some source \<Rightarrow>
          do { sz \<leftarrow> parseAndFormatDataSize (outputDataSize (stageStats source));
               rows \<leftarrow> formatRows (Num (outputPositions (stageStats source)));
               Some [SetEdge (stage_root sourceId) nodeId
                 [(''class'', ''plan-edge''), (''style'', ''stroke-width: 4px''), (''arrowheadClass'', ''plan-arrowhead''),
                  (''label'', sz @ '' / '' @ rows),
                  (''labelStyle'', ''color: #fff; font-weight: bold; font-size: 24px;''), (''labelType'', ''html'')]] })"

definition updateD3Node :: "string \<Rightarrow> (string, stage_node) omap \<Rightarrow> plan_node \<Rightarrow> graph_call list throws" where
  "updateD3Node clusterId allStages node =
     do { nodeHtml \<leftarrow> PlanNode_render node;
          let nodeId = node_name (pn_id node);
          remote \<leftarrow> mapM (updateD3Source allStages nodeId) (remoteSources node);
          Some ([SetNode nodeId [(''style'', ''fill: #fff''), (''labelType'', ''html'')] (Some nodeHtml),
                 SetParent nodeId clusterId]
                @ map (\<lambda>source. SetEdge (node_name source) nodeId
                         [(''class'', ''plan-edge''), (''arrowheadClass'', ''plan-arrowhead'')]) (pn_sources node)
                @ (if remoteSources node \<noteq> []
                   then SetNode nodeId [(''label'', []), (''shape'', ''circle'')] None # concat remote else [])) }"

definition updateD3Stage :: "(string, stage_node) omap \<Rightarrow> stage_node \<Rightarrow> graph_call list throws" where
  "updateD3Stage allStages stage =
     do { html \<leftarrow> StageStatistics_render stage;
          let clusterId = node_stageId stage;
          let stageRootNodeId = stage_root (node_id stage);
          let color = getStageStateColor stage;
          inner \<leftarrow> mapM (updateD3Node clusterId allStages) (map snd (nodes stage));
          Some ([SetNode clusterId [(''style'', ''fill: '' @ color), (''labelStyle'', ''fill: #fff'')] None,
                 SetNode stageRootNodeId [(''class'', ''stage-stats''), (''labelType'', ''html'')] (Some html),
                 SetParent stageRootNodeId clusterId,
                 SetEdge (node_name (node_root stage)) stageRootNodeId [(''style'', ''visibility: hidden'')]]
                @ concat inner) }"

definition updateD3Stages :: "(string, stage_node) omap \<Rightarrow> graph_call list throws" where
  "updateD3Stages stages = map_option concat (mapM (updateD3Stage stages) (map snd stages))"

section \<open>State and rendering\<close>

text \<open>\<open>svg\<close> is the selection of the canvas, once made. An exception while rendering or updating makes React remove the
  component from the page (\<open>unmounted\<close>), after which \<open>setState\<close> does nothing.\<close>

record live_plan =
  initialized :: bool
  ended :: bool
  lp_query :: "plan_query option"
  graph :: "graph_call list"
  svg :: "bool option"
  unmounted :: bool

definition LivePlan_init :: live_plan where
  "LivePlan_init = \<lparr>initialized = False, ended = False, lp_query = None, graph = initializeGraph,
     svg = None, unmounted = False\<rparr>"

definition LivePlan_render :: "bool \<Rightarrow> live_plan \<Rightarrow> (plan_query, unit) html" where
  "LivePlan_render isEmbedded s =
    (case lp_query s of
       Some query \<Rightarrow>
         if \<not> initialized s then
           el ''div'' [Cls ''row error-message'']
             [el ''div'' [Cls ''col-xs-12'']
               [el ''h4'' [] [el ''div'' [Cls ''loader''] [lit ''Loading...'']]]]
         else
           (let loadingMessage = (if outputStage query = None then
               el ''div'' [Cls ''row error-message'']
                 [el ''div'' [Cls ''col-xs-12'']
                   [el ''h4'' []
                     [lit ''Live plan graph will appear automatically when query starts running.''],
                    el ''div'' [Cls ''loader''] [lit ''Loading...'']]]
                 else blank);
                queryHeader = (if isEmbedded then blank else component query) in
            el ''div'' []
              [queryHeader,
               el ''div'' [Cls ''row'']
                [el ''div'' [Cls ''col-xs-12'']
                  [loadingMessage,
                   el ''div'' [Id ''live-plan'', Cls ''graph-container'']
                    [el ''div'' [Cls ''pull-right'']
                      [lit (if ended s then ''Scroll to zoom.'' else ''Zoom disabled while query is running.''),
                       lit '' Click stage to view additional statistics''],
                     el ''svg'' [Id ''plan-canvas''] []]]]])
     | None \<Rightarrow>
         el ''div'' [Cls ''row error-message'']
           [el ''div'' [Cls ''col-xs-12'']
             [el ''h4'' []
               [(if initialized s then lit ''Query not found'' else el ''div'' [Cls ''loader''] [lit ''Loading...''])]]])"

section \<open>Updates\<close>

text \<open>The size of a graph, as \<open>dagre\<close> lays it out, and of the element around the canvas. The props of the page and what
  it reads of the browser and of the library are the record \<open>plan_page\<close>.\<close>

record plan_layout =
  graph_height :: jsnum
  graph_width :: jsnum
  css_height :: string
  css_width :: string

record plan_page =
  isEmbedded :: bool
  pathname :: string
  dagre :: "graph_call list \<Rightarrow> plan_layout"

datatype view_call =
    RenderGraph "graph_call list"
  | OnClusterClick
  | ScaleExtent jsnum jsnum
  | ZoomTransform jsnum jsnum jsnum
  | SvgAttr string jsnum
  | ShowTooltips

definition css_pixels :: "string \<Rightarrow> jsnum" where
  "css_pixels s = parseInt (replace_first s ''px'' []) - Fin 50"

definition updateView :: "plan_layout \<Rightarrow> bool \<Rightarrow> view_call list" where
  "updateView l final =
     (let width = css_pixels (css_width l); height = css_pixels (css_height l);
          graphHeight = graph_height l + Fin 100; graphWidth = graph_width l + Fin 100;
          initialScale = mathMin (width / graphWidth) (height / graphHeight)
      in OnClusterClick
         # (if final
            then [ScaleExtent initialScale (Fin 1),
                  ZoomTransform ((width - graph_width l * initialScale) / Fin 2) (Fin 20) initialScale,
                  SvgAttr ''height'' height, SvgAttr ''width'' width]
            else [SvgAttr ''height'' graphHeight, SvgAttr ''width'' graphWidth]))"

text \<open>\<open>updateD3Graph\<close> once the canvas is selected. On an empty selection nothing is drawn, though the graph is computed.\<close>

definition updateD3Graph :: "plan_page \<Rightarrow> live_plan \<Rightarrow> (live_plan \<times> view_call list) throws" where
  "updateD3Graph env s =
     (case lp_query s of
        None \<Rightarrow> Some (s, [])
      | Some query \<Rightarrow>
          do { stages \<leftarrow> getStages query;
               cs \<leftarrow> updateD3Stages stages;
               let g = graph s @ cs;
               Some (s\<lparr>graph := g\<rparr>,
                     if svg s = Some True then RenderGraph g # updateView (dagre env g) (ended s) else []) })"

text \<open>The first update selects the canvas with \<open>setState\<close>, which updates the component again.\<close>

definition LivePlan_componentDidUpdate :: "plan_page \<Rightarrow> live_plan \<Rightarrow> (live_plan \<times> view_call list) throws" where
  "LivePlan_componentDidUpdate env s =
     (if svg s = None
      then let page_ids = html_ids (LivePlan_render (isEmbedded env) s)
           in do { (s', vs) \<leftarrow> updateD3Graph env (s\<lparr>svg := Some (initializeSvg page_ids ''plan-canvas'')\<rparr>);
                   Some (s', ShowTooltips # vs @ [ShowTooltips]) }
      else do { (s', vs) \<leftarrow> updateD3Graph env s; Some (s', vs @ [ShowTooltips]) })"

text \<open>Rendering the new state, with the header in it, and what follows.\<close>

definition LivePlan_commit :: "plan_page \<Rightarrow> live_plan \<Rightarrow> live_plan" where
  "LivePlan_commit env s =
     (let page = LivePlan_render (isEmbedded env) s
      in if list_all (\<lambda>q. renders (QueryHeader_render (pathname env) q)) (html_components page)
         then (case LivePlan_componentDidUpdate env s of Some (s', vs) \<Rightarrow> s' | None \<Rightarrow> s\<lparr>unmounted := True\<rparr>)
         else s\<lparr>unmounted := True\<rparr>)"

definition LivePlan_setState :: "plan_page \<Rightarrow> (live_plan \<Rightarrow> live_plan) \<Rightarrow> live_plan page \<Rightarrow> live_plan page" where
  "LivePlan_setState env f w = setState (\<lambda>s. if unmounted s then s else LivePlan_commit env (f s)) w"

definition LivePlan_continues :: "live_plan \<Rightarrow> bool" where
  "LivePlan_continues s \<longleftrightarrow> lp_query s = None \<or> \<not> ended s"

definition LivePlan_resetTimer :: "live_plan page \<Rightarrow> live_plan page" where
  "LivePlan_resetTimer w = reset_timer LivePlan_continues w"

text \<open>The address of the request, for the property \<open>queryId\<close> of the component.\<close>

definition LivePlan_url :: "string \<Rightarrow> string" where
  "LivePlan_url query = ''/ui/api/query/'' @ query"

definition LivePlan_refreshLoop :: "live_plan page \<Rightarrow> live_plan page" where
  "LivePlan_refreshLoop w = send_request (clear_timer w)"

definition LivePlan_componentDidMount :: "live_plan page \<times> effect list" where
  "LivePlan_componentDidMount = (LivePlan_refreshLoop (mounted LivePlan_init), [Clipboard ''.copy-button''])"

text \<open>The two callbacks of the request. When \<open>setState\<close> throws in the first one, the promise goes on with the
  second one, on a component that is no longer mounted, and that one resets the timer; when it throws in the second one nothing
  does.\<close>

definition LivePlan_catch :: "plan_page \<Rightarrow> live_plan page \<Rightarrow> live_plan page throws" where
  "LivePlan_catch env w =
     (let w' = LivePlan_setState env (\<lambda>s. s\<lparr>initialized := True\<rparr>) w
      in if unmounted (this_state w') \<and> \<not> unmounted (this_state w) then Some w'
         else Some (LivePlan_resetTimer w'))"

definition LivePlan_success :: "plan_page \<Rightarrow> plan_query \<Rightarrow> live_plan page \<Rightarrow> live_plan page throws" where
  "LivePlan_success env query w =
     (let w' = LivePlan_setState env
        (\<lambda>s. s\<lparr>lp_query := Some query, initialized := True, ended := finalQueryInfo query\<rparr>) w
      in if unmounted (this_state w') \<and> \<not> unmounted (this_state w) then LivePlan_catch env w'
         else Some (LivePlan_resetTimer w'))"

definition LivePlan_responses :: "plan_page \<Rightarrow> (live_plan page \<Rightarrow> live_plan page throws) set" where
  "LivePlan_responses env = insert (LivePlan_catch env) (range (LivePlan_success env))"

definition handleStageClick :: "string \<Rightarrow> string" where
  "handleStageClick stageCssId = ''stage.html?'' @ stageCssId"

end
