(* ===== verification/LivePlanSpec.thy ===== *)
theory LivePlanSpec
  imports LivePlan
begin

text \<open>
  What the live plan draws and how long it refreshes: the stages and plan nodes collected are those of the trees, each
  edge drawn joins two nodes drawn, and the loop runs until the final query information has arrived.
\<close>

section \<open>Filling a map in a loop\<close>

lemma update_absent: "k \<notin> fst ` set m \<Longrightarrow> AList.update k v m = m @ [(k, v)]"
  by (induction m) auto

lemma fold_put_append:
  assumes "distinct (map f xs)" and "f ` set xs \<inter> fst ` set m = {}"
  shows "fold (\<lambda>x. AList.update (f x) (g x)) xs m = m @ map (\<lambda>x. (f x, g x)) xs"
  using assms
proof (induction xs arbitrary: m)
  case (Cons x xs)
  then have "AList.update (f x) (g x) m = m @ [(f x, g x)]" by (intro update_absent) auto
  moreover have "f ` set xs \<inter> fst ` set (m @ [(f x, g x)]) = {}" using Cons.prems by auto
  ultimately show ?case using Cons by simp
qed simp

lemmas fold_put_fresh = fold_put_append [where m = "[]", simplified]

lemma set_update_subset: "set (AList.update k v m) \<subseteq> insert (k, v) (set m)"
  by (induction m) auto

lemma fold_put_entries:
  "set (fold (\<lambda>x. AList.update (f x) (g x)) xs m) \<subseteq> set m \<union> (\<lambda>x. (f x, g x)) ` set xs"
proof (induction xs arbitrary: m)
  case (Cons x xs)
  show ?case using Cons [of "AList.update (f x) (g x) m"] set_update_subset [of "f x" "g x" m] by auto
qed simp

section \<open>Plan nodes\<close>

fun json_nodes :: "json_node \<Rightarrow> json_node list" where
  "json_nodes (JsonNode i name descriptor details children) =
     JsonNode i name descriptor details children # concat (map json_nodes children)"

definition planNode :: "json_node \<Rightarrow> plan_node" where
  "planNode n = \<lparr>pn_id = json_id n, pn_name = json_name n, pn_descriptor = json_descriptor n,
     pn_details = json_details n, pn_sources = map json_id (json_children n)\<rparr>"

abbreviation put_node :: "json_node \<Rightarrow> (string, plan_node) omap \<Rightarrow> (string, plan_node) omap" where
  "put_node \<equiv> \<lambda>n. AList.update (json_id n) (planNode n)"

lemma fold_concat: "fold f (concat xss) r = fold (\<lambda>xs. fold f xs) xss r"
  by (induction xss arbitrary: r) auto

lemma flattenNode_fold: "flattenNode n r = fold put_node (json_nodes n) r"
proof (induction n arbitrary: r)
  case (JsonNode i name descriptor details children)
  have "fold flattenNode children r' = fold put_node (concat (map json_nodes children)) r'" for r'
    using JsonNode by (induction children arbitrary: r') auto
  then show ?case by (simp add: planNode_def)
qed

lemma json_nodes_self: "n \<in> set (json_nodes n)"
  by (cases n) simp

lemma json_nodes_children: "m \<in> set (json_nodes n) \<Longrightarrow> set (json_children m) \<subseteq> set (json_nodes n)"
proof (induction n)
  case (JsonNode i name descriptor details children)
  then show ?case using json_nodes_self by fastforce
qed

lemma flattenNode_keys: "fst ` set (flattenNode n []) = json_id ` set (json_nodes n)"
  using om.fold_put_keys [of json_id planNode "json_nodes n" "[]"] by (simp add: flattenNode_fold)

lemma flattenNode_entries: "(k, p) \<in> set (flattenNode n []) \<Longrightarrow> \<exists>m \<in> set (json_nodes n). k = json_id m \<and> p = planNode m"
  using fold_put_entries [of json_id planNode "json_nodes n" "[]"] by (auto simp: flattenNode_fold)

lemma flattenNode_nodes: "pn_id ` snd ` set (flattenNode n []) = json_id ` set (json_nodes n)"
proof -
  have "pn_id (snd x) = fst x" if "x \<in> set (flattenNode n [])" for x
    using flattenNode_entries [of "fst x" "snd x" n] that by (auto simp: planNode_def)
  then have "pn_id ` snd ` set (flattenNode n []) = fst ` set (flattenNode n [])"
    by (simp add: image_image)
  then show ?thesis by (simp add: flattenNode_keys)
qed

section \<open>Stages\<close>

definition stage_json :: "plan_stage \<Rightarrow> json_node option" where
  "stage_json s = do { plan \<leftarrow> st_plan s; jsonRepresentation plan }"

definition fragment_id :: "plan_stage \<Rightarrow> string" where
  "fragment_id s = plan_id (the (st_plan s))"

definition parsed_stage :: "plan_stage \<Rightarrow> stage_node" where
  "parsed_stage s = stageNode s (the (st_plan s)) (the (stage_json s))"

definition all_parse :: "plan_stage stage_tree \<Rightarrow> bool" where
  "all_parse t \<longleftrightarrow> list_all (\<lambda>s. stage_json s \<noteq> None) (preorder t)"

lemma flattenStage_fold:
  assumes "all_parse t"
  shows "flattenStage t r = Some (fold (\<lambda>s. AList.update (fragment_id s) (parsed_stage s)) (postorder t) r)"
  unfolding flattenStage_def fold_stages_postorder using assms
  by (intro foldM_total)
    (auto simp: all_parse_def list_all_iff set_postorder parsed_stage_def stage_json_def fragment_id_def bind_eq_Some_conv)

lemma flattenStage_throws: "\<not> all_parse t \<Longrightarrow> flattenStage t r = throw"
  unfolding flattenStage_def fold_stages_postorder all_parse_def list_all_iff
  by (auto simp: set_postorder [symmetric] stage_json_def bind_eq_None_conv intro!: foldM_throws)

lemma getStages_throws:
  "getStages q = throw \<longleftrightarrow> (case outputStage q of None \<Rightarrow> True | Some t \<Rightarrow> \<not> all_parse t)"
proof (cases "outputStage q")
  case (Some t)
  then show ?thesis
    using flattenStage_fold [of t "[]"] flattenStage_throws [of t "[]"] by (cases "all_parse t") (simp_all add: getStages_def)
qed (simp add: getStages_def)

lemma distinct_postorder: "distinct (map f (preorder t)) \<longleftrightarrow> distinct (map f (postorder t))"
  using mset_distinct_map mset_postorder by metis

text \<open>The stages of a query, for trees whose plan ids are distinct: collecting them fails exactly when the query has no output stage
  or a stage has no plan or one that is not JSON, and otherwise gives every stage once under its plan id, sub-stages
  before the stage that reads them, each with all the nodes of its plan.\<close>

theorem getStages_complete:
  assumes "outputStage q = Some t" and "distinct (map fragment_id (preorder t))"
    and "\<forall>s \<in> set (preorder t). \<forall>n. stage_json s = Some n \<longrightarrow> distinct (map json_id (json_nodes n))"
  shows "getStages q =
     (if list_all (\<lambda>s. stage_json s \<noteq> None) (preorder t)
      then Some (map (\<lambda>s. (fragment_id s, parsed_stage s)) (postorder t)) else throw)
   \<and> (\<forall>s \<in> set (preorder t). \<forall>n. stage_json s = Some n \<longrightarrow>
        nodes (parsed_stage s) = map (\<lambda>m. (json_id m, planNode m)) (json_nodes n))"
proof
  have "getStages q = Some (map (\<lambda>s. (fragment_id s, parsed_stage s)) (postorder t))" if "all_parse t"
    using that assms(1,2) by (simp add: getStages_def flattenStage_fold fold_put_fresh distinct_postorder)
  moreover have "getStages q = throw" if "\<not> all_parse t"
    using that assms(1) by (simp add: getStages_throws)
  ultimately show "getStages q =
     (if list_all (\<lambda>s. stage_json s \<noteq> None) (preorder t)
      then Some (map (\<lambda>s. (fragment_id s, parsed_stage s)) (postorder t)) else throw)"
    by (simp add: all_parse_def)
  show "\<forall>s \<in> set (preorder t). \<forall>n. stage_json s = Some n \<longrightarrow>
        nodes (parsed_stage s) = map (\<lambda>m. (json_id m, planNode m)) (json_nodes n)"
    using assms(3) by (simp add: parsed_stage_def stageNode_def flattenNode_fold fold_put_fresh)
qed

definition sample_stats :: plan_stats where
  "sample_stats = \<lparr>stageFullyBlocked = False, totalCpuTime = ''1.00s'', bufferedDataSize = ''0B'', totalBlockedTime = ''0.00ns'',
     userMemoryReservation = ''0B'', queuedDrivers = Fin 0, stat_runningDrivers = Fin 1, completedDrivers = Fin 2,
     rawInputDataSize = ''3kB'', rawInputPositions = Fin 10, outputDataSize = ''1kB'', outputPositions = Fin 5\<rparr>"

definition sample_stage :: "string \<Rightarrow> json_node option \<Rightarrow> plan_stage" where
  "sample_stage i json = \<lparr>stageState = ''RUNNING'', stageStats = sample_stats, stageId = ''q1.'' @ i,
     st_plan = Some \<lparr>plan_id = i, plan_root_id = (case json of Some n \<Rightarrow> json_id n | None \<Rightarrow> []), plan_distribution = ''SINGLE'', jsonRepresentation = json\<rparr>\<rparr>"

definition sample_tree :: "plan_stage stage_tree" where
  "sample_tree =
     Stage (sample_stage ''0'' (Some (JsonNode ''1'' ''Output'' [] []
              [JsonNode ''2'' ''RemoteSource'' [(''sourceFragmentIds'', ''[1]'')] [] []])))
       [Stage (sample_stage ''1'' (Some (JsonNode ''3'' ''TableScan'' [] [] []))) []]"

definition sample_plan_query :: "plan_stage stage_tree option \<Rightarrow> plan_query" where
  "sample_plan_query t = \<lparr>queryId = ''q1'', state = ''RUNNING'', scheduled = True, memoryPool = None, errorType = None,
     errorCode = None, queryStats = queryStats canceled_query, outputStage = t, finalQueryInfo = False\<rparr>"

lemma sample_tree_facts:
  "map fragment_id (preorder sample_tree) = [''0'', ''1'']"
  "preorder sample_tree = map stage_data [sample_tree, hd (subStages sample_tree)]"
  by (simp_all add: sample_tree_def sample_stage_def fragment_id_def)

theorem getStages_complete_witness:
  "map_option (map fst) (getStages (sample_plan_query (Some sample_tree))) = Some [''1'', ''0'']"
proof -
  have "outputStage (sample_plan_query (Some sample_tree)) = Some sample_tree"
    and "distinct (map fragment_id (preorder sample_tree))"
    and "\<forall>s \<in> set (preorder sample_tree). \<forall>n. stage_json s = Some n \<longrightarrow> distinct (map json_id (json_nodes n))"
    by (simp_all add: sample_plan_query_def sample_tree_def sample_stage_def fragment_id_def stage_json_def)
  from getStages_complete [OF this] show ?thesis by (simp add: sample_tree_def sample_stage_def fragment_id_def stage_json_def)
qed

section \<open>Drawing\<close>

text \<open>A drawing that does not throw, with the nodes and the edges it draws.\<close>

definition draws :: "graph_call list throws \<Rightarrow> string set \<Rightarrow> (string \<times> string) set \<Rightarrow> bool" where
  "draws r N E \<longleftrightarrow> (\<exists>cs. r = Some cs \<and> set (graph_nodes cs) = N \<and> set (graph_edges cs) = E)"

lemma mapM_draws:
  assumes "\<And>x. x \<in> set xs \<Longrightarrow> draws (f x) (N x) (E x)"
  shows "draws (map_option concat (mapM f xs)) (\<Union>x \<in> set xs. N x) (\<Union>x \<in> set xs. E x)"
  using assms
proof (induction xs)
  case (Cons x xs)
  then have "draws (f x) (N x) (E x)"
    and "draws (map_option concat (mapM f xs)) (\<Union>x \<in> set xs. N x) (\<Union>x \<in> set xs. E x)" by auto
  then show ?case by (auto simp: draws_def)
qed (simp add: draws_def)

lemma updateD3Source_draws:
  "draws (updateD3Source a n i) {} (if has_key a i then {(stage_root i, n)} else {})"
proof (cases "map_of a i")
  case (Some source)
  obtain sz rows where "parseAndFormatDataSize (outputDataSize (stageStats source)) = Some sz"
    and "formatRows (Num (outputPositions (stageStats source))) = Some rows"
    using parseAndFormatDataSize_total formatRows_throws by (metis not_None_eq val.distinct(5))
  with Some show ?thesis by (simp add: updateD3Source_def draws_def has_key_def)
qed (simp add: updateD3Source_def draws_def has_key_def)

definition node_edges :: "(string, stage_node) omap \<Rightarrow> plan_node \<Rightarrow> (string \<times> string) set" where
  "node_edges a p =
     (\<lambda>i. (node_name i, node_name (pn_id p))) ` set (pn_sources p)
     \<union> (\<lambda>i. (stage_root i, node_name (pn_id p))) ` {i \<in> set (remoteSources p). has_key a i}"

lemma PlanNode_renders: "renders (PlanNode_render p)"
  by (simp add: PlanNode_render_def Let_def dom_simps split: option.splits)

lemma StageStatistics_renders: "renders (StageStatistics_render st)"
  using parseAndFormatDataSize_total formatRows_throws
  by (simp add: StageStatistics_render_def Let_def dom_simps)

lemma updateD3Node_draws: "draws (updateD3Node c a p) {node_name (pn_id p)} (node_edges a p)"
proof -
  obtain v where v: "PlanNode_render p = Some v" using PlanNode_renders [of p] by (auto simp: renders_def)
  have "draws (map_option concat (mapM (updateD3Source a (node_name (pn_id p))) (remoteSources p)))
    (\<Union>i \<in> set (remoteSources p). {})
    (\<Union>i \<in> set (remoteSources p). if has_key a i then {(stage_root i, node_name (pn_id p))} else {})"
    by (rule mapM_draws) (rule updateD3Source_draws)
  then obtain remote where r: "mapM (updateD3Source a (node_name (pn_id p))) (remoteSources p) = Some remote"
      "graph_nodes (concat remote) = []" "set (graph_edges (concat remote))
        = (\<Union>i \<in> set (remoteSources p). if has_key a i then {(stage_root i, node_name (pn_id p))} else {})"
    by (auto simp: draws_def)
  show ?thesis
    using v r by (cases "remoteSources p = []") (auto simp: draws_def updateD3Node_def node_edges_def Let_def)
qed

definition stage_edges :: "(string, stage_node) omap \<Rightarrow> stage_node \<Rightarrow> (string \<times> string) set" where
  "stage_edges a st =
     insert (node_name (node_root st), stage_root (node_id st)) (\<Union>p \<in> snd ` set (nodes st). node_edges a p)"

definition stage_nodes :: "stage_node \<Rightarrow> string set" where
  "stage_nodes st = {node_stageId st, stage_root (node_id st)} \<union> node_name ` pn_id ` snd ` set (nodes st)"

lemma updateD3Stage_draws: "draws (updateD3Stage a st) (stage_nodes st) (stage_edges a st)"
proof -
  obtain v where v: "StageStatistics_render st = Some v"
    using StageStatistics_renders [of st] by (auto simp: renders_def)
  have "draws (map_option concat (mapM (updateD3Node (node_stageId st) a) (map snd (nodes st))))
    (\<Union>p \<in> set (map snd (nodes st)). {node_name (pn_id p)}) (\<Union>p \<in> set (map snd (nodes st)). node_edges a p)"
    by (rule mapM_draws) (rule updateD3Node_draws)
  then obtain inner where "mapM (updateD3Node (node_stageId st) a) (map snd (nodes st)) = Some inner"
      "set (graph_nodes (concat inner)) = node_name ` pn_id ` snd ` set (nodes st)"
      "set (graph_edges (concat inner)) = (\<Union>p \<in> snd ` set (nodes st). node_edges a p)"
    by (auto simp: draws_def image_image UNION_singleton_eq_range)
  with v show ?thesis by (auto simp: draws_def updateD3Stage_def stage_nodes_def stage_edges_def Let_def)
qed

lemma updateD3Stages_draws:
  "draws (updateD3Stages a) (\<Union>st \<in> snd ` set a. stage_nodes st) (\<Union>st \<in> snd ` set a. stage_edges a st)"
  using mapM_draws [of "map snd a" "updateD3Stage a" stage_nodes "stage_edges a"] updateD3Stage_draws
  by (simp add: updateD3Stages_def)

text \<open>A tree of stages as the server sends it while it keeps the plans: every stage has one, and its JSON is that of its root.\<close>

definition wf_plan :: "plan_stage stage_tree \<Rightarrow> bool" where
  "wf_plan t \<longleftrightarrow> distinct (map fragment_id (preorder t))
     \<and> list_all (\<lambda>s. case st_plan s of
          None \<Rightarrow> False | Some plan \<Rightarrow> map_option json_id (jsonRepresentation plan) = Some (plan_root_id plan)) (preorder t)"

lemma wf_plan_root:
  "wf_plan t \<Longrightarrow> s \<in> set (preorder t) \<Longrightarrow> \<exists>n. stage_json s = Some n \<and> plan_root_id (the (st_plan s)) = json_id n"
  by (fastforce simp: wf_plan_def list_all_iff stage_json_def split: option.splits)

lemma wf_plan_parses: "wf_plan t \<Longrightarrow> all_parse t"
  using wf_plan_root by (fastforce simp: all_parse_def list_all_iff)

lemma parsed_stage_edges:
  assumes "stage_json s = Some n" and "plan_root_id (the (st_plan s)) = json_id n"
    and "(x, y) \<in> stage_edges a (parsed_stage s)"
  shows "x \<in> stage_nodes (parsed_stage s) \<or> (\<exists>i. has_key a i \<and> x = stage_root i)"
    and "y \<in> stage_nodes (parsed_stage s)"
proof -
  have ids: "pn_id ` snd ` set (nodes (parsed_stage s)) = json_id ` set (json_nodes n)"
    using assms(1) by (simp add: parsed_stage_def stageNode_def flattenNode_nodes)
  have sources: "set (pn_sources p) \<subseteq> json_id ` set (json_nodes n)" if "p \<in> snd ` set (nodes (parsed_stage s))" for p
  proof -
    from that obtain k where "(k, p) \<in> set (flattenNode n [])"
      using assms(1) by (auto simp: parsed_stage_def stageNode_def)
    then obtain m where "m \<in> set (json_nodes n)" "p = planNode m" using flattenNode_entries by blast
    then show ?thesis using json_nodes_children [of m n] by (auto simp: planNode_def)
  qed
  have root: "node_root (parsed_stage s) \<in> json_id ` set (json_nodes n)"
    using assms(2) json_nodes_self [of n] by (simp add: parsed_stage_def stageNode_def)
  show "y \<in> stage_nodes (parsed_stage s)"
    using assms(3) by (auto simp: stage_edges_def stage_nodes_def node_edges_def)
  have "node_name i \<in> stage_nodes (parsed_stage s)" if "i \<in> json_id ` set (json_nodes n)" for i
    using that by (simp add: stage_nodes_def ids)
  note drawn = this
  from assms(3) consider "x = node_name (node_root (parsed_stage s))"
    | p i where "p \<in> snd ` set (nodes (parsed_stage s))" "i \<in> set (pn_sources p)" "x = node_name i"
    | i where "has_key a i" "x = stage_root i"
    unfolding stage_edges_def node_edges_def by blast
  then show "x \<in> stage_nodes (parsed_stage s) \<or> (\<exists>i. has_key a i \<and> x = stage_root i)"
    by cases (use drawn root sources in blast)+
qed

lemma parsed_stage_nodes:
  assumes "stage_json s = Some n"
  shows "stage_nodes (parsed_stage s) = {stageId s, stage_root (fragment_id s)} \<union> node_name ` json_id ` set (json_nodes n)"
  using flattenNode_nodes [of n] assms by (simp add: stage_nodes_def parsed_stage_def stageNode_def fragment_id_def)

text \<open>C7. Drawing the plan of a query with an output stage does not throw when the plan ids of its stages are distinct and every stage has a plan, with a JSON representation that can be
  parsed and starts at the root of the plan (the server sends no plans for queries it has pruned: then drawing throws). The nodes drawn are exactly a cluster and a box of statistics for each
  stage, and one node for each node of each stage's plan; every edge joins two nodes drawn, also those between stages.\<close>

theorem LivePlan_draws_plan:
  assumes "outputStage q = Some t" and "wf_plan t"
  shows "\<exists>stages cs. getStages q = Some stages \<and> updateD3Stages stages = Some cs \<and> connected_calls cs
    \<and> set (graph_nodes cs) =
        (\<Union>s \<in> set (preorder t). {stageId s, stage_root (fragment_id s)}
           \<union> node_name ` json_id ` set (json_nodes (the (stage_json s))))"
proof -
  let ?a = "map (\<lambda>s. (fragment_id s, parsed_stage s)) (postorder t)"
  have stages: "getStages q = Some ?a"
    using assms wf_plan_parses [OF assms(2)]
    by (simp add: getStages_def flattenStage_fold fold_put_fresh distinct_postorder wf_plan_def)
  obtain cs where cs: "updateD3Stages ?a = Some cs"
      "set (graph_nodes cs) = (\<Union>s \<in> set (preorder t). stage_nodes (parsed_stage s))"
      "set (graph_edges cs) = (\<Union>s \<in> set (preorder t). stage_edges ?a (parsed_stage s))"
    using updateD3Stages_draws [of ?a] by (auto simp: draws_def set_postorder image_image)
  have "x \<in> set (graph_nodes cs) \<and> y \<in> set (graph_nodes cs)" if e: "(x, y) \<in> set (graph_edges cs)" for x y
  proof -
    from e cs(3) obtain s where s: "s \<in> set (preorder t)" "(x, y) \<in> stage_edges ?a (parsed_stage s)" by auto
    obtain n where n: "stage_json s = Some n" "plan_root_id (the (st_plan s)) = json_id n"
      using wf_plan_root [OF assms(2) s(1)] by blast
    have "stage_root i \<in> set (graph_nodes cs)" if "has_key ?a i" for i
      using that by (auto simp: cs(2) has_key_iff set_postorder stage_nodes_def parsed_stage_def stageNode_def fragment_id_def)
    then show ?thesis using parsed_stage_edges [OF n s(2)] s(1) cs(2) by auto
  qed
  moreover have "(\<Union>s \<in> set (preorder t). stage_nodes (parsed_stage s)) =
        (\<Union>s \<in> set (preorder t). {stageId s, stage_root (fragment_id s)}
           \<union> node_name ` json_id ` set (json_nodes (the (stage_json s))))"
    using parsed_stage_nodes wf_plan_root [OF assms(2)] by (intro SUP_cong) fastforce+
  ultimately show ?thesis
    using stages cs(1,2) by (intro exI [of _ ?a] exI [of _ cs]) (auto simp: connected_calls_def list_all_iff)
qed

theorem LivePlan_draws_plan_witness:
  "\<exists>stages cs. getStages (sample_plan_query (Some sample_tree)) = Some stages \<and> updateD3Stages stages = Some cs
     \<and> connected_calls cs
     \<and> set (graph_nodes cs) = {''q1.0'', ''q1.1'', ''stage-0-root'', ''stage-1-root'', ''node-1'', ''node-2'', ''node-3''}"
proof -
  have "outputStage (sample_plan_query (Some sample_tree)) = Some sample_tree" and "wf_plan sample_tree"
    by (simp_all add: sample_plan_query_def sample_tree_def sample_stage_def wf_plan_def fragment_id_def)
  from LivePlan_draws_plan [OF this] show ?thesis
    by (simp add: sample_tree_def sample_stage_def node_name_def stage_root_def fragment_id_def stage_json_def insert_commute)
qed

section \<open>Updates of the page\<close>

lemma LivePlan_render_reads:
  "html_components (LivePlan_render e s) =
     (case lp_query s of Some q \<Rightarrow> if e \<or> \<not> initialized s then [] else [q] | None \<Rightarrow> [])"
  "''plan-canvas'' \<in> set (html_ids (LivePlan_render e s)) \<longleftrightarrow> lp_query s \<noteq> None \<and> initialized s"
  by (cases "lp_query s"; simp add: LivePlan_render_def html_el dom_simps)+

lemma updateD3Graph_result:
  "updateD3Graph env s =
     (case lp_query s of None \<Rightarrow> Some (s, [])
      | Some q \<Rightarrow> if getStages q = throw then throw
                 else (let g = graph s @ the (updateD3Stages (the (getStages q)))
                       in Some (s\<lparr>graph := g\<rparr>, if svg s = Some True
                            then RenderGraph g # updateView (dagre env g) (ended s) else [])))"
proof (cases "do { q \<leftarrow> lp_query s; getStages q }")
  case None
  then show ?thesis by (auto simp: updateD3Graph_def split: bind_splits)
next
  case (Some stages)
  then show ?thesis using updateD3Stages_draws [of stages]
    by (auto simp: updateD3Graph_def draws_def Let_def bind_eq_Some_conv)
qed

definition can_show :: "plan_page \<Rightarrow> plan_query \<Rightarrow> bool" where
  "can_show env q \<longleftrightarrow> (isEmbedded env \<or> displayable q) \<and> getStages q \<noteq> throw"

lemma header_renders: "renders (QueryHeader_render p q) \<longleftrightarrow> displayable q"
  by (simp add: QueryHeader_render_def dom_simps)

lemma componentDidUpdate_throws:
  "LivePlan_componentDidUpdate env s = throw \<longleftrightarrow> (\<exists>q. lp_query s = Some q \<and> getStages q = throw)"
  by (cases "lp_query s") (auto simp: LivePlan_componentDidUpdate_def updateD3Graph_result Let_def)

lemma componentDidUpdate_keeps:
  assumes "LivePlan_componentDidUpdate env s = Some (s', vs)"
  shows "lp_query s' = lp_query s" "ended s' = ended s" "initialized s' = initialized s" "unmounted s' = unmounted s"
    "svg s' = (if svg s = None then Some (lp_query s \<noteq> None \<and> initialized s) else svg s)"
    "svg s = Some False \<Longrightarrow> set vs \<subseteq> {ShowTooltips}"
  using assms
  by (auto simp: LivePlan_componentDidUpdate_def updateD3Graph_result Let_def initializeSvg_def LivePlan_render_reads
      split: option.splits if_splits)

lemma LivePlan_commit_keeps:
  "lp_query (LivePlan_commit env s) = lp_query s" "ended (LivePlan_commit env s) = ended s"
  "initialized (LivePlan_commit env s) = initialized s"
  "svg s = Some b \<Longrightarrow> svg (LivePlan_commit env s) = Some b"
  by (auto simp: LivePlan_commit_def Let_def componentDidUpdate_keeps split: option.splits)

lemma LivePlan_commit_unmounts:
  assumes "initialized s" and "\<not> unmounted s"
  shows "unmounted (LivePlan_commit env s) \<longleftrightarrow> (\<exists>q. lp_query s = Some q \<and> \<not> can_show env q)"
proof (cases "LivePlan_componentDidUpdate env s")
  case None
  then have "\<exists>q. lp_query s = Some q \<and> getStages q = throw" by (simp add: componentDidUpdate_throws)
  with None show ?thesis by (auto simp: LivePlan_commit_def can_show_def)
next
  case (Some p)
  then obtain s' vs where p: "LivePlan_componentDidUpdate env s = Some (s', vs)" by (cases p) auto
  then have "getStages q \<noteq> throw" if "lp_query s = Some q" for q
    using that componentDidUpdate_throws [of env s] by auto
  with p assms show ?thesis
    by (auto simp: LivePlan_commit_def Let_def LivePlan_render_reads header_renders can_show_def
        componentDidUpdate_keeps split: option.splits)
qed

text \<open>A page on which every query accepted can be shown.\<close>

definition presentable :: "plan_page \<Rightarrow> live_plan \<Rightarrow> bool" where
  "presentable env s \<longleftrightarrow> unmounted s \<or> (\<forall>q. lp_query s = Some q \<longrightarrow> can_show env q \<and> initialized s)"

lemma this_state_LivePlan_setState [loop_simps]:
  "this_state (LivePlan_setState env f w) =
     (if unmounted (this_state w) then this_state w else LivePlan_commit env (f (this_state w)))"
  "slot (LivePlan_setState env f w) = slot w" "inflight (LivePlan_setState env f w) = inflight w"
  by (simp_all add: LivePlan_setState_def loop_simps)

lemma LivePlan_catch_result:
  assumes "presentable env (this_state w)"
  shows "\<exists>w'. LivePlan_catch env w = Some w' \<and> inflight w' = inflight w \<and> presentable env (this_state w')
    \<and> slot w' = (if LivePlan_continues (this_state w') then setTimeout (clearTimeout (slot w)) else clearTimeout (slot w))"
proof -
  have "presentable env (LivePlan_commit env ((this_state w)\<lparr>initialized := True\<rparr>))
    \<and> \<not> unmounted (LivePlan_commit env ((this_state w)\<lparr>initialized := True\<rparr>))" if "\<not> unmounted (this_state w)"
    using that assms LivePlan_commit_unmounts [of "(this_state w)\<lparr>initialized := True\<rparr>" env]
    by (auto simp: presentable_def LivePlan_commit_keeps)
  with assms show ?thesis
    by (auto simp: LivePlan_catch_def Let_def LivePlan_resetTimer_def loop_simps)
qed

lemma LivePlan_success_result:
  assumes "presentable env (this_state w)"
  shows "\<exists>w'. LivePlan_success env q w = Some w' \<and> inflight w' = inflight w \<and> presentable env (this_state w')
    \<and> slot w' = (if LivePlan_continues (this_state w') then setTimeout (clearTimeout (slot w)) else clearTimeout (slot w))"
proof -
  let ?s = "(this_state w)\<lparr>lp_query := Some q, initialized := True, ended := finalQueryInfo q\<rparr>"
  let ?w = "LivePlan_setState env (\<lambda>s. s\<lparr>lp_query := Some q, initialized := True, ended := finalQueryInfo q\<rparr>) w"
  have "presentable env (LivePlan_commit env ?s)" if "\<not> unmounted (this_state w)"
    using that LivePlan_commit_unmounts [of ?s env] by (auto simp: presentable_def LivePlan_commit_keeps)
  then have "presentable env (this_state ?w)" using assms by (simp add: loop_simps)
  then show ?thesis
    using LivePlan_catch_result [of env ?w]
    by (auto simp: LivePlan_success_def Let_def LivePlan_resetTimer_def loop_simps)
qed

interpretation lp: poller LivePlan_refreshLoop "LivePlan_responses env" "{}" LivePlan_continues "presentable env" for env
proof unfold_locales
  fix w :: "live_plan page"
  show "slot (LivePlan_refreshLoop w) = clearTimeout (slot w) \<and> inflight (LivePlan_refreshLoop w) = inflight w + 1
    \<and> LivePlan_continues (this_state (LivePlan_refreshLoop w)) = LivePlan_continues (this_state w)
    \<and> (presentable env (this_state w) \<longrightarrow> presentable env (this_state (LivePlan_refreshLoop w)))"
    by (simp add: LivePlan_refreshLoop_def loop_simps)
next
  fix r and w :: "live_plan page"
  assume r: "r \<in> LivePlan_responses env" and w: "presentable env (this_state w)"
  from r have "r = LivePlan_catch env \<or> (\<exists>q. r = LivePlan_success env q)" by (auto simp: LivePlan_responses_def)
  then show "\<exists>w'. r w = Some w' \<and> inflight w' = inflight w \<and> presentable env (this_state w')
    \<and> slot w' = (if LivePlan_continues (this_state w') then setTimeout (clearTimeout (slot w)) else clearTimeout (slot w))"
  proof (elim disjE exE)
    assume "r = LivePlan_catch env"
    then show ?thesis using LivePlan_catch_result [OF w] by (simp only:)
  next
    fix q assume "r = LivePlan_success env q"
    then show ?thesis using LivePlan_success_result [OF w] by (simp only:)
  qed
qed simp

section \<open>Properties of the page\<close>

lemma run_unmounted:
  assumes "unmounted (this_state w)" and "r \<in> LivePlan_responses env"
  shows "this_state (run r w) = this_state w"
  using assms
  by (auto simp: LivePlan_responses_def run_def LivePlan_catch_def LivePlan_success_def Let_def
      LivePlan_resetTimer_def loop_simps)

lemma run_svg:
  assumes "svg (this_state w) = Some b" and "r \<in> LivePlan_responses env"
  shows "svg (this_state (run r w)) = Some b"
  using assms
  by (auto simp: LivePlan_responses_def run_def LivePlan_catch_def LivePlan_success_def Let_def
      LivePlan_resetTimer_def loop_simps LivePlan_commit_keeps)

lemma fold_run_keeps:
  assumes "\<And>w r. P w \<Longrightarrow> r \<in> R \<Longrightarrow> P (run r w)" and "set rs \<subseteq> R" and "P w"
  shows "P (fold run rs w)"
  using assms(2,3) by (induction rs arbitrary: w) (auto simp: assms(1))

text \<open>In every page reached from the first mount, whatever the server answers, exactly one refresh is under way until the final
  information on the query has been accepted, and none afterwards; and as long as React has not
  removed the page, the query it holds is one it can draw.\<close>

theorem LivePlan_refreshes:
  assumes "reachable LivePlan_refreshLoop (LivePlan_responses env) {} LivePlan_init w"
  shows "activity w = (if lp_query (this_state w) \<noteq> None \<and> ended (this_state w) then 0 else 1)
    \<and> (unmounted (this_state w) \<or> (\<forall>q. lp_query (this_state w) = Some q \<longrightarrow> LivePlan_componentDidUpdate env (this_state w) \<noteq> throw
         \<and> renders (LivePlan_render (isEmbedded env) (this_state w))))"
proof -
  have "presentable env LivePlan_init \<and> LivePlan_continues LivePlan_init"
    by (simp add: presentable_def LivePlan_init_def LivePlan_continues_def)
  then have inv: "one_loop LivePlan_continues w" "presentable env (this_state w)"
    using lp.one_loop_reachable [OF assms] by blast+
  have "renders (LivePlan_render (isEmbedded env) (this_state w))"
    by (cases "lp_query (this_state w)") (simp_all add: LivePlan_render_def dom_simps)
  with inv show ?thesis
    by (auto simp: one_loop_def LivePlan_continues_def presentable_def can_show_def componentDidUpdate_throws)
qed

definition sample_page :: plan_page where
  "sample_page = \<lparr>isEmbedded = False, pathname = ''/ui/plan.html'',
     dagre = (\<lambda>g. \<lparr>graph_height = Fin 300, graph_width = Fin 400, css_height = ''600px'', css_width = ''800px''\<rparr>)\<rparr>"

theorem LivePlan_refreshes_witness:
  "activity (run (LivePlan_success sample_page (sample_plan_query (Some sample_tree)\<lparr>finalQueryInfo := True\<rparr>))
     ((LivePlan_refreshLoop (mounted LivePlan_init))\<lparr>inflight := 0\<rparr>)) = 0"
proof -
  let ?q = "sample_plan_query (Some sample_tree)\<lparr>finalQueryInfo := True\<rparr>"
  let ?w = "(LivePlan_refreshLoop (mounted LivePlan_init))\<lparr>inflight := 0\<rparr>"
  let ?w' = "run (LivePlan_success sample_page ?q) ?w"
  have "reachable LivePlan_refreshLoop (LivePlan_responses sample_page) {} LivePlan_init ?w'"
    by (rule reachable_first_response) (auto simp: LivePlan_responses_def LivePlan_refreshLoop_def loop_simps)
  moreover have "lp_query (this_state ?w') = Some ?q \<and> ended (this_state ?w')"
    by (simp add: run_def LivePlan_success_def LivePlan_catch_def Let_def LivePlan_resetTimer_def
        LivePlan_refreshLoop_def LivePlan_init_def loop_simps LivePlan_commit_keeps)
  ultimately show ?thesis using LivePlan_refreshes by simp
qed

lemma steps_removed:
  assumes "(browser_step LivePlan_refreshLoop (LivePlan_responses env) {})\<^sup>*\<^sup>* w w'" and "unmounted (this_state w)" and "one_loop LivePlan_continues w"
  shows "this_state w' = this_state w \<and> one_loop LivePlan_continues w'"
  using assms(1)
proof (induction rule: rtranclp_induct)
  case (step v v')
  have "presentable env (this_state v)" using step.IH assms(2) by (simp add: presentable_def)
  then have "one_loop LivePlan_continues v'" using lp.one_loop_step [OF _ _ step.hyps(2)] step.IH by blast
  moreover from step.hyps(2) have "this_state v' = this_state v"
  proof (cases rule: browser_step.cases)
    case (respond r)
    then show ?thesis using run_unmounted [of "v\<lparr>inflight := inflight v - 1\<rparr>" r env] step.IH assms(2) by simp
  qed (simp_all add: LivePlan_refreshLoop_def loop_simps)
  ultimately show ?case using step.IH by simp
qed (use assms(3) in simp)

text \<open>C39. When the server answers with a query that has no output stage yet, as it does while the query is planned, drawing throws: React removes the page, and no later response
  brings it back, although, unless that answer was the final one, the page goes on asking with one refresh under way at all times. (The page is written to show
  that the plan will appear automatically when the query starts running.)\<close>

theorem LivePlan_removed_while_planning:
  assumes "reachable LivePlan_refreshLoop (LivePlan_responses env) {} LivePlan_init w" and "inflight w > 0" and "\<not> unmounted (this_state w)"
    and "outputStage q = None"
    and "(browser_step LivePlan_refreshLoop (LivePlan_responses env) {})\<^sup>*\<^sup>* (run (LivePlan_success env q) (w\<lparr>inflight := inflight w - 1\<rparr>)) w'"
  shows "unmounted (this_state w') \<and> activity w' = (if finalQueryInfo q then 0 else 1)"
proof -
  let ?w = "w\<lparr>inflight := inflight w - 1\<rparr>"
  let ?w1 = "run (LivePlan_success env q) ?w"
  let ?s = "(this_state w)\<lparr>lp_query := Some q, initialized := True, ended := finalQueryInfo q\<rparr>"
  have "\<not> can_show env q" using assms(4) by (simp add: can_show_def getStages_throws)
  then have gone: "unmounted (LivePlan_commit env ?s)" using assms(3) LivePlan_commit_unmounts [of ?s env] by simp
  then have w1: "this_state ?w1 = LivePlan_commit env ?s"
    using assms(3) by (simp add: run_def LivePlan_success_def LivePlan_catch_def Let_def LivePlan_resetTimer_def loop_simps)
  have "browser_step LivePlan_refreshLoop (LivePlan_responses env) {} w ?w1"
    using assms(2) by (intro browser_step.respond) (simp_all add: LivePlan_responses_def)
  then have "reachable LivePlan_refreshLoop (LivePlan_responses env) {} LivePlan_init ?w1" by (rule reachable.step [OF assms(1)])
  then have "one_loop LivePlan_continues ?w1"
    using lp.one_loop_reachable [of env LivePlan_init] by (simp add: presentable_def LivePlan_init_def LivePlan_continues_def)
  from steps_removed [OF assms(5) _ this] have "this_state w' = LivePlan_commit env ?s" "one_loop LivePlan_continues w'"
    using gone unfolding w1 by blast+
  with gone show ?thesis by (simp add: one_loop_def LivePlan_continues_def LivePlan_commit_keeps)
qed

theorem LivePlan_removed_while_planning_witness:
  "activity (run (LivePlan_success sample_page (sample_plan_query None)) ((LivePlan_refreshLoop (mounted LivePlan_init))\<lparr>inflight := 0\<rparr>)) = 1"
proof -
  let ?w = "LivePlan_refreshLoop (mounted LivePlan_init)"
  have w: "inflight ?w = 1" "\<not> unmounted (this_state ?w)" by (simp_all add: LivePlan_refreshLoop_def loop_simps LivePlan_init_def)
  then have "activity (run (LivePlan_success sample_page (sample_plan_query None)) (?w\<lparr>inflight := inflight ?w - 1\<rparr>)) = 1"
    using LivePlan_removed_while_planning [OF reachable.mount _ _ _ rtranclp.rtrancl_refl, of "sample_plan_query None" sample_page]
    by (simp add: sample_plan_query_def)
  with w(1) show ?thesis by simp
qed

text \<open>When the first request fails, the canvas is selected while it is not on the page; the selection is
  kept, empty, and no later update draws anything.\<close>

theorem LivePlan_blank_after_failed_start:
  assumes "set rs \<subseteq> LivePlan_responses env"
    and "s = this_state (fold run rs (run (LivePlan_catch env) (LivePlan_refreshLoop (mounted LivePlan_init))))"
  shows "svg s = Some False
    \<and> (\<forall>s' vs. LivePlan_componentDidUpdate env s = Some (s', vs) \<longrightarrow> set vs \<subseteq> {ShowTooltips})"
proof -
  let ?w = "run (LivePlan_catch env) (LivePlan_refreshLoop (mounted LivePlan_init))"
  have "svg (LivePlan_commit env (LivePlan_init\<lparr>initialized := True\<rparr>)) = Some False"
    by (simp add: LivePlan_commit_def LivePlan_componentDidUpdate_def updateD3Graph_def LivePlan_init_def Let_def
        initializeSvg_def LivePlan_render_reads)
  then have "svg (this_state ?w) = Some False"
    by (simp add: run_def LivePlan_catch_def Let_def LivePlan_resetTimer_def LivePlan_refreshLoop_def loop_simps)
       (simp add: LivePlan_init_def)
  then have "svg s = Some False"
    unfolding assms(2)
    by (intro fold_run_keeps [where P = "\<lambda>w. svg (this_state w) = Some False", OF _ assms(1)]) (simp_all add: run_svg)
  then show ?thesis using componentDidUpdate_keeps(6) by blast
qed

theorem LivePlan_blank_after_failed_start_witness:
  "svg (this_state (fold run [LivePlan_success sample_page (sample_plan_query (Some sample_tree))]
     (run (LivePlan_catch sample_page) (LivePlan_refreshLoop (mounted LivePlan_init))))) = Some False"
  using LivePlan_blank_after_failed_start
    [of "[LivePlan_success sample_page (sample_plan_query (Some sample_tree))]" sample_page, OF _ refl]
  by (simp add: LivePlan_responses_def)

end
