(* ===== verification/Operators.thy ===== *)
theory Operators
  imports VDom Format JsSort
begin

text \<open>
  The first half of \<open>components/StageDetail.jsx\<close>: how the statistics of an operator are summarised (\<open>OperatorSummary\<close>), and the
  dialog about one operator (\<open>OperatorDetail\<close>) with a bar chart over the tasks for each statistic (\<open>OperatorStatistic\<close>).
\<close>

section \<open>Operators\<close>

record operator_stats =
  pipelineId :: jsnum
  operatorId :: jsnum
  planNodeId :: string
  operatorType :: string
  addInputWall :: string
  getOutputWall :: string
  finishWall :: string
  blockedWall :: string
  inputPositions :: jsnum
  inputDataSize :: string
  outputPositions :: jsnum
  outputDataSize :: string
  op_totalDrivers :: jsnum

text \<open>\<open>parseDuration\<close> and \<open>parseDataSize\<close> give \<open>null\<close> for a text they cannot read, and arithmetic takes that for 0.\<close>

definition wall :: "string \<Rightarrow> jsnum" where
  "wall d = toNumber (val_of (parseDuration d))"

definition size_of :: "string \<Rightarrow> jsnum" where
  "size_of d = toNumber (val_of (parseDataSize d))"

definition getTotalWallTime :: "operator_stats \<Rightarrow> jsnum" where
  "getTotalWallTime operator =
     wall (addInputWall operator) + wall (getOutputWall operator) + wall (finishWall operator) + wall (blockedWall operator)"

text \<open>The texts of a rate and of an amount.\<close>

definition rate_text :: "jsnum \<Rightarrow> jsnum \<Rightarrow> string throws" where
  "rate_text rowRate byteRate =
     do { r \<leftarrow> formatCount (Num rowRate); b \<leftarrow> formatDataSize (Num byteRate); Some (r @ '' rows/s ('' @ b @ ''/s)'') }"

definition amount_text :: "jsnum \<Rightarrow> string \<Rightarrow> string throws" where
  "amount_text positions dataSize =
     do { r \<leftarrow> formatCount (Num positions); b \<leftarrow> parseAndFormatDataSize dataSize; Some (r @ '' rows ('' @ b @ '')'') }"

section \<open>OperatorSummary\<close>

definition summary_rowInputRate :: "operator_stats \<Rightarrow> jsnum" where
  "summary_rowInputRate operator =
     (let totalWallTime = getTotalWallTime operator
      in if strict_eq totalWallTime (Fin 0) then Fin 0
         else (Fin 1 * inputPositions operator) / (totalWallTime / Fin 1000))"

definition summary_byteInputRate :: "operator_stats \<Rightarrow> jsnum" where
  "summary_byteInputRate operator =
     (let totalWallTime = getTotalWallTime operator
      in if strict_eq totalWallTime (Fin 0) then Fin 0
         else (Fin 1 * size_of (inputDataSize operator)) / (totalWallTime / Fin 1000))"

definition OperatorSummary_render :: "operator_stats \<Rightarrow> ('c, 'a) html" where
  "OperatorSummary_render operator =
     el ''div'' []
       [el ''div'' [Cls ''highlight-row'']
         [el ''div'' [Cls ''header-row''] [lit (operatorType operator)],
          el ''div'' []
           [str (rate_text (summary_rowInputRate operator) (summary_byteInputRate operator))]],
        el ''table'' [Cls ''table'']
         [el ''tbody'' []
           [el ''tr'' []
             [el ''td'' [] [lit ''Output''],
              el ''td'' []
               [str (amount_text (outputPositions operator) (outputDataSize operator))]],
            el ''tr'' []
             [el ''td'' [] [lit ''Drivers''],
              el ''td'' [] [shown (Num (op_totalDrivers operator))]],
            el ''tr'' []
             [el ''td'' [] [lit ''Wall Time''],
              el ''td'' [] [str (formatDuration (Num (getTotalWallTime operator)))]],
            el ''tr'' []
             [el ''td'' [] [lit ''Blocked''],
              el ''td'' [] [str (formatDuration (val_of (parseDuration (blockedWall operator))))]],
            el ''tr'' []
             [el ''td'' [] [lit ''Input''],
              el ''td'' [] [str (amount_text (inputPositions operator) (inputDataSize operator))]]]]]"

section \<open>OperatorStatistic\<close>

definition BAR_CHART_PROPERTIES :: "(string \<times> string) list" where
  "BAR_CHART_PROPERTIES =
     [(''type'', ''bar''), (''barSpacing'', ''0''), (''height'', ''80px''), (''barColor'', ''#747F96''),
      (''zeroColor'', ''#8997B3''), (''tooltipClassname'', ''sparkline-tooltip''),
      (''tooltipFormat'', ''Task {{offset:offset}} - {{value}}''), (''disableHiddenCheck'', ''true'')]"

record statistic =
  st_name :: string
  st_id :: string
  supplier :: "operator_stats \<Rightarrow> val"
  renderer :: "val \<Rightarrow> string throws"

record bar_chart =
  chart_target :: string
  chart_values :: "val list"
  chart_properties :: "(string \<times> string) list"
  barWidth :: jsnum
  tooltipOffsets :: "(nat \<times> string) list"
  numberFormatter :: "val \<Rightarrow> string throws"

definition OperatorStatistic_componentDidMount :: "statistic \<Rightarrow> operator_stats list \<Rightarrow> bar_chart" where
  "OperatorStatistic_componentDidMount st operators =
     (let numTasks = length operators
      in \<lparr>chart_target = ''#'' @ st_id st, chart_values = map (supplier st) operators,
          chart_properties = BAR_CHART_PROPERTIES, barWidth = Fin 800 / Fin (of_nat numTasks),
          tooltipOffsets = map (\<lambda>i. (i, show_nat i)) [0..<numTasks], numberFormatter = renderer st\<rparr>)"

definition OperatorStatistic_render :: "statistic \<Rightarrow> ('c, 'a) html" where
  "OperatorStatistic_render st =
     el ''div'' [Cls ''row operator-statistic'']
       [el ''div'' [Cls ''col-xs-2 italic-uppercase operator-statistic-title''] [lit (st_name st)],
        el ''div'' [Cls ''col-xs-10''] [el ''span'' [Cls ''bar-chart'', Id (st_id st)] []]]"

section \<open>OperatorDetail\<close>

record task_pipeline =
  tp_pipelineId :: jsnum
  operatorSummaries :: "operator_stats list"

record operator_task =
  taskId :: string
  pipelines :: "task_pipeline list"

definition getInitialStatistics :: "statistic list" where
  "getInitialStatistics =
     [\<lparr>st_name = ''Total Wall Time'', st_id = ''totalWallTime'', supplier = Num \<circ> getTotalWallTime, renderer = formatDuration\<rparr>,
      \<lparr>st_name = ''Input Rows'', st_id = ''inputPositions'', supplier = Num \<circ> inputPositions, renderer = formatCount\<rparr>,
      \<lparr>st_name = ''Input Data Size'', st_id = ''inputDataSize'', supplier = val_of \<circ> parseDataSize \<circ> inputDataSize,
        renderer = formatDataSize\<rparr>,
      \<lparr>st_name = ''Output Rows'', st_id = ''outputPositions'', supplier = Num \<circ> outputPositions, renderer = formatCount\<rparr>,
      \<lparr>st_name = ''Output Data Size'', st_id = ''outputDataSize'', supplier = val_of \<circ> parseDataSize \<circ> outputDataSize,
        renderer = formatDataSize\<rparr>]"

text \<open>The sort is in place; the order of the tasks of a stage is read nowhere else.\<close>

definition getOperatorTasks :: "operator_task list \<Rightarrow> operator_stats \<Rightarrow> operator_stats list" where
  "getOperatorTasks tasks operatorSummary =
     (let sorted_tasks = js_sort (\<lambda>taskA taskB. getTaskNumber (taskId taskA) - getTaskNumber (taskId taskB)) tasks
      in concat (map (\<lambda>task. concat (map (\<lambda>pipeline.
           if strict_eq (tp_pipelineId pipeline) (pipelineId operatorSummary)
           then filter (\<lambda>operator. strict_eq (operatorId operatorSummary) (operatorId operator)) (operatorSummaries pipeline)
           else []) (pipelines task))) sorted_tasks))"

definition detail_rate :: "jsnum \<Rightarrow> jsnum \<Rightarrow> jsnum" where
  "detail_rate totalWallTime amount = (if strict_eq totalWallTime (Fin 0) then Fin 0 else (Fin 1 * amount) / totalWallTime)"

definition detail_byteRate :: "jsnum \<Rightarrow> string \<Rightarrow> jsnum" where
  "detail_byteRate totalWallTime dataSize =
     (if strict_eq totalWallTime (Fin 0) then Fin 0 else (Fin 1 * size_of dataSize) / (totalWallTime / Fin 1000))"

text \<open>The dialog of a missing operator (\<open>null\<close>) throws when its wall time is computed.\<close>

definition OperatorDetail_render ::
  "statistic list \<Rightarrow> operator_stats option \<Rightarrow> operator_task list \<Rightarrow> (statistic \<times> operator_stats list, 'a) html" where
  "OperatorDetail_render selectedStatistics operator_or_null tasks =
     do { operator \<leftarrow> operator_or_null;
          let operatorTasks = getOperatorTasks tasks operator;
          let totalWallTime = getTotalWallTime operator;
          el ''div'' [Cls ''row'']
            [el ''div'' [Cls ''col-xs-12'']
              [el ''div'' [Cls ''modal-header'']
                [el ''button'' [Attr ''type'' ''button'', Cls ''close'',
                      Attr ''data-dismiss'' ''modal'', Attr ''aria-label'' ''Close'']
                  [el ''span'' [Attr ''aria-hidden'' ''true''] [lit times_sign]],
                 el ''h3'' []
                  [el ''small'' [] [lit ''Pipeline '', shown (Num (pipelineId operator))],
                   el ''br'' [] [],
                   lit (operatorType operator)]],
               el ''div'' [Cls ''row'']
                [el ''div'' [Cls ''col-xs-6'']
                  [el ''table'' [Cls ''table'']
                    [el ''tbody'' []
                      [el ''tr'' []
                        [el ''td'' [] [lit ''Input''],
                         el ''td'' []
                          [str (amount_text (inputPositions operator) (inputDataSize operator))]],
                       el ''tr'' []
                        [el ''td'' [] [lit ''Input Rate''],
                         el ''td'' []
                          [str (rate_text (detail_rate totalWallTime (inputPositions operator)) (detail_byteRate totalWallTime (inputDataSize operator)))]],
                       el ''tr'' []
                        [el ''td'' [] [lit ''Output''],
                         el ''td'' []
                          [str (amount_text (outputPositions operator) (outputDataSize operator))]],
                       el ''tr'' []
                        [el ''td'' [] [lit ''Output Rate''],
                         el ''td'' []
                          [str (rate_text (detail_rate totalWallTime (outputPositions operator)) (detail_byteRate totalWallTime (outputDataSize operator)))]]]]],
                 el ''div'' [Cls ''col-xs-6'']
                  [el ''table'' [Cls ''table'']
                    [el ''tbody'' []
                      [el ''tr'' []
                        [el ''td'' [] [lit ''Wall Time''],
                         el ''td'' [] [str (formatDuration (Num totalWallTime))]],
                       el ''tr'' []
                        [el ''td'' [] [lit ''Blocked''],
                         el ''td'' []
                          [str (formatDuration (val_of (parseDuration (blockedWall operator))))]],
                       el ''tr'' []
                        [el ''td'' [] [lit ''Drivers''],
                         el ''td'' [] [shown (Num (op_totalDrivers operator))]],
                       el ''tr'' []
                        [el ''td'' [] [lit ''Tasks''],
                         el ''td'' [] [lit (show_nat (length operatorTasks))]]]]]],
               el ''div'' [Cls ''row font-white'']
                [el ''div'' [Cls ''col-xs-2 italic-uppercase'']
                  [el ''strong'' [] [lit ''Statistic'']],
                 el ''div'' [Cls ''col-xs-10 italic-uppercase'']
                  [el ''strong'' [] [lit ''Tasks'']]],
               frag (map (\<lambda>statistic. component (statistic, operatorTasks)) selectedStatistics),
               el ''p'' [] [],
               el ''p'' [] []]] }"

end
