(* ===== verification/OperatorGraph.thy ===== *)
theory OperatorGraph
  imports Operators GraphCalls
begin

text \<open>
  The component \<open>StageOperatorGraph\<close> of \<open>components/StageDetail.jsx\<close>: the operators of a stage are distributed over the nodes
  of its plan, linked into one chain per pipeline from source to sink, and the chains are drawn. What the code logs to
  the console is not modelled.
\<close>

section \<open>Plan nodes\<close>

text \<open>A node of the plan: its \<open>@type\<close>, its id, the fields that hold a node (\<open>source\<close>, \<open>left\<close> and so on) and the array \<open>sources\<close>.\<close>

datatype plan_node =
  PlanNode (node_type: string) (node_id: string) (node_fields: "(string \<times> plan_node) list") (node_sources: "plan_node list option")

definition unary_types :: "string list" where
  "unary_types =
     [''output'', ''explainAnalyze'', ''project'', ''filter'', ''aggregation'', ''sort'', ''markDistinct'', ''window'',
      ''rowNumber'', ''topnRanking'', ''limit'', ''distinctlimit'', ''topn'', ''sample'', ''tablewriter'', ''delete'',
      ''tableDelete'', ''tablecommit'', ''groupid'', ''unnest'', ''scalar'']"

text \<open>The fields the \<open>switch\<close> returns, by type. An element of the result is \<open>None\<close> where the field is missing; the result is
  \<open>None\<close> where \<open>sources\<close> is.\<close>

definition child_fields :: "string \<Rightarrow> string list" where
  "child_fields t =
     (if t \<in> set unary_types then [''source'']
      else if t = ''join'' then [''left'', ''right'']
      else if t = ''semijoin'' then [''source'', ''filteringSource'']
      else if t = ''spatialjoin'' then [''left'', ''right'']
      else if t = ''indexjoin'' then [''probeSource'', ''indexSource'']
      else [])"

definition getChildren :: "plan_node \<Rightarrow> plan_node option list option" where
  "getChildren nodeInfo =
     (if node_type nodeInfo \<in> {''union'', ''exchange''} then map_option (map Some) (node_sources nodeInfo)
      else Some (map (map_of (node_fields nodeInfo)) (child_fields (node_type nodeInfo))))"

lemma map_of_size: "map_of fs k = Some n \<Longrightarrow> size n \<le> size_list (size_prod f size) fs"
proof -
  assume "map_of fs k = Some n"
  then have "(k, n) \<in> set fs" by (rule map_of_SomeD)
  then show ?thesis by (rule size_list_estimation') simp
qed

lemma getChildren_cases:
  assumes "getChildren n = Some cs"
  obtains xs where "node_sources n = Some xs" and "cs = map Some xs"
  | ks where "cs = map (map_of (node_fields n)) ks"
proof (cases "node_type n \<in> {''union'', ''exchange''}")
  case True
  with assms that(1) show ?thesis by (simp only: getChildren_def if_True map_option_eq_Some) blast
next
  case False
  with assms that(2) show ?thesis by (simp only: getChildren_def if_False option.inject) blast
qed

lemma getChildren_size:
  assumes "getChildren n = Some cs" and "Some c \<in> set cs"
  shows "size c < size n"
  using assms(1)
proof (cases rule: getChildren_cases)
  case (1 xs)
  with assms(2) have "c \<in> set xs" by auto
  then have "size c \<le> size_list size xs" by (rule size_list_estimation') simp
  with 1(1) show ?thesis by (cases n) simp
next
  case (2 ks)
  with assms(2) obtain k where "map_of (node_fields n) k = Some c" by (metis imageE list.set_map)
  then show ?thesis using map_of_size [of "node_fields n" k c] by (cases n) (simp add: less_Suc_eq_le trans_le_add1)
qed

section \<open>Chains of operators\<close>

text \<open>An operator copied and given a \<open>child\<close>.\<close>

datatype op_chain = Chain (chain_head: operator_stats) (chain_child: "op_chain option")

fun chain_ops :: "op_chain \<Rightarrow> operator_stats list" where
  "chain_ops (Chain o' child) = o' # (case child of Some c \<Rightarrow> chain_ops c | None \<Rightarrow> [])"

type_synonym op_graphs = "(jsnum, op_chain) omap"

text \<open>The loop over the results of the sources: a pipeline that is there already is not replaced.\<close>

definition add_absent :: "op_graphs \<Rightarrow> op_graphs \<Rightarrow> op_graphs" where
  "add_absent new m = fold (\<lambda>(p, c) m. if has_key m p then m else AList.update p c m) new m"

text \<open>The operators of one plan node in one pipeline, from source to sink, on top of what the sources have in that pipeline.\<close>

definition link_operators :: "op_chain option \<Rightarrow> operator_stats list \<Rightarrow> op_chain option" where
  "link_operators child pipelineOperators =
     (case js_sort (\<lambda>a b. operatorId a - operatorId b) pipelineOperators of
        [] \<Rightarrow> None
      | sourceOperator # rest \<Rightarrow> Some (fold (\<lambda>source current. Chain source (Some current)) rest (Chain sourceOperator child)))"

definition link_pipelines :: "op_graphs \<Rightarrow> operator_stats list \<Rightarrow> op_graphs" where
  "link_pipelines sourceResults nodeOperators =
     fold (\<lambda>(p, ops) result. case link_operators (map_of sourceResults p) ops of
             Some sink \<Rightarrow> AList.update p sink result | None \<Rightarrow> result)
       (group_by pipelineId nodeOperators) []"

function computeOperatorGraphs :: "(string, operator_stats list) omap \<Rightarrow> plan_node \<Rightarrow> op_graphs throws" where
  "computeOperatorGraphs operatorMap planNode =
     do { sources \<leftarrow> getChildren planNode;
          results \<leftarrow> mapM (\<lambda>source. case source of
                          None \<Rightarrow> throw | Some n \<Rightarrow> computeOperatorGraphs operatorMap n) sources;
          let sourceResults = fold add_absent results [];
          Some (case map_of operatorMap (node_id planNode) of
                  None \<Rightarrow> sourceResults
                | Some nodeOperators \<Rightarrow>
                    if nodeOperators = [] then sourceResults
                    else add_absent sourceResults (link_pipelines sourceResults nodeOperators)) }"
  by pat_completeness auto
termination by (relation "measure (\<lambda>(m, n). size n)") (auto dest: getChildren_size)

declare computeOperatorGraphs.simps [simp del]

definition computeOperatorMap :: "operator_stats list \<Rightarrow> (string, operator_stats list) omap" where
  "computeOperatorMap summaries = group_by planNodeId summaries"

section \<open>Drawing\<close>

definition operator_node :: "operator_stats \<Rightarrow> string" where
  "operator_node operator = ''operator-'' @ numToString (pipelineId operator) @ ''-'' @ numToString (operatorId operator)"

fun computeD3StageOperatorGraph :: "op_chain \<Rightarrow> string option \<Rightarrow> string \<Rightarrow> graph_call list throws" where
  "computeD3StageOperatorGraph (Chain operator child) sink pipelineNode =
     do { html \<leftarrow> OperatorSummary_render operator;
          let operatorNodeId = operator_node operator;
          inner \<leftarrow> (case child of None \<Rightarrow> Some []
                    | Some c \<Rightarrow> computeD3StageOperatorGraph c (Some operatorNodeId) pipelineNode);
          Some (SetNode operatorNodeId [(''class'', ''operator-stats''), (''labelType'', ''html'')] (Some html)
                # inner
                @ (case sink of None \<Rightarrow> []
                   | Some s \<Rightarrow> [SetEdge operatorNodeId s [(''class'', ''plan-edge''), (''arrowheadClass'', ''plan-arrowhead'')]])
                @ [SetParent operatorNodeId pipelineNode]) }"

text \<open>What the page knows of a stage; the server may leave out the plan and the statistics, or the operators in them.\<close>

record detail_plan =
  dp_id :: string
  dp_root :: plan_node

record detail_stage =
  ds_stageId :: string
  ds_plan :: "detail_plan option"
  ds_stats :: "operator_stats list option option"
  ds_tasks :: "operator_task list"

datatype canvas_call =
    ClearCanvas
  | DisplayContainer string
  | RenderOperators "graph_call list"
  | OnOperatorClick
  | SvgSize jsnum jsnum

definition draw_pipeline :: "jsnum \<times> op_chain \<Rightarrow> graph_call list throws" where
  "draw_pipeline entry =
     (case entry of (p, operator) \<Rightarrow>
        do { let pipelineNodeId = ''pipeline-'' @ numToString p;
             cs \<leftarrow> computeD3StageOperatorGraph operator None pipelineNodeId;
             Some (SetNode pipelineNodeId
                     [(''label'', ''Pipeline '' @ numToString p @ '' ''), (''clusterLabelPos'', ''top''),
                      (''style'', ''fill: #2b2b2b''), (''labelStyle'', ''fill: #fff'')] None # cs) })"

definition operator_graph :: "detail_stage \<Rightarrow> (op_graphs \<times> graph_call list) throws" where
  "operator_graph stage =
     do { stats \<leftarrow> ds_stats stage;
          summaries \<leftarrow> stats;
          plan \<leftarrow> ds_plan stage;
          operatorGraphs \<leftarrow> computeOperatorGraphs (computeOperatorMap summaries) (dp_root plan);
          css \<leftarrow> mapM draw_pipeline operatorGraphs;
          Some (operatorGraphs, initializeGraph @ concat css) }"

text \<open>\<open>dagre\<close> gives the height and width of the graph.\<close>

definition StageOperatorGraph_updateD3Graph :: "(graph_call list \<Rightarrow> jsnum \<times> jsnum) \<Rightarrow> detail_stage \<Rightarrow> canvas_call list throws" where
  "StageOperatorGraph_updateD3Graph dagre stage =
     do { (operatorGraphs, graph) \<leftarrow> operator_graph stage;
          Some (ClearCanvas #
            (if operatorGraphs \<noteq> []
             then [DisplayContainer ''block'', RenderOperators graph, OnOperatorClick, SvgSize (fst (dagre graph)) (snd (dagre graph))]
             else [DisplayContainer ''none''])) }"

text \<open>A click on a node opens the dialog about the last summary with the ids in the node's name.\<close>

definition css_number :: "string \<Rightarrow> nat \<Rightarrow> jsnum" where
  "css_number cssId i = (let parts = split ''-'' cssId in if i < length parts then parseInt (parts ! i) else NaN)"

definition handleOperatorClick :: "detail_stage \<Rightarrow> string \<Rightarrow> (operator_stats option \<times> operator_task list) throws" where
  "handleOperatorClick stage operatorCssId =
     do { stats \<leftarrow> ds_stats stage;
          summaries \<leftarrow> stats;
          Some (find (\<lambda>o'. strict_eq (pipelineId o') (css_number operatorCssId 1)
                       \<and> strict_eq (operatorId o') (css_number operatorCssId 2)) (rev summaries), ds_tasks stage) }"

definition StageOperatorGraph_render :: "detail_stage \<Rightarrow> ('c, 'a) html" where
  "StageOperatorGraph_render stage =
     (if ds_plan stage = None then
       el ''div'' [Cls ''row error-message'']
         [el ''div'' [Cls ''col-xs-12''] [el ''h4'' [] [lit ''Stage does not have a plan'']]]
      else if ds_stats stage = None \<or> ds_stats stage = Some None \<or> ds_stats stage = Some (Some []) then
       el ''div'' [Cls ''row error-message'']
         [el ''div'' [Cls ''col-xs-12'']
           [el ''h4'' [] [lit ''Operator data not available for '', lit (ds_stageId stage)]]]
      else blank)"

end
