(* ===== verification/StageDetail.thy ===== *)
theory StageDetail
  imports OperatorGraph StageTree QueryHeader Polling
begin

text \<open>
  The component \<open>StageDetail\<close> of \<open>components/StageDetail.jsx\<close>: the page about one stage of a query, chosen by the address or in a
  menu of all stages. The page's address, the path and the layout of the graph library are the record \<open>stage_page\<close>. An exception while
  rendering makes React remove the page (\<open>unmounted\<close>), after which \<open>setState\<close> does nothing. The fields
  \<open>lastRefresh\<close> and \<open>lastRender\<close> of the state are never used.
\<close>

section \<open>State\<close>

text \<open>The selection is a number when it comes from the address and the id of a plan when it comes from the menu.\<close>

datatype selection = NoSelection | NumberId jsnum | PlanId string

fun selection_text :: "selection \<Rightarrow> string" where
  "selection_text NoSelection = ''null''"
| "selection_text (NumberId n) = numToString n"
| "selection_text (PlanId i) = i"

record stage_query = "query_stats query" +
  outputStage :: "detail_stage stage_tree option"
  finalQueryInfo :: bool

text \<open>\<open>requested\<close> is the variable \<open>selectedStageId\<close> of the last call of \<open>refreshLoop\<close>, which the callback of its request holds.\<close>

record stage_detail =
  initialized :: bool
  ended :: bool
  selectedStageId :: selection
  sd_query :: "stage_query option"
  requested :: selection
  unmounted :: bool

definition StageDetail_init :: stage_detail where
  "StageDetail_init = \<lparr>initialized = False, ended = False, selectedStageId = NoSelection, sd_query = None,
     requested = NoSelection, unmounted = False\<rparr>"

record stage_page =
  search :: string
  pathname :: string
  dagre :: "graph_call list \<Rightarrow> jsnum \<times> jsnum"

section \<open>Stages\<close>

fun findStage :: "string option \<Rightarrow> detail_stage stage_tree \<Rightarrow> detail_stage stage_tree option"
  and findStage_loop :: "string option \<Rightarrow> detail_stage stage_tree list \<Rightarrow> detail_stage stage_tree option" where
  "findStage stageId (Stage currentStage subs) =
     (if stageId = None then None
      else if Some (ds_stageId currentStage) = stageId then Some (Stage currentStage subs)
      else findStage_loop stageId subs)"
| "findStage_loop stageId [] = None"
| "findStage_loop stageId (t # ts) =
     (case findStage stageId t of Some stage \<Rightarrow> Some stage | None \<Rightarrow> findStage_loop stageId ts)"

fun getAllStageIds :: "detail_stage stage_tree \<Rightarrow> string list \<Rightarrow> string list throws"
  and getAllStageIds_loop :: "detail_stage stage_tree list \<Rightarrow> string list \<Rightarrow> string list throws" where
  "getAllStageIds (Stage currentStage subs) result =
     do { plan \<leftarrow> ds_plan currentStage; getAllStageIds_loop subs (result @ [dp_id plan]) }"
| "getAllStageIds_loop [] result = Some result"
| "getAllStageIds_loop (t # ts) result = do { r \<leftarrow> getAllStageIds t result; getAllStageIds_loop ts r }"

section \<open>Rendering\<close>

datatype stage_part = HeaderPart stage_query | OperatorGraphPart detail_stage

datatype stage_action = SelectStage string

definition StageDetail_body :: "stage_query \<Rightarrow> string list \<Rightarrow> detail_stage \<Rightarrow> (stage_part, stage_action) html" where
  "StageDetail_body query allStages stage =
    (let stageOperatorGraph = (if \<not> isQueryEnded query then
         el ''div'' [Cls ''row error-message'']
           [el ''div'' [Cls ''col-xs-12'']
             [el ''h4'' []
               [lit ''Operator graph will appear automatically when query completes.''],
              el ''div'' [Cls ''loader''] [lit ''Loading...'']]]
           else component (OperatorGraphPart stage)) in
     do { plan \<leftarrow> ds_plan stage;
          el ''div'' []
            [component (HeaderPart query),
             el ''div'' [Cls ''row'']
              [el ''div'' [Cls ''col-xs-12'']
                [el ''div'' [Cls ''row'']
                  [el ''div'' [Cls ''col-xs-2''] [el ''h3'' [] [lit ''Stage '', lit (dp_id plan)]],
                   el ''div'' [Cls ''col-xs-8''] [],
                   el ''div'' [Cls ''col-xs-2 stage-dropdown'']
                    [el ''div'' [Cls ''input-group-btn'']
                      [el ''button'' [Attr ''type'' ''button'',
                            Cls ''btn btn-default dropdown-toggle'',
                            Attr ''data-toggle'' ''dropdown'',
                            Attr ''aria-haspopup'' ''true'',
                            Attr ''aria-expanded'' ''false'']
                        [lit ''Select Stage '',
                         el ''span'' [Cls ''caret''] []],
                       el ''ul'' [Cls ''dropdown-menu'']
                        [frag (map (\<lambda>stageId. el ''li'' [] [el ''a'' [On ''onClick'' (SelectStage stageId)] [lit stageId]]) allStages)]]]]]],
             el ''hr'' [Cls ''h3-hr''] [],
             el ''div'' [Cls ''row''] [el ''div'' [Cls ''col-xs-12''] [stageOperatorGraph]]] })"

definition StageDetail_render :: "stage_detail \<Rightarrow> (stage_part, stage_action) html" where
  "StageDetail_render s =
    (case sd_query s of
       None \<Rightarrow>
         el ''div'' [Cls ''row error-message'']
           [el ''div'' [Cls ''col-xs-12'']
             [el ''h4'' []
               [(if initialized s then lit ''Query not found'' else el ''div'' [Cls ''loader''] [lit ''Loading...''])]]]
     | Some query \<Rightarrow>
         (case outputStage query of
            None \<Rightarrow>
              el ''div'' [Cls ''row error-message'']
                [el ''div'' [Cls ''col-xs-12'']
                  [el ''h4'' [] [lit ''Query does not have an output stage'']]]
          | Some root_stage \<Rightarrow>
              do { allStages \<leftarrow> getAllStageIds root_stage [];
                   case findStage (Some (queryId query @ ''.'' @ selection_text (selectedStageId s))) root_stage of
                     None \<Rightarrow>
                       el ''div'' [Cls ''row error-message'']
                         [el ''div'' [Cls ''col-xs-12''] [el ''h4'' [] [lit ''Stage not found'']]]
                   | Some stage \<Rightarrow> StageDetail_body query allStages (stage_data stage) }))"

section \<open>Updates\<close>

definition part_ok :: "stage_page \<Rightarrow> stage_part \<Rightarrow> bool" where
  "part_ok env part =
     (case part of
        HeaderPart query \<Rightarrow> renders (QueryHeader_render (pathname env) query)
      | OperatorGraphPart stage \<Rightarrow>
          StageOperatorGraph_render stage \<noteq> (throw :: (unit, unit) html)
          \<and> StageOperatorGraph_updateD3Graph (dagre env) stage \<noteq> throw)"

definition StageDetail_commit :: "stage_page \<Rightarrow> stage_detail \<Rightarrow> stage_detail" where
  "StageDetail_commit env s =
     (let page = StageDetail_render s
      in if renders page \<and> list_all (part_ok env) (html_components page) then s else s\<lparr>unmounted := True\<rparr>)"

definition StageDetail_setState :: "stage_page \<Rightarrow> (stage_detail \<Rightarrow> stage_detail) \<Rightarrow> stage_detail page \<Rightarrow> stage_detail page" where
  "StageDetail_setState env f w = setState (\<lambda>s. if unmounted s then s else StageDetail_commit env (f s)) w"

definition StageDetail_continues :: "stage_detail \<Rightarrow> bool" where
  "StageDetail_continues s \<longleftrightarrow> sd_query s = None \<or> \<not> ended s"

definition StageDetail_resetTimer :: "stage_detail page \<Rightarrow> stage_detail page" where
  "StageDetail_resetTimer w = reset_timer StageDetail_continues w"

definition StageDetail_selected :: "stage_page \<Rightarrow> stage_detail \<Rightarrow> selection" where
  "StageDetail_selected env s =
     (case selectedStageId s of
        NoSelection \<Rightarrow>
          (let queryString = split ''.'' (getFirstParameter (search env))
           in if length queryString > 1 then NumberId (parseInt (queryString ! 1)) else NumberId (Fin 0))
      | sel \<Rightarrow> sel)"

definition StageDetail_url :: "stage_page \<Rightarrow> string" where
  "StageDetail_url env = ''/ui/api/query/'' @ hd (split ''.'' (getFirstParameter (search env)))"

definition StageDetail_refreshLoop :: "stage_page \<Rightarrow> stage_detail page \<Rightarrow> stage_detail page" where
  "StageDetail_refreshLoop env w =
     send_request ((clear_timer w)\<lparr>this_state := (this_state w)\<lparr>requested := StageDetail_selected env (this_state w)\<rparr>\<rparr>)"

definition StageDetail_componentDidMount :: "stage_page \<Rightarrow> stage_detail page \<times> effect list" where
  "StageDetail_componentDidMount env = (StageDetail_refreshLoop env (mounted StageDetail_init), [Clipboard ''.copy-button''])"

text \<open>The callbacks of the request. When \<open>setState\<close> throws, the rest of the callback is not run and nothing else catches the exception.\<close>

definition StageDetail_settle ::
  "stage_page \<Rightarrow> (stage_detail \<Rightarrow> stage_detail) \<Rightarrow> stage_detail page \<Rightarrow> stage_detail page throws" where
  "StageDetail_settle env f w =
     (let w' = StageDetail_setState env f w
      in if unmounted (this_state w') \<and> \<not> unmounted (this_state w) then Some w' else Some (StageDetail_resetTimer w'))"

definition StageDetail_success :: "stage_page \<Rightarrow> stage_query \<Rightarrow> stage_detail page \<Rightarrow> stage_detail page throws" where
  "StageDetail_success env query w =
     StageDetail_settle env (\<lambda>s. s\<lparr>initialized := True, ended := finalQueryInfo query, selectedStageId := requested s,
       sd_query := Some query\<rparr>) w"

definition StageDetail_fail :: "stage_page \<Rightarrow> stage_detail page \<Rightarrow> stage_detail page throws" where
  "StageDetail_fail env w = StageDetail_settle env (\<lambda>s. s\<lparr>initialized := True\<rparr>) w"

text \<open>The handler of an entry of the menu.\<close>

definition selectStage :: "stage_page \<Rightarrow> string \<Rightarrow> stage_detail page \<Rightarrow> stage_detail page throws" where
  "selectStage env stageId w = Some (StageDetail_setState env (\<lambda>s. s\<lparr>selectedStageId := PlanId stageId\<rparr>) w)"

end
