(* ===== verification/Scripts.thy ===== *)
theory Scripts
  imports Pages LivePlanSpec StageDetail
begin

text \<open>
  How a page comes to life: the \<open>script\<close> elements of the HTML files of \<open>webapp/\<close>, in the order of the document, the bundles \<open>webpack.config.js\<close> makes of
  the entry points, and the third-party libraries whose objects the components expect in the browser's window. A component that is mounted without a library
  it calls throws, and React removes it.
\<close>

section \<open>Third-party libraries\<close>

datatype library = JQuery | Bootstrap | JQuerySparkline | Highlight | ClipboardJS | D3 | Vis

definition third_party :: "(string \<times> library) list" where
  "third_party =
     [(''vendor/jquery/jquery-3.5.1.min.js'', JQuery), (''vendor/bootstrap/js/bootstrap.js'', Bootstrap),
      (''vendor/jquery.sparkline/jquery.sparkline.min.js'', JQuerySparkline), (''vendor/highlightjs/9.3/highlight.pack.js'', Highlight),
      (''vendor/clipboardjs/clipboard.min.js'', ClipboardJS), (''vendor/d3/d3-3.3.4.js'', D3), (''vendor/vis/dist/vis.min.js'', Vis)]"

text \<open>The plugins of jQuery throw when it is not there.\<close>

fun requires :: "library \<Rightarrow> library list" where
  "requires Bootstrap = [JQuery]"
| "requires JQuerySparkline = [JQuery]"
| "requires _ = []"

definition load_library :: "library \<Rightarrow> library list \<Rightarrow> library list" where
  "load_library l libs = (if set (requires l) \<subseteq> set libs then l # libs else libs)"

text \<open>The library a call of a component needs.\<close>

fun effect_library :: "effect \<Rightarrow> library option" where
  "effect_library (Sparkline sel vs ps opt) = Some JQuerySparkline"
| "effect_library Tooltips = Some Bootstrap"
| "effect_library (Clipboard sel) = Some ClipboardJS"
| "effect_library (ShowModal sel) = Some Bootstrap"
| "effect_library (HideModal sel) = Some Bootstrap"
| "effect_library ReloadPage = None"

definition available :: "library list \<Rightarrow> effect \<Rightarrow> bool" where
  "available libs e \<longleftrightarrow> set_option (effect_library e) \<subseteq> set libs"

section \<open>The scripts of the HTML files\<close>

text \<open>The scripts every page has; the conditional comments for old versions of Internet Explorer are left out.\<close>

definition common_scripts :: "string list" where
  "common_scripts = [''vendor/jquery/jquery-3.5.1.min.js'', ''vendor/bootstrap/js/bootstrap.js'', ''vendor/jquery.sparkline/jquery.sparkline.min.js'']"

definition index_scripts :: "string list" where
  "index_scripts = common_scripts @ [''dist/index.js'']"

definition query_scripts :: "string list" where
  "query_scripts = common_scripts @ [''vendor/highlightjs/9.3/highlight.pack.js'', ''vendor/clipboardjs/clipboard.min.js'', ''dist/query.js'']"

definition plan_scripts :: "string list" where
  "plan_scripts = common_scripts @ [''vendor/highlightjs/9.3/highlight.pack.js'', ''vendor/clipboardjs/clipboard.min.js'', ''dist/plan.js'']"

definition embedded_plan_scripts :: "string list" where
  "embedded_plan_scripts = common_scripts @ [''vendor/highlightjs/9.3/highlight.pack.js'', ''dist/embedded_plan.js'']"

definition stage_scripts :: "string list" where
  "stage_scripts = common_scripts @ [''vendor/highlightjs/9.3/highlight.pack.js'', ''vendor/clipboardjs/clipboard.min.js'', ''dist/stage.js'']"

definition timeline_scripts :: "string list" where
  "timeline_scripts = [''vendor/d3/d3-3.3.4.js'', ''vendor/vis/dist/vis.min.js''] @ common_scripts
     @ [''vendor/clipboardjs/clipboard.min.js'', ''dist/timeline.js'']"

definition worker_scripts :: "string list" where
  "worker_scripts = common_scripts @ [''vendor/clipboardjs/clipboard.min.js'', ''dist/worker.js'']"

definition workers_scripts :: "string list" where
  "workers_scripts = common_scripts @ [''vendor/clipboardjs/clipboard.min.js'', ''dist/workers.js'']"

lemmas page_scripts = common_scripts_def index_scripts_def query_scripts_def plan_scripts_def embedded_plan_scripts_def stage_scripts_def
  timeline_scripts_def worker_scripts_def workers_scripts_def

section \<open>Bundles\<close>

text \<open>The entries of the configuration, with the files relative to the directory of the configuration, and the name of a bundle, relative to \<open>webapp/\<close>.\<close>

definition webpack_entry :: "(string \<times> string) list" where
  "webpack_entry =
     [(''index'', ''index.jsx''), (''query'', ''query.jsx''), (''plan'', ''plan.jsx''), (''embedded_plan'', ''embedded_plan.jsx''),
      (''stage'', ''stage.jsx''), (''worker'', ''worker.jsx''), (''workers'', ''workers.jsx''), (''timeline'', ''timeline.jsx'')]"

definition webpack_output :: "string \<Rightarrow> string" where
  "webpack_output name = ''dist/'' @ replace_first ''[name].js'' ''[name]'' name"

definition source_entry :: "string \<Rightarrow> string \<Rightarrow> entry_point" where
  "source_entry address source =
     (case map_of [(''index.jsx'', index_jsx), (''query.jsx'', query_jsx), (''plan.jsx'', plan_jsx address),
        (''embedded_plan.jsx'', embedded_plan_jsx address), (''stage.jsx'', stage_jsx), (''worker.jsx'', worker_jsx),
        (''workers.jsx'', workers_jsx), (''timeline.jsx'', timeline_jsx)] source of
        Some entry \<Rightarrow> entry | None \<Rightarrow> [])"

definition bundle_entry :: "string \<Rightarrow> string \<Rightarrow> entry_point" where
  "bundle_entry address script =
     (case find (\<lambda>(name, source). webpack_output name = script) webpack_entry of
        Some (name, source) \<Rightarrow> source_entry address source | None \<Rightarrow> [])"

section \<open>Opening a page\<close>

text \<open>The calls of \<open>componentDidMount\<close> on libraries; \<open>env\<close> is what \<open>StageDetail\<close> reads of the browser.\<close>

definition mount_effects :: "stage_page \<Rightarrow> mounted_component \<Rightarrow> effect list" where
  "mount_effects env c =
     (case c of
        Mount_LivePlan q embedded \<Rightarrow> snd LivePlan_componentDidMount
      | Mount_StageDetail \<Rightarrow> snd (StageDetail_componentDidMount env)
      | _ \<Rightarrow> [])"

text \<open>An entry point stops at the first \<open>ReactDOM.render\<close> that throws, for want of the container or because mounting throws; the component it was to mount is not on the page.\<close>

fun mount_all :: "stage_page \<Rightarrow> library list \<Rightarrow> string list \<Rightarrow> entry_point \<Rightarrow> entry_point" where
  "mount_all env libs html [] = []"
| "mount_all env libs html ((c, container) # rest) =
     (if container \<in> set html \<and> list_all (available libs) (mount_effects env c) then (c, container) # mount_all env libs html rest else [])"

text \<open>The libraries in the window and the components on the page after the scripts have run.\<close>

fun run_scripts :: "stage_page \<Rightarrow> string list \<Rightarrow> string list \<Rightarrow> library list \<times> entry_point \<Rightarrow> library list \<times> entry_point" where
  "run_scripts env html [] page = page"
| "run_scripts env html (script # scripts) (libs, mounts) =
     run_scripts env html scripts
       (case map_of third_party script of
          Some l \<Rightarrow> (load_library l libs, mounts)
        | None \<Rightarrow> (libs, mounts @ mount_all env libs html (bundle_entry (search env) script)))"

definition loaded :: "stage_page \<Rightarrow> string list \<Rightarrow> string list \<Rightarrow> library list" where
  "loaded env html scripts = fst (run_scripts env html scripts ([], []))"

definition on_page :: "stage_page \<Rightarrow> string list \<Rightarrow> string list \<Rightarrow> entry_point" where
  "on_page env html scripts = snd (run_scripts env html scripts ([], []))"

section \<open>Properties\<close>

lemma bundle_entries:
  "bundle_entry address ''dist/index.js'' = index_jsx" "bundle_entry address ''dist/query.js'' = query_jsx"
  "bundle_entry address ''dist/plan.js'' = plan_jsx address" "bundle_entry address ''dist/embedded_plan.js'' = embedded_plan_jsx address"
  "bundle_entry address ''dist/stage.js'' = stage_jsx" "bundle_entry address ''dist/worker.js'' = worker_jsx"
  "bundle_entry address ''dist/workers.js'' = workers_jsx" "bundle_entry address ''dist/timeline.js'' = timeline_jsx"
proof -
  have "map (webpack_output \<circ> fst) webpack_entry = [''dist/index.js'', ''dist/query.js'', ''dist/plan.js'', ''dist/embedded_plan.js'', ''dist/stage.js'',
      ''dist/worker.js'', ''dist/workers.js'', ''dist/timeline.js'']"
    by code_simp
  then show "bundle_entry address ''dist/index.js'' = index_jsx" "bundle_entry address ''dist/query.js'' = query_jsx"
    "bundle_entry address ''dist/plan.js'' = plan_jsx address" "bundle_entry address ''dist/embedded_plan.js'' = embedded_plan_jsx address"
    "bundle_entry address ''dist/stage.js'' = stage_jsx" "bundle_entry address ''dist/worker.js'' = worker_jsx"
    "bundle_entry address ''dist/workers.js'' = workers_jsx" "bundle_entry address ''dist/timeline.js'' = timeline_jsx"
    by (simp_all add: bundle_entry_def webpack_entry_def source_entry_def)
qed

lemmas open_simps = third_party_def load_library_def available_def mount_effects_def LivePlan_componentDidMount_def StageDetail_componentDidMount_def
  bundle_entries entry_points html_files page_scripts

lemma pages_loaded:
  "loaded env index_html index_scripts = [JQuerySparkline, Bootstrap, JQuery]"
  "loaded env query_html query_scripts = [ClipboardJS, Highlight, JQuerySparkline, Bootstrap, JQuery]"
  "loaded env plan_html plan_scripts = [ClipboardJS, Highlight, JQuerySparkline, Bootstrap, JQuery]"
  "loaded env embedded_plan_html embedded_plan_scripts = [Highlight, JQuerySparkline, Bootstrap, JQuery]"
  "loaded env stage_html stage_scripts = [ClipboardJS, Highlight, JQuerySparkline, Bootstrap, JQuery]"
  "loaded env timeline_html timeline_scripts = [ClipboardJS, JQuerySparkline, Bootstrap, JQuery, Vis, D3]"
  "loaded env worker_html worker_scripts = [ClipboardJS, JQuerySparkline, Bootstrap, JQuery]"
  "loaded env workers_html workers_scripts = [ClipboardJS, JQuerySparkline, Bootstrap, JQuery]"
  by (simp_all add: loaded_def open_simps)

text \<open>Opening the pages, from the scripts of their HTML files through the bundles of the build to the components: each of them loads the bundle of its own entry point and ends
  up with exactly the components of that entry point, with one exception. The embedded plan does not load the clipboard library, without which the plan cannot
  be mounted, and stays empty.\<close>

lemma opened:
  "on_page env index_html index_scripts = index_jsx" "on_page env query_html query_scripts = query_jsx"
  "on_page env plan_html plan_scripts = plan_jsx (search env)" "on_page env embedded_plan_html embedded_plan_scripts = []"
  "on_page env stage_html stage_scripts = stage_jsx" "on_page env timeline_html timeline_scripts = timeline_jsx"
  "on_page env worker_html worker_scripts = worker_jsx" "on_page env workers_html workers_scripts = workers_jsx"
  by (simp_all add: on_page_def open_simps)

lemma title_calls_available:
  assumes "reachable PageTitle_refreshLoop PageTitle_responses {} (PageTitle_init t) title" and "Bootstrap \<in> set libs"
  shows "list_all (available libs) (calls (this_state title))"
  using assms(1)
proof (rule reachable_invariant [where P = "\<lambda>s. list_all (available libs) (calls s)"])
  fix r and w w' :: "page_title page"
  assume "r \<in> PageTitle_responses" and "list_all (available libs) (calls (this_state w))" and "r w = Some w'"
  then show "list_all (available libs) (calls (this_state w'))"
    using assms(2)
    by (auto simp: PageTitle_responses_def PageTitle_settled_def PageTitle_success_def PageTitle_catch_def PageTitle_resetTimer_def call_def available_def
        Let_def loop_simps split: fetch_result.splits sum.splits)
qed (simp_all add: PageTitle_init_def PageTitle_refreshLoop_def loop_simps)

text \<open>Once a page is open no component calls a library the page did not load: the sparklines and tooltips of the statistics, of a query and of a worker, the copy
  buttons, the highlighting of a query, and the dialog about a lost connection on every page that has a title.\<close>

theorem calls_have_libraries:
  assumes "reachable PageTitle_refreshLoop PageTitle_responses {} (PageTitle_init t) title"
  shows "list_all (available (loaded env index_html index_scripts)) (snd (ClusterHUD_componentDidUpdate now now' hud))
    \<and> list_all (available (loaded env query_html query_scripts)) (snd (snd (QueryDetail_componentDidUpdate now query)))
    \<and> (QueryDetail_highlights query = [] \<or> Highlight \<in> set (loaded env query_html query_scripts))
    \<and> list_all (available (loaded env worker_html worker_scripts)) (WorkerStatus_componentDidUpdate status @ WorkerThreadList_componentDidUpdate)
    \<and> list_all (available (loaded env plan_html plan_scripts)) (snd LivePlan_componentDidMount)
    \<and> list_all (available (loaded env stage_html stage_scripts)) (snd (StageDetail_componentDidMount env))
    \<and> list_all (\<lambda>libs. list_all (available libs) (calls (this_state title)))
        [loaded env index_html index_scripts, loaded env query_html query_scripts, loaded env plan_html plan_scripts, loaded env stage_html stage_scripts,
         loaded env timeline_html timeline_scripts, loaded env worker_html worker_scripts, loaded env workers_html workers_scripts]"
  by (simp add: pages_loaded title_calls_available [OF assms] available_def ClusterHUD_componentDidUpdate_def ClusterHUD_sparklines_def
      QueryDetail_componentDidUpdate_def QueryDetail_sparklines_def Let_def WorkerStatus_componentDidUpdate_def WorkerThreadList_componentDidUpdate_def
      LivePlan_componentDidMount_def StageDetail_componentDidMount_def)

theorem calls_have_libraries_witness:
  "list_all (available (loaded \<lparr>search = [], pathname = ''/ui/'', dagre = (\<lambda>g. (Fin 100, Fin 100))\<rparr> index_html index_scripts))
     (calls (this_state (run (PageTitle_settled (NetworkError (Some ''refused'')) 5) ((PageTitle_componentDidMount 0)\<lparr>inflight := 0\<rparr>))))"
  using calls_have_libraries [OF PageTitle_reachable_failure] by (simp only: list.pred_inject)

end
