(* ===== verification/PlanPage.thy ===== *)
theory PlanPage
  imports Scripts
begin

text \<open>
  The pages of the plan of a query, \<open>plan.html\<close> and \<open>embedded_plan.html\<close>, from the moment they are opened: the component \<open>LivePlan\<close> with the libraries the page has loaded,
  next to the title, and the document they make up.
\<close>

section \<open>Opening the page\<close>

text \<open>Mounting the component sends its first request; when a library \<open>componentDidMount\<close> calls is missing the exception removes the component.\<close>

definition LivePlan_open :: "library list \<Rightarrow> live_plan page" where
  "LivePlan_open libs =
     (case LivePlan_componentDidMount of (w, es) \<Rightarrow>
        if list_all (available libs) es then w else setState (\<lambda>s. s\<lparr>live_plan.unmounted := True\<rparr>) w)"

lemma LivePlan_open_eq:
  "LivePlan_open libs = LivePlan_refreshLoop (mounted (if ClipboardJS \<in> set libs then LivePlan_init else LivePlan_init\<lparr>live_plan.unmounted := True\<rparr>))"
  by (simp add: LivePlan_open_def LivePlan_componentDidMount_def available_def LivePlan_refreshLoop_def page_defs)

text \<open>A browser showing the plan of a query.\<close>

definition sample_browser :: stage_page where
  "sample_browser = \<lparr>search = ''?q1'', pathname = ''/ui/plan.html'', dagre = (\<lambda>g. (Fin 100, Fin 100))\<rparr>"

abbreviation plan_steps :: "plan_page \<Rightarrow> live_plan page \<Rightarrow> live_plan page \<Rightarrow> bool" where
  "plan_steps env \<equiv> browser_step LivePlan_refreshLoop (LivePlan_responses env) {}"

section \<open>The embedded plan\<close>

lemma removed_stays:
  assumes "reachable LivePlan_refreshLoop (LivePlan_responses env) {} s w" and "live_plan.unmounted s"
  shows "this_state w = s"
  using assms(1)
proof (rule reachable_invariant [where P = "\<lambda>s'. s' = s"])
  fix r w w' assume "r \<in> LivePlan_responses env" and "this_state w = s" and "r w = Some w'"
  with assms(2) run_unmounted [of w r env] show "this_state w' = s" by (simp add: run_def)
qed (simp_all add: LivePlan_refreshLoop_def loop_simps)

text \<open>C12. The embedded plan: whatever the server answers, the component is removed as soon as it is mounted, no plan is ever accepted or drawn, and the page
  nevertheless goes on asking, with one refresh under way at all times.\<close>

theorem embedded_plan_stays_empty:
  assumes "(plan_steps env)\<^sup>*\<^sup>* (LivePlan_open (loaded browser embedded_plan_html embedded_plan_scripts)) w"
  shows "live_plan.unmounted (this_state w) \<and> lp_query (this_state w) = None \<and> graph (this_state w) = initializeGraph \<and> activity w = 1"
proof -
  let ?s = "LivePlan_init\<lparr>live_plan.unmounted := True\<rparr>"
  have r: "reachable LivePlan_refreshLoop (LivePlan_responses env) {} ?s w"
    using reachable_steps [of LivePlan_refreshLoop] assms by (simp add: LivePlan_open_eq pages_loaded)
  then have "this_state w = ?s" by (rule removed_stays) simp
  moreover have "one_loop LivePlan_continues w"
    using lp.one_loop_reachable [OF r] by (simp add: presentable_def LivePlan_continues_def LivePlan_init_def)
  ultimately show ?thesis by (simp add: one_loop_def LivePlan_continues_def LivePlan_init_def)
qed

lemma first_response_step:
  assumes "r \<in> responses" and "inflight w = 1"
  shows "(browser_step loop responses events)\<^sup>*\<^sup>* w (run r (w\<lparr>inflight := 0\<rparr>))"
  using browser_step.respond [of w r responses loop events] assms by (simp add: r_into_rtranclp)

theorem embedded_plan_stays_empty_witness:
  "live_plan.unmounted (this_state (run (LivePlan_success sample_page (sample_plan_query (Some sample_tree)))
     ((LivePlan_open (loaded sample_browser embedded_plan_html embedded_plan_scripts))\<lparr>inflight := 0\<rparr>)))"
  using embedded_plan_stays_empty [OF first_response_step, of "LivePlan_success sample_page (sample_plan_query (Some sample_tree))" sample_page sample_browser]
  by (simp add: LivePlan_responses_def LivePlan_open_eq LivePlan_refreshLoop_def loop_simps)

section \<open>The plan next to its title\<close>

definition plan_document :: "plan_page \<Rightarrow> page_title \<Rightarrow> live_plan \<Rightarrow> string list" where
  "plan_document env t s =
     plan_html @ html_ids (PageTitle_render ''Query Details'' t)
     @ (if live_plan.unmounted s then []
        else html_ids (LivePlan_render (isEmbedded env) s)
          @ concat (map (\<lambda>q. html_ids (QueryHeader_render (plan_page.pathname env) q)) (html_components (LivePlan_render (isEmbedded env) s))))"

definition plan_open :: "stage_page \<Rightarrow> int \<Rightarrow> page_title page \<times> live_plan page" where
  "plan_open browser t = (PageTitle_componentDidMount t, LivePlan_open (loaded browser plan_html plan_scripts))"

definition plan_step :: "plan_page \<Rightarrow> page_title page \<times> live_plan page \<Rightarrow> page_title page \<times> live_plan page \<Rightarrow> bool" where
  "plan_step env = either (browser_step PageTitle_refreshLoop PageTitle_responses {}) (plan_steps env)"

lemma plan_parts:
  assumes "(plan_step env)\<^sup>*\<^sup>* (plan_open browser t) (title, plan)"
  shows "reachable PageTitle_refreshLoop PageTitle_responses {} (PageTitle_init t) title"
    and "reachable LivePlan_refreshLoop (LivePlan_responses env) {} LivePlan_init plan"
  using assms unfolding plan_step_def plan_open_def PageTitle_componentDidMount_def
  by (auto dest!: either_steps intro: reachable_steps simp: LivePlan_open_eq pages_loaded)

lemma LivePlan_ids:
  "html_ids (LivePlan_render e s) = (if lp_query s \<noteq> None \<and> live_plan.initialized s then [''live-plan'', ''plan-canvas''] else [])"
  by (cases "lp_query s"; simp add: LivePlan_render_def html_el dom_simps)

text \<open>The canvas is selected for good at the first update: a selection that is not empty was made while the canvas was on the page, and it stays there.\<close>

lemma canvas_stays:
  assumes "reachable LivePlan_refreshLoop (LivePlan_responses env) {} LivePlan_init w" and "svg (this_state w) = Some True"
  shows "lp_query (this_state w) \<noteq> None \<and> live_plan.initialized (this_state w)"
proof -
  let ?P = "\<lambda>s. svg s = Some True \<longrightarrow> lp_query s \<noteq> None \<and> live_plan.initialized s"
  have commit: "?P (LivePlan_commit env s)" if "?P s" for s
    using that componentDidUpdate_keeps(5) [of env s]
    by (auto simp: LivePlan_commit_keeps) (auto simp: LivePlan_commit_def Let_def split: option.splits if_splits)
  have "?P (this_state w)"
    using assms(1)
  proof (rule reachable_invariant [where P = ?P])
    fix r and w w' :: "live_plan page"
    assume "r \<in> LivePlan_responses env" and P: "?P (this_state w)" and "r w = Some w'"
    then show "?P (this_state w')"
      using commit [of "(this_state w)\<lparr>live_plan.initialized := True\<rparr>"]
      by (auto simp: LivePlan_responses_def LivePlan_catch_def LivePlan_success_def Let_def LivePlan_resetTimer_def loop_simps LivePlan_commit_keeps
          split: if_splits)
  qed (simp_all add: LivePlan_init_def LivePlan_refreshLoop_def loop_simps)
  with assms(2) show ?thesis by blast
qed

text \<open>C24. The plan of a query next to the title, from the moment \<open>plan.html\<close> is opened and in whatever order timers and responses come: the title has one refresh under way, the
  plan one until the final information on the query has been accepted and none afterwards; no two elements of the document share an id; and as long as React
  has not removed the plan, the canvas it draws on is in the document exactly once.\<close>

theorem plan_page_runs:
  assumes "(plan_step env)\<^sup>*\<^sup>* (plan_open browser t) (title, plan)"
  shows "activity title = 1
    \<and> activity plan = (if lp_query (this_state plan) \<noteq> None \<and> live_plan.ended (this_state plan) then 0 else 1)
    \<and> distinct (plan_document env (this_state title) (this_state plan))
    \<and> (live_plan.unmounted (this_state plan) \<or> svg (this_state plan) \<noteq> Some True
       \<or> count_list (plan_document env (this_state title) (this_state plan)) ''plan-canvas'' = 1)"
proof -
  note parts = plan_parts [OF assms]
  let ?s = "this_state plan" and ?t = "this_state title"
  have "presentable env LivePlan_init \<and> LivePlan_continues LivePlan_init"
    by (simp add: presentable_def LivePlan_init_def LivePlan_continues_def)
  then have inv: "one_loop LivePlan_continues plan" "presentable env ?s" using lp.one_loop_reachable [OF parts(2)] by blast+
  have ids: "plan_document env ?t ?s = [''title'', ''live-plan-container'']
      @ (if info ?t = None then []
         else [''navbar'', ''version-number'', ''environment'', ''status-indicator'', ''uptime'', ''logout'', ''no-connection-modal''])
      @ (if live_plan.unmounted ?s \<or> lp_query ?s = None \<or> \<not> live_plan.initialized ?s then []
         else [''live-plan'', ''plan-canvas''] @ (if isEmbedded env then [] else [''query-id'']))"
    using inv(2)
    by (cases "lp_query ?s")
      (auto simp: plan_document_def plan_html_def title_ids LivePlan_ids LivePlan_render_reads header_ids presentable_def LivePlanSpec.can_show_def)
  have "activity title = 1" using pt.one_loop_reachable [OF parts(1)] by (simp add: one_loop_def)
  moreover have "activity plan = (if lp_query ?s \<noteq> None \<and> live_plan.ended ?s then 0 else 1)"
    using inv(1) by (auto simp: one_loop_def LivePlan_continues_def)
  moreover have "distinct (plan_document env ?t ?s)" by (simp add: ids)
  moreover have "live_plan.unmounted ?s \<or> svg ?s \<noteq> Some True \<or> count_list (plan_document env ?t ?s) ''plan-canvas'' = 1"
    using canvas_stays [OF parts(2)] by (auto simp: ids)
  ultimately show ?thesis by blast
qed

theorem plan_page_runs_witness:
  "let plan = run (LivePlan_success sample_page (sample_plan_query (Some sample_tree)))
     ((LivePlan_open (loaded sample_browser plan_html plan_scripts))\<lparr>inflight := 0\<rparr>)
   in activity plan = 1 \<and> distinct (plan_document sample_page (this_state (PageTitle_componentDidMount 0)) (this_state plan))"
proof -
  let ?open = "LivePlan_open (loaded sample_browser plan_html plan_scripts)"
  let ?r = "LivePlan_success sample_page (sample_plan_query (Some sample_tree))"
  let ?plan = "run ?r (?open\<lparr>inflight := 0\<rparr>)"
  have "plan_steps sample_page ?open ?plan"
    using browser_step.respond [of ?open ?r "LivePlan_responses sample_page" LivePlan_refreshLoop "{}"]
    by (simp add: LivePlan_responses_def LivePlan_open_eq LivePlan_refreshLoop_def loop_simps)
  then have "(plan_step sample_page)\<^sup>*\<^sup>* (plan_open sample_browser 0) (PageTitle_componentDidMount 0, ?plan)"
    unfolding plan_step_def plan_open_def by (intro r_into_rtranclp either.second)
  moreover have "\<not> live_plan.ended (this_state ?plan)"
    by (simp add: run_def LivePlan_success_def LivePlan_catch_def Let_def LivePlan_resetTimer_def LivePlan_open_eq pages_loaded
        LivePlan_refreshLoop_def LivePlan_init_def loop_simps LivePlan_commit_keeps sample_plan_query_def)
  ultimately show ?thesis using plan_page_runs by (simp add: Let_def)
qed

end
