(* ===== verification/StagePage.thy ===== *)
theory StagePage
  imports StageDetail Refinement
begin

text \<open>
  The page \<open>stage.html\<close> as a whole: the component \<open>StageDetail\<close> and the dialog about an operator, which a click on a node of the operator graph renders into the
  element \<open>operator-detail\<close>, outside of the component. The dialog has the id of the node as its key: rendered again with the same key its components are
  updated, and \<open>OperatorStatistic\<close>, which draws its chart when it is mounted only, draws nothing.
\<close>

section \<open>State\<close>

record operator_dialog =
  dialog_key :: string
  dialog_operator :: "operator_stats option"
  dialog_tasks :: "operator_task list"
  dialog_charts :: "bar_chart list"

record stage_view =
  view_detail :: stage_detail
  dialog :: "operator_dialog option"

definition StagePage_init :: stage_view where
  "StagePage_init = \<lparr>view_detail = StageDetail_init, dialog = None\<rparr>"

section \<open>The component on the page\<close>

text \<open>What a callback of \<open>StageDetail\<close> does to the page: it leaves the dialog alone.\<close>

definition with_detail :: "stage_view page \<Rightarrow> stage_detail page \<Rightarrow> stage_view page" where
  "with_detail w v = \<lparr>this_state = (this_state w)\<lparr>view_detail := this_state v\<rparr>, slot = slot v, inflight = inflight v\<rparr>"

definition on_detail :: "(stage_detail page \<Rightarrow> stage_detail page throws) \<Rightarrow> stage_view page \<Rightarrow> stage_view page throws" where
  "on_detail r w = map_option (with_detail w) (r (abs_page view_detail w))"

definition StagePage_refreshLoop :: "stage_page \<Rightarrow> stage_view page \<Rightarrow> stage_view page" where
  "StagePage_refreshLoop env w = with_detail w (StageDetail_refreshLoop env (abs_page view_detail w))"

definition StagePage_success :: "stage_page \<Rightarrow> stage_query \<Rightarrow> stage_view page \<Rightarrow> stage_view page throws" where
  "StagePage_success env query = on_detail (StageDetail_success env query)"

definition StagePage_fail :: "stage_page \<Rightarrow> stage_view page \<Rightarrow> stage_view page throws" where
  "StagePage_fail env = on_detail (StageDetail_fail env)"

definition StagePage_selectStage :: "stage_page \<Rightarrow> string \<Rightarrow> stage_view page \<Rightarrow> stage_view page throws" where
  "StagePage_selectStage env stageId = on_detail (selectStage env stageId)"

section \<open>The dialog\<close>

text \<open>The stage whose operator graph is on the page, and the nodes of the graph that take clicks.\<close>

definition shown_graph :: "stage_detail \<Rightarrow> detail_stage option" where
  "shown_graph s =
     (case List.map_filter (\<lambda>part. case part of OperatorGraphPart stage \<Rightarrow> Some stage | HeaderPart q \<Rightarrow> None) (html_components (StageDetail_render s)) of
        stage # _ \<Rightarrow> Some stage
      | [] \<Rightarrow> None)"

fun operator_call :: "graph_call \<Rightarrow> string list" where
  "operator_call (SetNode n attrs html) = (if (''class'', ''operator-stats'') \<in> set attrs then [n] else [])"
| "operator_call _ = []"

definition clickable :: "detail_stage \<Rightarrow> string list" where
  "clickable stage = (case operator_graph stage of Some (graphs, calls) \<Rightarrow> concat (map operator_call calls) | None \<Rightarrow> [])"

text \<open>\<open>ReactDOM.render\<close> of the dialog: when rendering throws React removes what was there.\<close>

definition open_dialog ::
  "string \<Rightarrow> operator_stats option \<Rightarrow> operator_task list \<Rightarrow> operator_dialog option \<Rightarrow> operator_dialog option" where
  "open_dialog key operator_or_null tasks old =
     (let rendered = (OperatorDetail_render getInitialStatistics operator_or_null tasks :: (statistic \<times> operator_stats list, unit) html);
          mounted_charts = map (\<lambda>(st, operators). OperatorStatistic_componentDidMount st operators) (html_components rendered)
      in if renders rendered
         then Some \<lparr>dialog_key = key, dialog_operator = operator_or_null, dialog_tasks = tasks,
           dialog_charts = (case old of
              Some d \<Rightarrow> if dialog_key d = key then dialog_charts d else mounted_charts
            | None \<Rightarrow> mounted_charts)\<rparr>
         else None)"

text \<open>A click on the graph. Only the graph the component shows is clicked: what d3 has left on the canvas after React removed the component is not
  part of the model.\<close>

definition StagePage_operatorClick :: "stage_page \<Rightarrow> string \<Rightarrow> stage_view page \<Rightarrow> stage_view page throws" where
  "StagePage_operatorClick env operatorCssId w =
     (let p = this_state w
      in case shown_graph (view_detail p) of
           Some stage \<Rightarrow>
             if operatorCssId \<in> set (clickable stage) \<and> \<not> unmounted (view_detail p)
             then do { (operator_or_null, tasks) \<leftarrow> handleOperatorClick stage operatorCssId;
                       Some (setState (\<lambda>p. p\<lparr>dialog := open_dialog operatorCssId operator_or_null tasks (dialog p)\<rparr>) w) }
             else Some w
         | None \<Rightarrow> Some w)"

end
