(* ===== verification/OperatorGraphSpec.thy ===== *)
theory OperatorGraphSpec
  imports OperatorGraph
begin

text \<open>
  What the operator graph of a stage shows: every operator exactly once, in a chain of its own pipeline, each
  chain drawn as a path, and a click on a node drawn leading back to its operator.
\<close>

section \<open>Merging results\<close>

lemma add_absent_wf: "wf_omap m \<Longrightarrow> wf_omap (add_absent new m)"
  unfolding add_absent_def by (induction new arbitrary: m) (auto simp: om.invar_put)

lemma add_absent_append:
  assumes "wf_omap new"
  shows "add_absent new m = m @ filter (\<lambda>(p, c). \<not> has_key m p) new"
  using assms
proof (induction new arbitrary: m)
  case (Cons e new)
  obtain p c where e: "e = (p, c)" by (cases e)
  have wf: "wf_omap new" and p: "p \<notin> fst ` set new" using Cons.prems by (auto simp: e wf_omap_def)
  show ?case
  proof (cases "has_key m p")
    case True
    then show ?thesis using Cons.IH [OF wf, of m] by (simp add: add_absent_def e)
  next
    case False
    have "AList.update p c m = m @ [(p, c)]"
      using False by (induction m) (auto simp: has_key_def split: if_splits)
    moreover have "has_key (m @ [(p, c)]) q \<longleftrightarrow> has_key m q" if "q \<in> fst ` set new" for q
      using that p by (auto simp: has_key_iff)
    then have "filter (\<lambda>(q, d). \<not> has_key (m @ [(p, c)]) q) new = filter (\<lambda>(q, d). \<not> has_key m q) new"
      by (intro filter_cong) force+
    ultimately show ?thesis using False Cons.IH [OF wf, of "m @ [(p, c)]"] by (simp add: add_absent_def e)
  qed
qed (simp add: add_absent_def)

lemma add_absent_disjoint:
  assumes "wf_omap new" and "fst ` set new \<inter> fst ` set m = {}"
  shows "add_absent new m = m @ new"
proof -
  have "q \<notin> fst ` set m" if "(q, d) \<in> set new" for q d
    using assms(2) that by (metis disjoint_iff fst_conv image_eqI)
  then have "filter (\<lambda>(p, c). \<not> has_key m p) new = new" by (intro filter_True) (auto simp: has_key_iff)
  then show ?thesis by (simp add: add_absent_append [OF assms(1)])
qed

lemma merge_disjoint:
  assumes "list_all wf_omap rs" and "distinct (map fst (concat rs))" and "fst ` set m \<inter> fst ` set (concat rs) = {}"
  shows "fold add_absent rs m = m @ concat rs"
  using assms
proof (induction rs arbitrary: m)
  case (Cons r rs)
  then have "add_absent r m = m @ r" by (intro add_absent_disjoint) auto
  moreover have "fst ` set (m @ r) \<inter> fst ` set (concat rs) = {}"
    using Cons.prems(2,3) by (simp only: concat.simps map_append distinct_append set_append image_Un set_map) blast
  then have "fold add_absent rs (m @ r) = (m @ r) @ concat rs"
    using Cons.prems by (intro Cons.IH) auto
  ultimately show ?case by simp
qed simp

section \<open>Chains\<close>

definition graph_ops :: "op_graphs \<Rightarrow> operator_stats list" where
  "graph_ops g = concat (map (\<lambda>(p, c). chain_ops c) g)"

definition homogeneous :: "op_graphs \<Rightarrow> bool" where
  "homogeneous g \<longleftrightarrow> (\<forall>(p, c) \<in> set g. \<forall>o' \<in> set (chain_ops c). pipelineId o' = p)"

definition child_ops :: "op_chain option \<Rightarrow> operator_stats list" where
  "child_ops child = (case child of Some c \<Rightarrow> chain_ops c | None \<Rightarrow> [])"

lemma chain_ops_fold:
  "chain_ops (fold (\<lambda>source current. Chain source (Some current)) rest c) = rev rest @ chain_ops c"
  by (induction rest arbitrary: c) simp_all

lemma link_operators_ops:
  assumes "ops \<noteq> []"
  obtains c where "link_operators child ops = Some c" and "mset (chain_ops c) = mset ops + mset (child_ops child)"
proof -
  let ?s = "js_sort (\<lambda>a b. operatorId a - operatorId b) ops"
  have "?s \<noteq> []" using assms by (metis length_0_conv length_js_sort)
  then obtain o' rest where s: "?s = o' # rest" by (cases ?s) auto
  then have "mset ops = add_mset o' (mset rest)" using mset_js_sort by (metis mset.simps(2))
  then have "mset (chain_ops (fold (\<lambda>source current. Chain source (Some current)) rest (Chain o' child)))
      = mset ops + mset (child_ops child)"
    by (simp add: chain_ops_fold child_ops_def split: option.splits)
  then show thesis using that by (simp add: link_operators_def s)
qed

lemma group_nonempty: "(p, ops) \<in> set (group_by key xs) \<Longrightarrow> ops = filter (\<lambda>x. key x = p) xs \<and> ops \<noteq> []"
proof -
  assume "(p, ops) \<in> set (group_by key xs)"
  then have "map_of (group_by key xs) p = Some ops" using group_by_wf [of key xs] by (simp add: wf_omap_def)
  then show ?thesis by (simp add: group_by_get Let_def split: if_splits)
qed

definition linked :: "op_graphs \<Rightarrow> jsnum \<times> operator_stats list \<Rightarrow> jsnum \<times> op_chain" where
  "linked s e = (fst e, the (link_operators (map_of s (fst e)) (snd e)))"

lemma fold_put_map:
  assumes "distinct (map fst es)" and "fst ` set es \<inter> fst ` set m = {}"
    and "\<And>p ops. (p, ops) \<in> set es \<Longrightarrow> h p ops \<noteq> None"
  shows "fold (\<lambda>(p, ops) result. case h p ops of Some c \<Rightarrow> AList.update p c result | None \<Rightarrow> result) es m
    = m @ map (\<lambda>(p, ops). (p, the (h p ops))) es"
  using assms
proof (induction es arbitrary: m)
  case (Cons e es)
  obtain p ops where e: "e = (p, ops)" by (cases e)
  obtain c where c: "h p ops = Some c" using Cons.prems(3) [of p ops] by (auto simp: e)
  have "p \<notin> fst ` set m" using Cons.prems(2) by (auto simp: e)
  then have "AList.update p c m = m @ [(p, c)]" by (induction m) auto
  moreover have "fst ` set es \<inter> fst ` set (m @ [(p, c)]) = {}" using Cons.prems(1,2) by (auto simp: e)
  ultimately show ?case using Cons.IH [of "m @ [(p, c)]"] Cons.prems c by (simp add: e)
qed simp

lemma link_pipelines_map: "link_pipelines s ops = map (linked s) (group_by pipelineId ops)"
proof -
  have "link_operators (map_of s p) os \<noteq> None" if "(p, os) \<in> set (group_by pipelineId ops)" for p os
    using group_nonempty [OF that] link_operators_ops by (metis option.distinct(1))
  then show ?thesis
    using fold_put_map [of "group_by pipelineId ops" "[]" "\<lambda>p os. link_operators (map_of s p) os"]
      group_by_wf [of pipelineId ops]
    by (simp add: link_pipelines_def wf_omap_def linked_def split_def)
qed

lemma linked_ops:
  assumes "(p, os) \<in> set (group_by pipelineId ops)"
  shows "mset (chain_ops (snd (linked s (p, os)))) = mset os + mset (child_ops (map_of s p))"
  using group_nonempty [OF assms] link_operators_ops [of os "map_of s p"] by (fastforce simp: linked_def)

text \<open>Hanging the chains of the sources below the operators of a node loses none and repeats none.\<close>

lemma mset_distribute:
  assumes "wf_omap s" and "distinct ks"
  shows "(\<Sum>p\<leftarrow>ks. mset (child_ops (map_of s p))) + mset (graph_ops (filter (\<lambda>(p, c). p \<notin> set ks) s)) = mset (graph_ops s)"
  using assms
proof (induction s)
  case Nil
  have "(\<Sum>p\<leftarrow>ks. mset (child_ops None)) = {#}" by (induction ks) (simp_all add: child_ops_def)
  then show ?case by (simp add: graph_ops_def)
next
  case (Cons e s)
  obtain q c where e: "e = (q, c)" by (cases e)
  have wf: "wf_omap s" and q: "q \<notin> fst ` set s" using Cons.prems(1) by (auto simp: e wf_omap_def)
  then have None: "map_of s q = None" by (simp add: map_of_eq_None_iff)
  have *: "(\<Sum>p\<leftarrow>ks'. mset (child_ops (map_of (e # s) p)))
      = (\<Sum>p\<leftarrow>ks'. mset (child_ops (map_of s p))) + (if q \<in> set ks' then mset (chain_ops c) else {#})" if "distinct ks'" for ks'
    using that None by (induction ks') (auto simp: e child_ops_def)
  show ?case using Cons.IH [OF wf Cons.prems(2)] * [OF Cons.prems(2)]
    by (auto simp: e graph_ops_def)
qed

lemma graph_ops_linked:
  assumes "wf_omap s"
  shows "mset (graph_ops (add_absent s (link_pipelines s ops))) = mset ops + mset (graph_ops s)"
proof -
  let ?g = "group_by pipelineId ops"
  have keys: "fst ` set (map (linked s) ?g) = set (map fst ?g)" by (simp add: linked_def image_image)
  have "mset (graph_ops (map (linked s) es)) = (\<Sum>e\<leftarrow>es. mset (snd e)) + (\<Sum>p\<leftarrow>map fst es. mset (child_ops (map_of s p)))"
    if "set es \<subseteq> set ?g" for es
    using that
  proof (induction es)
    case (Cons e es)
    then show ?case using linked_ops [of "fst e" "snd e" ops s] by (simp add: graph_ops_def split_def)
  qed (simp add: graph_ops_def)
  then have l: "mset (graph_ops (map (linked s) ?g)) = (\<Sum>e\<leftarrow>?g. mset (snd e)) + (\<Sum>p\<leftarrow>map fst ?g. mset (child_ops (map_of s p)))"
    by blast
  have "(\<Sum>e\<leftarrow>?g. mset (snd e)) = mset ops"
    using group_by_mset [of pipelineId ops] by (simp add: mset_concat comp_def)
  moreover have "add_absent s (map (linked s) ?g) = map (linked s) ?g @ filter (\<lambda>(p, c). p \<notin> set (map fst ?g)) s"
    by (simp add: add_absent_append [OF assms] has_key_iff keys [simplified])
  moreover have "distinct (map fst ?g)" using group_by_wf [of pipelineId ops] by (simp add: wf_omap_def)
  ultimately show ?thesis
    using l mset_distribute [OF assms, of "map fst ?g"] by (simp add: link_pipelines_map graph_ops_def)
qed

lemma homogeneous_linked:
  assumes "homogeneous s" and "wf_omap s"
  shows "homogeneous (add_absent s (link_pipelines s ops))"
proof -
  have child: "pipelineId o' = p" if "o' \<in> set (child_ops (map_of s p))" for o' p
    using that assms(1) map_of_SomeD [of s p] by (cases "map_of s p") (fastforce simp: child_ops_def homogeneous_def)+
  have "pipelineId o' = p" if "(p, os) \<in> set (group_by pipelineId ops)" "o' \<in> set (chain_ops (snd (linked s (p, os))))" for p os o'
  proof -
    from that(2) have "o' \<in># mset (chain_ops (snd (linked s (p, os))))" by (simp only: set_mset_mset)
    then have "o' \<in># mset os + mset (child_ops (map_of s p))" by (simp only: linked_ops [OF that(1)])
    then show ?thesis using child group_nonempty [OF that(1)] by auto
  qed
  then have "homogeneous (map (linked s) (group_by pipelineId ops))"
    by (auto simp: homogeneous_def linked_def)
  with assms(1) show ?thesis
    by (auto simp: link_pipelines_map add_absent_append [OF assms(2)] homogeneous_def)
qed

text \<open>The order in a chain, from the sink to the source: the operators of a node, the last one of the pipeline first, and below them those of its sources.\<close>

definition by_operatorId :: "operator_stats list \<Rightarrow> operator_stats list" where
  "by_operatorId ops = js_sort (\<lambda>a b. operatorId a - operatorId b) ops"

lemma link_operators_chain:
  assumes "ops \<noteq> []"
  shows "child_ops (link_operators child ops) = rev (by_operatorId ops) @ child_ops child"
proof -
  have "by_operatorId ops \<noteq> []" using assms unfolding by_operatorId_def by (metis length_0_conv length_js_sort)
  then obtain o' rest where "by_operatorId ops = o' # rest" by (cases "by_operatorId ops") auto
  then show ?thesis by (simp add: link_operators_def by_operatorId_def child_ops_def chain_ops_fold split: option.splits)
qed

lemma map_of_filter_key: "P p \<Longrightarrow> map_of (filter (\<lambda>(k, v). P k) s) p = map_of s p"
  by (induction s) auto

lemma map_of_linked: "map_of (map (linked s) es) p = map_option (\<lambda>os. the (link_operators (map_of s p) os)) (map_of es p)"
  by (induction es) (auto simp: linked_def)

lemma linked_chain:
  assumes "wf_omap s"
  shows "child_ops (map_of (add_absent s (link_pipelines s ops)) p) = rev (by_operatorId (filter (\<lambda>o'. pipelineId o' = p) ops)) @ child_ops (map_of s p)"
proof -
  let ?ops = "filter (\<lambda>o'. pipelineId o' = p) ops" and ?l = "map (linked s) (group_by pipelineId ops)"
  have l: "map_of ?l p = (if ?ops = [] then None else Some (the (link_operators (map_of s p) ?ops)))"
    unfolding map_of_linked by (simp add: group_by_get Let_def)
  have merged: "add_absent s (link_pipelines s ops) = ?l @ filter (\<lambda>(p, c). \<not> has_key ?l p) s"
    by (simp add: link_pipelines_map add_absent_append [OF assms])
  show ?thesis
  proof (cases "?ops = []")
    case True
    then have none: "map_of ?l p = None" using l by simp
    then have "\<not> has_key ?l p" by (simp only: has_key_def) simp
    then have "map_of (filter (\<lambda>(p, c). \<not> has_key ?l p) s) p = map_of s p" by (rule map_of_filter_key)
    with none True show ?thesis unfolding merged by (simp add: map_add_def by_operatorId_def js_sort_def)
  next
    case False
    obtain c where "link_operators (map_of s p) ?ops = Some c" using link_operators_ops [OF False] by blast
    with l False link_operators_chain [OF False, of "map_of s p"] show ?thesis unfolding merged by (simp add: map_add_def child_ops_def)
  qed
qed

lemma merged_chain:
  "distinct (map fst (concat rs)) \<Longrightarrow> child_ops (map_of (concat rs) p) = concat (map (\<lambda>r. child_ops (map_of r p)) rs)"
proof (induction rs)
  case (Cons r rs)
  then have IH: "child_ops (map_of (concat rs) p) = concat (map (\<lambda>r. child_ops (map_of r p)) rs)" by simp
  have "map_of r p \<noteq> None \<Longrightarrow> map_of (concat rs) p = None"
    using Cons.prems by (auto simp: map_of_eq_None_iff dest!: map_of_SomeD)
  with IH show ?case by (cases "map_of r p") (auto simp: map_add_def child_ops_def split: option.splits)
qed (simp add: child_ops_def)

section \<open>The whole plan\<close>

definition ops_at :: "(string, operator_stats list) omap \<Rightarrow> string \<Rightarrow> operator_stats list" where
  "ops_at m i = (case map_of m i of Some ops \<Rightarrow> ops | None \<Rightarrow> [])"

definition children :: "plan_node \<Rightarrow> plan_node list" where
  "children n = (case getChildren n of Some cs \<Rightarrow> List.map_filter id cs | None \<Rightarrow> [])"

lemma children_size [termination_simp]: "c \<in> set (children n) \<Longrightarrow> size c < size n"
  by (cases "getChildren n") (auto simp: children_def map_filter_def dest: getChildren_size)

fun plan_nodes :: "plan_node \<Rightarrow> plan_node list" where
  "plan_nodes n = n # concat (map plan_nodes (children n))"

declare plan_nodes.simps [simp del]

text \<open>Plans for which the code reports no error: every child is there, and no two sources of a node have operators in the same
  pipeline.\<close>

inductive clash_free :: "(string, operator_stats list) omap \<Rightarrow> plan_node \<Rightarrow> bool" for m where
  "getChildren n = Some (map Some ns) \<Longrightarrow> \<forall>k \<in> set ns. clash_free m k
   \<Longrightarrow> mapM (computeOperatorGraphs m) ns = Some rs \<Longrightarrow> distinct (map fst (concat rs)) \<Longrightarrow> clash_free m n"

lemma mapM_map: "mapM f (map g xs) = mapM (\<lambda>x. f (g x)) xs"
  by (induction xs) auto

lemma children_map: "getChildren n = Some (map Some ns) \<Longrightarrow> children n = ns"
  by (simp add: children_def map_filter_def comp_def)

lemma computeOperatorGraphs_node:
  assumes "getChildren n = Some (map Some ns)" and "mapM (computeOperatorGraphs m) ns = Some rs"
  shows "computeOperatorGraphs m n =
    Some (let s = fold add_absent rs [] in
          if ops_at m (node_id n) = [] then s else add_absent s (link_pipelines s (ops_at m (node_id n))))"
  using assms by (subst computeOperatorGraphs.simps) (auto simp: mapM_map ops_at_def Let_def split: option.splits)

lemma computeOperatorGraphs_clash_free:
  assumes "clash_free m n"
  shows "\<exists>g. computeOperatorGraphs m n = Some g \<and> wf_omap g \<and> homogeneous g
    \<and> mset (graph_ops g) = mset (concat (map (\<lambda>k. ops_at m (node_id k)) (plan_nodes n)))"
  using assms
proof (induction rule: clash_free.induct)
  case (1 n ns rs)
  have rs: "list_all2 (\<lambda>k g. computeOperatorGraphs m k = Some g) ns rs" using 1(2) by (simp add: mapM_Some_iff)
  have IH: "wf_omap g \<and> homogeneous g
      \<and> mset (graph_ops g) = mset (concat (map (\<lambda>k. ops_at m (node_id k)) (plan_nodes k)))"
    if "k \<in> set ns" "computeOperatorGraphs m k = Some g" for k g
    using that 1(4) by fastforce
  have all: "list_all wf_omap rs \<and> list_all homogeneous rs
    \<and> mset (graph_ops (concat rs)) = mset (concat (map (\<lambda>k. ops_at m (node_id k)) (concat (map plan_nodes ns))))"
    using rs IH
  proof (induction rule: list_all2_induct)
    case (Cons k ks g gs)
    have "list_all wf_omap gs \<and> list_all homogeneous gs
      \<and> mset (graph_ops (concat gs)) = mset (concat (map (\<lambda>k. ops_at m (node_id k)) (concat (map plan_nodes ks))))"
      by (rule Cons.IH, rule Cons.prems) simp_all
    with Cons.prems [of k g] Cons.hyps(1) show ?case by (simp add: graph_ops_def)
  qed (simp add: graph_ops_def)
  let ?s = "fold add_absent rs []"
  have s: "?s = concat rs" using merge_disjoint [of rs "[]"] all 1(3) by simp
  have wf: "wf_omap ?s" unfolding s wf_omap_def by (rule 1(3))
  have hom: "homogeneous ?s" using all by (auto simp: s homogeneous_def list_all_iff)
  have wf_link: "wf_omap (link_pipelines ?s ops)" for ops
    using group_by_wf [of pipelineId ops] by (simp add: link_pipelines_map wf_omap_def linked_def comp_def)
  show ?case
    using computeOperatorGraphs_node [OF 1(1,2)] wf hom all s
      graph_ops_linked [OF wf] homogeneous_linked [OF hom wf] add_absent_wf [OF wf_link]
    by (subst plan_nodes.simps) (auto simp: children_map [OF 1(1)] Let_def)
qed

lemma concat_map_plan: "concat (map (\<lambda>k. concat (map f (g k))) ns) = concat (map f (concat (map g ns)))"
  by (induction ns) simp_all

lemma computeOperatorGraphs_order:
  assumes "clash_free m n"
  shows "computeOperatorGraphs m n = Some g \<Longrightarrow> child_ops (map_of g p) =
    concat (map (\<lambda>k. rev (by_operatorId (filter (\<lambda>o'. pipelineId o' = p) (ops_at m (node_id k))))) (plan_nodes n))"
  using assms
proof (induction arbitrary: g rule: clash_free.induct)
  case (1 n ns rs)
  let ?own = "\<lambda>k. rev (by_operatorId (filter (\<lambda>o'. pipelineId o' = p) (ops_at m (node_id k))))"
  have rs: "list_all2 (\<lambda>k g. computeOperatorGraphs m k = Some g) ns rs" using 1(2) by (simp add: mapM_Some_iff)
  have wf: "list_all wf_omap rs"
    using rs 1(4) computeOperatorGraphs_clash_free
    by (fastforce simp: list_all2_conv_all_nth list_all_length)
  have "map (\<lambda>r. child_ops (map_of r p)) rs = map (\<lambda>k. concat (map ?own (plan_nodes k))) ns"
    by (rule nth_equalityI) (use rs 1(4) in \<open>simp_all add: list_all2_conv_all_nth\<close>)
  then have below: "child_ops (map_of (concat rs) p) = concat (map ?own (concat (map plan_nodes ns)))"
    unfolding merged_chain [OF 1(3)] by (simp add: concat_map_plan)
  have s: "fold add_absent rs [] = concat rs" using merge_disjoint [of rs "[]"] wf 1(3) by simp
  have "g = (if ops_at m (node_id n) = [] then concat rs else add_absent (concat rs) (link_pipelines (concat rs) (ops_at m (node_id n))))"
    using 1(5) computeOperatorGraphs_node [OF 1(1,2)] by (simp add: s Let_def)
  then have "child_ops (map_of g p) = ?own n @ child_ops (map_of (concat rs) p)"
    using linked_chain [of "concat rs"] 1(3) by (simp add: wf_omap_def by_operatorId_def js_sort_def)
  then show ?case unfolding below by (subst plan_nodes.simps) (simp add: children_map [OF 1(1)])
qed

lemma ops_at_map: "ops_at (computeOperatorMap summaries) i = filter (\<lambda>o'. planNodeId o' = i) summaries"
  by (simp add: ops_at_def computeOperatorMap_def group_by_get Let_def)

lemma mset_filter_keys:
  assumes "distinct ks" and "\<forall>x \<in> set xs. f x \<in> set ks"
  shows "mset (concat (map (\<lambda>k. filter (\<lambda>x. f x = k) xs) ks)) = mset xs"
  using assms(2)
proof (induction xs)
  case (Cons x xs)
  have "(\<Sum>k\<leftarrow>ks'. mset (filter (\<lambda>y. f y = k) (x # xs)))
      = (\<Sum>k\<leftarrow>ks'. mset (filter (\<lambda>y. f y = k) xs)) + (if f x \<in> set ks' then {#x#} else {#})" if "distinct ks'" for ks'
    using that by (induction ks') auto
  from this [OF assms(1)] Cons show ?case by (simp add: mset_concat comp_def)
qed (simp add: map_replicate_const)

text \<open>The operators of a stage whose plan is complete, has distinct node ids and no clash of pipelines: each operator that belongs to a
  node of the plan is in exactly one chain, there is one chain per pipeline, and it holds operators of that pipeline only.\<close>

theorem operators_linked_once:
  assumes "clash_free (computeOperatorMap summaries) n" and "distinct (map node_id (plan_nodes n))"
    and "\<forall>o' \<in> set summaries. planNodeId o' \<in> node_id ` set (plan_nodes n)"
  shows "\<exists>g. computeOperatorGraphs (computeOperatorMap summaries) n = Some g
    \<and> mset (concat (map (\<lambda>(p, c). chain_ops c) g)) = mset summaries
    \<and> distinct (map fst g) \<and> (\<forall>(p, c) \<in> set g. \<forall>o' \<in> set (chain_ops c). pipelineId o' = p)"
proof -
  have "mset (concat (map (\<lambda>k. ops_at (computeOperatorMap summaries) (node_id k)) (plan_nodes n))) = mset summaries"
    using mset_filter_keys [OF assms(2), of summaries planNodeId] assms(3) by (simp add: ops_at_map comp_def)
  then show ?thesis
    using computeOperatorGraphs_clash_free [OF assms(1)] by (auto simp: graph_ops_def wf_omap_def homogeneous_def)
qed

definition sample_operator :: "rat \<Rightarrow> rat \<Rightarrow> string \<Rightarrow> operator_stats" where
  "sample_operator p k node = \<lparr>pipelineId = Fin p, operatorId = Fin k, planNodeId = node, operatorType = ''ScanOperator'',
     addInputWall = ''1.00s'', getOutputWall = ''0.00ns'', finishWall = ''0.00ns'', blockedWall = ''0.00ns'',
     inputPositions = Fin 5000, inputDataSize = ''1kB'', outputPositions = Fin 5000, outputDataSize = ''1kB'',
     op_totalDrivers = Fin 1\<rparr>"

definition sample_plan :: plan_node where
  "sample_plan = PlanNode ''output'' ''1'' [(''source'', PlanNode ''tablescan'' ''2'' [] None)] None"

definition sample_summaries :: "operator_stats list" where
  "sample_summaries = [sample_operator 0 1 ''1'', sample_operator 0 0 ''2'']"

lemma sample_children:
  "getChildren sample_plan = Some (map Some [PlanNode ''tablescan'' ''2'' [] None])"
  "getChildren (PlanNode ''tablescan'' ''2'' [] None) = Some (map Some [])"
  by (simp_all add: getChildren_def child_fields_def unary_types_def sample_plan_def)

lemma sample_clash_free: "clash_free m sample_plan"
proof -
  let ?leaf = "PlanNode ''tablescan'' ''2'' [] None"
  have leaf: "clash_free m ?leaf" by (rule clash_free.intros [OF sample_children(2), of m "[]"]) simp_all
  then obtain g where "computeOperatorGraphs m ?leaf = Some g" "wf_omap g"
    using computeOperatorGraphs_clash_free by blast
  then show ?thesis
    using leaf by (intro clash_free.intros [OF sample_children(1), of m "[g]"]) (simp_all add: wf_omap_def)
qed

lemma sample_nodes: "map node_id (plan_nodes sample_plan) = [''1'', ''2'']"
  by (simp add: plan_nodes.simps children_map [OF sample_children(1)] children_map [OF sample_children(2)])
    (simp add: sample_plan_def)

lemma sample_covered: "\<forall>o' \<in> set sample_summaries. planNodeId o' \<in> node_id ` set (plan_nodes sample_plan)"
  using sample_nodes by (auto simp: sample_summaries_def sample_operator_def simp flip: set_map)

theorem operators_linked_once_witness:
  "\<exists>g. computeOperatorGraphs (computeOperatorMap sample_summaries) sample_plan = Some g
    \<and> mset (concat (map (\<lambda>(p, c). chain_ops c) g)) = {#sample_operator 0 1 ''1'', sample_operator 0 0 ''2''#}"
  using operators_linked_once [OF sample_clash_free _ sample_covered]
  by (simp add: sample_nodes) (auto simp: sample_summaries_def)

section \<open>Drawing the chains\<close>

lemma text_throws [simp]: "rate_text r b \<noteq> throw" "amount_text n d \<noteq> throw"
  using parseAndFormatDataSize_total
  by (auto simp: rate_text_def amount_text_def bind_eq_None_conv formatter_throws)

lemma OperatorSummary_renders: "renders (OperatorSummary_render operator) \<longleftrightarrow> parseDuration (blockedWall operator) \<noteq> None"
  by (simp add: OperatorSummary_render_def dom_simps formatter_throws val_of_def del: not_None_eq split: option.splits)

definition sink_path :: "string option \<Rightarrow> string list \<Rightarrow> (string \<times> string) list" where
  "sink_path sink ns = rev (case sink of Some s \<Rightarrow> zip ns (s # ns) | None \<Rightarrow> zip (tl ns) ns)"

lemma computeD3_path:
  assumes "list_all (\<lambda>o'. parseDuration (blockedWall o') \<noteq> None) (chain_ops c)"
  shows "\<exists>cs. computeD3StageOperatorGraph c sink p = Some cs \<and> graph_nodes cs = map operator_node (chain_ops c)
    \<and> graph_edges cs = sink_path sink (map operator_node (chain_ops c))"
  using assms
proof (induction c arbitrary: sink)
  case (Chain operator child)
  obtain v :: "(unit, unit) vnode" where v: "OperatorSummary_render operator = Some v"
    using Chain.prems OperatorSummary_renders [of operator] by (fastforce simp: renders_def)
  show ?case
  proof (cases child)
    case None
    with v show ?thesis by (simp add: sink_path_def Let_def split: option.splits)
  next
    case (Some c)
    with Chain.prems have "list_all (\<lambda>o'. parseDuration (blockedWall o') \<noteq> None) (chain_ops c)" by simp
    with Chain.IH [of c "Some (operator_node operator)"] Some
    obtain cs where "computeD3StageOperatorGraph c (Some (operator_node operator)) p = Some cs"
        "graph_nodes cs = map operator_node (chain_ops c)"
        "graph_edges cs = sink_path (Some (operator_node operator)) (map operator_node (chain_ops c))"
      by auto
    with v Some show ?thesis by (simp add: sink_path_def Let_def split: option.splits)
  qed
qed

definition pipeline_nodes :: "jsnum \<times> op_chain \<Rightarrow> string list" where
  "pipeline_nodes e = (''pipeline-'' @ numToString (fst e)) # map operator_node (chain_ops (snd e))"

definition pipeline_edges :: "jsnum \<times> op_chain \<Rightarrow> (string \<times> string) list" where
  "pipeline_edges e = (let ns = map operator_node (chain_ops (snd e)) in rev (zip (tl ns) ns))"

lemma draw_pipelines:
  assumes "list_all (\<lambda>o'. parseDuration (blockedWall o') \<noteq> None) (graph_ops g)"
  shows "\<exists>css. mapM draw_pipeline g = Some css \<and> graph_nodes (concat css) = concat (map pipeline_nodes g)
    \<and> graph_edges (concat css) = concat (map pipeline_edges g)"
  using assms
proof (induction g)
  case (Cons e g)
  obtain p c where e: "e = (p, c)" by (cases e)
  have "list_all (\<lambda>o'. parseDuration (blockedWall o') \<noteq> None) (chain_ops c)"
    and "list_all (\<lambda>o'. parseDuration (blockedWall o') \<noteq> None) (graph_ops g)"
    using Cons.prems by (simp_all add: e graph_ops_def)
  with Cons.IH computeD3_path [of c None "''pipeline-'' @ numToString p"] show ?case
    by (auto simp: e draw_pipeline_def pipeline_nodes_def pipeline_edges_def sink_path_def Let_def)
qed simp

lemma zip_tl_set: "(a, b) \<in> set (zip (tl ns) ns) \<Longrightarrow> a \<in> set ns \<and> b \<in> set ns"
  by (cases ns) (auto dest: set_zip_leftD set_zip_rightD)

lemma pipeline_edges_nodes:
  "(a, b) \<in> set (pipeline_edges e) \<Longrightarrow> a \<in> set (pipeline_nodes e) \<and> b \<in> set (pipeline_nodes e)"
  using zip_tl_set [of a b "map operator_node (chain_ops (snd e))"]
  by (simp add: pipeline_edges_def pipeline_nodes_def Let_def)

lemma chain_ops_nonempty: "chain_ops c \<noteq> []"
  by (cases c) simp

lemma clusters_pipelines:
  assumes "homogeneous g"
  shows "fst ` set g = pipelineId ` set (graph_ops g)"
proof -
  have head: "pipelineId (hd (chain_ops c)) = p" "hd (chain_ops c) \<in> set (chain_ops c)" if "(p, c) \<in> set g" for p c
    using that assms chain_ops_nonempty [of c] by (auto simp: homogeneous_def)
  show ?thesis
  proof
    show "fst ` set g \<subseteq> pipelineId ` set (graph_ops g)"
    proof clarify
      fix p c assume "(p, c) \<in> set g"
      with head [of p c] show "fst (p, c) \<in> pipelineId ` set (graph_ops g)" by (force simp: graph_ops_def)
    qed
    show "pipelineId ` set (graph_ops g) \<subseteq> fst ` set g" using assms by (force simp: graph_ops_def homogeneous_def)
  qed
qed

lemma sort_key_of_nat: "sort_key (\<lambda>x. of_nat (f x) :: rat) xs = sort_key f xs"
proof -
  have "insort_key (\<lambda>x. of_nat (f x) :: rat) x ys = insort_key f x ys" for x ys by (induction ys) simp_all
  then show ?thesis by (induction xs) simp_all
qed

lemma by_operatorId_sorts:
  assumes "\<forall>o' \<in> set ops. operatorId o' = Fin (of_nat (num o')) \<and> num o' \<le> 2 ^ 53"
  shows "by_operatorId ops = sort_key num ops"
proof -
  have "wf_num (Fin (of_nat k))" if "k \<le> 2 ^ 53" for k :: nat
    using wf_Fin_int [of "int k"] that by simp
  then have "by_operatorId ops = sort_key (\<lambda>o'. of_nat (num o') :: rat) ops"
    unfolding by_operatorId_def using assms by (intro js_sort_ascending) auto
  also have "\<dots> = sort_key num ops" by (rule sort_key_of_nat)
  finally show ?thesis .
qed

text \<open>C36. The operator graph of a stage whose plan is complete, with distinct node ids and no two sources of a node in the same pipeline, when every operator belongs to a node of the
  plan, has a natural number for its id and a blocked time that can be read: drawing it succeeds, with exactly one cluster for each pipeline that has operators and one node
  for each operator. The chain of a pipeline lists its operators from the sink to the source, that is along the plan from its root down and, at each node of the
  plan, with falling operator ids; it is drawn as a path whose edges lead from each operator to the next one towards the sink, and every edge joins two operators drawn.\<close>

theorem operator_graph_paths:
  assumes "ds_stats stage = Some (Some summaries)" and "ds_plan stage = Some plan"
    and "clash_free (computeOperatorMap summaries) (dp_root plan)" and "distinct (map node_id (plan_nodes (dp_root plan)))"
    and "\<forall>o' \<in> set summaries. planNodeId o' \<in> node_id ` set (plan_nodes (dp_root plan))"
    and "\<forall>o' \<in> set summaries. parseDuration (blockedWall o') \<noteq> None"
    and "\<forall>o' \<in> set summaries. operatorId o' = Fin (of_nat (num o')) \<and> num o' \<le> 2 ^ 53"
  shows "\<exists>g calls. operator_graph stage = Some (g, calls)
    \<and> distinct (map fst g) \<and> fst ` set g = pipelineId ` set summaries
    \<and> (\<forall>(p, c) \<in> set g. chain_ops c = concat (map (\<lambda>n.
          rev (sort_key num (filter (\<lambda>o'. pipelineId o' = p \<and> planNodeId o' = node_id n) summaries))) (plan_nodes (dp_root plan))))
    \<and> graph_nodes calls = concat (map (\<lambda>(p, c). (''pipeline-'' @ numToString p) # map operator_node (chain_ops c)) g)
    \<and> graph_edges calls = concat (map (\<lambda>(p, c). rev (zip (tl (map operator_node (chain_ops c))) (map operator_node (chain_ops c)))) g)
    \<and> mset (concat (map (\<lambda>(p, c). chain_ops c) g)) = mset summaries \<and> connected_calls calls"
proof -
  let ?m = "computeOperatorMap summaries" and ?n = "dp_root plan"
  have all: "mset (concat (map (\<lambda>k. ops_at ?m (node_id k)) (plan_nodes ?n))) = mset summaries"
    using mset_filter_keys [OF assms(4), of summaries planNodeId] assms(5) by (simp add: ops_at_map comp_def)
  obtain g where g: "computeOperatorGraphs ?m ?n = Some g" "wf_omap g" "homogeneous g" "mset (graph_ops g) = mset summaries"
    using computeOperatorGraphs_clash_free [OF assms(3)] all by auto
  have ops: "set (graph_ops g) = set summaries" using g(4) by (metis set_mset_mset)
  then have "list_all (\<lambda>o'. parseDuration (blockedWall o') \<noteq> None) (graph_ops g)"
    using assms(6) by (simp add: list_all_iff)
  then obtain css where css: "mapM draw_pipeline g = Some css" "graph_nodes (concat css) = concat (map pipeline_nodes g)"
      "graph_edges (concat css) = concat (map pipeline_edges g)"
    using draw_pipelines by blast
  let ?calls = "initializeGraph @ concat css"
  have "operator_graph stage = Some (g, ?calls)" using assms(1,2) g(1) css(1) by (simp add: operator_graph_def)
  moreover have "connected_calls ?calls"
    using pipeline_edges_nodes by (fastforce simp: connected_calls_def list_all_iff css(2,3))
  moreover have "fst ` set g = pipelineId ` set summaries" using clusters_pipelines [OF g(3)] ops by simp
  moreover have "chain_ops c = concat (map (\<lambda>n. rev (sort_key num (filter (\<lambda>o'. pipelineId o' = p \<and> planNodeId o' = node_id n) summaries)))
      (plan_nodes ?n))" if "(p, c) \<in> set g" for p c
  proof -
    have "map_of g p = Some c" using that g(2) by (simp add: wf_omap_def)
    moreover have "by_operatorId (filter P summaries) = sort_key num (filter P summaries)" for P
      using assms(7) by (intro by_operatorId_sorts) auto
    ultimately show ?thesis
      using computeOperatorGraphs_order [OF assms(3) g(1), of p] by (simp add: child_ops_def ops_at_map filter_filter conj_commute)
  qed
  moreover have "graph_nodes ?calls = concat (map (\<lambda>(p, c). (''pipeline-'' @ numToString p) # map operator_node (chain_ops c)) g)"
      "graph_edges ?calls = concat (map (\<lambda>(p, c). rev (zip (tl (map operator_node (chain_ops c))) (map operator_node (chain_ops c)))) g)"
    by (simp_all add: css(2,3) pipeline_nodes_def [abs_def] pipeline_edges_def [abs_def] Let_def split_def)
  moreover have "distinct (map fst g)" "mset (concat (map (\<lambda>(p, c). chain_ops c) g)) = mset summaries"
    using g(2,4) by (simp_all add: wf_omap_def graph_ops_def)
  ultimately show ?thesis by blast
qed

definition sample_detail_stage :: detail_stage where
  "sample_detail_stage = \<lparr>ds_stageId = ''q1.0'', ds_plan = Some \<lparr>dp_id = ''0'', dp_root = sample_plan\<rparr>,
     ds_stats = Some (Some sample_summaries), ds_tasks = []\<rparr>"

theorem operator_graph_paths_witness:
  "\<exists>g calls. operator_graph sample_detail_stage = Some (g, calls) \<and> connected_calls calls \<and> fst ` set g = {Fin 0}
    \<and> (\<forall>(p, c) \<in> set g. chain_ops c = [sample_operator 0 1 ''1'', sample_operator 0 0 ''2''])"
proof -
  let ?num = "\<lambda>o'. if operatorId o' = Fin 1 then 1 else 0 :: nat"
  have "parseDuration ''0.00ns'' \<noteq> None" by code_simp
  then have reads: "\<forall>o' \<in> set sample_summaries. parseDuration (blockedWall o') \<noteq> None"
    by (simp add: sample_summaries_def sample_operator_def)
  have num: "\<forall>o' \<in> set sample_summaries. operatorId o' = Fin (of_nat (?num o')) \<and> ?num o' \<le> 2 ^ 53"
    by (simp add: sample_summaries_def sample_operator_def)
  have stage: "ds_stats sample_detail_stage = Some (Some sample_summaries)" "ds_plan sample_detail_stage = Some \<lparr>dp_id = ''0'', dp_root = sample_plan\<rparr>"
    by (simp_all add: sample_detail_stage_def)
  have ids: "distinct (map node_id (plan_nodes sample_plan))" by (simp add: sample_nodes)
  have nodes: "map (\<lambda>n. rev (sort_key ?num (filter (\<lambda>o'. pipelineId o' = p \<and> planNodeId o' = node_id n) sample_summaries))) (plan_nodes sample_plan)
      = map (\<lambda>i. rev (sort_key ?num (filter (\<lambda>o'. pipelineId o' = p \<and> planNodeId o' = i) sample_summaries))) [''1'', ''2'']" for p
    unfolding sample_nodes [symmetric] by simp
  have summaries: "pipelineId ` set sample_summaries = {Fin 0}" by (simp add: sample_summaries_def sample_operator_def)
  obtain g calls where g: "operator_graph sample_detail_stage = Some (g, calls)" "connected_calls calls" "fst ` set g = {Fin 0}"
      "\<forall>(p, c) \<in> set g. chain_ops c = concat (map (\<lambda>n.
          rev (sort_key ?num (filter (\<lambda>o'. pipelineId o' = p \<and> planNodeId o' = node_id n) sample_summaries))) (plan_nodes sample_plan))"
    using operator_graph_paths [OF stage, of ?num] sample_clash_free ids sample_covered reads num unfolding summaries by auto
  have "chain_ops c = [sample_operator 0 1 ''1'', sample_operator 0 0 ''2'']" if "(p, c) \<in> set g" for p c
  proof -
    have "p = Fin 0" using that g(3) by force
    with that g(4) show ?thesis unfolding nodes by (fastforce simp: sample_summaries_def sample_operator_def)
  qed
  with g(1-3) show ?thesis by blast
qed

section \<open>Clicks\<close>

lemma show_nat_no_dash: "CHR ''-'' \<notin> set (show_nat n)"
  using show_nat_digits [of n] by (auto simp: list_all_iff char_class_defs)

lemma strict_eq_Fin [simp]: "strict_eq (Fin x) (Fin y) \<longleftrightarrow> x = y"
  by (simp add: strict_eq_def)

lemma css_number_operator:
  assumes "pipelineId o' = Fin (of_nat p)" and "operatorId o' = Fin (of_nat k)" and "p \<le> 2 ^ 53" and "k \<le> 2 ^ 53"
  shows "css_number (operator_node o') 1 = pipelineId o'" and "css_number (operator_node o') 2 = operatorId o'"
proof -
  have "operator_node o' = ''operator'' @ CHR ''-'' # (show_nat p @ CHR ''-'' # show_nat k)"
    by (simp add: operator_node_def assms(1,2) numToString_nat [OF assms(3)] numToString_nat [OF assms(4)] del: numToString.simps)
  then have "split ''-'' (operator_node o') = [''operator'', show_nat p, show_nat k]"
    by (simp add: split_append [OF show_nat_no_dash] split_none [OF show_nat_no_dash]
        split_append [of "CHR ''-''" "''operator''", simplified])
  then show "css_number (operator_node o') 1 = pipelineId o'" "css_number (operator_node o') 2 = operatorId o'"
    using parseInt_show_nat [OF assms(3), of "[]"] parseInt_show_nat [OF assms(4), of "[]"]
    by (simp_all add: css_number_def Let_def assms(1,2))
qed

lemma find_unique:
  assumes "x \<in> set xs" and "P x" and "\<forall>y \<in> set xs. P y \<longrightarrow> y = x"
  shows "find P xs = Some x"
proof (cases "find P xs")
  case None
  then show ?thesis using assms(1,2) by (simp add: find_None_iff)
next
  case (Some y)
  then have "P y \<and> y \<in> set xs" by (auto simp: find_Some_iff)
  with assms(3) Some show ?thesis by blast
qed

text \<open>The name given to an operator's node leads back to it: for operators with natural ids that no other operator of the stage
  shares, a click on the node opens the dialog about that very operator.\<close>

theorem operator_click_roundtrip:
  assumes "ds_stats stage = Some (Some summaries)" and "operator \<in> set summaries"
    and "pipelineId operator = Fin (of_nat p)" and "operatorId operator = Fin (of_nat k)"
    and "p \<le> 2 ^ 53" and "k \<le> 2 ^ 53"
    and "\<forall>o' \<in> set summaries. pipelineId o' = pipelineId operator \<and> operatorId o' = operatorId operator \<longrightarrow> o' = operator"
  shows "handleOperatorClick stage (operator_node operator) = Some (Some operator, ds_tasks stage)"
proof -
  have "find (\<lambda>o'. strict_eq (pipelineId o') (pipelineId operator) \<and> strict_eq (operatorId o') (operatorId operator)) (rev summaries)
    = Some operator"
  proof (rule find_unique)
    show "operator \<in> set (rev summaries)" using assms(2) by simp
    show "strict_eq (pipelineId operator) (pipelineId operator) \<and> strict_eq (operatorId operator) (operatorId operator)"
      by (simp add: assms(3,4))
    show "\<forall>o' \<in> set (rev summaries). strict_eq (pipelineId o') (pipelineId operator)
        \<and> strict_eq (operatorId o') (operatorId operator) \<longrightarrow> o' = operator"
      using assms(7) unfolding strict_eq_def set_rev by blast
  qed
  then show ?thesis
    using css_number_operator [OF assms(3-6)] assms(1) by (simp add: handleOperatorClick_def)
qed

theorem operator_click_roundtrip_witness:
  "handleOperatorClick sample_detail_stage ''operator-0-1'' = Some (Some (sample_operator 0 1 ''1''), [])"
proof -
  have "operator_node (sample_operator 0 1 ''1'') = ''operator-0-1''" by code_simp
  moreover have "handleOperatorClick sample_detail_stage (operator_node (sample_operator 0 1 ''1''))
    = Some (Some (sample_operator 0 1 ''1''), ds_tasks sample_detail_stage)"
    by (rule operator_click_roundtrip [of _ sample_summaries _ 0 1])
      (simp_all add: sample_detail_stage_def sample_summaries_def sample_operator_def)
  ultimately show ?thesis by (simp add: sample_detail_stage_def)
qed

end
