(* ===== verification/StageDetailSpec.thy ===== *)
theory StageDetailSpec
  imports StageDetail OperatorGraphSpec
begin

text \<open>
  What the page about a stage shows: the menu offers the stages of the tree, a choice from it shows the stage chosen, and
  the page refreshes until the final query information has arrived.
\<close>

section \<open>Stages\<close>

lemma findStage_preorder:
  "map_option stage_data (findStage (Some i) t) = find (\<lambda>s. ds_stageId s = i) (preorder t)"
  "map_option stage_data (findStage_loop (Some i) ts) = find (\<lambda>s. ds_stageId s = i) (concat (map preorder ts))"
proof (induction "Some i" t and "Some i" ts rule: findStage_findStage_loop.induct)
  case (3 t ts)
  have append: "find P (xs @ ys) = (case find P xs of Some x \<Rightarrow> Some x | None \<Rightarrow> find P ys)" for P and xs ys :: "detail_stage list"
    by (induction xs) auto
  from 3 show ?case by (auto simp: append split: option.splits)
qed auto

definition has_plans :: "detail_stage stage_tree \<Rightarrow> bool" where
  "has_plans t \<longleftrightarrow> list_all (\<lambda>s. ds_plan s \<noteq> None) (preorder t)"

definition stage_plan_id :: "detail_stage \<Rightarrow> string" where
  "stage_plan_id s = (case ds_plan s of Some p \<Rightarrow> dp_id p | None \<Rightarrow> [])"

lemma has_plans_Stage: "has_plans (Stage s ts) \<longleftrightarrow> ds_plan s \<noteq> None \<and> list_all has_plans ts"
  by (auto simp: has_plans_def list_all_iff)

lemma getAllStageIds_preorder:
  "getAllStageIds t r = (if has_plans t then Some (r @ map stage_plan_id (preorder t)) else throw)"
  "getAllStageIds_loop ts r =
     (if list_all has_plans ts then Some (r @ map stage_plan_id (concat (map preorder ts))) else throw)"
proof (induction t r and ts r rule: getAllStageIds_getAllStageIds_loop.induct)
  case (1 s ts r)
  then show ?case by (cases "ds_plan s") (simp_all add: has_plans_Stage stage_plan_id_def)
qed auto

section \<open>Rendering\<close>

definition chosen :: "stage_query \<Rightarrow> selection \<Rightarrow> detail_stage stage_tree \<Rightarrow> detail_stage option" where
  "chosen q sel t = find (\<lambda>s. ds_stageId s = queryId q @ ''.'' @ selection_text sel) (preorder t)"

lemma body_reads:
  assumes "ds_plan stage \<noteq> None"
  shows "renders (StageDetail_body q is stage)"
    and "html_components (StageDetail_body q is stage) =
      HeaderPart q # (if isQueryEnded q then [OperatorGraphPart stage] else [])"
    and "html_handlers (StageDetail_body q is stage) = map SelectStage is"
    and "html_headings (StageDetail_body q is stage) = [''Stage '' @ stage_plan_id stage]"
  using assms
  by (auto simp: StageDetail_body_def stage_plan_id_def dom_simps html_el html_frag list_all_iff comp_def)

lemma render_stage:
  assumes "sd_query s = Some q" and "outputStage q = Some t" and "has_plans t" and "chosen q (selectedStageId s) t = Some stage"
  shows "StageDetail_render s = StageDetail_body q (map stage_plan_id (preorder t)) stage"
proof -
  let ?i = "Some (queryId q @ ''.'' @ selection_text (selectedStageId s))"
  obtain st where "findStage ?i t = Some st" "stage_data st = stage"
    using assms(4) findStage_preorder(1) [of "queryId q @ ''.'' @ selection_text (selectedStageId s)" t]
    by (auto simp: chosen_def simp del: findStage.simps)
  with assms(1-3) show ?thesis
    by (simp add: StageDetail_render_def getAllStageIds_preorder del: findStage.simps getAllStageIds.simps)
qed

lemma render_no_stage:
  assumes "sd_query s = Some q" and "outputStage q = Some t" and "has_plans t" and "chosen q (selectedStageId s) t = None"
  shows "renders (StageDetail_render s) \<and> html_components (StageDetail_render s) = []"
proof -
  have "findStage (Some (queryId q @ ''.'' @ selection_text (selectedStageId s))) t = None"
    using assms(4) findStage_preorder(1) [of "queryId q @ ''.'' @ selection_text (selectedStageId s)" t]
    by (simp add: chosen_def del: findStage.simps)
  with assms(1-3) show ?thesis
    by (simp add: StageDetail_render_def getAllStageIds_preorder html_el dom_simps del: findStage.simps getAllStageIds.simps)
qed

definition sample_stage_query :: "string \<Rightarrow> stage_query" where
  "sample_stage_query st = \<lparr>queryId = ''q1'', state = st, scheduled = True, memoryPool = None, errorType = None,
     errorCode = None, queryStats = queryStats canceled_query, outputStage = Some (Stage sample_detail_stage []),
     finalQueryInfo = (st = ''FINISHED'')\<rparr>"

section \<open>Updates of the page\<close>

text \<open>Queries the page can show, whichever stage is chosen.\<close>

definition can_show :: "stage_query \<Rightarrow> bool" where
  "can_show q \<longleftrightarrow> (\<forall>t. outputStage q = Some t \<longrightarrow> displayable q \<and> has_plans t
     \<and> (isQueryEnded q \<longrightarrow> list_all (\<lambda>st. operator_graph st \<noteq> throw) (preorder t)))"

lemma part_ok_header: "part_ok env (HeaderPart q) \<longleftrightarrow> displayable q"
  by (simp add: part_ok_def QueryHeader_render_def dom_simps)

lemma part_ok_graph: "part_ok env (OperatorGraphPart st) \<longleftrightarrow> operator_graph st \<noteq> throw"
proof -
  have "renders (StageOperatorGraph_render st :: (unit, unit) html)"
    by (simp add: StageOperatorGraph_render_def dom_simps)
  then show ?thesis
    by (auto simp: part_ok_def renders_def StageOperatorGraph_updateD3Graph_def split: bind_splits)
qed

lemma can_show_renders:
  assumes "\<forall>q. sd_query s = Some q \<longrightarrow> can_show q"
  shows "renders (StageDetail_render s) \<and> list_all (part_ok env) (html_components (StageDetail_render s))"
proof (cases "do { q \<leftarrow> sd_query s; t \<leftarrow> outputStage q; Some (q, t) }")
  case None
  then show ?thesis by (auto simp: StageDetail_render_def html_el dom_simps split: option.splits bind_splits)
next
  case (Some p)
  then obtain q t where qt: "sd_query s = Some q" "outputStage q = Some t" by (auto split: bind_splits)
  with assms have ok: "displayable q" "has_plans t"
      "isQueryEnded q \<longrightarrow> list_all (\<lambda>st. operator_graph st \<noteq> throw) (preorder t)"
    by (auto simp: can_show_def)
  show ?thesis
  proof (cases "chosen q (selectedStageId s) t")
    case None
    then show ?thesis using render_no_stage [OF qt ok(2)] by simp
  next
    case (Some stage)
    then have "stage \<in> set (preorder t)" by (auto simp: chosen_def find_Some_iff)
    with ok have "ds_plan stage \<noteq> None" "isQueryEnded q \<longrightarrow> operator_graph stage \<noteq> throw"
      by (auto simp: has_plans_def list_all_iff)
    with ok(1) show ?thesis
      unfolding render_stage [OF qt ok(2) Some]
      using body_reads [of stage q] by (simp add: part_ok_header part_ok_graph)
  qed
qed

definition showable :: "stage_detail \<Rightarrow> bool" where
  "showable s \<longleftrightarrow> \<not> unmounted s \<and> (\<forall>q. sd_query s = Some q \<longrightarrow> can_show q)"

lemma showable_commit: "showable s \<Longrightarrow> StageDetail_commit env s = s"
  using can_show_renders [of s env] by (auto simp: StageDetail_commit_def Let_def showable_def)

lemma StageDetail_setState_simps [loop_simps]:
  "this_state (StageDetail_setState env f w) =
     (if unmounted (this_state w) then this_state w else StageDetail_commit env (f (this_state w)))"
  "slot (StageDetail_setState env f w) = slot w" "inflight (StageDetail_setState env f w) = inflight w"
  by (simp_all add: StageDetail_setState_def loop_simps)

lemma settle_result:
  assumes "showable (this_state w)" and "showable (f (this_state w))"
  shows "\<exists>w'. StageDetail_settle env f w = Some w' \<and> this_state w' = f (this_state w) \<and> inflight w' = inflight w
    \<and> slot w' = (if StageDetail_continues (this_state w') then setTimeout (clearTimeout (slot w)) else clearTimeout (slot w))"
proof -
  have "\<not> unmounted (this_state w)" "\<not> unmounted (f (this_state w))" using assms by (simp_all add: showable_def)
  then show ?thesis
    using assms by (simp add: StageDetail_settle_def StageDetail_resetTimer_def Let_def loop_simps showable_commit)
qed

definition StageDetail_responses :: "stage_page \<Rightarrow> (stage_detail page \<Rightarrow> stage_detail page throws) set" where
  "StageDetail_responses env = insert (StageDetail_fail env) (StageDetail_success env ` Collect can_show)"

interpretation sd: poller "StageDetail_refreshLoop env" "StageDetail_responses env" "range (selectStage env)"
  StageDetail_continues showable for env
proof unfold_locales
  fix w :: "stage_detail page"
  show "slot (StageDetail_refreshLoop env w) = clearTimeout (slot w)
    \<and> inflight (StageDetail_refreshLoop env w) = inflight w + 1
    \<and> StageDetail_continues (this_state (StageDetail_refreshLoop env w)) = StageDetail_continues (this_state w)
    \<and> (showable (this_state w) \<longrightarrow> showable (this_state (StageDetail_refreshLoop env w)))"
    by (simp add: StageDetail_refreshLoop_def loop_simps StageDetail_continues_def showable_def)
next
  fix r and w :: "stage_detail page"
  assume "r \<in> StageDetail_responses env" and w: "showable (this_state w)"
  then consider "r = StageDetail_fail env" | q where "r = StageDetail_success env q" "can_show q"
    by (auto simp: StageDetail_responses_def)
  then obtain f where f: "r = StageDetail_settle env f" "showable (f (this_state w))"
  proof cases
    case 1
    then show ?thesis using w that [of "\<lambda>s. s\<lparr>initialized := True\<rparr>"]
      by (simp add: fun_eq_iff StageDetail_fail_def showable_def)
  next
    case (2 q)
    then show ?thesis
      using w that [of "\<lambda>s. s\<lparr>initialized := True, ended := finalQueryInfo q, selectedStageId := requested s, sd_query := Some q\<rparr>"]
      by (simp add: fun_eq_iff StageDetail_success_def showable_def)
  qed
  show "\<exists>w'. r w = Some w' \<and> inflight w' = inflight w \<and> showable (this_state w')
    \<and> slot w' = (if StageDetail_continues (this_state w') then setTimeout (clearTimeout (slot w)) else clearTimeout (slot w))"
  proof -
    from settle_result [of w f env, OF w f(2)] obtain w' where "r w = Some w'" "this_state w' = f (this_state w)" "inflight w' = inflight w"
      "slot w' = (if StageDetail_continues (this_state w') then setTimeout (clearTimeout (slot w)) else clearTimeout (slot w))"
      by (auto simp only: f(1))
    with f(2) show ?thesis by (intro exI [of _ w']) (simp only: simp_thms)
  qed
next
  fix e and w :: "stage_detail page"
  assume "e \<in> range (selectStage env)" and w: "showable (this_state w)"
  then obtain i where e: "e = selectStage env i" by blast
  have "showable ((this_state w)\<lparr>selectedStageId := PlanId i\<rparr>)" using w by (simp add: showable_def)
  then show "\<exists>w'. e w = Some w' \<and> inflight w' = inflight w \<and> slot w' = slot w \<and> showable (this_state w')
    \<and> StageDetail_continues (this_state w') = StageDetail_continues (this_state w)"
    using w by (simp add: e selectStage_def loop_simps showable_commit StageDetail_continues_def)
qed

section \<open>Properties of the page\<close>

text \<open>In every page reached while the server answers with queries it can show, also when the user
  chooses stages from the menu at any moment, the page is never removed, it renders, and exactly one refresh is under way until the
  final information has arrived, none afterwards.\<close>

theorem StageDetail_refreshes:
  assumes "reachable (StageDetail_refreshLoop env) (StageDetail_responses env) (range (selectStage env)) StageDetail_init w"
  shows "activity w = (if sd_query (this_state w) \<noteq> None \<and> ended (this_state w) then 0 else 1)
    \<and> \<not> unmounted (this_state w) \<and> renders (StageDetail_render (this_state w))"
proof -
  have "showable StageDetail_init \<and> StageDetail_continues StageDetail_init"
    by (simp add: showable_def StageDetail_init_def StageDetail_continues_def)
  then have inv: "one_loop StageDetail_continues w" "showable (this_state w)"
    using sd.one_loop_reachable [OF assms] by blast+
  then show ?thesis
    using can_show_renders [of "this_state w"] by (auto simp: one_loop_def StageDetail_continues_def showable_def)
qed

definition sample_stage_page :: stage_page where
  "sample_stage_page = \<lparr>search = ''?q1.0'', pathname = ''/ui/stage.html'', dagre = (\<lambda>g. (Fin 100, Fin 100))\<rparr>"

lemma sample_can_show: "can_show (sample_stage_query ''RUNNING'')"
  by (simp add: can_show_def sample_stage_query_def displayable_def isQueryEnded_def has_plans_Stage sample_detail_stage_def)

theorem StageDetail_refreshes_witness:
  "activity (run (StageDetail_success sample_stage_page (sample_stage_query ''RUNNING''))
     ((StageDetail_refreshLoop sample_stage_page (mounted StageDetail_init))\<lparr>inflight := 0\<rparr>)) = 1"
proof -
  let ?q = "sample_stage_query ''RUNNING''"
  let ?w = "(StageDetail_refreshLoop sample_stage_page (mounted StageDetail_init))\<lparr>inflight := 0\<rparr>"
  let ?w' = "run (StageDetail_success sample_stage_page ?q) ?w"
  have "StageDetail_success sample_stage_page ?q \<in> StageDetail_responses sample_stage_page"
    using sample_can_show by (simp add: StageDetail_responses_def)
  then have r: "reachable (StageDetail_refreshLoop sample_stage_page) (StageDetail_responses sample_stage_page)
      (range (selectStage sample_stage_page)) StageDetail_init ?w'"
    by (rule reachable_first_response) (simp add: StageDetail_refreshLoop_def loop_simps)
  have "showable (this_state ?w)"
    by (simp add: StageDetail_refreshLoop_def StageDetail_init_def loop_simps showable_def)
  then have "ended (this_state ?w') = finalQueryInfo ?q"
    using settle_result [of ?w "\<lambda>s. s\<lparr>initialized := True, ended := finalQueryInfo ?q, selectedStageId := requested s,
        sd_query := Some ?q\<rparr>" sample_stage_page] sample_can_show
    by (auto simp: run_def StageDetail_success_def showable_def)
  with StageDetail_refreshes [OF r] show ?thesis by (simp add: sample_stage_query_def)
qed

lemma selectStage_result:
  assumes "showable (this_state w)"
  shows "\<exists>w'. selectStage env i w = Some w' \<and> this_state w' = (this_state w)\<lparr>selectedStageId := PlanId i\<rparr>
    \<and> slot w' = slot w \<and> inflight w' = inflight w"
proof -
  have "showable ((this_state w)\<lparr>selectedStageId := PlanId i\<rparr>)" using assms by (simp add: showable_def)
  then show ?thesis using assms by (simp add: selectStage_def loop_simps showable_commit) (simp add: showable_def)
qed

text \<open>C19. Choosing a stage from the menu of a page that shows a query, with the handler of the menu's entry: when stage ids are the query id and the plan id, as the server makes
  them, the page is headed by the plan id of exactly that stage, shows its operator graph once the query has ended and only the header of the query before, and
  its menu offers the plan ids of all stages, in the order of the tree. The refreshes are not disturbed. The query is one the page can show: its state has a
  colour, every stage has a plan, and the operator graphs of an ended query can be drawn.\<close>

theorem StageDetail_menu:
  assumes "showable (this_state w)" and "sd_query (this_state w) = Some q" and "outputStage q = Some t"
    and "\<forall>st \<in> set (preorder t). \<exists>p. ds_plan st = Some p \<and> ds_stageId st = queryId q @ ''.'' @ dp_id p"
    and "distinct (map ds_stageId (preorder t))"
    and "stage \<in> set (preorder t)" and "ds_plan stage = Some plan"
  shows "\<exists>w'. selectStage env (dp_id plan) w = Some w' \<and> slot w' = slot w \<and> inflight w' = inflight w
    \<and> html_headings (StageDetail_render (this_state w')) = [''Stage '' @ dp_id plan]
    \<and> html_components (StageDetail_render (this_state w'))
      = HeaderPart q # (if isQueryEnded q then [OperatorGraphPart stage] else [])
    \<and> html_handlers (StageDetail_render (this_state w'))
      = map (\<lambda>st. SelectStage (dp_id (the (ds_plan st)))) (preorder t)"
proof -
  obtain w' where w': "selectStage env (dp_id plan) w = Some w'" "slot w' = slot w" "inflight w' = inflight w"
      and s: "this_state w' = (this_state w)\<lparr>selectedStageId := PlanId (dp_id plan)\<rparr>"
    using selectStage_result [OF assms(1)] by blast
  have plans: "has_plans t" using assms(4) by (auto simp: has_plans_def list_all_iff)
  have i: "ds_stageId stage = queryId q @ ''.'' @ dp_id plan" using assms(4,6,7) by fastforce
  have "find (\<lambda>st. ds_stageId st = ds_stageId stage) (preorder t) = Some stage"
    using assms(5,6) by (intro find_unique) (auto simp: distinct_map inj_on_def)
  then have "chosen q (selectedStageId (this_state w')) t = Some stage"
    by (simp add: chosen_def i s)
  then have "StageDetail_render (this_state w') = StageDetail_body q (map stage_plan_id (preorder t)) stage"
    using render_stage [OF _ assms(3) plans] assms(2) by (simp add: s)
  moreover have "map (SelectStage \<circ> stage_plan_id) (preorder t) = map (\<lambda>st. SelectStage (dp_id (the (ds_plan st)))) (preorder t)"
    using plans by (auto simp: stage_plan_id_def has_plans_def list_all_iff)
  moreover have "stage_plan_id stage = dp_id plan" using assms(7) by (simp add: stage_plan_id_def)
  ultimately show ?thesis using body_reads [of stage q "map stage_plan_id (preorder t)"] assms(7) w' by (simp add: comp_def)
qed

theorem StageDetail_menu_witness:
  "html_headings (StageDetail_render (this_state (run (selectStage sample_stage_page ''0'')
      (mounted (StageDetail_init\<lparr>sd_query := Some (sample_stage_query ''RUNNING'')\<rparr>))))) = [''Stage 0'']"
proof -
  let ?q = "sample_stage_query ''RUNNING''"
  let ?w = "mounted (StageDetail_init\<lparr>sd_query := Some ?q\<rparr>)"
  let ?p = "\<lparr>dp_id = ''0'', dp_root = sample_plan\<rparr>"
  have "showable (this_state ?w)" using sample_can_show by (simp add: loop_simps showable_def StageDetail_init_def)
  then obtain w' where "selectStage sample_stage_page ''0'' ?w = Some w'"
      "html_headings (StageDetail_render (this_state w')) = [''Stage '' @ dp_id ?p]"
    using StageDetail_menu [of ?w ?q "Stage sample_detail_stage []" sample_detail_stage ?p sample_stage_page]
    by (auto simp: loop_simps sample_stage_query_def sample_detail_stage_def)
  then show ?thesis by (simp add: run_def)
qed

text \<open>A response brings back the selection of the moment its request was sent: a stage chosen from the menu while the
  request is under way is forgotten when the response arrives.\<close>

theorem StageDetail_forgets_choice:
  assumes "showable (this_state w)" and "can_show q"
  shows "selectedStageId (this_state (run (StageDetail_success env q) (run (selectStage env i) (StageDetail_refreshLoop env w))))
    = StageDetail_selected env (this_state w)"
proof -
  let ?w = "run (selectStage env i) (StageDetail_refreshLoop env w)"
  have "showable ((this_state w)\<lparr>requested := StageDetail_selected env (this_state w), selectedStageId := PlanId i\<rparr>)"
    using assms(1) by (simp add: showable_def)
  then have w: "this_state ?w = (this_state w)\<lparr>requested := StageDetail_selected env (this_state w), selectedStageId := PlanId i\<rparr>"
    using assms(1)
    by (simp add: run_def selectStage_def StageDetail_refreshLoop_def loop_simps showable_commit) (simp add: showable_def)
  let ?f = "\<lambda>s. s\<lparr>initialized := True, ended := finalQueryInfo q, selectedStageId := requested s, sd_query := Some q\<rparr>"
  obtain w' where "StageDetail_settle env ?f ?w = Some w'" "this_state w' = ?f (this_state ?w)"
    using settle_result [of ?w ?f env] assms w by (auto simp: showable_def)
  then show ?thesis by (simp add: run_def [of "StageDetail_success env q"] StageDetail_success_def w)
qed

theorem StageDetail_forgets_choice_witness:
  "selectedStageId (this_state (run (StageDetail_success sample_stage_page (sample_stage_query ''RUNNING''))
     (run (selectStage sample_stage_page ''1'') (StageDetail_refreshLoop sample_stage_page (mounted StageDetail_init)))))
   = NumberId (Fin 0)"
proof -
  have "StageDetail_selected sample_stage_page StageDetail_init = NumberId (Fin 0)" by code_simp
  then show ?thesis
    using StageDetail_forgets_choice [of "mounted StageDetail_init" "sample_stage_query ''RUNNING''" sample_stage_page "''1''"] sample_can_show
    by (simp add: loop_simps showable_def) (simp add: StageDetail_init_def)
qed

text \<open>A stage without a plan removes the page, whichever stage is chosen, and ends its refreshes without an answer to the user: the loop
  over all stages reads every plan before the message that a stage has no plan can be shown.\<close>

theorem StageDetail_removed_without_plan:
  assumes "outputStage q = Some t" and "st \<in> set (preorder t)" and "ds_plan st = None" and "\<not> unmounted (this_state w)"
  shows "\<exists>w'. StageDetail_success env q w = Some w' \<and> unmounted (this_state w') \<and> slot w' = slot w \<and> inflight w' = inflight w"
proof -
  let ?s = "(this_state w)\<lparr>initialized := True, ended := finalQueryInfo q, selectedStageId := requested (this_state w), sd_query := Some q\<rparr>"
  have "\<not> has_plans t" using assms(2,3) by (auto simp: has_plans_def list_all_iff)
  then have "StageDetail_render ?s = throw"
    using assms(1) by (simp add: StageDetail_render_def getAllStageIds_preorder del: getAllStageIds.simps)
  then have "unmounted (StageDetail_commit env ?s)" by (simp add: StageDetail_commit_def renders_def)
  with assms(4) show ?thesis
    by (simp add: StageDetail_success_def StageDetail_settle_def Let_def loop_simps)
qed

theorem StageDetail_removed_without_plan_witness:
  "\<exists>w'. StageDetail_success sample_stage_page
      (sample_stage_query ''RUNNING''\<lparr>outputStage := Some (Stage (sample_detail_stage\<lparr>ds_plan := None\<rparr>) [])\<rparr>)
      (mounted StageDetail_init) = Some w' \<and> unmounted (this_state w')"
  using StageDetail_removed_without_plan
    [of "sample_stage_query ''RUNNING''\<lparr>outputStage := Some (Stage (sample_detail_stage\<lparr>ds_plan := None\<rparr>) [])\<rparr>" _
      "sample_detail_stage\<lparr>ds_plan := None\<rparr>" "mounted StageDetail_init" sample_stage_page, OF _ _ _ _]
  by (auto simp: loop_simps StageDetail_init_def)

end
