(* ===== verification/OperatorDetailSpec.thy ===== *)
theory OperatorDetailSpec
  imports Operators
begin

text \<open>
  The dialog about an operator: which operators of the tasks its charts show, in which order, and which charts it holds.
\<close>

definition matching :: "operator_stats \<Rightarrow> operator_task \<Rightarrow> operator_stats list" where
  "matching operator task =
     concat (map (\<lambda>p. filter (\<lambda>o'. operatorId o' = operatorId operator) (operatorSummaries p))
       (filter (\<lambda>p. tp_pipelineId p = pipelineId operator) (pipelines task)))"

lemma concat_map_filter: "concat (map (\<lambda>x. if P x then f x else []) xs) = concat (map f (filter P xs))"
  by (induction xs) auto

lemma matching_task:
  assumes "pipelineId operator \<noteq> NaN" and "operatorId operator \<noteq> NaN"
  shows "concat (map (\<lambda>pipeline. if strict_eq (tp_pipelineId pipeline) (pipelineId operator)
      then filter (\<lambda>o'. strict_eq (operatorId operator) (operatorId o')) (operatorSummaries pipeline) else []) (pipelines task))
    = matching operator task"
proof -
  have "strict_eq (tp_pipelineId p) (pipelineId operator) \<longleftrightarrow> tp_pipelineId p = pipelineId operator" for p :: task_pipeline
    using assms(1) by (auto simp: strict_eq_def)
  moreover have "strict_eq (operatorId operator) (operatorId o') \<longleftrightarrow> operatorId o' = operatorId operator" for o' :: operator_stats
    using assms(2) by (auto simp: strict_eq_def)
  ultimately show ?thesis by (simp add: matching_def concat_map_filter)
qed

text \<open>The charts of the dialog show, for the tasks in the order of their numbers, the statistics of the operators with
  the pipeline and the id of the one that was clicked, and one bar per such operator.\<close>

theorem OperatorDetail_charts:
  assumes "\<forall>t \<in> set tasks. getTaskNumber (taskId t) = Fin (of_nat (number_of t)) \<and> number_of t \<le> 2 ^ 53"
    and "pipelineId operator \<noteq> NaN" and "operatorId operator \<noteq> NaN"
  shows "getOperatorTasks tasks operator = concat (map (matching operator) (sort_key number_of tasks))
    \<and> chart_values (OperatorStatistic_componentDidMount st (getOperatorTasks tasks operator))
        = map (supplier st) (concat (map (matching operator) (sort_key number_of tasks)))"
proof -
  have wf: "wf_num (Fin (of_nat n))" if "n \<le> 2 ^ 53" for n :: nat
    unfolding number_nat [OF that, symmetric] by (rule wf_number)
  have "getTaskNumber (taskId t) = Fin (of_nat (number_of t)) \<and> wf_num (getTaskNumber (taskId t))" if "t \<in> set tasks" for t
    using assms(1) that wf [of "number_of t"] by metis
  then have "js_sort (\<lambda>a b. getTaskNumber (taskId a) - getTaskNumber (taskId b)) tasks = sort_key (\<lambda>t. of_nat (number_of t) :: rat) tasks"
    by (rule js_sort_ascending)
  moreover have "sort_key (\<lambda>t. of_nat (number_of t) :: rat) ts = sort_key number_of ts" for ts
  proof -
    have "insort_key (\<lambda>t. of_nat (number_of t) :: rat) x ys = insort_key number_of x ys" for x ys
      by (induction ys) auto
    then show ?thesis by (induction ts) simp_all
  qed
  ultimately show ?thesis
    by (simp add: getOperatorTasks_def OperatorStatistic_componentDidMount_def Let_def matching_task [OF assms(2,3)])
qed

definition chart_operator :: operator_stats where
  "chart_operator = \<lparr>pipelineId = Fin 0, operatorId = Fin 1, planNodeId = ''3'', operatorType = ''Values'', addInputWall = ''1.00s'',
     getOutputWall = ''0.00ns'', finishWall = ''0.00ns'', blockedWall = ''0.00ns'', inputPositions = Fin 0, inputDataSize = ''0B'',
     outputPositions = Fin 0, outputDataSize = ''0B'', op_totalDrivers = Fin 1\<rparr>"

definition chart_task :: "nat \<Rightarrow> operator_task" where
  "chart_task n = \<lparr>taskId = ''q1.0.'' @ show_nat n,
     pipelines = [\<lparr>tp_pipelineId = Fin 0, operatorSummaries = [chart_operator\<lparr>outputPositions := Fin (of_nat n)\<rparr>]\<rparr>]\<rparr>"

theorem OperatorDetail_charts_witness:
  "map outputPositions (getOperatorTasks [chart_task 1, chart_task 0] chart_operator) = [Fin 0, Fin 1]"
proof -
  let ?num = "\<lambda>t. if taskId t = ''q1.0.0'' then 0 else 1 :: nat"
  have n: "getTaskNumber ''q1.0.0'' = Fin 0" "getTaskNumber ''q1.0.1'' = Fin 1" by code_simp+
  have s: "show_nat 0 = ''0''" "show_nat (Suc 0) = ''1''" by code_simp+
  have "getOperatorTasks [chart_task 1, chart_task 0] chart_operator
      = concat (map (matching chart_operator) (sort_key ?num [chart_task 1, chart_task 0]))"
    using OperatorDetail_charts [of "[chart_task 1, chart_task 0]" ?num chart_operator undefined]
    by (simp add: chart_task_def n s chart_operator_def)
  then show ?thesis by (simp add: chart_task_def s matching_def chart_operator_def)
qed

end
