(* ===== verification/StagePageSpec.thy ===== *)
theory StagePageSpec
  imports StagePage StageDetailSpec OperatorDetailSpec
begin

text \<open>
  The page \<open>stage.html\<close> refines the component \<open>StageDetail\<close>; a click on an operator opens the dialog about it.
\<close>

section \<open>Refinement\<close>

lemma with_detail_abs [simp]: "abs_page view_detail (with_detail w v) = v"
  by (rule abs_page_eqI) (simp_all add: with_detail_def)

lemma with_detail_state [simp]: "view_detail (this_state (with_detail w v)) = this_state v" "dialog (this_state (with_detail w v)) = dialog (this_state w)"
  by (simp_all add: with_detail_def)

lemma run_on_detail: "abs_page view_detail (run (on_detail r) w) = run r (abs_page view_detail w)"
  by (cases "r (abs_page view_detail w)") (simp_all add: run_def on_detail_def)

definition StagePage_responses :: "stage_page \<Rightarrow> (stage_view page \<Rightarrow> stage_view page throws) set" where
  "StagePage_responses env = insert (StagePage_fail env) (StagePage_success env ` Collect can_show)"

definition StagePage_clicks :: "stage_page \<Rightarrow> (stage_view page \<Rightarrow> stage_view page throws) set" where
  "StagePage_clicks env = range (StagePage_selectStage env) \<union> range (StagePage_operatorClick env)"

lemma operatorClick_stutters: "abs_page view_detail (run (StagePage_operatorClick env i) w) = abs_page view_detail w"
  by (rule abs_page_eqI)
    (auto simp: run_def StagePage_operatorClick_def Let_def setState_def abs_page_simps split: option.splits bind_splits)

interpretation sp: page_refinement view_detail "StagePage_refreshLoop env" "StagePage_responses env" "StagePage_clicks env"
  "StageDetail_refreshLoop env" "StageDetail_responses env" "range (selectStage env)" "\<lambda>p. True" for env
proof unfold_locales
  fix w :: "stage_view page"
  show "abs_page view_detail (StagePage_refreshLoop env w) = StageDetail_refreshLoop env (abs_page view_detail w)"
    by (simp add: StagePage_refreshLoop_def)
next
  fix r and w :: "stage_view page"
  assume "r \<in> StagePage_responses env"
  then obtain r' where "r' \<in> StageDetail_responses env" "r = on_detail r'"
    by (auto simp: StagePage_responses_def StageDetail_responses_def StagePage_fail_def StagePage_success_def)
  then show "True \<and> (\<exists>r' \<in> StageDetail_responses env. abs_page view_detail (run r w) = run r' (abs_page view_detail w))"
    using run_on_detail by blast
next
  fix e and w :: "stage_view page"
  assume "e \<in> StagePage_clicks env"
  then consider i where "e = on_detail (selectStage env i)" | i where "e = StagePage_operatorClick env i"
    by (auto simp: StagePage_clicks_def StagePage_selectStage_def)
  then show "True \<and> (abs_page view_detail (run e w) = abs_page view_detail w
      \<or> (\<exists>e' \<in> range (selectStage env). abs_page view_detail (run e w) = run e' (abs_page view_detail w)))"
    by cases (use run_on_detail operatorClick_stutters in blast)+
qed simp_all

section \<open>The dialog\<close>

lemma OperatorDetail_reads:
  assumes "parseDuration (blockedWall operator) \<noteq> None"
  shows "renders (OperatorDetail_render sts (Some operator) tasks :: (statistic \<times> operator_stats list, unit) html)"
    and "html_components (OperatorDetail_render sts (Some operator) tasks :: (statistic \<times> operator_stats list, unit) html)
      = map (\<lambda>st. (st, getOperatorTasks tasks operator)) sts"
proof -
  let ?charts = "frag (map (\<lambda>st. component (st, getOperatorTasks tasks operator)) sts) :: (statistic \<times> operator_stats list, unit) html"
  have parts: "list_all renders (map (\<lambda>st. component (st, getOperatorTasks tasks operator) :: (statistic \<times> operator_stats list, unit) html) sts)"
    by (simp add: list_all_iff dom_simps)
  have "html_components ?charts = map (\<lambda>st. (st, getOperatorTasks tasks operator)) sts"
    unfolding html_frag(3) [OF parts] by (induction sts) (simp_all add: dom_simps)
  moreover have "renders ?charts" using parts by (simp only: renders_frag)
  moreover have "amount_text x d \<noteq> throw" "rate_text y z \<noteq> throw" "formatDuration (Num t) \<noteq> throw" for x d y z t
    using parseAndFormatDataSize_total by (simp_all add: amount_text_def rate_text_def formatter_throws bind_eq_None_conv)
  moreover have "formatDuration (val_of (parseDuration (blockedWall operator))) \<noteq> throw"
    using assms by (auto simp: formatter_throws val_of_def split: option.splits)
  ultimately show "renders (OperatorDetail_render sts (Some operator) tasks :: (statistic \<times> operator_stats list, unit) html)"
      "html_components (OperatorDetail_render sts (Some operator) tasks :: (statistic \<times> operator_stats list, unit) html)
        = map (\<lambda>st. (st, getOperatorTasks tasks operator)) sts"
    by (simp_all add: OperatorDetail_render_def Let_def html_el dom_simps del: renders_frag)
qed

text \<open>The charts of a dialog that is mounted.\<close>

definition operator_charts :: "operator_stats \<Rightarrow> operator_task list \<Rightarrow> bar_chart list" where
  "operator_charts operator tasks = map (\<lambda>st. OperatorStatistic_componentDidMount st (getOperatorTasks tasks operator)) getInitialStatistics"

lemma open_dialog_eq:
  assumes "parseDuration (blockedWall operator) \<noteq> None"
  shows "open_dialog key (Some operator) tasks old = Some \<lparr>dialog_key = key, dialog_operator = Some operator, dialog_tasks = tasks,
    dialog_charts = (case old of Some d \<Rightarrow> if dialog_key d = key then dialog_charts d else operator_charts operator tasks
      | None \<Rightarrow> operator_charts operator tasks)\<rparr>"
  by (simp add: open_dialog_def Let_def OperatorDetail_reads [OF assms] operator_charts_def comp_def split: option.splits)

text \<open>The nodes that take clicks are those of the operators of the graph.\<close>

lemma computeD3_operators:
  "computeD3StageOperatorGraph c sink p = Some cs \<Longrightarrow> concat (map operator_call cs) = map operator_node (chain_ops c)"
proof (induction c arbitrary: sink cs)
  case (Chain operator child)
  then show ?case by (cases child; cases sink) (auto simp: Let_def split: bind_splits)
qed

lemma draw_operators: "mapM draw_pipeline g = Some css \<Longrightarrow> concat (map operator_call (concat css)) = map operator_node (graph_ops g)"
proof (induction g arbitrary: css)
  case (Cons e g)
  then show ?case
    by (cases e) (auto simp: draw_pipeline_def Let_def graph_ops_def computeD3_operators split: bind_splits)
qed (simp add: graph_ops_def)

lemma clickable_operators:
  assumes "operator_graph stage = Some (g, calls)"
  shows "clickable stage = map operator_node (graph_ops g)"
proof -
  obtain css where "mapM draw_pipeline g = Some css" "calls = initializeGraph @ concat css"
    using assms by (auto simp: operator_graph_def split: bind_splits)
  then show ?thesis using draw_operators [of g css] assms by (simp add: clickable_def initializeGraph_def)
qed

lemma reachable_showable:
  assumes "reachable (StagePage_refreshLoop env) (StagePage_responses env) (StagePage_clicks env) StagePage_init w"
  shows "showable (view_detail (this_state w))"
proof -
  have "reachable (StageDetail_refreshLoop env) (StageDetail_responses env) (range (selectStage env)) StageDetail_init (abs_page view_detail w)"
    using sp.reachable_refines [OF assms] by (simp add: StagePage_init_def)
  moreover have "showable StageDetail_init" by (simp add: showable_def StageDetail_init_def)
  moreover have "StageDetail_continues StageDetail_init" by (simp add: StageDetail_init_def StageDetail_continues_def)
  ultimately show ?thesis using sd.one_loop_reachable [of env StageDetail_init "abs_page view_detail w"] by (simp add: abs_page_simps)
qed

section \<open>An example\<close>

text \<open>The page on stage 0 of a query that has ended.\<close>

lemma sample_graph: "\<exists>g calls. operator_graph sample_detail_stage = Some (g, calls) \<and> set (graph_ops g) = set sample_summaries"
proof -
  have "parseDuration ''0.00ns'' \<noteq> None" by code_simp
  then have reads: "list_all (\<lambda>o'. parseDuration (blockedWall o') \<noteq> None) sample_summaries"
    by (simp add: sample_summaries_def sample_operator_def)
  have ids: "distinct (map node_id (plan_nodes sample_plan))" by (simp add: sample_nodes)
  obtain g where g: "computeOperatorGraphs (computeOperatorMap sample_summaries) sample_plan = Some g"
      "mset (graph_ops g) = mset (concat (map (\<lambda>k. ops_at (computeOperatorMap sample_summaries) (node_id k)) (plan_nodes sample_plan)))"
    using computeOperatorGraphs_clash_free [OF sample_clash_free] by blast
  moreover have "mset (concat (map (\<lambda>k. ops_at (computeOperatorMap sample_summaries) (node_id k)) (plan_nodes sample_plan))) = mset sample_summaries"
    using mset_filter_keys [OF ids, of sample_summaries planNodeId] sample_covered by (simp add: ops_at_map comp_def)
  ultimately have ops: "set (graph_ops g) = set sample_summaries" by (metis set_mset_mset)
  with reads have "list_all (\<lambda>o'. parseDuration (blockedWall o') \<noteq> None) (graph_ops g)" by (simp add: list_all_iff)
  then obtain css where "mapM draw_pipeline g = Some css" using draw_pipelines by blast
  with g(1) ops show ?thesis by (simp add: operator_graph_def sample_detail_stage_def)
qed

lemma sample_clickable: "operator_node (sample_operator 0 1 ''1'') \<in> set (clickable sample_detail_stage)"
  using sample_graph clickable_operators by (fastforce simp: sample_summaries_def)

lemma sample_ended_can_show: "can_show (sample_stage_query ''FINISHED'')"
  using sample_graph
  by (auto simp: can_show_def sample_stage_query_def displayable_def has_plans_Stage sample_detail_stage_def)

definition sample_stage_view :: "stage_view page" where
  "sample_stage_view = run (StagePage_success sample_stage_page (sample_stage_query ''FINISHED''))
     ((StagePage_refreshLoop sample_stage_page (mounted StagePage_init))\<lparr>inflight := 0\<rparr>)"

lemma sample_view_reachable:
  "reachable (StagePage_refreshLoop sample_stage_page) (StagePage_responses sample_stage_page) (StagePage_clicks sample_stage_page)
     StagePage_init sample_stage_view"
  unfolding sample_stage_view_def
proof (rule reachable_first_response)
  show "StagePage_success sample_stage_page (sample_stage_query ''FINISHED'') \<in> StagePage_responses sample_stage_page"
    using sample_ended_can_show by (simp add: StagePage_responses_def)
qed (simp add: StagePage_refreshLoop_def with_detail_def StageDetail_refreshLoop_def abs_page_simps loop_simps)

lemma sample_view_shows:
  "shown_graph (view_detail (this_state sample_stage_view)) = Some sample_detail_stage \<and> dialog (this_state sample_stage_view) = None"
proof -
  let ?q = "sample_stage_query ''FINISHED''"
  let ?f = "\<lambda>s. s\<lparr>initialized := True, ended := finalQueryInfo ?q, selectedStageId := requested s, sd_query := Some ?q\<rparr>"
  let ?w = "(StagePage_refreshLoop sample_stage_page (mounted StagePage_init))\<lparr>inflight := 0\<rparr>"
  let ?v = "abs_page view_detail ?w"
  have v: "this_state ?v = StageDetail_init\<lparr>requested := StageDetail_selected sample_stage_page StageDetail_init\<rparr>"
    by (simp add: StagePage_refreshLoop_def with_detail_def StageDetail_refreshLoop_def abs_page_simps loop_simps StagePage_init_def)
  then have "showable (this_state ?v)" "showable (?f (this_state ?v))"
    using sample_ended_can_show by (simp_all add: showable_def StageDetail_init_def)
  from settle_result [of ?v ?f, OF this] obtain v' where v': "StageDetail_settle sample_stage_page ?f ?v = Some v'" "this_state v' = ?f (this_state ?v)"
    by blast
  then have w: "sample_stage_view = with_detail ?w v'"
    by (simp add: sample_stage_view_def run_def StagePage_success_def on_detail_def StageDetail_success_def)
  have "selectedStageId (this_state v') = StageDetail_selected sample_stage_page StageDetail_init" by (simp add: v' v)
  moreover have "selection_text (StageDetail_selected sample_stage_page StageDetail_init) = ''0''" by code_simp
  ultimately have "chosen ?q (selectedStageId (this_state v')) (Stage sample_detail_stage []) = Some sample_detail_stage"
    by (simp add: chosen_def sample_stage_query_def sample_detail_stage_def)
  moreover have "sd_query (this_state v') = Some ?q" by (simp add: v')
  moreover have "outputStage ?q = Some (Stage sample_detail_stage [])" by (simp add: sample_stage_query_def)
  moreover have "has_plans (Stage sample_detail_stage [])" by (simp add: has_plans_Stage sample_detail_stage_def)
  ultimately have "html_components (StageDetail_render (this_state v')) = [HeaderPart ?q, OperatorGraphPart sample_detail_stage]"
    using body_reads(2) [of sample_detail_stage ?q] render_stage
    by (simp add: sample_detail_stage_def isQueryEnded_def sample_stage_query_def)
  then show ?thesis
    by (simp add: w shown_graph_def map_filter_def StagePage_refreshLoop_def with_detail_def loop_simps StagePage_init_def)
qed

section \<open>Properties\<close>

text \<open>C21. A click on an operator of the graph on the page, one with natural ids that no other operator of the stage has, opens the dialog about that operator and the tasks
  of its stage. The charts of the dialog are those of its tasks, unless the dialog shows the operator of a node of the same name already: then the charts
  stay those drawn earlier, be it for an operator of another stage.\<close>

theorem StagePage_operator_click:
  assumes "reachable (StagePage_refreshLoop env) (StagePage_responses env) (StagePage_clicks env) StagePage_init w"
    and "shown_graph (view_detail (this_state w)) = Some stage" and "operator_node operator \<in> set (clickable stage)"
    and "ds_stats stage = Some (Some summaries)" and "operator \<in> set summaries" and "parseDuration (blockedWall operator) \<noteq> None"
    and "pipelineId operator = Fin (of_nat p)" and "operatorId operator = Fin (of_nat k)" and "p \<le> 2 ^ 53" and "k \<le> 2 ^ 53"
    and "\<forall>o' \<in> set summaries. pipelineId o' = pipelineId operator \<and> operatorId o' = operatorId operator \<longrightarrow> o' = operator"
  shows "\<exists>w' d. StagePage_operatorClick env (operator_node operator) w = Some w' \<and> dialog (this_state w') = Some d
    \<and> dialog_operator d = Some operator \<and> dialog_tasks d = ds_tasks stage
    \<and> dialog_charts d = (case dialog (this_state w) of
          Some old \<Rightarrow> if dialog_key old = operator_node operator then dialog_charts old
            else operator_charts operator (ds_tasks stage)
        | None \<Rightarrow> operator_charts operator (ds_tasks stage))"
proof -
  have "handleOperatorClick stage (operator_node operator) = Some (Some operator, ds_tasks stage)"
    by (rule operator_click_roundtrip [OF assms(4,5,7-11)])
  moreover have "\<not> unmounted (view_detail (this_state w))" using reachable_showable [OF assms(1)] by (simp add: showable_def)
  ultimately show ?thesis
    using assms(2,3) by (simp add: StagePage_operatorClick_def Let_def setState_def open_dialog_eq [OF assms(6)])
qed

theorem StagePage_operator_click_witness:
  "\<exists>w' d. StagePage_operatorClick sample_stage_page (operator_node (sample_operator 0 1 ''1'')) sample_stage_view = Some w'
     \<and> dialog (this_state w') = Some d \<and> dialog_operator d = Some (sample_operator 0 1 ''1'') \<and> dialog_tasks d = []
     \<and> dialog_charts d = operator_charts (sample_operator 0 1 ''1'') []"
proof -
  have "parseDuration ''0.00ns'' \<noteq> None" by code_simp
  then show ?thesis
    using StagePage_operator_click [OF sample_view_reachable conjunct1 [OF sample_view_shows] sample_clickable, of sample_summaries 0 1]
      sample_view_shows
    by (simp add: sample_detail_stage_def sample_summaries_def sample_operator_def)
qed

end
