(* ===== verification/StageDocument.thy ===== *)
theory StageDocument
  imports Scripts StagePageSpec
begin

text \<open>
  The page of a stage, \<open>stage.html\<close>, from the moment it is opened: the title, the component \<open>StageDetail\<close> and the dialog about an operator, and the document they make up. The
  charts of the dialog are found by the ids of their elements, which must be in the document exactly once.
\<close>

section \<open>The ids of the parts\<close>

fun stage_part_ids :: "stage_page \<Rightarrow> stage_part \<Rightarrow> string list" where
  "stage_part_ids env (HeaderPart q) = html_ids (QueryHeader_render (stage_page.pathname env) q)"
| "stage_part_ids env (OperatorGraphPart stage) = html_ids (StageOperatorGraph_render stage :: (unit, unit) html)"

definition stage_detail_ids :: "stage_page \<Rightarrow> stage_detail \<Rightarrow> string list" where
  "stage_detail_ids env s =
     (if stage_detail.unmounted s then []
      else html_ids (StageDetail_render s) @ concat (map (stage_part_ids env) (html_components (StageDetail_render s))))"

definition dialog_ids :: "operator_dialog option \<Rightarrow> string list" where
  "dialog_ids d_or_none =
     (case d_or_none of
        None \<Rightarrow> []
      | Some d \<Rightarrow>
          (let rendered = (OperatorDetail_render getInitialStatistics (dialog_operator d) (dialog_tasks d) :: (statistic \<times> operator_stats list, unit) html)
           in html_ids rendered @ concat (map (\<lambda>(st, ops). html_ids (OperatorStatistic_render st :: (unit, unit) html)) (html_components rendered))))"

definition stage_document :: "stage_page \<Rightarrow> page_title \<Rightarrow> stage_view \<Rightarrow> string list" where
  "stage_document env t v =
     stage_html @ html_ids (PageTitle_render ''Query Details'' t) @ stage_detail_ids env (view_detail v) @ dialog_ids (dialog v)"

lemma graph_no_ids: "html_ids (StageOperatorGraph_render stage :: (unit, unit) html) = []"
  by (simp add: StageOperatorGraph_render_def no_ids dom_simps)

lemma statistic_ids: "html_ids (OperatorStatistic_render st :: (unit, unit) html) = [st_id st]"
  by (simp add: OperatorStatistic_render_def html_el dom_simps)

lemma body_no_ids: "html_ids (StageDetail_body q is stage) = []"
  by (cases "ds_plan stage") (auto simp: StageDetail_body_def Let_def no_ids dom_simps list_all_iff, simp add: html_ids_def)

lemma detail_no_ids: "html_ids (StageDetail_render s) = []"
  by (auto simp: StageDetail_render_def no_ids dom_simps body_no_ids split: option.splits)

lemma dialog_no_ids: "html_ids (OperatorDetail_render sts operator_or_null ts :: (statistic \<times> operator_stats list, unit) html) = []"
  by (simp add: OperatorDetail_render_def Let_def no_ids dom_simps list_all_iff)

lemma detail_components:
  assumes "showable s"
  shows "html_components (StageDetail_render s) = []
    \<or> (\<exists>q stage. html_components (StageDetail_render s) = HeaderPart q # (if isQueryEnded q then [OperatorGraphPart stage] else []))"
proof (cases "do { q \<leftarrow> sd_query s; t \<leftarrow> stage_query.outputStage q; Some (q, t) }")
  case None
  then have "html_components (StageDetail_render s) = []"
    by (auto simp: StageDetail_render_def html_el dom_simps split: option.splits bind_splits)
  then show ?thesis ..
next
  case (Some p)
  then obtain q t where qt: "sd_query s = Some q" "stage_query.outputStage q = Some t" by (auto split: bind_splits)
  with assms have plans: "has_plans t" by (auto simp: showable_def can_show_def)
  show ?thesis
  proof (cases "chosen q (selectedStageId s) t")
    case None
    then show ?thesis using render_no_stage [OF qt plans] by simp
  next
    case (Some stage)
    then have "ds_plan stage \<noteq> None" using plans by (auto simp: chosen_def find_Some_iff has_plans_def list_all_iff)
    then show ?thesis unfolding render_stage [OF qt plans Some] by (auto simp: body_reads(2))
  qed
qed

lemma stage_detail_ids_cases:
  assumes "showable s"
  shows "stage_detail_ids env s = [] \<or> stage_detail_ids env s = [''query-id'']"
  using detail_components [OF assms]
proof (elim disjE exE)
  fix q stage
  assume parts: "html_components (StageDetail_render s) = HeaderPart q # (if isQueryEnded q then [OperatorGraphPart stage] else [])"
  have "list_all (part_ok env) (html_components (StageDetail_render s))"
    using assms can_show_renders [of s env] by (auto simp: showable_def)
  then have "displayable q" by (simp add: parts part_ok_header)
  then show ?thesis by (simp add: stage_detail_ids_def detail_no_ids parts header_ids graph_no_ids)
qed (simp add: stage_detail_ids_def detail_no_ids)

section \<open>The dialog\<close>

text \<open>A dialog on the page could be rendered, and its charts are drawn on the elements of its statistics.\<close>

definition dialog_ok :: "stage_view \<Rightarrow> bool" where
  "dialog_ok v \<longleftrightarrow> (\<forall>d. dialog v = Some d \<longrightarrow> (\<exists>operator. dialog_operator d = Some operator \<and> parseDuration (blockedWall operator) \<noteq> None)
     \<and> map chart_target (dialog_charts d) = map (\<lambda>st. ''#'' @ st_id st) getInitialStatistics)"

lemma dialog_renders:
  assumes "renders (OperatorDetail_render sts operator_or_null ts :: (statistic \<times> operator_stats list, unit) html)"
  shows "\<exists>operator. operator_or_null = Some operator \<and> parseDuration (blockedWall operator) \<noteq> None"
proof (cases operator_or_null)
  case (Some operator)
  have "formatDuration (val_of None) = throw" by (simp add: val_of_def formatter_throws)
  with assms Some show ?thesis by (cases "parseDuration (blockedWall operator)") (auto simp: OperatorDetail_render_def Let_def renders_el dom_simps)
qed (use assms in \<open>simp add: OperatorDetail_render_def renders_def\<close>)

lemma dialog_ok_open:
  assumes "dialog_ok v"
  shows "dialog_ok (v\<lparr>dialog := open_dialog key operator_or_null ts (dialog v)\<rparr>)"
proof (cases "renders (OperatorDetail_render getInitialStatistics operator_or_null ts :: (statistic \<times> operator_stats list, unit) html)")
  case True
  then obtain operator where o: "operator_or_null = Some operator" "parseDuration (blockedWall operator) \<noteq> None" using dialog_renders by blast
  have "map chart_target (operator_charts operator ts) = map (\<lambda>st. ''#'' @ st_id st) getInitialStatistics"
    by (simp add: operator_charts_def OperatorStatistic_componentDidMount_def Let_def comp_def)
  with assms o(2) show ?thesis
    unfolding o(1) open_dialog_eq [OF o(2)] by (auto simp: dialog_ok_def split: option.splits)
next
  case False
  then show ?thesis by (simp add: open_dialog_def Let_def dialog_ok_def)
qed

lemma reachable_dialog_ok:
  assumes "reachable (StagePage_refreshLoop env) (StagePage_responses env) (StagePage_clicks env) StagePage_init w"
  shows "dialog_ok (this_state w)"
proof -
  have on: "dialog_ok (this_state w')" if "on_detail r w = Some w'" "dialog_ok (this_state w)" for r w w'
    using that by (auto simp: on_detail_def with_detail_def dialog_ok_def)
  show ?thesis
    using assms
  proof (rule reachable_invariant [where P = dialog_ok])
    fix e w w' assume e: "e \<in> StagePage_clicks env" and ok: "dialog_ok (this_state w)" and w': "e w = Some w'"
    then consider i where "e = on_detail (selectStage env i)" | i where "e = StagePage_operatorClick env i"
      by (auto simp: StagePage_clicks_def StagePage_selectStage_def)
    then show "dialog_ok (this_state w')"
    proof cases
      case 2
      with ok w' dialog_ok_open [OF ok] show ?thesis
        by (auto simp: StagePage_operatorClick_def Let_def setState_def split: option.splits bind_splits if_splits)
    qed (use on ok w' in blast)
  qed (auto simp: StagePage_init_def dialog_ok_def StagePage_refreshLoop_def with_detail_def StagePage_responses_def StagePage_fail_def StagePage_success_def dest: on)
qed

section \<open>The page next to its title\<close>

definition StagePage_open :: "stage_page \<Rightarrow> library list \<Rightarrow> stage_view page" where
  "StagePage_open env libs =
     (case StageDetail_componentDidMount env of (w, es) \<Rightarrow>
        with_detail (mounted StagePage_init)
          (if list_all (available libs) es then w else setState (\<lambda>s. s\<lparr>stage_detail.unmounted := True\<rparr>) w))"

definition stage_open :: "stage_page \<Rightarrow> int \<Rightarrow> page_title page \<times> stage_view page" where
  "stage_open env t = (PageTitle_componentDidMount t, StagePage_open env (loaded env stage_html stage_scripts))"

definition stage_step :: "stage_page \<Rightarrow> page_title page \<times> stage_view page \<Rightarrow> page_title page \<times> stage_view page \<Rightarrow> bool" where
  "stage_step env = either (browser_step PageTitle_refreshLoop PageTitle_responses {})
     (browser_step (StagePage_refreshLoop env) (StagePage_responses env) (StagePage_clicks env))"

lemma StagePage_open_eq: "StagePage_open env (loaded env stage_html stage_scripts) = StagePage_refreshLoop env (mounted StagePage_init)"
  by (simp add: StagePage_open_def StageDetail_componentDidMount_def pages_loaded available_def StagePage_refreshLoop_def StagePage_init_def abs_page_simps)

lemma stage_parts:
  assumes "(stage_step env)\<^sup>*\<^sup>* (stage_open env t) (title, page)"
  shows "reachable PageTitle_refreshLoop PageTitle_responses {} (PageTitle_init t) title"
    and "reachable (StagePage_refreshLoop env) (StagePage_responses env) (StagePage_clicks env) StagePage_init page"
  using assms unfolding stage_step_def stage_open_def PageTitle_componentDidMount_def StagePage_open_eq
  by (auto dest!: either_steps intro: reachable_steps)

lemma count_place:
  assumes "distinct xs" and "x \<in> set xs"
  shows "count_list (map ((@) ''#'') xs) (''#'' @ x) = 1"
proof -
  have "count_list xs x = 1" using assms by (induction xs) auto
  then show ?thesis using count_list_map_conv [of "(@) ''#''" xs x] by (simp add: inj_on_def)
qed

lemma dialog_ids_eq:
  assumes "dialog_ok v"
  shows "dialog_ids (dialog v) = (if dialog v = None then [] else map st_id getInitialStatistics)"
proof (cases "dialog v")
  case (Some d)
  with assms obtain operator where "dialog_operator d = Some operator" "parseDuration (blockedWall operator) \<noteq> None"
    by (auto simp: dialog_ok_def)
  then show ?thesis
    by (simp add: Some dialog_ids_def dialog_no_ids OperatorDetail_reads(2) statistic_ids comp_def)
qed (simp add: dialog_ids_def)

text \<open>C11. The page of a stage, with its title and the dialog about an operator, while requests fail or the server answers with queries the page can show: every stage of the query has a plan,
  the query has a state that can be displayed, and once it has ended the operator graph of every stage can be drawn (a stage without a plan makes React remove the page, see
  \<open>StageDetail_removed_without_plan\<close>). From the moment the page is opened and in whatever order timers, such responses, choices of a stage and clicks on operators come, the title has one refresh under way, the stage one until the final information has arrived and none afterwards; no two elements of the
  document share an id; and every chart of the dialog is drawn on an element that the document has exactly once.\<close>

theorem stage_page_runs:
  assumes "(stage_step env)\<^sup>*\<^sup>* (stage_open env t) (title, page)"
  shows "activity title = 1
    \<and> activity page = (if sd_query (view_detail (this_state page)) \<noteq> None \<and> stage_detail.ended (view_detail (this_state page)) then 0 else 1)
    \<and> distinct (stage_document env (this_state title) (this_state page))
    \<and> (\<forall>d chart. dialog (this_state page) = Some d \<longrightarrow> chart \<in> set (dialog_charts d) \<longrightarrow>
        count_list (map ((@) ''#'') (stage_document env (this_state title) (this_state page))) (chart_target chart) = 1)"
proof -
  note parts = stage_parts [OF assms]
  let ?v = "this_state page" and ?t = "this_state title"
  have ok: "dialog_ok ?v" and sh: "showable (view_detail ?v)" using reachable_dialog_ok reachable_showable parts(2) by blast+
  have ids: "map st_id getInitialStatistics = [''totalWallTime'', ''inputPositions'', ''inputDataSize'', ''outputPositions'', ''outputDataSize'']"
    by (simp add: getInitialStatistics_def)
  have doc: "stage_document env ?t ?v =
      [''title'', ''stage-performance-header'', ''operator-canvas'', ''operator-detail-modal'', ''operator-detail'']
      @ (if info ?t = None then []
         else [''navbar'', ''version-number'', ''environment'', ''status-indicator'', ''uptime'', ''logout'', ''no-connection-modal''])
      @ stage_detail_ids env (view_detail ?v)
      @ (if dialog ?v = None then [] else [''totalWallTime'', ''inputPositions'', ''inputDataSize'', ''outputPositions'', ''outputDataSize''])"
    by (simp add: stage_document_def stage_html_def title_ids dialog_ids_eq [OF ok] ids)
  have distinct: "distinct (stage_document env ?t ?v)"
    using stage_detail_ids_cases [OF sh, of env] by (auto simp: doc)
  have "activity title = 1" using pt.one_loop_reachable [OF parts(1)] by (simp add: one_loop_def)
  moreover have "activity page = (if sd_query (view_detail ?v) \<noteq> None \<and> stage_detail.ended (view_detail ?v) then 0 else 1)"
  proof -
    have "reachable (StageDetail_refreshLoop env) (StageDetail_responses env) (range (selectStage env)) StageDetail_init (abs_page view_detail page)"
      using sp.reachable_refines [OF parts(2)] by (simp add: StagePage_init_def)
    from StageDetail_refreshes [OF this] show ?thesis by (simp add: activity_def abs_page_simps)
  qed
  moreover have "count_list (map ((@) ''#'') (stage_document env ?t ?v)) (chart_target chart) = 1"
    if "dialog ?v = Some d" "chart \<in> set (dialog_charts d)" for d chart
  proof -
    have "map chart_target (dialog_charts d) = map (\<lambda>st. ''#'' @ st_id st) getInitialStatistics" using that(1) ok by (simp add: dialog_ok_def)
    from arg_cong [OF this, of set] have "chart_target chart \<in> (@) ''#'' ` set (map st_id getInitialStatistics)"
      using that(2) by (auto simp: image_image)
    moreover have "set (map st_id getInitialStatistics) \<subseteq> set (stage_document env ?t ?v)"
      using that(1) dialog_ids_eq [OF ok] by (auto simp: stage_document_def)
    ultimately obtain x where "x \<in> set (stage_document env ?t ?v)" "chart_target chart = ''#'' @ x" by blast
    with distinct show ?thesis by (simp only: count_place)
  qed
  ultimately show ?thesis using distinct by blast
qed

theorem stage_page_runs_witness:
  "distinct (stage_document sample_stage_page (this_state (PageTitle_componentDidMount 0))
     (this_state (run (StagePage_operatorClick sample_stage_page ''operator-0-1'') sample_stage_view)))"
proof -
  let ?open = "StagePage_refreshLoop sample_stage_page (mounted StagePage_init)"
  let ?step = "browser_step (StagePage_refreshLoop sample_stage_page) (StagePage_responses sample_stage_page) (StagePage_clicks sample_stage_page)"
  have "?step ?open sample_stage_view"
    using browser_step.respond [of ?open "StagePage_success sample_stage_page (sample_stage_query ''FINISHED'')"] sample_ended_can_show
    by (simp add: sample_stage_view_def StagePage_responses_def StagePage_refreshLoop_def with_detail_def StageDetail_refreshLoop_def abs_page_simps loop_simps)
  moreover have "?step sample_stage_view (run (StagePage_operatorClick sample_stage_page ''operator-0-1'') sample_stage_view)"
    by (rule browser_step.user) (simp add: StagePage_clicks_def)
  ultimately have "(stage_step sample_stage_page)\<^sup>*\<^sup>* (stage_open sample_stage_page 0)
      (PageTitle_componentDidMount 0, run (StagePage_operatorClick sample_stage_page ''operator-0-1'') sample_stage_view)"
    unfolding stage_step_def stage_open_def StagePage_open_eq
    by (intro rtranclp.rtrancl_into_rtrancl [OF r_into_rtranclp]) (rule either.second, assumption)+
  from stage_page_runs [OF this] show ?thesis by blast
qed

end
