(* ===== verification/VersionDropdown.thy ===== *)
theory VersionDropdown
  imports JsString "HOL-Library.Multiset"
begin

text \<open>
  The script of the documentation, \<open>docs/src/main/sphinx/static/javascripts/version_dropdown.js\<close>: a menu of the released versions, read from a JSON object that maps the name of a
  version to the place of its documentation. A \<open>for\<close>-\<open>in\<close> loop visits the names that are array indices first, by value, and then the others in the order
  of the file.
\<close>

record anchor =
  innerHTML :: string
  anchor_title :: string
  anchor_href :: string

record dropdown =
  dropdown_button :: string
  dropdown_content :: "anchor list"

definition array_index :: "string \<Rightarrow> bool" where
  "array_index key \<longleftrightarrow> show_nat (dec_value key) = key \<and> dec_value key < 2 ^ 32 - 1"

definition own_keys :: "(string \<times> string) list \<Rightarrow> string list" where
  "own_keys obj = sort_key dec_value (filter array_index (map fst obj)) @ filter (\<lambda>key. \<not> array_index key) (map fst obj)"

text \<open>The callback of the request. An object with a key \<open>hasOwnProperty\<close> hides the method of that name, and the call throws.\<close>

definition version_links :: "string \<Rightarrow> (string \<times> string) list \<Rightarrow> anchor list option" where
  "version_links target_loc versions =
     (if ''hasOwnProperty'' \<in> fst ` set versions then None
      else Some (map (\<lambda>key. \<lparr>innerHTML = key, anchor_title = key, anchor_href = target_loc @ (case map_of versions key of Some v \<Rightarrow> v | None \<Rightarrow> ''undefined'')\<rparr>)
             (own_keys versions)))"

text \<open>The menus in the header of the page, before and after; \<open>response\<close> is the object the server sends, if any. When the first callback throws the second one is not run.\<close>

definition add_version_dropdown :: "string \<Rightarrow> string \<Rightarrow> (string \<times> string) list option \<Rightarrow> dropdown list \<Rightarrow> dropdown list" where
  "add_version_dropdown target_loc label response navheader =
     (case Option.bind response (version_links target_loc) of
        Some links \<Rightarrow> navheader @ [\<lparr>dropdown_button = label, dropdown_content = links\<rparr>]
      | None \<Rightarrow> navheader)"

lemma mset_own_keys: "mset (own_keys obj) = mset (map fst obj)"
  by (simp add: own_keys_def mset_filter flip: multiset_partition)

text \<open>The menu of versions, for an object without a key \<open>hasOwnProperty\<close>: one menu is added, with one link per version to its place, the versions that are
  numbers first and in ascending order, then the others as in the file; without an answer of the server nothing is added.\<close>

theorem version_dropdown_complete:
  assumes "distinct (map fst versions)" and "''hasOwnProperty'' \<notin> fst ` set versions"
  shows "add_version_dropdown target_loc label None navheader = navheader
    \<and> (\<exists>links numbers. add_version_dropdown target_loc label (Some versions) navheader = navheader @ [\<lparr>dropdown_button = label, dropdown_content = links\<rparr>]
      \<and> mset (map (\<lambda>a. (anchor_title a, anchor_href a)) links) = mset (map (\<lambda>(k, v). (k, target_loc @ v)) versions)
      \<and> map anchor_title links = map show_nat numbers @ filter (\<lambda>k. \<not> array_index k) (map fst versions) \<and> sorted numbers)"
proof -
  let ?place = "\<lambda>key. target_loc @ (case map_of versions key of Some v \<Rightarrow> v | None \<Rightarrow> ''undefined'')"
  let ?links = "map (\<lambda>key. \<lparr>innerHTML = key, anchor_title = key, anchor_href = ?place key\<rparr>) (own_keys versions)"
  let ?keys = "sort_key dec_value (filter array_index (map fst versions))"
  have "mset (map (\<lambda>key. (key, ?place key)) (own_keys versions)) = mset (map (\<lambda>key. (key, ?place key)) (map fst versions))"
    unfolding mset_map by (simp add: mset_own_keys)
  also have "map (\<lambda>key. (key, ?place key)) (map fst versions) = map (\<lambda>(k, v). (k, target_loc @ v)) versions"
    using assms(1) by (auto simp: map_of_eq_Some_iff)
  finally have links: "mset (map (\<lambda>a. (anchor_title a, anchor_href a)) ?links) = mset (map (\<lambda>(k, v). (k, target_loc @ v)) versions)"
    by (simp add: comp_def)
  have "map show_nat (map dec_value ?keys) = ?keys" by (auto simp: array_index_def intro!: map_idI)
  then have "map anchor_title ?links = map show_nat (map dec_value ?keys) @ filter (\<lambda>k. \<not> array_index k) (map fst versions)"
    by (simp add: own_keys_def comp_def)
  moreover have "sorted (map dec_value ?keys)" by (rule sorted_sort_key)
  moreover have "add_version_dropdown target_loc label (Some versions) navheader = navheader @ [\<lparr>dropdown_button = label, dropdown_content = ?links\<rparr>]"
    using assms(2) by (simp add: add_version_dropdown_def version_links_def)
  moreover have "add_version_dropdown target_loc label None navheader = navheader" by (simp add: add_version_dropdown_def)
  ultimately show ?thesis using links by blast
qed

theorem version_dropdown_complete_witness:
  "\<exists>links. add_version_dropdown ''../'' ''Versions'' (Some [(''Latest'', ''current/''), (''369'', ''369/''), (''75'', ''75/'')]) []
       = [\<lparr>dropdown_button = ''Versions'', dropdown_content = links\<rparr>]
     \<and> mset (map (\<lambda>a. (anchor_title a, anchor_href a)) links) = {#(''Latest'', ''../current/''), (''369'', ''../369/''), (''75'', ''../75/'')#}"
  using version_dropdown_complete [of "[(''Latest'', ''current/''), (''369'', ''369/''), (''75'', ''75/'')]" "''../''" "''Versions''" "[]"] by auto

end
