(* ===== verification/Spec2Isabelle.thy ===== *)
theory Spec2Isabelle
  imports WorkerList Timeline PlanPage StageDocument VersionDropdown
begin

text \<open>
  This development verifies the web UI of Trino, the JavaScript program under
  \<open>src/core/trino-main/src/main/resources/webapp/src\<close> (paths below are relative to it). The rest of the repository, the Java
  coordinator and workers, appears only as the server that answers the UI's requests.

  \<^bold>\<open>The program.\<close> Each page mounts a few React components. A component keeps a state, renders it to a tree of elements, and polls one address of
  the server: \<open>refreshLoop\<close> clears its timer and sends a request, the callbacks of the response call \<open>setState\<close> and \<open>resetTimer\<close>, and
  after an update \<open>componentDidUpdate\<close> draws sparklines, bar charts or graphs with jQuery, d3 and dagre. The functions shared by the components
  (formatting, parsing, histories, colours, identifiers) are in \<open>utils.js\<close>.

  \<^bold>\<open>The language.\<close>
  \<^item> \<open>Binary64\<close>, \<open>JsNumber\<close>: numbers are exact rationals rounded to IEEE 754 binary64 after every operation, with \<open>NaN\<close> and the
    infinities, comparisons, \<open>Math\<close> functions, \<open>toFixed\<close>, \<open>toString\<close>, \<open>parseInt\<close>. The locale \<open>rounding\<close> holds the laws of rounding. The two zeros are
    not told apart.
  \<^item> \<open>JsString\<close>: strings are lists of 8-bit characters, with the operations the sources use (\<open>indexOf\<close>, \<open>split\<close>, \<open>substring\<close>, \<open>replace\<close>, \<open>trim\<close>).
  \<^item> \<open>JsSort\<close>: \<open>Array.prototype.sort\<close>, stable insertion by a comparator, equal to \<open>sort_key\<close> when the comparator subtracts finite keys.
  \<^item> \<open>DateTime\<close>: \<open>Date.parse\<close> of ISO time stamps and local dates; the time zone is a parameter.
  \<^item> \<open>Prelude\<close>: exceptions are \<open>None\<close> of an option type; insertion-ordered maps as the locale \<open>ordered_map\<close>, interpreted on association lists.
  \<^item> \<open>VDom\<close>: the trees that \<open>render\<close> returns, with readings of ids, handlers, child components, headings and links, and the calls made on the page.
  \<^item> \<open>Polling\<close>: timers, requests and the browser's event loop as a step relation. The locale \<open>poller\<close> says what callbacks have to do; from it follows
    that in every reachable page exactly one refresh is under way until the component has ended. Every polling component
    interprets it.
  \<^item> \<open>Refinement\<close>: the locale \<open>page_refinement\<close>, by which a page with more state refines a page with less, interpreted on the pages of a query and of a stage; and components
    side by side on one page, whose steps interleave.

  \<^bold>\<open>The components.\<close>
  \<^item> \<open>Format\<close> (\<open>utils.js\<close>: \<open>formatDuration\<close>, \<open>formatCount\<close>, \<open>formatDataSize\<close>, \<open>parseDataSize\<close>, \<open>parseDuration\<close>, \<open>getTaskIdSuffix\<close>, \<open>getFirstParameter\<close>,
    \<open>getHostname\<close>, ...): which texts parse and to what, which unit and how many digits are printed, when a formatter throws, round trips.
  \<^item> \<open>QueryDisplay\<close>, \<open>GraphCalls\<close>, \<open>History\<close> (\<open>utils.js\<close>): states and colours; calls on a graph; histories as windows on the
    sequence of measurements, the locale \<open>history_window\<close>.
  \<^item> \<open>PageTitle\<close>, \<open>QueryHeader\<close>, \<open>ClusterHUD\<close>, \<open>WorkerList\<close>, \<open>WorkerStatus\<close>, \<open>WorkerThreadList\<close>: the components of these names under \<open>components/\<close>, each
    with state, refresh loop, handlers and rendering; what they display, that each sparkline has its place on the page, that threads are grouped
    by their pool, and when grouping does not end.
  \<^item> \<open>QueryListItem\<close>, \<open>QueryList\<close>, \<open>QueryListSpec\<close>, \<open>QueryListView\<close> (\<open>components/QueryList.jsx\<close>): the model in the first two and the last, with the
    specification of what a refresh and every click display, the invariant of the list and the handlers of the toolbar.
  \<^item> \<open>StageTree\<close>, \<open>LivePlan\<close>, \<open>LivePlanSpec\<close> (\<open>components/LivePlan.jsx\<close>): flattening of stages and plans, the graph drawn, the refresh loop.
  \<^item> \<open>Operators\<close>, \<open>OperatorDetailSpec\<close>, \<open>OperatorGraph\<close>, \<open>OperatorGraphSpec\<close>, \<open>StageDetail\<close>, \<open>StageDetailSpec\<close> (\<open>components/StageDetail.jsx\<close>): summaries of
    operators, the chains of operators linked along the plan, the graph and its clicks, the page with the menu of stages.
  \<^item> \<open>StagePage\<close>, \<open>StagePageSpec\<close> (\<open>components/StageDetail.jsx\<close>): the page together with the dialog about an operator, which is rendered outside of the component. The page
    refines \<open>StageDetail\<close>; a click opens the dialog about the operator clicked, and its charts may be those drawn for an earlier one.
  \<^item> \<open>TaskList\<close>, \<open>Histogram\<close>, \<open>StageSummary\<close>, \<open>StackTrace\<close>, \<open>QueryDetailView\<close>, \<open>QueryDetail\<close>, \<open>QueryDetailSpec\<close> (\<open>components/QueryDetail.jsx\<close>): the table of
    tasks, the histograms of their times, the stages and their charts, printed failures, and the page about a query, whose updates render all of these together.
  \<^item> \<open>QueryPage\<close>, \<open>QueryPageSpec\<close> (\<open>components/QueryDetail.jsx\<close>): the whole page of a query, with the state of every stage it lists. React keeps the
    state of a component as long as its key is rendered; a response updates the stages kept and mounts the new ones, a click on a stage updates that stage. The page refines
    \<open>QueryDetail\<close>, where the stages may be in any state; the user's choices survive.
  \<^item> \<open>Pages\<close> (\<open>index.jsx\<close>, \<open>query.jsx\<close>, \<open>plan.jsx\<close>, \<open>embedded_plan.jsx\<close>, \<open>stage.jsx\<close>, \<open>worker.jsx\<close>, \<open>workers.jsx\<close>, \<open>timeline.jsx\<close> and the HTML files of
    \<open>webapp/\<close>): what the entry points mount and where; the ids of the whole documents; the three components of the overview side by side; the script of \<open>login.html\<close>.
  \<^item> \<open>Scripts\<close>, \<open>PlanPage\<close>, \<open>StageDocument\<close> (the \<open>script\<close> elements of the HTML files, \<open>webpack.config.js\<close>, \<open>plan.jsx\<close>, \<open>stage.jsx\<close>): how a page comes to life. Which libraries a page has loaded when its
    bundle runs, and which components are on it afterwards; the plan and the stage next to the title, the ids of their documents, the elements their charts are drawn on; and why the embedded plan never
    appears.
  \<^item> \<open>VersionDropdown\<close> (\<open>docs/src/main/sphinx/static/javascripts/version_dropdown.js\<close>): the menu of versions of the documentation.
  \<^item> \<open>Timeline\<close> (the inline script of \<open>webapp/timeline.html\<close>): the rows and bars handed to the chart, with the conversion of strings to numbers.
  \<^item> This theory: the links between the pages, followed through the scripts of the page they open to the requests of its components.

  \<^bold>\<open>State and operations.\<close> A component's state is a record with the fields of \<open>this.state\<close>; fields that nothing reads are left out or marked. Every method
  is a definition of the same name, with the component's name in front where several have it. A callback has type
  \<open>'s page \<Rightarrow> 's page throws\<close>. In the pages that show one query (\<open>LivePlan\<close>, \<open>StageDetail\<close>, \<open>QueryDetail\<close>) a \<open>setState\<close> renders at once, and an exception while
  rendering removes the page, as React does without an error boundary: the ghost field \<open>unmounted\<close>. JSX is translated element by element.

  \<^bold>\<open>The server.\<close> The properties of \<open>LivePlan\<close>'s refresh loop and pages hold for all responses; those of \<open>QueryDetail\<close> (\<open>shows_query\<close>) and of \<open>StageDetail\<close> (\<open>can_show\<close>) for failed
  requests and queries the page can show: a failure has its error code and a printable trace, sizes and addresses can be read, and, for the page of a stage, every stage has its plan and
  the operator graphs of an ended query can be drawn. The coordinator prunes the plans of old queries; what such a response does is \<open>StageDetail_removed_without_plan\<close>, and an
  exception in \<open>flattenStage\<close>. Lists of queries have distinct ids and displayable queries (\<open>wf_queries\<close>).

  \<^bold>\<open>Bounds.\<close> Loops are structural recursions or have a termination proof. The grouping of threads, which may run forever, is a
  \<open>partial_function\<close> in the option type: \<open>None\<close> is divergence. Printing a number searches at most 17 digits, which always suffice for binary64, and scales by at most 330
  powers of ten, more than the smallest positive double needs. \<open>Math.sqrt\<close> is computed from an integer root with 60 additional bits.

  \<^bold>\<open>Parameters.\<close> What is not under \<open>src/\<close> is an argument: the browser's \<open>URL\<close> parser, \<open>localeCompare\<close>, the time zone, the clock, the addresses of the page, the
  layout computed by dagre, the parsed JSON of plans.

  \<^bold>\<open>Not modelled.\<close> Of \<open>webpack.config.js\<close> the loaders and the mode are constants for the bundler; \<open>dist/\<close> is generated from these sources by webpack and
  \<open>vendor/\<close> is third-party code, of which \<open>Scripts\<close> records what each script provides and that the plugins of jQuery need it. The tables of \<open>reactable\<close> and the chart of \<open>vis\<close> are modelled by what is handed to them.
  Answers about the cluster and about a worker have all the fields the coordinator sends. Clicks on an operator graph that d3 has left on the canvas after React removed the component are not
  steps of the model.
\<close>

section \<open>Links between the pages\<close>


definition link_search :: "string \<Rightarrow> string" where
  "link_search href = dropWhile (\<lambda>c. c \<noteq> CHR ''?'') href"









text \<open>C31. A click on a stage of the live plan opens a page that requests the query of the stage and selects, by the number in the address, the stage with that
  very id.\<close>

theorem stage_click_roundtrip:
  assumes "CHR ''&'' \<notin> set q" and "CHR ''.'' \<notin> set q" and "n \<le> 2 ^ 53"
    and "StageDetail.search env = link_search (handleStageClick (q @ ''.'' @ show_nat n))"
  shows "StageDetail_url env = ''/ui/api/query/'' @ q
    \<and> q @ ''.'' @ selection_text (StageDetail_selected env StageDetail_init) = q @ ''.'' @ show_nat n"
proof -
  have "CHR ''&'' \<notin> set (q @ ''.'' @ show_nat n)" using assms(1) show_nat_no_char [of "CHR ''&''" n] by (simp add: is_digit_def code_def)
  then have "getFirstParameter (CHR ''?'' # (q @ ''.'' @ show_nat n)) = q @ ''.'' @ show_nat n"
    using getFirstParameter_first [of "q @ ''.'' @ show_nat n"] by simp
  then have p: "getFirstParameter (StageDetail.search env) = q @ ''.'' @ show_nat n"
    by (simp add: assms(4) handleStageClick_def link_search_def)
  have "CHR ''.'' \<notin> set (show_nat n)" using show_nat_no_char [of "CHR ''.''" n] by (simp add: is_digit_def code_def)
  then have s: "split ''.'' (q @ ''.'' @ show_nat n) = [q, show_nat n]"
    using split_append [of "CHR ''.''" q "show_nat n"] assms(2) by (simp add: split_none)
  have "parseInt (show_nat n) = Fin (of_nat n)" using parseInt_show_nat [OF assms(3), of "[]"] by simp
  then show ?thesis
    using numToString_nat [OF assms(3)]
    by (simp add: StageDetail_url_def StageDetail_selected_def StageDetail_init_def p s [simplified] Let_def)
qed

theorem stage_click_roundtrip_witness:
  "StageDetail_url (sample_stage_page\<lparr>StageDetail.search := ''?q1.3''\<rparr>) = ''/ui/api/query/q1''
   \<and> selection_text (StageDetail_selected (sample_stage_page\<lparr>StageDetail.search := ''?q1.3''\<rparr>) StageDetail_init) = ''3''"
proof -
  have "show_nat 3 = ''3''" by code_simp
  then show ?thesis
    using stage_click_roundtrip [of "''q1''" 3 "sample_stage_page\<lparr>StageDetail.search := ''?q1.3''\<rparr>"]
    by (simp add: link_search_def handleStageClick_def)
qed

end
